(* ===== verification/Prelude.thy ===== *)
theory Prelude
  imports Main "HOL-Library.Word" "HOL-Library.Stream" "HOL-Library.Sublist"
begin

text \<open>
  Shared vocabulary of the development: the machine types of the Rust sources, results
  (\<open>Result<T, E>\<close> is \<open>'e + 'a\<close>, errors on the left) with the \<open>?\<close> operator, byte strings
  and the 32-byte arrays every key newtype wraps, the operating system's entropy as a
  stream that is consumed from the front, and the list lemmas on framing that the
  canonical encodings share.  \<open>result_simps\<close> collects the rules that take a successful
  or failed \<open>?\<close> chain apart, \<open>framing\<close> those that take equal encodings apart.
\<close>

named_theorems result_simps "rules for the result monad"
named_theorems framing "rules that split equal framed byte strings"

section \<open>Machine types\<close>

type_synonym u8 = "8 word"
type_synonym u16 = "16 word"
type_synonym u32 = "32 word"
type_synonym u64 = "64 word"
type_synonym i32 = "32 word"
type_synonym i64 = "64 word"
type_synonym bytes = "u8 list"

text \<open>\<open>u64::saturating_mul\<close> and \<open>u64::checked_add\<close> of the standard library.\<close>

definition saturating_mul :: "u64 \<Rightarrow> u64 \<Rightarrow> u64" where
  "saturating_mul a b = (if unat a * unat b < 2 ^ 64 then a * b else -1)"

definition checked_add_u64 :: "u64 \<Rightarrow> u64 \<Rightarrow> u64 option" where
  "checked_add_u64 a b = (if unat a + unat b < 2 ^ 64 then Some (a + b) else None)"

lemma unat_max_u64: "unat (- 1 :: u64) = 2 ^ 64 - 1"
  by transfer (simp add: take_bit_minus_one_eq_mask mask_eq_exp_minus_1)

lemma unat_saturating_mul: "unat (saturating_mul a b) = min (unat a * unat b) (2 ^ 64 - 1)"
proof (cases "unat a * unat b < 2 ^ 64")
  case True
  then show ?thesis by (simp add: saturating_mul_def unat_word_ariths)
next
  case False
  then show ?thesis by (simp add: saturating_mul_def unat_max_u64)
qed

lemma checked_add_u64_Some:
  "checked_add_u64 a b = Some c \<longleftrightarrow> unat a + unat b < 2 ^ 64 \<and> c = a + b"
  by (auto simp: checked_add_u64_def)

lemma unat_add_u64: "unat a + unat b < 2 ^ 64 \<Longrightarrow> unat (a + b :: u64) = unat a + unat b"
  by (simp add: unat_word_ariths)

section \<open>Results\<close>

text \<open>\<open>r.and_then(f)\<close>, which is also what \<open>let x = r?; f(x)\<close> computes.\<close>

definition and_then :: "'e + 'a \<Rightarrow> ('a \<Rightarrow> 'e + 'b) \<Rightarrow> 'e + 'b" where
  "and_then r f = (case r of Inl e \<Rightarrow> Inl e | Inr x \<Rightarrow> f x)"

definition map_err :: "('e \<Rightarrow> 'f) \<Rightarrow> 'e + 'a \<Rightarrow> 'f + 'a" where
  "map_err g r = (case r of Inl e \<Rightarrow> Inl (g e) | Inr x \<Rightarrow> Inr x)"

definition ok_or :: "'e \<Rightarrow> 'a option \<Rightarrow> 'e + 'a" where
  "ok_or e x = (case x of None \<Rightarrow> Inl e | Some y \<Rightarrow> Inr y)"

definition result_ok :: "'e + 'a \<Rightarrow> 'a option" where
  "result_ok r = (case r of Inl _ \<Rightarrow> None | Inr x \<Rightarrow> Some x)"

definition is_ok :: "'e + 'a \<Rightarrow> bool" where
  "is_ok r = (case r of Inl _ \<Rightarrow> False | Inr _ \<Rightarrow> True)"

text \<open>\<open>iter.map(f).collect::<Result<Vec<_>, _>>()\<close>: the first error stops the loop.\<close>

fun collect_results :: "('a \<Rightarrow> 'e + 'b) \<Rightarrow> 'a list \<Rightarrow> 'e + 'b list" where
  "collect_results f [] = Inr []"
| "collect_results f (x # xs) =
     and_then (f x) (\<lambda>y. and_then (collect_results f xs) (\<lambda>ys. Inr (y # ys)))"

lemma and_then_simps [simp, result_simps]:
  "and_then (Inl e) f = Inl e" "and_then (Inr x) f = f x"
  by (simp_all add: and_then_def)

lemma map_err_simps [simp, result_simps]:
  "map_err g (Inl e) = Inl (g e)" "map_err g (Inr x) = Inr x"
  by (simp_all add: map_err_def)

lemma ok_or_simps [simp, result_simps]: "ok_or e None = Inl e" "ok_or e (Some x) = Inr x"
  by (simp_all add: ok_or_def)

lemma result_ok_simps [simp, result_simps]: "result_ok (Inl e) = None" "result_ok (Inr x) = Some x"
  by (simp_all add: result_ok_def)

lemma is_ok_simps [simp, result_simps]: "\<not> is_ok (Inl e)" "is_ok (Inr x)"
  by (simp_all add: is_ok_def)

lemma is_ok_conv: "is_ok r \<longleftrightarrow> (\<exists>x. r = Inr x)"
  by (cases r) simp_all

lemma and_then_eq_Inr [result_simps]:
  "and_then r f = Inr y \<longleftrightarrow> (\<exists>x. r = Inr x \<and> f x = Inr y)"
  by (cases r) simp_all

lemma and_then_eq_Inl [result_simps]:
  "and_then r f = Inl e \<longleftrightarrow> r = Inl e \<or> (\<exists>x. r = Inr x \<and> f x = Inl e)"
  by (cases r) simp_all

lemma is_ok_and_then: "is_ok (and_then r f) \<longleftrightarrow> (\<exists>x. r = Inr x \<and> is_ok (f x))"
  by (cases r) simp_all

lemma is_ok_and_then_Inr: "is_ok (and_then r (\<lambda>x. Inr (f x))) \<longleftrightarrow> is_ok r"
  by (cases r) simp_all

lemma map_err_eq_Inr [result_simps]: "map_err g r = Inr y \<longleftrightarrow> r = Inr y"
  by (cases r) simp_all

lemma map_err_eq_Inl [result_simps]: "map_err g r = Inl e \<longleftrightarrow> (\<exists>e'. r = Inl e' \<and> e = g e')"
  by (cases r) auto

lemma ok_or_eq_Inr [result_simps]: "ok_or e x = Inr y \<longleftrightarrow> x = Some y"
  by (cases x) auto

lemma ok_or_eq_Inl [result_simps]: "ok_or e x = Inl e' \<longleftrightarrow> x = None \<and> e' = e"
  by (cases x) auto

lemma result_ok_eq_Some [result_simps]: "result_ok r = Some x \<longleftrightarrow> r = Inr x"
  by (cases r) auto

lemma if_Inl_eq_Inr [result_simps]: "(if b then Inl e else r) = Inr y \<longleftrightarrow> \<not> b \<and> r = Inr y"
  by simp

lemma collect_results_eq_Inr:
  "collect_results f xs = Inr ys \<longleftrightarrow> list_all2 (\<lambda>x y. f x = Inr y) xs ys"
proof (induction xs arbitrary: ys)
  case Nil
  then show ?case by auto
next
  case (Cons x xs)
  then show ?case by (auto simp: and_then_eq_Inr list_all2_Cons1)
qed

lemma collect_results_cong [fundef_cong]:
  "xs = ys \<Longrightarrow> (\<And>x. x \<in> set ys \<Longrightarrow> f x = g x) \<Longrightarrow> collect_results f xs = collect_results g ys"
proof (induction xs arbitrary: ys)
  case Nil
  then show ?case by auto
next
  case (Cons x xs)
  have "collect_results f xs = collect_results g xs"
    by (rule Cons.IH) (use Cons.prems in auto)
  with Cons.prems show ?case by auto
qed

lemma and_then_cong [fundef_cong]:
  "r = s \<Longrightarrow> (\<And>x. s = Inr x \<Longrightarrow> f x = g x) \<Longrightarrow> and_then r f = and_then s g"
  by (cases s) simp_all

lemma collect_results_eq_Inl:
  "collect_results f xs = Inl e \<longleftrightarrow>
     (\<exists>i < length xs. f (xs ! i) = Inl e \<and> (\<forall>j < i. is_ok (f (xs ! j))))"
proof (induction xs)
  case Nil
  then show ?case by simp
next
  case (Cons x xs)
  show ?case
    by (cases "f x") (auto simp: and_then_eq_Inl Cons.IH Ex_less_Suc2 All_less_Suc2)
qed

lemma collect_results_length: "collect_results f xs = Inr ys \<Longrightarrow> length ys = length xs"
  by (simp add: collect_results_eq_Inr list_all2_lengthD)

section \<open>Fixed-size byte arrays\<close>

text \<open>\<open>[u8; 32]\<close>: the carrier of every key newtype, of digests and of challenges.\<close>

typedef byte32 = "{bs :: u8 list. length bs = 32}" morphisms bytes32 arr32
  by (rule exI [of _ "replicate 32 0"]) simp

setup_lifting type_definition_byte32

lemma length_bytes32 [simp]: "length (bytes32 k) = 32"
  using bytes32 by simp

lemma bytes32_arr32 [simp]: "length bs = 32 \<Longrightarrow> bytes32 (arr32 bs) = bs"
  by (simp add: arr32_inverse)

lemma arr32_bytes32 [simp]: "arr32 (bytes32 k) = k"
  by (rule bytes32_inverse)

lemma bytes32_eq_iff [simp, framing]: "bytes32 a = bytes32 b \<longleftrightarrow> a = b"
  by (rule bytes32_inject)

text \<open>Copying a slice into a \<open>[u8; 32]\<close> once its length was checked.\<close>

definition to_byte32 :: "bytes \<Rightarrow> byte32 option" where
  "to_byte32 bs = (if length bs = 32 then Some (arr32 bs) else None)"

lemma to_byte32_bytes32 [simp]: "to_byte32 (bytes32 k) = Some k"
  by (simp add: to_byte32_def bytes32_inverse)

lemma to_byte32_eq_Some: "to_byte32 bs = Some k \<longleftrightarrow> bs = bytes32 k"
  by (auto simp: to_byte32_def bytes32_inverse)

lemma to_byte32_eq_None: "to_byte32 bs = None \<longleftrightarrow> length bs \<noteq> 32"
  by (simp add: to_byte32_def)

section \<open>Big-endian integers\<close>

text \<open>\<open>to_be_bytes\<close>: the \<open>n\<close> low bytes of a number, most significant first.\<close>

fun be_bytes :: "nat \<Rightarrow> nat \<Rightarrow> bytes" where
  "be_bytes 0 x = []"
| "be_bytes (Suc n) x = be_bytes n (x div 256) @ [word_of_nat (x mod 256)]"

lemma length_be_bytes [simp]: "length (be_bytes n x) = n"
  by (induction n arbitrary: x) simp_all

lemma word_of_nat_mod_256: "(word_of_nat (x mod 256) :: u8) = word_of_nat (y mod 256) \<longleftrightarrow> x mod 256 = y mod 256"
proof
  assume "(word_of_nat (x mod 256) :: u8) = word_of_nat (y mod 256)"
  then have "unat (word_of_nat (x mod 256) :: u8) = unat (word_of_nat (y mod 256) :: u8)"
    by simp
  then show "x mod 256 = y mod 256" by (simp add: unat_of_nat)
qed simp

lemma be_bytes_eq_iff: "be_bytes n x = be_bytes n y \<longleftrightarrow> x mod 256 ^ n = y mod 256 ^ n"
proof (induction n arbitrary: x y)
  case 0
  then show ?case by simp
next
  case (Suc n)
  have "be_bytes (Suc n) x = be_bytes (Suc n) y \<longleftrightarrow>
      x div 256 mod 256 ^ n = y div 256 mod 256 ^ n \<and> x mod 256 = y mod 256"
    using Suc.IH by (simp add: word_of_nat_mod_256)
  also have "\<dots> \<longleftrightarrow> x mod 256 ^ Suc n = y mod 256 ^ Suc n"
  proof
    assume "x div 256 mod 256 ^ n = y div 256 mod 256 ^ n \<and> x mod 256 = y mod 256"
    then show "x mod 256 ^ Suc n = y mod 256 ^ Suc n"
      by (simp add: mod_mult2_eq)
  next
    assume eq: "x mod 256 ^ Suc n = y mod 256 ^ Suc n"
    have "x mod 256 = x mod 256 ^ Suc n mod 256" for x :: nat
      by (simp add: mod_mod_cancel)
    moreover have "x div 256 mod 256 ^ n = x mod 256 ^ Suc n div 256" for x :: nat
      by (simp add: mod_mult2_eq)
    ultimately show "x div 256 mod 256 ^ n = y div 256 mod 256 ^ n \<and> x mod 256 = y mod 256"
      using eq by metis
  qed
  finally show ?case .
qed

lemma be_bytes_inj: "x < 256 ^ n \<Longrightarrow> y < 256 ^ n \<Longrightarrow> be_bytes n x = be_bytes n y \<longleftrightarrow> x = y"
  by (simp add: be_bytes_eq_iff)

section \<open>Entropy\<close>

text \<open>
  \<open>crate::entropy::fill_random\<close> fills a buffer from the operating system.  The source of
  randomness is an infinite stream of bytes; every draw takes its bytes from the front
  and hands the rest on, so the order of the draws is the order of the calls.
\<close>

type_synonym entropy = "u8 stream"

definition fill_random :: "nat \<Rightarrow> entropy \<Rightarrow> bytes \<times> entropy" where
  "fill_random n e = (stake n e, sdrop n e)"

definition random32 :: "entropy \<Rightarrow> byte32 \<times> entropy" where
  "random32 e = (let (bs, e') = fill_random 32 e in (arr32 bs, e'))"

lemma length_fill_random [simp]: "length (fst (fill_random n e)) = n"
  by (simp add: fill_random_def)

lemma fill_random_conv: "fill_random n e = (bs, e') \<longleftrightarrow> bs = stake n e \<and> e' = sdrop n e"
  by (auto simp: fill_random_def)

lemma random32_conv: "random32 e = (arr32 (stake 32 e), sdrop 32 e)"
  by (simp add: random32_def fill_random_def)

section \<open>Framing lemmas\<close>

lemma append_same_length [framing]:
  "length a = length b \<Longrightarrow> a @ x = b @ y \<longleftrightarrow> a = b \<and> x = y"
  by simp

lemma delimited_eq [framing]:
  assumes "c \<notin> set a" and "c \<notin> set b"
  shows "a @ c # x = b @ c # y \<longleftrightarrow> a = b \<and> x = y"
proof
  assume eq: "a @ c # x = b @ c # y"
  have "takeWhile (\<lambda>z. z \<noteq> c) (a @ c # x) = a" and "takeWhile (\<lambda>z. z \<noteq> c) (b @ c # y) = b"
    using assms by (auto simp: takeWhile_tail)
  with eq show "a = b \<and> x = y" by auto
qed simp

text \<open>Two literals clash when neither is a prefix of the other; then no two byte strings
  that start with them are equal.\<close>

definition clash :: "'a list \<Rightarrow> 'a list \<Rightarrow> bool" where
  "clash p q \<longleftrightarrow> (\<exists>i < min (length p) (length q). p ! i \<noteq> q ! i)"

lemma clash_append: "clash p q \<Longrightarrow> p @ x \<noteq> q @ y"
proof
  assume "clash p q" and eq: "p @ x = q @ y"
  then obtain i where i: "i < length p" "i < length q" "p ! i \<noteq> q ! i"
    by (auto simp: clash_def)
  then have "(p @ x) ! i = p ! i" and "(q @ y) ! i = q ! i"
    by (simp_all add: nth_append)
  with eq i show False by simp
qed

lemma clash_sym: "clash p q \<longleftrightarrow> clash q p"
  by (auto simp: clash_def)

lemma clash_Nil [simp]: "\<not> clash [] q" "\<not> clash p []"
  by (simp_all add: clash_def)

lemma clash_Cons [simp]: "clash (a # p) (b # q) \<longleftrightarrow> a \<noteq> b \<or> clash p q"
  unfolding clash_def by (simp add: Ex_less_Suc2)

end
