(* ===== verification/Rust_Str.thy ===== *)
theory Rust_Str
  imports Prelude
begin

text \<open>
  The part of Rust's standard library on \<open>str\<close>, \<open>String\<close> and ASCII that the sources use.
  A \<open>str\<close> is the HOL string of its UTF-8 bytes (a HOL \<open>char\<close> is one byte), so \<open>len()\<close> is
  \<open>length\<close>, \<open>as_bytes()\<close> is \<open>as_bytes\<close> and the ASCII operations act byte by byte, as Rust
  specifies.  Operations on scalar values (\<open>chars()\<close>) go through the decoder \<open>utf8_decode\<close>,
  which accepts exactly the well-formed sequences of the Unicode standard; \<open>str_ok\<close> is the
  validity invariant of the type \<open>str\<close>.
\<close>

section \<open>Bytes of a string\<close>

definition as_bytes :: "string \<Rightarrow> bytes" where
  "as_bytes s = map of_char s"

definition of_bytes :: "bytes \<Rightarrow> string" where
  "of_bytes bs = map (\<lambda>b. char_of (unat b)) bs"

lemma unat_of_char [simp]: "unat (of_char c :: u8) = of_char c"
proof -
  have eq: "(of_char c :: u8) = of_nat (of_char c)" by (simp only: of_nat_of_char)
  show ?thesis unfolding eq by (simp add: unat_of_nat)
qed

lemma of_char_u8_eq_iff [simp]: "(of_char c :: u8) = of_char d \<longleftrightarrow> c = d"
proof
  assume "(of_char c :: u8) = of_char d"
  then have "unat (of_char c :: u8) = unat (of_char d :: u8)" by simp
  then show "c = d" by simp
qed simp

lemma of_char_char_of_u8 [simp]: "(of_char (char_of (unat b)) :: u8) = b"
proof -
  have "unat b mod 256 = unat b"
    using unsigned_less [of b, where ?'a = nat] by simp
  then have "unat (of_char (char_of (unat b)) :: u8) = unat b"
    by (simp add: of_char_of)
  then show ?thesis by (rule word_unat_eq_iff [THEN iffD2])
qed

lemma as_bytes_simps [simp]:
  "as_bytes [] = []" "as_bytes (c # s) = of_char c # as_bytes s"
  "as_bytes (s @ t) = as_bytes s @ as_bytes t"
  by (simp_all add: as_bytes_def)

lemma length_as_bytes [simp]: "length (as_bytes s) = length s"
  by (simp add: as_bytes_def)

lemma as_bytes_eq_iff [simp, framing]: "as_bytes s = as_bytes t \<longleftrightarrow> s = t"
  by (simp add: as_bytes_def inj_map_eq_map inj_def)

lemma as_bytes_eq_Nil [simp]: "as_bytes s = [] \<longleftrightarrow> s = []"
  by (simp add: as_bytes_def)

lemma in_set_as_bytes [simp]: "of_char c \<in> set (as_bytes s) \<longleftrightarrow> c \<in> set s"
  by (auto simp: as_bytes_def)

lemma of_bytes_as_bytes [simp]: "of_bytes (as_bytes s) = s"
  by (simp add: of_bytes_def as_bytes_def o_def)

lemma as_bytes_of_bytes [simp]: "as_bytes (of_bytes bs) = bs"
  by (simp add: of_bytes_def as_bytes_def o_def map_idI)

lemma prefix_as_bytes [simp]: "prefix (as_bytes s) (as_bytes t) \<longleftrightarrow> prefix s t"
  by (metis as_bytes_eq_iff as_bytes_simps(3) as_bytes_of_bytes prefix_def)

section \<open>UTF-8\<close>

definition cont_byte :: "nat \<Rightarrow> bool" where
  "cont_byte b \<longleftrightarrow> 128 \<le> b \<and> b \<le> 191"

text \<open>One scalar value off the front of a byte sequence, \<open>None\<close> where it is ill-formed.\<close>

fun utf8_next :: "nat list \<Rightarrow> (nat \<times> nat list) option" where
  "utf8_next [] = None"
| "utf8_next (a # r) =
     (if a < 128 then Some (a, r)
      else if 194 \<le> a \<and> a \<le> 223 then
        (case r of b # r' \<Rightarrow>
           if cont_byte b then Some ((a - 192) * 64 + (b - 128), r') else None
         | _ \<Rightarrow> None)
      else if 224 \<le> a \<and> a \<le> 239 then
        (case r of b # c # r' \<Rightarrow>
           if cont_byte b \<and> cont_byte c \<and> (a = 224 \<longrightarrow> 160 \<le> b) \<and> (a = 237 \<longrightarrow> b \<le> 159)
           then Some ((a - 224) * 4096 + (b - 128) * 64 + (c - 128), r') else None
         | _ \<Rightarrow> None)
      else if 240 \<le> a \<and> a \<le> 244 then
        (case r of b # c # d # r' \<Rightarrow>
           if cont_byte b \<and> cont_byte c \<and> cont_byte d \<and> (a = 240 \<longrightarrow> 144 \<le> b) \<and> (a = 244 \<longrightarrow> b \<le> 143)
           then Some ((a - 240) * 262144 + (b - 128) * 4096 + (c - 128) * 64 + (d - 128), r')
           else None
         | _ \<Rightarrow> None)
      else None)"

lemma utf8_next_length: "utf8_next bs = Some (c, r) \<Longrightarrow> length r < length bs"
  by (cases bs) (auto split: if_splits list.splits)

lemma utf8_next_append: "utf8_next bs = Some (c, r) \<Longrightarrow> utf8_next (bs @ cs) = Some (c, r @ cs)"
  by (cases bs) (auto split: if_splits list.splits)

function utf8_decode :: "nat list \<Rightarrow> nat list option" where
  "utf8_decode bs =
     (if bs = [] then Some []
      else case utf8_next bs of None \<Rightarrow> None
           | Some (c, r) \<Rightarrow> (case utf8_decode r of None \<Rightarrow> None | Some cs \<Rightarrow> Some (c # cs)))"
  by pat_completeness auto
termination
  by (relation "measure length") (auto dest: utf8_next_length)

declare utf8_decode.simps [simp del]

lemma utf8_decode_Nil [simp]: "utf8_decode [] = Some []"
  by (simp add: utf8_decode.simps)

lemma utf8_decode_ascii [simp]:
  "a < 128 \<Longrightarrow> utf8_decode (a # r) = map_option ((#) a) (utf8_decode r)"
  by (simp add: utf8_decode.simps [of "a # r"] split: option.splits)

lemma utf8_decode_append:
  "utf8_decode bs = Some cs \<Longrightarrow> utf8_decode (bs @ ds) = map_option ((@) cs) (utf8_decode ds)"
proof (induction bs arbitrary: cs rule: utf8_decode.induct)
  case (1 bs)
  show ?case
  proof (cases "bs = []")
    case True
    with "1.prems" show ?thesis by (simp add: option.map_ident)
  next
    case False
    with "1.prems" obtain c r cs' where r: "utf8_next bs = Some (c, r)"
      and d: "utf8_decode r = Some cs'" and cs: "cs = c # cs'"
      by (subst (asm) utf8_decode.simps) (auto split: option.splits)
    from "1.IH" [OF False r refl d]
    have "utf8_decode (r @ ds) = map_option ((@) cs') (utf8_decode ds)" .
    then have "utf8_decode (bs @ ds) = map_option ((@) (c # cs')) (utf8_decode ds)"
      using False utf8_next_append [OF r, of ds]
      by (subst utf8_decode.simps) (auto split: option.splits)
    then show ?thesis unfolding cs .
  qed
qed

text \<open>\<open>char::encode_utf8\<close>, and \<open>collect::<String>()\<close> over scalar values.\<close>

definition is_scalar :: "nat \<Rightarrow> bool" where
  "is_scalar c \<longleftrightarrow> c < 1114112 \<and> \<not> (55296 \<le> c \<and> c \<le> 57343)"

definition utf8_encode :: "nat \<Rightarrow> nat list" where
  "utf8_encode c =
     (if c < 128 then [c]
      else if c < 2048 then [192 + c div 64, 128 + c mod 64]
      else if c < 65536 then [224 + c div 4096, 128 + c div 64 mod 64, 128 + c mod 64]
      else [240 + c div 262144, 128 + c div 4096 mod 64, 128 + c div 64 mod 64, 128 + c mod 64])"

definition string_of_scalars :: "nat list \<Rightarrow> string" where
  "string_of_scalars cs = map char_of (concat (map utf8_encode cs))"

lemma string_of_scalars_ascii: "\<forall>c \<in> set cs. c < 128 \<Longrightarrow> string_of_scalars cs = map char_of cs"
  unfolding string_of_scalars_def by (induction cs) (simp_all add: utf8_encode_def)

lemma div_64_64:
  "c div 4096 = c div 64 div (64 :: nat)" "c div 262144 = c div 64 div 64 div (64 :: nat)"
  by (simp_all add: div_mult2_eq [symmetric])

lemma utf8_next_encode: "is_scalar c \<Longrightarrow> utf8_next (utf8_encode c @ r) = Some (c, r)"
proof -
  assume c: "is_scalar c"
  consider "c < 128" | "128 \<le> c" "c < 2048" | "2048 \<le> c" "c < 65536" | "65536 \<le> c" by linarith
  then show ?thesis
  proof cases
    case 1
    then show ?thesis by (simp add: utf8_encode_def)
  next
    case 2
    then have "c div 64 < 32" "2 \<le> c div 64" by (simp_all add: less_eq_div_iff_mult_less_eq)
    with 2 show ?thesis by (simp add: utf8_encode_def cont_byte_def)
  next
    case 3
    define x y z where "x = c div 4096" and "y = c div 64 mod 64" and "z = c mod 64"
    then have enc: "utf8_encode c = [224 + x, 128 + y, 128 + z]"
      using 3 by (simp add: utf8_encode_def)
    have "c = 64 * (c div 64) + z" and "c div 64 = 64 * x + y"
      by (simp_all add: x_def y_def z_def div_64_64)
    then have eq: "c = 4096 * x + 64 * y + z" by simp
    have yz: "y < 64" "z < 64" by (simp_all add: y_def z_def)
    have "x < 16" "x = 0 \<longrightarrow> 32 \<le> y" "x = 13 \<longrightarrow> y \<le> 31"
      using 3 c eq yz unfolding is_scalar_def by linarith+
    with enc eq yz show ?thesis by (simp add: cont_byte_def)
  next
    case 4
    define w x y z where "w = c div 262144" and "x = c div 4096 mod 64" and "y = c div 64 mod 64"
      and "z = c mod 64"
    then have enc: "utf8_encode c = [240 + w, 128 + x, 128 + y, 128 + z]"
      using 4 by (simp add: utf8_encode_def)
    have "c = 64 * (c div 64) + z" and "c div 64 = 64 * (c div 4096) + y" and "c div 4096 = 64 * w + x"
      by (simp_all add: w_def x_def y_def z_def div_64_64)
    then have eq: "c = 262144 * w + 4096 * x + 64 * y + z" by simp
    have xyz: "x < 64" "y < 64" "z < 64" by (simp_all add: x_def y_def z_def)
    have "w < 5" "w = 0 \<longrightarrow> 16 \<le> x" "w = 4 \<longrightarrow> x \<le> 15"
      using 4 c eq xyz unfolding is_scalar_def by linarith+
    with enc eq xyz show ?thesis by (simp add: cont_byte_def)
  qed
qed

definition scalars :: "string \<Rightarrow> nat list option" where
  "scalars s = utf8_decode (map of_char s)"

definition str_ok :: "string \<Rightarrow> bool" where
  "str_ok s \<longleftrightarrow> scalars s \<noteq> None"

definition is_ascii :: "string \<Rightarrow> bool" where
  "is_ascii s \<longleftrightarrow> (\<forall>c \<in> set s. of_char c < (128 :: nat))"

text \<open>\<open>String::from_utf8\<close>.\<close>

definition from_utf8 :: "bytes \<Rightarrow> string option" where
  "from_utf8 bs = (if str_ok (of_bytes bs) then Some (of_bytes bs) else None)"

lemma scalars_ascii: "is_ascii s \<Longrightarrow> scalars s = Some (map of_char s)"
  unfolding scalars_def is_ascii_def by (induction s) simp_all

lemma is_ascii_simps [simp]:
  "is_ascii []" "is_ascii (c # s) \<longleftrightarrow> of_char c < (128 :: nat) \<and> is_ascii s"
  "is_ascii (s @ t) \<longleftrightarrow> is_ascii s \<and> is_ascii t"
  by (auto simp: is_ascii_def)

lemma str_ok_ascii: "is_ascii s \<Longrightarrow> str_ok s"
  by (simp add: str_ok_def scalars_ascii)

lemma str_ok_Nil [simp]: "str_ok []"
  by (simp add: str_ok_ascii)

lemma str_ok_append: "str_ok s \<Longrightarrow> str_ok t \<Longrightarrow> str_ok (s @ t)"
  by (auto simp: str_ok_def scalars_def utf8_decode_append)

lemma from_utf8_eq_Some: "from_utf8 bs = Some s \<longleftrightarrow> bs = as_bytes s \<and> str_ok s"
  by (auto simp: from_utf8_def)

lemma from_utf8_as_bytes [simp]: "str_ok s \<Longrightarrow> from_utf8 (as_bytes s) = Some s"
  by (simp add: from_utf8_eq_Some)

section \<open>ASCII operations\<close>

definition ascii_lower :: "char \<Rightarrow> char" where
  "ascii_lower c = (if 65 \<le> (of_char c :: nat) \<and> of_char c \<le> (90 :: nat)
                    then char_of (of_char c + 32 :: nat) else c)"

definition ascii_upper :: "char \<Rightarrow> char" where
  "ascii_upper c = (if 97 \<le> (of_char c :: nat) \<and> of_char c \<le> (122 :: nat)
                    then char_of (of_char c - 32 :: nat) else c)"

definition to_ascii_lowercase :: "string \<Rightarrow> string" where
  "to_ascii_lowercase s = map ascii_lower s"

definition eq_ignore_ascii_case :: "string \<Rightarrow> string \<Rightarrow> bool" where
  "eq_ignore_ascii_case s t \<longleftrightarrow> to_ascii_lowercase s = to_ascii_lowercase t"

definition is_ascii_digit :: "char \<Rightarrow> bool" where
  "is_ascii_digit c \<longleftrightarrow> 48 \<le> (of_char c :: nat) \<and> of_char c \<le> (57 :: nat)"

definition is_ascii_lowercase :: "char \<Rightarrow> bool" where
  "is_ascii_lowercase c \<longleftrightarrow> 97 \<le> (of_char c :: nat) \<and> of_char c \<le> (122 :: nat)"

definition is_ascii_alphanumeric :: "char \<Rightarrow> bool" where
  "is_ascii_alphanumeric c \<longleftrightarrow>
     is_ascii_digit c \<or> is_ascii_lowercase c
     \<or> (65 \<le> (of_char c :: nat) \<and> of_char c \<le> (90 :: nat))"

definition is_ascii_graphic :: "char \<Rightarrow> bool" where
  "is_ascii_graphic c \<longleftrightarrow> 33 \<le> (of_char c :: nat) \<and> of_char c \<le> (126 :: nat)"

lemma ascii_lower_idem [simp]: "ascii_lower (ascii_lower c) = ascii_lower c"
  by (simp add: ascii_lower_def of_char_of)

lemma to_ascii_lowercase_idem [simp]:
  "to_ascii_lowercase (to_ascii_lowercase s) = to_ascii_lowercase s"
  by (simp add: to_ascii_lowercase_def)

lemma to_ascii_lowercase_simps [simp]:
  "to_ascii_lowercase [] = []"
  "to_ascii_lowercase (c # s) = ascii_lower c # to_ascii_lowercase s"
  "to_ascii_lowercase (s @ t) = to_ascii_lowercase s @ to_ascii_lowercase t"
  by (simp_all add: to_ascii_lowercase_def)

lemma length_to_ascii_lowercase [simp]: "length (to_ascii_lowercase s) = length s"
  by (simp add: to_ascii_lowercase_def)

lemma eq_ignore_ascii_case_refl [simp]: "eq_ignore_ascii_case s s"
  by (simp add: eq_ignore_ascii_case_def)

lemma eq_ignore_ascii_case_lower [simp]:
  "eq_ignore_ascii_case s (to_ascii_lowercase t) \<longleftrightarrow> eq_ignore_ascii_case s t"
  by (simp add: eq_ignore_ascii_case_def)

section \<open>Searching and splitting\<close>

definition strip_prefix :: "string \<Rightarrow> string \<Rightarrow> string option" where
  "strip_prefix p s = (if prefix p s then Some (drop (length p) s) else None)"

definition strip_suffix :: "string \<Rightarrow> string \<Rightarrow> string option" where
  "strip_suffix p s = (if suffix p s then Some (take (length s - length p) s) else None)"

text \<open>\<open>s.split(c)\<close>: always at least one piece.\<close>

fun split_char :: "('a \<Rightarrow> bool) \<Rightarrow> 'a list \<Rightarrow> 'a list list" where
  "split_char p [] = [[]]"
| "split_char p (x # xs) =
     (if p x then [] # split_char p xs
      else case split_char p xs of [] \<Rightarrow> [[x]] | w # ws \<Rightarrow> (x # w) # ws)"

text \<open>\<open>s.split_once(c)\<close> and \<open>s.rsplit_once(c)\<close>.\<close>

fun split_once :: "char \<Rightarrow> string \<Rightarrow> (string \<times> string) option" where
  "split_once c [] = None"
| "split_once c (x # xs) =
     (if x = c then Some ([], xs)
      else map_option (\<lambda>(a, b). (x # a, b)) (split_once c xs))"

definition rsplit_once :: "char \<Rightarrow> string \<Rightarrow> (string \<times> string) option" where
  "rsplit_once c s = map_option (\<lambda>(a, b). (rev b, rev a)) (split_once c (rev s))"

fun join :: "string \<Rightarrow> string list \<Rightarrow> string" where
  "join sep [] = []"
| "join sep [w] = w"
| "join sep (w # ws) = w @ sep @ join sep ws"

definition trim_end_char :: "char \<Rightarrow> string \<Rightarrow> string" where
  "trim_end_char c s = rev (dropWhile (\<lambda>x. x = c) (rev s))"

lemma strip_prefix_eq_Some: "strip_prefix p s = Some r \<longleftrightarrow> s = p @ r"
  by (auto simp: strip_prefix_def prefix_def)

lemma strip_prefix_append [simp]: "strip_prefix p (p @ r) = Some r"
  by (simp add: strip_prefix_eq_Some)

lemma strip_suffix_eq_Some: "strip_suffix p s = Some r \<longleftrightarrow> s = r @ p"
  by (auto simp: strip_suffix_def suffix_def)

lemma split_char_nonempty [simp]: "split_char p s \<noteq> []"
  by (induction s) (auto split: list.splits)

lemma split_char_append:
  "\<forall>x \<in> set a. \<not> p x \<Longrightarrow> p c \<Longrightarrow> split_char p (a @ c # r) = a # split_char p r"
  by (induction a) auto

lemma split_char_none: "\<forall>x \<in> set s. \<not> p x \<Longrightarrow> split_char p s = [s]"
  by (induction s) auto

lemma split_char_pieces: "w \<in> set (split_char p s) \<Longrightarrow> x \<in> set w \<Longrightarrow> \<not> p x"
proof (induction s arbitrary: w)
  case Nil
  then show ?case by simp
next
  case (Cons y s)
  obtain v vs where v: "split_char p s = v # vs"
    by (cases "split_char p s") auto
  show ?case
  proof (cases "p y")
    case True
    with Cons.prems have "w \<in> set (split_char p s)" by auto
    then show ?thesis using Cons.IH Cons.prems(2) by blast
  next
    case False
    with Cons.prems v have "w = y # v \<or> w \<in> set vs" by simp
    then show ?thesis using Cons.IH [of v] Cons.IH [of w] Cons.prems(2) v False by auto
  qed
qed

lemma join_split_char: "join [c] (split_char ((=) c) s) = s"
proof (induction s)
  case Nil
  then show ?case by simp
next
  case (Cons x s)
  obtain w ws where "split_char ((=) c) s = w # ws"
    by (cases "split_char ((=) c) s") auto
  with Cons show ?case by (cases ws) auto
qed

lemma split_once_eq_Some: "split_once c s = Some (a, b) \<longleftrightarrow> s = a @ c # b \<and> c \<notin> set a"
proof (induction s arbitrary: a)
  case Nil
  then show ?case by simp
next
  case (Cons x s)
  show ?case
  proof (cases "x = c")
    case True
    then show ?thesis by (cases a) auto
  next
    case False
    then show ?thesis using Cons.IH by (cases a) auto
  qed
qed

lemma split_once_eq_None: "split_once c s = None \<longleftrightarrow> c \<notin> set s"
  by (induction s) auto

section \<open>Whitespace\<close>

text \<open>\<open>char::is_whitespace\<close>: the scalar values with the Unicode property White\_Space.\<close>

definition is_whitespace :: "nat \<Rightarrow> bool" where
  "is_whitespace c \<longleftrightarrow>
     9 \<le> c \<and> c \<le> 13 \<or> c = 32 \<or> c = 133 \<or> c = 160 \<or> c = 5760
     \<or> 8192 \<le> c \<and> c \<le> 8202 \<or> c = 8232 \<or> c = 8233 \<or> c = 8239 \<or> c = 8287 \<or> c = 12288"

definition has_whitespace :: "string \<Rightarrow> bool" where
  "has_whitespace s = (case scalars s of None \<Rightarrow> False | Some cs \<Rightarrow> list_ex is_whitespace cs)"

text \<open>\<open>s.trim().is_empty()\<close>: every scalar value is white space.\<close>

definition trim_is_empty :: "string \<Rightarrow> bool" where
  "trim_is_empty s = (case scalars s of None \<Rightarrow> False | Some cs \<Rightarrow> list_all is_whitespace cs)"

lemma utf8_decode_ascii_mem:
  "utf8_decode bs = Some cs \<Longrightarrow> a \<in> set bs \<Longrightarrow> a < 128 \<Longrightarrow> a \<in> set cs"
proof (induction bs arbitrary: cs rule: utf8_decode.induct)
  case (1 bs)
  from "1.prems" have ne: "bs \<noteq> []" by auto
  with "1.prems"(1) obtain c r cs' where r: "utf8_next bs = Some (c, r)"
    and d: "utf8_decode r = Some cs'" and cs: "cs = c # cs'"
    by (subst (asm) utf8_decode.simps) (auto split: option.splits)
  from r "1.prems"(2,3) have "a = c \<or> a \<in> set r"
    by (cases bs) (auto simp: cont_byte_def split: if_splits list.splits)
  then show ?case using "1.IH" [OF ne r refl d _ "1.prems"(3)] cs by auto
qed

lemma no_whitespace_ascii:
  assumes "str_ok s" and "\<not> has_whitespace s" and "c \<in> set s" and "of_char c < (128 :: nat)"
  shows "\<not> is_whitespace (of_char c)"
proof -
  from assms(1) obtain cs where cs: "scalars s = Some cs"
    by (auto simp: str_ok_def)
  with assms(3,4) have "of_char c \<in> set cs"
    unfolding scalars_def by (auto intro: utf8_decode_ascii_mem)
  with cs assms(2) show ?thesis by (auto simp: has_whitespace_def list_ex_iff)
qed

section \<open>Decimal numbers\<close>

text \<open>\<open>Display\<close> of the unsigned integers and \<open>str::parse::<usize>\<close>, which takes an optional
  plus sign and at least one digit and refuses values above \<open>usize::MAX\<close> (64 bits).\<close>

definition digit_char :: "nat \<Rightarrow> char" where
  "digit_char d = char_of (48 + d)"

fun dec_string :: "nat \<Rightarrow> string" where
  "dec_string n = (if n < 10 then [digit_char n] else dec_string (n div 10) @ [digit_char (n mod 10)])"

declare dec_string.simps [simp del]

definition dec_value :: "string \<Rightarrow> nat" where
  "dec_value s = foldl (\<lambda>v c. 10 * v + (of_char c - 48)) 0 s"

definition parse_usize :: "string \<Rightarrow> nat option" where
  "parse_usize s =
     (let t = (case s of c # r \<Rightarrow> if c = CHR ''+'' then r else s | [] \<Rightarrow> s)
      in if t \<noteq> [] \<and> list_all is_ascii_digit t \<and> dec_value t < 2 ^ 64 then Some (dec_value t) else None)"

lemma of_char_digit_char [simp]: "d < 10 \<Longrightarrow> (of_char (digit_char d) :: nat) = 48 + d"
  by (simp add: digit_char_def of_char_of)

lemma dec_value_dec_string [simp]: "dec_value (dec_string n) = n"
proof (induction n rule: dec_string.induct)
  case (1 n)
  then show ?case
    by (cases "n < 10") (simp_all add: dec_string.simps [of n] dec_value_def)
qed

lemma dec_string_digits: "list_all is_ascii_digit (dec_string n)"
proof (induction n rule: dec_string.induct)
  case (1 n)
  then show ?case
    by (cases "n < 10") (simp_all add: dec_string.simps [of n] is_ascii_digit_def)
qed

lemma dec_string_nonempty [simp]: "dec_string n \<noteq> []"
  by (simp add: dec_string.simps [of n])

lemma dec_string_inj [simp]: "dec_string m = dec_string n \<longleftrightarrow> m = n"
  by (metis dec_value_dec_string)

lemma dec_string_not_mem: "\<not> is_ascii_digit c \<Longrightarrow> c \<notin> set (dec_string n)"
  using dec_string_digits [of n] by (auto simp: list_all_iff)

end
