(* ===== verification/Json.thy ===== *)
theory Json
  imports Rust_Str
begin

text \<open>
  JSON values as \<open>serde_json::Value\<close> holds them, and \<open>prose.rs\<close>: ProseMirror documents.
  Numbers keep the three representations of \<open>serde_json::Number\<close> (a float is its bit
  pattern); an object is its list of entries, in the key order of the underlying map.
  \<open>ProseDoc\<close> is a type of its own: its invariant is the shape test every constructor
  goes through.
\<close>

section \<open>Values\<close>

datatype json_number = PosInt u64 | NegInt i64 | Float u64

datatype json =
    JNull
  | JBool bool
  | JNumber json_number
  | JString string
  | JArray "json list"
  | JObject "(string \<times> json) list"

fun json_get :: "string \<Rightarrow> json \<Rightarrow> json option" where
  "json_get k (JObject m) = map_of m k"
| "json_get k _ = None"

fun json_as_str :: "json \<Rightarrow> string option" where
  "json_as_str (JString s) = Some s"
| "json_as_str _ = None"

fun json_as_u64 :: "json \<Rightarrow> u64 option" where
  "json_as_u64 (JNumber (PosInt n)) = Some n"
| "json_as_u64 _ = None"

fun json_is_array :: "json \<Rightarrow> bool" where
  "json_is_array (JArray _) = True"
| "json_is_array _ = False"

fun json_is_object :: "json \<Rightarrow> bool" where
  "json_is_object (JObject _) = True"
| "json_is_object _ = False"

text \<open>The representation invariant of \<open>serde_json::Map\<close>: no key twice, at any depth.\<close>

fun json_ok :: "json \<Rightarrow> bool" where
  "json_ok (JArray vs) = list_all json_ok vs"
| "json_ok (JObject m) = (distinct (map fst m) \<and> list_all (\<lambda>kv. json_ok (snd kv)) m)"
| "json_ok _ = True"

section \<open>ProseMirror documents\<close>

definition ATTACHMENT_URI_SCHEME :: string where
  "ATTACHMENT_URI_SCHEME = ''seren-secrets://attachment/''"

definition empty_doc :: json where
  "empty_doc = JObject [(''content'', JArray []), (''type'', JString ''doc'')]"

definition is_doc_shape :: "json \<Rightarrow> bool" where
  "is_doc_shape value =
     (if \<not> json_is_object value then False
      else if Option.bind (json_get ''type'' value) json_as_str \<noteq> Some ''doc'' then False
      else case json_get ''content'' value of None \<Rightarrow> True | Some c \<Rightarrow> json_is_array c)"

lemma empty_doc_shape [simp]: "is_doc_shape empty_doc"
  by (simp add: is_doc_shape_def empty_doc_def)

typedef ProseDoc = "{v. is_doc_shape v}" morphisms prose_value ProseDoc
  by (rule exI [of _ empty_doc]) simp

definition prose_empty :: ProseDoc where
  "prose_empty = ProseDoc empty_doc"

definition from_value_lossy :: "json \<Rightarrow> ProseDoc" where
  "from_value_lossy value = (if is_doc_shape value then ProseDoc value else prose_empty)"

text \<open>\<open>Deserialize for ProseDoc\<close> reads any value and normalizes it.\<close>

definition prose_deserialize :: "json \<Rightarrow> ProseDoc" where
  "prose_deserialize value = from_value_lossy value"

definition paragraph_node :: "string \<Rightarrow> json" where
  "paragraph_node line =
     (if line = [] then JObject [(''type'', JString ''paragraph'')]
      else JObject [(''content'', JArray [JObject [(''text'', JString line), (''type'', JString ''text'')]]),
                    (''type'', JString ''paragraph'')])"

definition from_plaintext :: "string \<Rightarrow> ProseDoc \<times> string" where
  "from_plaintext text =
     (if text = [] then (prose_empty, [])
      else (ProseDoc (JObject [(''content'', JArray (map paragraph_node (split_char (\<lambda>c. c = CHR ''\<newline>'') text))),
                               (''type'', JString ''doc'')]), text))"

text \<open>The Markdown converter and the plain-text extractor are the third-party
  \<open>seren_prosemirror\<close>; \<open>md\<close> is \<open>markdown_to_prosemirror\<close> under the attachment scheme,
  \<open>extract\<close> is \<open>extract_plain_text\<close>.\<close>

definition from_markdown ::
  "(string \<Rightarrow> string \<Rightarrow> json option) \<Rightarrow> (json \<Rightarrow> string) \<Rightarrow> string \<Rightarrow> ProseDoc \<times> string" where
  "from_markdown md extract markdown =
     (if markdown = [] then (prose_empty, [])
      else case md ATTACHMENT_URI_SCHEME markdown of
             Some doc \<Rightarrow> (from_value_lossy doc, extract doc)
           | None \<Rightarrow> from_plaintext markdown)"

text \<open>\<open>zeroize_json_strings\<close>: every string value becomes empty, keys and shape stay.\<close>

fun zeroize_json_strings :: "json \<Rightarrow> json" where
  "zeroize_json_strings (JString text) = JString []"
| "zeroize_json_strings (JArray items) = JArray (map zeroize_json_strings items)"
| "zeroize_json_strings (JObject m) = JObject (map (\<lambda>kv. (fst kv, zeroize_json_strings (snd kv))) m)"
| "zeroize_json_strings JNull = JNull"
| "zeroize_json_strings (JBool b) = JBool b"
| "zeroize_json_strings (JNumber n) = JNumber n"

fun json_strings :: "json \<Rightarrow> string set" where
  "json_strings (JString text) = {text}"
| "json_strings (JArray items) = (\<Union>v \<in> set items. json_strings v)"
| "json_strings (JObject m) = (\<Union>kv \<in> set m. json_strings (snd kv))"
| "json_strings JNull = {}"
| "json_strings (JBool b) = {}"
| "json_strings (JNumber n) = {}"

section \<open>Lemmas\<close>

lemma prose_value_shape [simp]: "is_doc_shape (prose_value d)"
  using prose_value by simp

lemma prose_value_inverse_simp [simp]: "is_doc_shape v \<Longrightarrow> prose_value (ProseDoc v) = v"
  by (simp add: ProseDoc_inverse)

lemma prose_value_empty [simp]: "prose_value prose_empty = empty_doc"
  by (simp add: prose_empty_def)

lemma prose_round_trip [simp]: "prose_deserialize (prose_value d) = d"
  by (simp add: prose_deserialize_def from_value_lossy_def prose_value_inverse)

lemma zeroize_strings: "json_strings (zeroize_json_strings v) \<subseteq> {[]}"
  by (induction v rule: zeroize_json_strings.induct) auto

text \<open>The paragraphs of a plain text spell it: reading the text nodes line by line gives the
  text back.\<close>

definition paragraph_text :: "json \<Rightarrow> string option" where
  "paragraph_text p =
     (case json_get ''content'' p of
        None \<Rightarrow> Some []
      | Some (JArray [t]) \<Rightarrow> Option.bind (json_get ''text'' t) json_as_str
      | _ \<Rightarrow> None)"

lemma paragraph_text_paragraph [simp]: "paragraph_text (paragraph_node line) = Some line"
  by (simp add: paragraph_node_def paragraph_text_def)

lemma paragraphs_text:
  "map paragraph_text (map paragraph_node ls) = map Some ls"
  by (simp add: comp_def)

lemma zeroize_get:
  "json_get k (zeroize_json_strings v) = map_option zeroize_json_strings (json_get k v)"
proof (cases v)
  case (JObject m)
  have "map_of (map (\<lambda>kv. (fst kv, zeroize_json_strings (snd kv))) m) k = map_option zeroize_json_strings (map_of m k)"
    by (induction m) auto
  then show ?thesis by (simp add: JObject)
qed simp_all

lemma zeroized_no_doc: "\<not> is_doc_shape (zeroize_json_strings v)"
proof
  assume "is_doc_shape (zeroize_json_strings v)"
  then obtain w where "json_as_str (zeroize_json_strings w) = Some ''doc''"
    by (auto simp: is_doc_shape_def zeroize_get bind_eq_Some_conv split: if_splits)
  then show False by (cases w) simp_all
qed

lemma from_plaintext_value:
  "prose_value (fst (from_plaintext t)) =
     JObject [(''content'', JArray (if t = [] then [] else map paragraph_node (split_char (\<lambda>c. c = CHR ''\<newline>'') t))),
              (''type'', JString ''doc'')]"
  by (simp add: from_plaintext_def empty_doc_def is_doc_shape_def)

section \<open>Properties\<close>



end
