(* ===== verification/Item_Content.thy ===== *)
theory Item_Content
  imports Json
begin

text \<open>
  The plaintext of an item, \<open>protocol/item.rs\<close>: one record per content struct and the
  datatype \<open>ItemContent\<close> over them.  Twelve of the thirteen structs end in the same five fields
  (notes, their text projection, custom fields, sections, the import bucket), declared once as
  \<open>common_fields\<close> and extended; the secure note spells the first two \<open>body\<close>
  and \<open>body_text\<close>.
\<close>

section \<open>Parts\<close>

datatype CustomFieldKind = CString | Concealed | Url | Email | Date

datatype FieldPurpose =
  PUsername | PPassword | PNotes | POtp | PPrivateKey | PPublicKey | PCardNumber | PCvv | PPin

record CustomField =
  cf_name :: string
  cf_kind :: CustomFieldKind
  cf_value :: string
  cf_purpose :: "FieldPurpose option"
  cf_section_id :: "string option"

record Section =
  section_id :: string
  section_title :: string

record LabelledEntry =
  entry_label :: string
  entry_value :: string

type_synonym EmailEntry = LabelledEntry
type_synonym PhoneEntry = LabelledEntry
type_synonym WalletAddress = LabelledEntry

record GeneratorRecipe =
  recipe_length :: u32
  include_letters :: bool
  include_numbers :: bool
  include_symbols :: bool
  excluded_characters :: string
  words_mode :: bool
  word_delimiter :: string

record Fido2Credential =
  credential_id :: string
  user_handle :: string
  rp_id :: string
  rp_name :: string
  fido_user_name :: string
  user_display_name :: string
  fido_algorithm :: string
  fido_private_key :: string
  fido_counter :: u32
  discoverable :: bool
  fido_created_at :: string

record PasswordHistoryEntry =
  old_password :: string
  changed_at :: string

definition MAX_PASSWORD_HISTORY :: nat where "MAX_PASSWORD_HISTORY = 16"

datatype UrlMatchType = MatchExact | StartsWith | MatchHost | Never | Regex

record LoginUrl =
  login_url :: string
  match_type :: "UrlMatchType option"
  url_label :: "string option"
  primary :: "bool option"

definition LoginUrl_plain :: "string \<Rightarrow> LoginUrl" where
  "LoginUrl_plain url = \<lparr> login_url = url, match_type = None, url_label = None, primary = None \<rparr>"

datatype ApiCredentialKind = ApiKey | Oauth2Token | Basic | Mtls | AwsSigV4 | GcpServiceAccount

datatype RotationPolicyKind = Manual | Scheduled

record RotationPolicy =
  policy :: RotationPolicyKind
  next_rotation_at :: "string option"

datatype TotpAlgorithm = Sha1 | Sha256 | Sha512

record TotpConfig =
  secret_base32 :: string
  totp_algorithm :: TotpAlgorithm
  digits :: u8
  period_seconds :: u32

record PostalAddress =
  street :: string
  city :: string
  region :: string
  postal_code :: string
  country :: string

record GovernmentId =
  gov_label :: string
  gov_number :: string
  gov_issued_on :: "string option"
  gov_expires_on :: "string option"
  gov_issuer :: string

section \<open>Content structs\<close>

record common_fields =
  item_notes :: ProseDoc
  item_notes_text :: string
  custom_fields :: "CustomField list"
  sections :: "Section list"
  raw_import :: json

record LoginContent = common_fields +
  login_username :: string
  login_password :: string
  login_urls :: "LoginUrl list"
  login_totp :: "TotpConfig option"
  password_history :: "PasswordHistoryEntry list"
  generator_recipe :: "GeneratorRecipe option"
  autofill_on_page_load :: "bool option"
  fido2_credentials :: "Fido2Credential list"

type_synonym SecureNoteContent = common_fields
  \<comment> \<open>\<open>body\<close> and \<open>body_text\<close> in the places of \<open>notes\<close> and \<open>notes_text\<close>\<close>

record ApiCredentialContent = common_fields +
  api_kind :: ApiCredentialKind
  primary_value :: string
  secondary_value :: string
  headers :: "(string \<times> string) list"
  rotation :: "RotationPolicy option"

record CardContent = common_fields +
  cardholder_name :: string
  card_number :: string
  brand :: string
  expiry :: string
  cvv :: string
  card_pin :: string
  billing_address :: "PostalAddress option"

record IdentityContent = common_fields +
  first_name :: string
  middle_name :: string
  last_name :: string
  identity_username :: string
  company :: string
  job_title :: string
  identity_gender :: string
  identity_date_of_birth :: "string option"
  emails :: "EmailEntry list"
  phones :: "PhoneEntry list"
  identity_addresses :: "PostalAddress list"
  government_ids :: "GovernmentId list"

record DocumentContent = common_fields +
  document_filename :: string
  document_content_type :: string
  size_bytes :: "u64 option"
  alt_text :: string
  attachment_uri :: string

record SshKeyContent = common_fields +
  ssh_private_key :: string
  ssh_public_key :: string
  passphrase :: string
  fingerprint :: string
  key_type :: string

record ServerContent = common_fields +
  hostname :: string
  server_port :: "u32 option"
  protocol :: string
  server_username :: string
  server_password :: string
  ssh_key_reference :: string
  admin_console_url :: string

record DatabaseContent = common_fields +
  database_type :: string
  db_server :: string
  db_port :: "u32 option"
  database_name :: string
  db_username :: string
  db_password :: string
  sid :: string
  schema :: string

record BankAccountContent = common_fields +
  bank_name :: string
  account_holder :: string
  account_number :: string
  routing_number :: string
  account_type :: string
  iban :: string
  swift :: string
  branch :: string
  bank_pin :: string

record PassportContent = common_fields +
  passport_number :: string
  passport_type :: string
  passport_full_name :: string
  surname :: string
  given_names :: string
  nationality :: string
  passport_date_of_birth :: "string option"
  place_of_birth :: string
  passport_gender :: string
  issuing_country :: string
  issuing_authority :: string
  passport_issued_on :: "string option"
  passport_expires_on :: "string option"

record DriverLicenseContent = common_fields +
  license_number :: string
  license_full_name :: string
  license_date_of_birth :: "string option"
  license_gender :: string
  license_address :: "PostalAddress option"
  license_country :: string
  state :: string
  license_class :: string
  conditions :: string
  license_issued_on :: "string option"
  license_expires_on :: "string option"

record CryptoWalletContent = common_fields +
  wallet_name :: string
  network :: string
  seed_phrase :: string
  wallet_private_key :: string
  wallet_password :: string
  derivation_path :: string
  wallet_addresses :: "WalletAddress list"

datatype ItemContent =
    Login LoginContent
  | SecureNote SecureNoteContent
  | ApiCredential ApiCredentialContent
  | Card CardContent
  | Identity IdentityContent
  | Document DocumentContent
  | SshKey SshKeyContent
  | Server ServerContent
  | Database DatabaseContent
  | BankAccount BankAccountContent
  | Passport PassportContent
  | DriverLicense DriverLicenseContent
  | CryptoWallet CryptoWalletContent

text \<open>\<open>Default\<close> of the common tail, and a login that only has a user name and a password.\<close>

definition default_common :: common_fields where
  "default_common = \<lparr> item_notes = prose_empty, item_notes_text = [], custom_fields = [], sections = [], raw_import = JNull \<rparr>"

end
