(* ===== verification/Extern.thy ===== *)
theory Extern
  imports Json
begin

text \<open>
  The code that is not in the repository.  The crypto crate calls chacha20poly1305,
  crypto\_box, x25519-dalek, blake2, ed25519-dalek, argon2, hmac, sha2, base64,
  data-encoding, uuid, jiff and serde\_json; the record \<open>crypto_lib\<close> has one field per entry point that is
  called, and every operation of the model that reaches one takes the record as its first
  argument.  The \<open>\<dots>_laws\<close> predicates state what those crates document (lengths, round
  trips, the determinism of the constructions) and appear as named hypotheses where a
  theorem needs them.  They are deterministic facts: unforgeability and collision
  resistance are never assumed, and the theorems about misuse are reductions that end in
  an explicit collision of the primitive.
\<close>

type_synonym uuid = "128 word"

text \<open>\<open>jiff::Timestamp\<close>: nanoseconds since the Unix epoch, within the range of the crate.\<close>

definition TIMESTAMP_MIN :: int where "TIMESTAMP_MIN = - 377705023201 * 10 ^ 9"
definition TIMESTAMP_MAX :: int where "TIMESTAMP_MAX = 253402207200 * 10 ^ 9 + 999999999"

typedef timestamp = "{ns :: int. TIMESTAMP_MIN \<le> ns \<and> ns \<le> TIMESTAMP_MAX}" morphisms ts_ns Timestamp
  by (rule exI [of _ 0]) (simp add: TIMESTAMP_MIN_def TIMESTAMP_MAX_def)

lemma ts_ns_Timestamp [simp]: "TIMESTAMP_MIN \<le> n \<Longrightarrow> n \<le> TIMESTAMP_MAX \<Longrightarrow> ts_ns (Timestamp n) = n"
  by (simp add: Timestamp_inverse)

section \<open>The interface\<close>

record crypto_lib =
  xchacha_encrypt_detached :: "byte32 \<Rightarrow> bytes \<Rightarrow> bytes \<Rightarrow> bytes \<Rightarrow> bytes \<times> bytes"
    \<comment> \<open>key, nonce, aad, message to ciphertext and detached tag\<close>
  xchacha_decrypt :: "byte32 \<Rightarrow> bytes \<Rightarrow> bytes \<Rightarrow> bytes \<Rightarrow> bytes option"
    \<comment> \<open>key, nonce, aad, ciphertext with its tag\<close>
  x25519_public :: "byte32 \<Rightarrow> byte32"
  x25519_contributory :: "byte32 \<Rightarrow> byte32 \<Rightarrow> bool"
    \<comment> \<open>\<open>diffie_hellman(secret, public).was_contributory()\<close>\<close>
  box_public :: "byte32 \<Rightarrow> byte32"
  box_encrypt :: "byte32 \<Rightarrow> byte32 \<Rightarrow> bytes \<Rightarrow> bytes \<Rightarrow> bytes"
    \<comment> \<open>their public key, our secret key, nonce, message\<close>
  box_decrypt :: "byte32 \<Rightarrow> byte32 \<Rightarrow> bytes \<Rightarrow> bytes \<Rightarrow> bytes option"
  blake2b_24 :: "bytes \<Rightarrow> bytes"
  ed25519_public :: "byte32 \<Rightarrow> byte32"
  ed25519_key_ok :: "byte32 \<Rightarrow> bool"
    \<comment> \<open>\<open>VerifyingKey::from_bytes\<close> succeeds\<close>
  ed25519_sign :: "byte32 \<Rightarrow> bytes \<Rightarrow> bytes"
  ed25519_verify_strict :: "byte32 \<Rightarrow> bytes \<Rightarrow> bytes \<Rightarrow> bool"
  argon2_params_ok :: "u32 \<Rightarrow> u32 \<Rightarrow> u32 \<Rightarrow> nat \<Rightarrow> bool"
  argon2id :: "u32 \<Rightarrow> u32 \<Rightarrow> u32 \<Rightarrow> nat \<Rightarrow> bytes \<Rightarrow> bytes \<Rightarrow> bytes option"
    \<comment> \<open>memory, time, lanes, output length, password, salt\<close>
  hmac_sha256 :: "bytes \<Rightarrow> bytes \<Rightarrow> byte32"
  sha256 :: "bytes \<Rightarrow> byte32"
  base64_encode :: "bytes \<Rightarrow> string"
  base64_decode :: "string \<Rightarrow> bytes option"
  base32_encode :: "bytes \<Rightarrow> string"
  base32_decode :: "string \<Rightarrow> bytes option"
  uuid_as_bytes :: "uuid \<Rightarrow> bytes"
  uuid_to_string :: "uuid \<Rightarrow> string"
    \<comment> \<open>the hyphenated lower-case form\<close>
  uuid_parse :: "string \<Rightarrow> uuid option"
  timestamp_to_string :: "timestamp \<Rightarrow> string"
  timestamp_checked_add :: "timestamp \<Rightarrow> int \<Rightarrow> timestamp option"
  json_write_string :: "string \<Rightarrow> bytes option"
    \<comment> \<open>\<open>serde_json::to_writer\<close> on a string\<close>
  json_number_to_string :: "json_number \<Rightarrow> string"
  unicode_lowercase :: "string \<Rightarrow> string"
    \<comment> \<open>\<open>str::to_lowercase\<close>, a table of the Unicode standard\<close>

section \<open>What the crates document\<close>

text \<open>XChaCha20-Poly1305: the ciphertext has the length of the message, the tag 16 bytes, and
  decryption recomputes the tag, so a ciphertext opens to \<open>m\<close> exactly when it is the
  encryption of \<open>m\<close>.\<close>

definition aead_laws :: "'z crypto_lib_scheme \<Rightarrow> bool" where
  "aead_laws X \<longleftrightarrow>
     (\<forall>k n a m. length (fst (xchacha_encrypt_detached X k n a m)) = length m
              \<and> length (snd (xchacha_encrypt_detached X k n a m)) = 16)
   \<and> (\<forall>k n a c m. xchacha_decrypt X k n a c = Some m \<longleftrightarrow>
        c = fst (xchacha_encrypt_detached X k n a m) @ snd (xchacha_encrypt_detached X k n a m))"

text \<open>X25519 and the NaCl box: both crates compute the same public key, the shared secret is
  symmetric, clamped scalars never meet a low-order point in an honest public key, the
  ciphertext carries 16 bytes of tag, and decryption recomputes the tag.\<close>

definition kem_laws :: "'z crypto_lib_scheme \<Rightarrow> bool" where
  "kem_laws X \<longleftrightarrow>
     (\<forall>s. box_public X s = x25519_public X s)
   \<and> (\<forall>s t. x25519_contributory X s (x25519_public X t))
   \<and> (\<forall>p s n m. length (box_encrypt X p s n m) = length m + 16)
   \<and> (\<forall>s t n m. box_decrypt X (x25519_public X s) t n
        (box_encrypt X (x25519_public X t) s n m) = Some m)
   \<and> (\<forall>bs. length (blake2b_24 X bs) = 24)"

definition ed25519_laws :: "'z crypto_lib_scheme \<Rightarrow> bool" where
  "ed25519_laws X \<longleftrightarrow>
     (\<forall>k m. length (ed25519_sign X k m) = 64)
   \<and> (\<forall>k. ed25519_key_ok X (ed25519_public X k))
   \<and> (\<forall>k m. ed25519_verify_strict X (ed25519_public X k) m (ed25519_sign X k m))"

text \<open>Argon2id: costs between the crate's minimum and the profiles of this program are
  accepted, and a password and salt inside the crate's limits (passwords below \<open>2 ^ 32\<close>
  bytes, salts of 8 bytes and more) give the requested number of bytes.\<close>

definition argon2_laws :: "'z crypto_lib_scheme \<Rightarrow> bool" where
  "argon2_laws X \<longleftrightarrow>
     (\<forall>m t. 8 \<le> unat m \<and> unat m \<le> 65536 \<and> 1 \<le> unat t \<and> unat t \<le> 2 \<longrightarrow> argon2_params_ok X m t 1 32)
   \<and> (\<forall>m t p l pw salt. argon2_params_ok X m t p l \<and> length pw < 2 ^ 32 \<and> 8 \<le> length salt
        \<and> length salt < 2 ^ 32 \<longrightarrow>
        (\<exists>out. argon2id X m t p l pw salt = Some out \<and> length out = l))
   \<and> (\<forall>m t p l pw salt out. argon2id X m t p l pw salt = Some out \<longrightarrow> length out = l)"

text \<open>The padded standard base64 alphabet: a round trip, ASCII output, and four characters for every
  three bytes or part of them.\<close>

definition base64_laws :: "'z crypto_lib_scheme \<Rightarrow> bool" where
  "base64_laws X \<longleftrightarrow>
     (\<forall>bs. base64_decode X (base64_encode X bs) = Some bs)
   \<and> (\<forall>bs. is_ascii (base64_encode X bs))
   \<and> (\<forall>bs. length (base64_encode X bs) = (length bs + 2) div 3 * 4)"

text \<open>Unpadded base32: a round trip over the alphabet \<open>A\<close>--\<open>Z\<close>, \<open>2\<close>--\<open>7\<close>.\<close>

definition base32_char :: "char \<Rightarrow> bool" where
  "base32_char c \<longleftrightarrow> 65 \<le> (of_char c :: nat) \<and> of_char c \<le> (90 :: nat)
                   \<or> 50 \<le> (of_char c :: nat) \<and> of_char c \<le> (55 :: nat)"

definition base32_laws :: "'z crypto_lib_scheme \<Rightarrow> bool" where
  "base32_laws X \<longleftrightarrow>
     (\<forall>bs. base32_decode X (base32_encode X bs) = Some bs)
   \<and> (\<forall>bs. list_all base32_char (base32_encode X bs))"

text \<open>UUIDs: 16 bytes, and a canonical spelling of 36 lower-case hexadecimal digits and
  hyphens that parses back.\<close>

definition uuid_char :: "char \<Rightarrow> bool" where
  "uuid_char c \<longleftrightarrow> is_ascii_digit c \<or> c = CHR ''-'' \<or>
                  97 \<le> (of_char c :: nat) \<and> of_char c \<le> (102 :: nat)"

definition uuid_laws :: "'z crypto_lib_scheme \<Rightarrow> bool" where
  "uuid_laws X \<longleftrightarrow>
     (\<forall>u. length (uuid_as_bytes X u) = 16)
   \<and> (\<forall>u v. uuid_as_bytes X u = uuid_as_bytes X v \<longrightarrow> u = v)
   \<and> (\<forall>u. uuid_parse X (uuid_to_string X u) = Some u)
   \<and> (\<forall>u. length (uuid_to_string X u) = 36)
   \<and> (\<forall>u. list_all uuid_char (uuid_to_string X u))"

text \<open>Timestamps print in RFC 3339 with all their digits, so without loss and on one line;
  adding a duration fails exactly when the result is out of range.\<close>

definition timestamp_laws :: "'z crypto_lib_scheme \<Rightarrow> bool" where
  "timestamp_laws X \<longleftrightarrow>
     (\<forall>s t. timestamp_to_string X s = timestamp_to_string X t \<longrightarrow> s = t)
   \<and> (\<forall>t. CHR ''\<newline>'' \<notin> set (timestamp_to_string X t))
   \<and> (\<forall>t d r. timestamp_checked_add X t d = Some r \<longleftrightarrow> ts_ns r = ts_ns t + d)"

section \<open>Consequences\<close>

lemma aead_lawsD:
  assumes "aead_laws X"
  shows aead_length: "length (fst (xchacha_encrypt_detached X k n a m)) = length m"
      "length (snd (xchacha_encrypt_detached X k n a m)) = 16"
    and aead_exact: "xchacha_decrypt X k n a c = Some m \<longleftrightarrow>
      c = fst (xchacha_encrypt_detached X k n a m) @ snd (xchacha_encrypt_detached X k n a m)"
  using assms by (simp_all add: aead_laws_def)

lemma kem_lawsD:
  assumes "kem_laws X"
  shows kem_public: "box_public X s = x25519_public X s"
    and kem_contributory: "x25519_contributory X s (x25519_public X t)"
    and kem_length: "length (box_encrypt X p s n m) = length m + 16"
    and kem_round_trip:
      "box_decrypt X (x25519_public X s) t n (box_encrypt X (x25519_public X t) s n m) = Some m"
  using assms by (simp_all add: kem_laws_def)

lemma ed25519_lawsD:
  assumes "ed25519_laws X"
  shows ed25519_length: "length (ed25519_sign X k m) = 64"
    and ed25519_public_ok: "ed25519_key_ok X (ed25519_public X k)"
    and ed25519_round_trip: "ed25519_verify_strict X (ed25519_public X k) m (ed25519_sign X k m)"
  using assms by (simp_all add: ed25519_laws_def)

lemma argon2_params_okI:
  "argon2_laws X \<Longrightarrow> 8 \<le> unat m \<Longrightarrow> unat m \<le> 65536 \<Longrightarrow> 1 \<le> unat t \<Longrightarrow> unat t \<le> 2
    \<Longrightarrow> argon2_params_ok X m t 1 32"
  by (simp add: argon2_laws_def)

lemma argon2id_ok:
  "argon2_laws X \<Longrightarrow> argon2_params_ok X m t p l \<Longrightarrow> length pw < 2 ^ 32 \<Longrightarrow> 8 \<le> length salt
    \<Longrightarrow> length salt < 2 ^ 32 \<Longrightarrow> \<exists>out. argon2id X m t p l pw salt = Some out \<and> length out = l"
  unfolding argon2_laws_def by blast

lemma argon2id_length: "argon2_laws X \<Longrightarrow> argon2id X m t p l pw salt = Some out \<Longrightarrow> length out = l"
  unfolding argon2_laws_def by blast

lemma base64_lawsD:
  assumes "base64_laws X"
  shows base64_round_trip: "base64_decode X (base64_encode X bs) = Some bs"
    and base64_ascii: "is_ascii (base64_encode X bs)"
    and base64_length: "length (base64_encode X bs) = (length bs + 2) div 3 * 4"
  using assms by (simp_all add: base64_laws_def)

lemma base32_lawsD:
  assumes "base32_laws X"
  shows base32_round_trip: "base32_decode X (base32_encode X bs) = Some bs"
    and base32_alphabet: "list_all base32_char (base32_encode X bs)"
  using assms by (simp_all add: base32_laws_def)

lemma uuid_lawsD:
  assumes "uuid_laws X"
  shows uuid_bytes_length: "length (uuid_as_bytes X u) = 16"
    and uuid_bytes_inj: "uuid_as_bytes X u = uuid_as_bytes X v \<longleftrightarrow> u = v"
    and uuid_parse_print: "uuid_parse X (uuid_to_string X u) = Some u"
    and uuid_string_length: "length (uuid_to_string X u) = 36"
    and uuid_string_alphabet: "list_all uuid_char (uuid_to_string X u)"
  using assms by (auto simp: uuid_laws_def)

lemma uuid_string_inj: "uuid_laws X \<Longrightarrow> uuid_to_string X u = uuid_to_string X v \<longleftrightarrow> u = v"
  by (metis uuid_parse_print option.inject)

lemma timestamp_lawsD:
  assumes "timestamp_laws X"
  shows timestamp_string_inj: "timestamp_to_string X s = timestamp_to_string X t \<longleftrightarrow> s = t"
    and timestamp_one_line: "CHR ''\<newline>'' \<notin> set (timestamp_to_string X t)"
    and timestamp_add: "timestamp_checked_add X t d = Some r \<longleftrightarrow> ts_ns r = ts_ns t + d"
  using assms by (auto simp: timestamp_laws_def)

end
