(* ===== verification/Wire.thy ===== *)
theory Wire
  imports Extern
begin

text \<open>
  \<open>error.rs\<close> and \<open>wire.rs\<close> of the crypto crate: the error type and the two-byte prefix
  (protocol version, format tag) every stored or transmitted blob carries.  The lemmas show
  that \<open>decode\<close> is exactly the partial inverse of \<open>encode\<close> and name the error of every
  other blob.
\<close>

section \<open>Errors\<close>

datatype crypto_error =
    InvalidKey string
  | InvalidCiphertext
  | AuthFailure
  | UnsupportedVersion u8
  | MalformedWire string
  | InvalidSignature
  | Kdf string
  | InvalidRecoveryKey
  | InvalidPasswordRecipe string
  | Import string
  | Export string
  | Canonicalization string

type_synonym 'a crypto_result = "crypto_error + 'a"

section \<open>The versioned prefix\<close>

definition PROTOCOL_VERSION :: u8 where "PROTOCOL_VERSION = 1"

datatype Tag = AeadXChaCha | SealedBox | HmacSha256 | Ed25519Sig | AccountWrap

fun tag_u8 :: "Tag \<Rightarrow> u8" where
  "tag_u8 AeadXChaCha = 1"
| "tag_u8 SealedBox = 2"
| "tag_u8 HmacSha256 = 3"
| "tag_u8 Ed25519Sig = 4"
| "tag_u8 AccountWrap = 5"

definition tag_from_u8 :: "u8 \<Rightarrow> Tag crypto_result" where
  "tag_from_u8 byte =
     (if byte = 1 then Inr AeadXChaCha
      else if byte = 2 then Inr SealedBox
      else if byte = 3 then Inr HmacSha256
      else if byte = 4 then Inr Ed25519Sig
      else if byte = 5 then Inr AccountWrap
      else Inl (MalformedWire ''unknown tag''))"

text \<open>The reserved capacity of \<open>encode_with_capacity\<close> has no effect on the contents.\<close>

definition encode_with_capacity :: "Tag \<Rightarrow> bytes \<Rightarrow> nat \<Rightarrow> bytes" where
  "encode_with_capacity tag payload additional = PROTOCOL_VERSION # tag_u8 tag # payload"

definition encode :: "Tag \<Rightarrow> bytes \<Rightarrow> bytes" where
  "encode tag payload = encode_with_capacity tag payload 0"

definition decode :: "bytes \<Rightarrow> (Tag \<times> bytes) crypto_result" where
  "decode blob =
     (if length blob < 2 then Inl (MalformedWire ''blob too short'')
      else if blob ! 0 \<noteq> PROTOCOL_VERSION then Inl (UnsupportedVersion (blob ! 0))
      else and_then (tag_from_u8 (blob ! 1)) (\<lambda>tag. Inr (tag, drop 2 blob)))"

definition decode_expecting :: "bytes \<Rightarrow> Tag \<Rightarrow> bytes crypto_result" where
  "decode_expecting blob expected =
     and_then (decode blob) (\<lambda>(tag, payload).
       if tag \<noteq> expected then Inl (MalformedWire ''unexpected tag'') else Inr payload)"

lemma tag_from_u8_eq_Inr: "tag_from_u8 b = Inr t \<longleftrightarrow> b = tag_u8 t"
  by (cases t) (auto simp: tag_from_u8_def split: if_splits)

lemma tag_u8_inj [simp]: "tag_u8 s = tag_u8 t \<longleftrightarrow> s = t"
  by (cases s; cases t) simp_all

lemma encode_conv: "encode tag payload = PROTOCOL_VERSION # tag_u8 tag # payload"
  by (simp add: encode_def encode_with_capacity_def)

lemma length_encode [simp]: "length (encode tag payload) = length payload + 2"
  by (simp add: encode_conv)

lemma encode_inj [framing]: "encode s p = encode t q \<longleftrightarrow> s = t \<and> p = q"
  by (simp add: encode_conv)

lemma decode_eq_Inr: "decode blob = Inr (tag, payload) \<longleftrightarrow> blob = encode tag payload"
proof (cases blob)
  case Nil
  then show ?thesis by (simp add: decode_def encode_conv)
next
  case (Cons v r)
  then show ?thesis
    by (cases r) (auto simp: decode_def encode_conv and_then_eq_Inr tag_from_u8_eq_Inr)
qed

lemma decode_expecting_eq_Inr [result_simps]:
  "decode_expecting blob tag = Inr payload \<longleftrightarrow> blob = encode tag payload"
  by (auto simp: decode_expecting_def and_then_eq_Inr decode_eq_Inr split: if_splits)

lemma decode_encode [simp]: "decode (encode tag payload) = Inr (tag, payload)"
  by (simp add: decode_eq_Inr)

lemma decode_expecting_encode [simp]: "decode_expecting (encode tag payload) tag = Inr payload"
  by (simp add: decode_expecting_eq_Inr)

section \<open>Properties\<close>

text \<open>Decoding inverts encoding and accepts nothing else: a blob decodes to a tag and a
  payload exactly when it is their encoding, and \<open>decode_expecting\<close> succeeds exactly on the
  encodings with the expected tag.\<close>

theorem wire_decode_exact:
  "(decode blob = Inr (tag, payload) \<longleftrightarrow> blob = encode tag payload)
   \<and> (decode_expecting blob tag = Inr payload \<longleftrightarrow> blob = encode tag payload)"
  by (simp add: decode_eq_Inr decode_expecting_eq_Inr)

end
