(* ===== verification/Reference_Lib.thy ===== *)
theory Reference_Lib
  imports Extern
begin

text \<open>
  A concrete, executable instance of the third-party interface that satisfies every law of
  \<open>Extern\<close>: checksums in place of the cryptography, hexadecimal in place of the text
  encodings.  It has no security whatever; it shows that the hypotheses of the theorems can
  hold together, and the witnesses compute with it.
\<close>

definition checksum :: "bytes \<Rightarrow> u8" where
  "checksum bs = fold (+) bs 7"

definition toy_encrypt :: "byte32 \<Rightarrow> bytes \<Rightarrow> bytes \<Rightarrow> bytes \<Rightarrow> bytes \<times> bytes" where
  "toy_encrypt k n a m = (m, replicate 16 (checksum (bytes32 k @ n @ a @ m)))"

definition toy_decrypt :: "byte32 \<Rightarrow> bytes \<Rightarrow> bytes \<Rightarrow> bytes \<Rightarrow> bytes option" where
  "toy_decrypt k n a c =
     (let m = take (length c - 16) c
      in if 16 \<le> length c \<and> drop (length c - 16) c = snd (toy_encrypt k n a m) then Some m else None)"

definition toy_x25519_public :: "byte32 \<Rightarrow> byte32" where
  "toy_x25519_public s = (if bytes32 s = replicate 32 0 then arr32 (replicate 32 1) else s)"

definition toy_box_tag :: "byte32 \<Rightarrow> byte32 \<Rightarrow> bytes \<Rightarrow> bytes \<Rightarrow> bytes" where
  "toy_box_tag p s n m =
     replicate 16 (checksum (bytes32 p) + checksum (bytes32 (toy_x25519_public s)) + checksum (n @ m))"

definition toy_box_decrypt :: "byte32 \<Rightarrow> byte32 \<Rightarrow> bytes \<Rightarrow> bytes \<Rightarrow> bytes option" where
  "toy_box_decrypt p s n c =
     (let m = take (length c - 16) c
      in if drop (length c - 16) c = toy_box_tag p s n m then Some m else None)"

definition toy_sign :: "byte32 \<Rightarrow> bytes \<Rightarrow> bytes" where
  "toy_sign k m = replicate 64 (checksum (bytes32 k @ m))"

definition toy_params_ok :: "u32 \<Rightarrow> u32 \<Rightarrow> u32 \<Rightarrow> nat \<Rightarrow> bool" where
  "toy_params_ok m t p l \<longleftrightarrow> 8 \<le> unat m \<and> 1 \<le> unat t \<and> 1 \<le> unat p \<and> 4 \<le> l"

definition toy_argon2id :: "u32 \<Rightarrow> u32 \<Rightarrow> u32 \<Rightarrow> nat \<Rightarrow> bytes \<Rightarrow> bytes \<Rightarrow> bytes option" where
  "toy_argon2id m t p l pw salt =
     (if length pw < 2 ^ 32 \<and> 8 \<le> length salt \<and> length salt < 2 ^ 32
      then Some (replicate l (checksum (pw @ salt))) else None)"

definition hex_encode :: "(nat \<Rightarrow> char) \<Rightarrow> bytes \<Rightarrow> string" where
  "hex_encode f bs = concat (map (\<lambda>b. [f (unat b div 16), f (unat b mod 16)]) bs)"

fun hex_decode :: "(char \<Rightarrow> nat option) \<Rightarrow> string \<Rightarrow> bytes option" where
  "hex_decode g [] = Some []"
| "hex_decode g [c] = None"
| "hex_decode g (c # d # s) =
     (case (g c, g d, hex_decode g s) of
        (Some h, Some l, Some bs) \<Rightarrow> Some (word_of_nat (16 * h + l) # bs)
      | _ \<Rightarrow> None)"

definition hex_char :: "nat \<Rightarrow> char" where
  "hex_char d = (if d < 10 then char_of (48 + d) else char_of (87 + d))"

definition hex_digit :: "char \<Rightarrow> nat option" where
  "hex_digit c = (if is_ascii_digit c then Some (of_char c - 48)
                  else if 97 \<le> (of_char c :: nat) \<and> of_char c \<le> (102 :: nat)
                  then Some (of_char c - 87) else None)"

definition letter_char :: "nat \<Rightarrow> char" where
  "letter_char d = char_of (65 + d)"

definition letter_digit :: "char \<Rightarrow> nat option" where
  "letter_digit c = (if 65 \<le> (of_char c :: nat) \<and> of_char c \<le> (80 :: nat)
                     then Some (of_char c - 65) else None)"

definition from_be :: "bytes \<Rightarrow> nat" where
  "from_be bs = foldl (\<lambda>v b. 256 * v + unat b) 0 bs"

definition toy_uuid_to_string :: "uuid \<Rightarrow> string" where
  "toy_uuid_to_string u = hex_encode hex_char (be_bytes 16 (unat u)) @ ''----''"

definition toy_uuid_parse :: "string \<Rightarrow> uuid option" where
  "toy_uuid_parse s =
     (if length s = 36 \<and> drop 32 s = ''----''
      then map_option (\<lambda>bs. word_of_nat (from_be bs)) (hex_decode hex_digit (to_ascii_lowercase (take 32 s))) else None)"

definition toy_timestamp_to_string :: "timestamp \<Rightarrow> string" where
  "toy_timestamp_to_string t = dec_string (nat (ts_ns t - TIMESTAMP_MIN))"

definition toy_timestamp_checked_add :: "timestamp \<Rightarrow> int \<Rightarrow> timestamp option" where
  "toy_timestamp_checked_add t d =
     (if TIMESTAMP_MIN \<le> ts_ns t + d \<and> ts_ns t + d \<le> TIMESTAMP_MAX
      then Some (Timestamp (ts_ns t + d)) else None)"

fun toy_number_to_string :: "json_number \<Rightarrow> string" where
  "toy_number_to_string (PosInt n) = dec_string (unat n)"
| "toy_number_to_string (NegInt n) = CHR ''-'' # dec_string (nat (- sint n))"
| "toy_number_to_string (Float n) = ''f'' @ dec_string (unat n)"

text \<open>A stand-in for base64: groups of three bytes become four 7-bit characters.\<close>

definition low7 :: "u8 \<Rightarrow> char" where "low7 b = char_of (unat b mod 128)"

definition high1 :: "u8 \<Rightarrow> nat" where "high1 b = unat b div 128"

fun toy_base64_encode :: "bytes \<Rightarrow> string" where
  "toy_base64_encode (a # b # c # bs) =
     [low7 a, low7 b, low7 c, char_of (high1 a + 2 * high1 b + 4 * high1 c)] @ toy_base64_encode bs"
| "toy_base64_encode [a, b] = [low7 a, low7 b, char_of (high1 a + 2 * high1 b), char_of (8 :: nat)]"
| "toy_base64_encode [a] = [low7 a, char_of (high1 a), char_of (0 :: nat), char_of (9 :: nat)]"
| "toy_base64_encode [] = []"

definition join7 :: "char \<Rightarrow> nat \<Rightarrow> u8" where "join7 l h = word_of_nat (of_char l + 128 * h)"

fun toy_base64_decode :: "string \<Rightarrow> bytes option" where
  "toy_base64_decode [] = Some []"
| "toy_base64_decode (w # x # y # z # cs) =
     (let h = of_char z :: nat; k = of_char y :: nat
      in if h < 8
         then map_option ((@) [join7 w (h mod 2), join7 x (h div 2 mod 2), join7 y (h div 4)]) (toy_base64_decode cs)
         else if cs \<noteq> [] then None
         else if h = 8 then Some [join7 w (k mod 2), join7 x (k div 2)]
         else Some [join7 w (of_char x)])"
| "toy_base64_decode _ = None"


definition toy_lib :: crypto_lib where
  "toy_lib =
    \<lparr> xchacha_encrypt_detached = toy_encrypt,
      xchacha_decrypt = toy_decrypt,
      x25519_public = toy_x25519_public,
      x25519_contributory = (\<lambda>s p. bytes32 p \<noteq> replicate 32 0),
      box_public = toy_x25519_public,
      box_encrypt = (\<lambda>p s n m. m @ toy_box_tag p s n m),
      box_decrypt = toy_box_decrypt,
      blake2b_24 = (\<lambda>bs. replicate 24 (checksum bs)),
      ed25519_public = (\<lambda>k. k),
      ed25519_key_ok = (\<lambda>k. True),
      ed25519_sign = toy_sign,
      ed25519_verify_strict = (\<lambda>p m s. s = toy_sign p m),
      argon2_params_ok = toy_params_ok,
      argon2id = toy_argon2id,
      hmac_sha256 = (\<lambda>k m. arr32 (replicate 32 (checksum (k @ m)))),
      sha256 = (\<lambda>m. arr32 (replicate 32 (checksum m))),
      base64_encode = toy_base64_encode,
      base64_decode = toy_base64_decode,
      base32_encode = hex_encode letter_char,
      base32_decode = hex_decode letter_digit,
      uuid_as_bytes = (\<lambda>u. be_bytes 16 (unat u)),
      uuid_to_string = toy_uuid_to_string,
      uuid_parse = toy_uuid_parse,
      timestamp_to_string = toy_timestamp_to_string,
      timestamp_checked_add = toy_timestamp_checked_add,
      json_write_string = (\<lambda>s. Some (34 # as_bytes s @ [34])),
      json_number_to_string = toy_number_to_string,
      unicode_lowercase = to_ascii_lowercase \<rparr>"

section \<open>The laws hold\<close>

lemma toy_aead_laws: "aead_laws toy_lib"
proof -
  have "toy_decrypt k n a c = Some m \<longleftrightarrow> c = m @ snd (toy_encrypt k n a m)" for k n a c m
  proof
    assume "toy_decrypt k n a c = Some m"
    then have "m = take (length c - 16) c" and "drop (length c - 16) c = snd (toy_encrypt k n a m)"
      by (auto simp: toy_decrypt_def Let_def split: if_splits)
    then show "c = m @ snd (toy_encrypt k n a m)"
      by (metis append_take_drop_id)
  next
    assume "c = m @ snd (toy_encrypt k n a m)"
    then show "toy_decrypt k n a c = Some m"
      by (simp add: toy_decrypt_def toy_encrypt_def)
  qed
  then show ?thesis
    by (simp add: aead_laws_def toy_lib_def toy_encrypt_def)
qed

lemma toy_kem_laws: "kem_laws toy_lib"
proof -
  have pub: "bytes32 (toy_x25519_public t) \<noteq> replicate 32 0" for t
    by (simp add: toy_x25519_public_def replicate_eq_replicate)
  have idem: "toy_x25519_public (toy_x25519_public t) = toy_x25519_public t" for t
    using pub [of t] by (subst toy_x25519_public_def) simp
  have "toy_box_tag (toy_x25519_public t) s n m = toy_box_tag (toy_x25519_public s) t n m" for s t n m
    by (simp add: toy_box_tag_def idem add.commute)
  then show ?thesis
    by (simp add: kem_laws_def toy_lib_def pub toy_box_decrypt_def toy_box_tag_def Let_def)
qed

lemma toy_ed25519_laws: "ed25519_laws toy_lib"
  by (simp add: ed25519_laws_def toy_lib_def toy_sign_def)

lemma toy_argon2_laws: "argon2_laws toy_lib"
  by (auto simp: argon2_laws_def toy_lib_def toy_params_ok_def toy_argon2id_def)

lemma hex_decode_encode:
  assumes "\<And>d. d < 16 \<Longrightarrow> g (f d) = Some d"
  shows "hex_decode g (hex_encode f bs) = Some bs"
proof (induction bs)
  case Nil
  then show ?case by (simp add: hex_encode_def)
next
  case (Cons b bs)
  have "unat b < 256" using unsigned_less [of b, where ?'a = nat] by simp
  then have "g (f (unat b div 16)) = Some (unat b div 16)" and "g (f (unat b mod 16)) = Some (unat b mod 16)"
    by (auto intro!: assms)
  moreover have "hex_encode f (b # bs) = f (unat b div 16) # f (unat b mod 16) # hex_encode f bs"
    by (simp add: hex_encode_def)
  ultimately show ?case using Cons.IH by simp
qed

lemma length_hex_encode [simp]: "length (hex_encode f bs) = 2 * length bs"
  by (induction bs) (simp_all add: hex_encode_def)

lemma set_hex_encode: "c \<in> set (hex_encode f bs) \<Longrightarrow> \<exists>d < 16. c = f d"
proof -
  assume "c \<in> set (hex_encode f bs)"
  then obtain b :: u8 where "c \<in> {f (unat b div 16), f (unat b mod 16)}"
    by (fastforce simp: hex_encode_def)
  moreover have "unat b < 256" using unsigned_less [of b, where ?'a = nat] by simp
  then have "unat b div 16 < 16" and "unat b mod 16 < 16" by simp_all
  ultimately show ?thesis by blast
qed

lemma toy_base32_laws: "base32_laws toy_lib"
proof -
  have "letter_digit (letter_char d) = Some d" if "d < 16" for d
    using that by (simp add: letter_digit_def letter_char_def of_char_of)
  moreover have "base32_char (letter_char d)" if "d < 16" for d
    using that by (simp add: base32_char_def letter_char_def of_char_of)
  ultimately show ?thesis
    by (auto simp: base32_laws_def toy_lib_def hex_decode_encode list_all_iff dest!: set_hex_encode)
qed

lemma hex_digit_char: "d < 16 \<Longrightarrow> hex_digit (hex_char d) = Some d"
  by (auto simp: hex_digit_def hex_char_def of_char_of is_ascii_digit_def)

lemma hex_char_ascii: "d < 16 \<Longrightarrow> uuid_char (hex_char d) \<and> of_char (hex_char d) < (128 :: nat)"
  by (auto simp: hex_char_def of_char_of is_ascii_digit_def uuid_char_def)

lemma high1_le: "high1 b \<le> 1"
  using unsigned_less [of b, where ?'a = nat] by (simp add: high1_def)

lemma join7_low7 [simp]: "join7 (low7 b) (high1 b) = b"
  using unsigned_less [of b, where ?'a = nat] by (simp add: join7_def low7_def high1_def of_char_of)

lemma high_bits:
  assumes "h \<le> 1" and "h' \<le> 1" and "h'' \<le> (1 :: nat)"
  shows "(h + 2 * h' + 4 * h'') mod 2 = h" "(h + 2 * h' + 4 * h'') div 2 mod 2 = h'" "(h + 2 * h' + 4 * h'') div 4 = h''"
    "h + 2 * h' + 4 * h'' < 8" "(h + 2 * h') mod 2 = h" "(h + 2 * h') div 2 = h'"
  using assms by presburger+

lemma toy_base64_round_trip: "toy_base64_decode (toy_base64_encode bs) = Some bs"
proof (induction bs rule: toy_base64_encode.induct)
  case (1 a b c bs)
  note hb = high_bits [OF high1_le [of a] high1_le [of b] high1_le [of c]]
  have "(high1 a + 2 * high1 b + 4 * high1 c) mod 256 = high1 a + 2 * high1 b + 4 * high1 c"
    using hb(4) by (intro mod_less) linarith
  with 1 hb show ?case by (simp add: of_char_of Let_def)
next
  case (2 a b)
  note hb = high_bits(5,6) [OF high1_le [of a] high1_le [of b] zero_le_one]
  have "(high1 a + 2 * high1 b) mod 256 = high1 a + 2 * high1 b"
    using high1_le [of a] high1_le [of b] by (intro mod_less) linarith
  with hb show ?case by (simp add: of_char_of Let_def)
next
  case (3 a)
  have "high1 a mod 256 = high1 a" using high1_le [of a] by (intro mod_less) linarith
  then show ?case by (simp add: of_char_of Let_def)
qed simp

lemma toy_base64_ascii: "is_ascii (toy_base64_encode bs)"
proof (induction bs rule: toy_base64_encode.induct)
  case (1 a b c bs)
  have "high1 a + 2 * high1 b + 4 * high1 c < 8" by (rule high_bits(4) [OF high1_le high1_le high1_le])
  with 1 show ?case by (simp add: is_ascii_def low7_def of_char_of)
next
  case (2 a b)
  have "high1 a + 2 * high1 b < 8" using high1_le [of a] high1_le [of b] by linarith
  then show ?case by (simp add: is_ascii_def low7_def of_char_of)
next
  case (3 a)
  have "high1 a < 8" using high1_le [of a] by linarith
  then show ?case by (simp add: is_ascii_def low7_def of_char_of)
qed simp

lemma toy_base64_length: "length (toy_base64_encode bs) = (length bs + 2) div 3 * 4"
proof (induction bs rule: toy_base64_encode.induct)
  case (1 a b c bs)
  then show ?case by simp presburger
qed simp_all

lemma toy_base64_laws: "base64_laws toy_lib"
  by (simp add: base64_laws_def toy_lib_def toy_base64_round_trip toy_base64_ascii toy_base64_length)

lemma from_be_be_bytes: "from_be (be_bytes n x) = x mod 256 ^ n"
proof (induction n arbitrary: x)
  case 0
  then show ?case by (simp add: from_be_def)
next
  case (Suc n)
  have "from_be (be_bytes (Suc n) x) = 256 * from_be (be_bytes n (x div 256)) + x mod 256"
    by (simp add: from_be_def unat_of_nat)
  with Suc show ?case by (simp add: mod_mult2_eq)
qed

lemma lower_hex_encode [simp]: "to_ascii_lowercase (hex_encode hex_char bs) = hex_encode hex_char bs"
proof -
  have "ascii_lower c = c" if "c \<in> set (hex_encode hex_char bs)" for c
    using set_hex_encode [OF that] by (auto simp: hex_char_def ascii_lower_def of_char_of split: if_splits)
  then show ?thesis by (simp add: to_ascii_lowercase_def map_idI)
qed

lemma toy_uuid_laws: "uuid_laws toy_lib"
proof -
  have lt: "unat u < 256 ^ 16" for u :: uuid
    using unsigned_less [of u, where ?'a = nat] by simp
  have "toy_uuid_parse (toy_uuid_to_string u) = Some u" for u
    using lt [of u]
    by (simp add: toy_uuid_parse_def toy_uuid_to_string_def hex_decode_encode hex_digit_char from_be_be_bytes)
  moreover have "be_bytes 16 (unat u) = be_bytes 16 (unat v) \<longrightarrow> u = v" for u v :: uuid
    using lt [of u] lt [of v] by (simp add: be_bytes_inj word_unat_eq_iff)
  moreover have dash: "uuid_char CHR ''-''" by (simp add: uuid_char_def)
  ultimately show ?thesis
    by (auto simp: uuid_laws_def toy_lib_def toy_uuid_to_string_def list_all_iff hex_char_ascii
      dash dest!: set_hex_encode)
qed

lemma toy_timestamp_laws: "timestamp_laws toy_lib"
proof -
  have range: "TIMESTAMP_MIN \<le> ts_ns t" "ts_ns t \<le> TIMESTAMP_MAX" for t
    using ts_ns [of t] by simp_all
  have "s = t" if "toy_timestamp_to_string s = toy_timestamp_to_string t" for s t
    using that range [of s] range [of t]
    by (simp add: toy_timestamp_to_string_def nat_eq_iff ts_ns_inject split: if_splits)
  moreover have "CHR ''\<newline>'' \<notin> set (toy_timestamp_to_string t)" for t
    unfolding toy_timestamp_to_string_def
    by (rule dec_string_not_mem) (simp add: is_ascii_digit_def)
  moreover have "toy_timestamp_checked_add t d = Some r \<longleftrightarrow> ts_ns r = ts_ns t + d" for t d r
    using range [of r] ts_ns_inverse [of r] by (auto simp: toy_timestamp_checked_add_def)
  ultimately show ?thesis by (simp add: timestamp_laws_def toy_lib_def)
qed

lemmas toy_laws [simp] = toy_aead_laws toy_kem_laws toy_ed25519_laws toy_argon2_laws toy_base64_laws
  toy_base32_laws toy_uuid_laws toy_timestamp_laws

text \<open>Records that extend the interface keep its functions, and with them its laws.\<close>

lemma extend_selectors [simp]:
  "xchacha_encrypt_detached (crypto_lib.extend r m) = xchacha_encrypt_detached r"
  "xchacha_decrypt (crypto_lib.extend r m) = xchacha_decrypt r"
  "x25519_public (crypto_lib.extend r m) = x25519_public r"
  "x25519_contributory (crypto_lib.extend r m) = x25519_contributory r"
  "box_public (crypto_lib.extend r m) = box_public r"
  "box_encrypt (crypto_lib.extend r m) = box_encrypt r"
  "box_decrypt (crypto_lib.extend r m) = box_decrypt r"
  "blake2b_24 (crypto_lib.extend r m) = blake2b_24 r"
  "ed25519_public (crypto_lib.extend r m) = ed25519_public r"
  "ed25519_key_ok (crypto_lib.extend r m) = ed25519_key_ok r"
  "ed25519_sign (crypto_lib.extend r m) = ed25519_sign r"
  "ed25519_verify_strict (crypto_lib.extend r m) = ed25519_verify_strict r"
  "argon2_params_ok (crypto_lib.extend r m) = argon2_params_ok r"
  "argon2id (crypto_lib.extend r m) = argon2id r"
  "hmac_sha256 (crypto_lib.extend r m) = hmac_sha256 r"
  "sha256 (crypto_lib.extend r m) = sha256 r"
  "base64_encode (crypto_lib.extend r m) = base64_encode r"
  "base64_decode (crypto_lib.extend r m) = base64_decode r"
  "base32_encode (crypto_lib.extend r m) = base32_encode r"
  "base32_decode (crypto_lib.extend r m) = base32_decode r"
  "uuid_as_bytes (crypto_lib.extend r m) = uuid_as_bytes r"
  "uuid_to_string (crypto_lib.extend r m) = uuid_to_string r"
  "uuid_parse (crypto_lib.extend r m) = uuid_parse r"
  "timestamp_to_string (crypto_lib.extend r m) = timestamp_to_string r"
  "timestamp_checked_add (crypto_lib.extend r m) = timestamp_checked_add r"
  "json_write_string (crypto_lib.extend r m) = json_write_string r"
  "json_number_to_string (crypto_lib.extend r m) = json_number_to_string r"
  "unicode_lowercase (crypto_lib.extend r m) = unicode_lowercase r"
  by (simp_all add: crypto_lib.defs)

lemma extend_laws [simp]:
  "aead_laws (crypto_lib.extend r m) \<longleftrightarrow> aead_laws r" "kem_laws (crypto_lib.extend r m) \<longleftrightarrow> kem_laws r"
  "ed25519_laws (crypto_lib.extend r m) \<longleftrightarrow> ed25519_laws r" "base64_laws (crypto_lib.extend r m) \<longleftrightarrow> base64_laws r"
  "uuid_laws (crypto_lib.extend r m) \<longleftrightarrow> uuid_laws r" "timestamp_laws (crypto_lib.extend r m) \<longleftrightarrow> timestamp_laws r"
  by (simp_all add: aead_laws_def kem_laws_def ed25519_laws_def base64_laws_def uuid_laws_def timestamp_laws_def)

text \<open>The witnesses draw their entropy from a constant stream.\<close>

lemma stake_nonzero: "shd e \<noteq> 0 \<Longrightarrow> stake 16 e \<noteq> replicate 16 (0 :: u8)"
  by (cases e) (simp add: numeral_eq_Suc)

end
