(* ===== verification/Keys.thy ===== *)
theory Keys
  imports Wire Reference_Lib
begin

text \<open>
  \<open>keys.rs\<close> and \<open>kem.rs\<close>: the key newtypes (all of them 32 bytes), identity keypairs, the
  user-facing spelling of the recovery key, and sealed boxes.  The symmetric newtypes differ
  only in name, so they are synonyms of \<open>byte32\<close>; zeroization and the redacted
  \<open>Debug\<close> output are memory hygiene without a functional effect.
\<close>

section \<open>Key types\<close>

type_synonym MasterKey = byte32
type_synonym AccountKey = byte32
type_synonym VaultKey = byte32
type_synonym RecoveryDerivedKey = byte32
type_synonym BlindIndexKey = byte32
type_synonym AttachmentKey = byte32
type_synonym ItemContentKey = byte32
type_synonym RecoveryKey = byte32
type_synonym IdentityKemPublicKey = byte32
type_synonym IdentityKemPrivateKey = byte32
type_synonym IdentitySigningPublicKey = byte32
type_synonym IdentitySigningPrivateKey = byte32

text \<open>\<open>random()\<close> of the \<open>symmetric_key!\<close> types.\<close>

definition symmetric_key_random :: "entropy \<Rightarrow> byte32 \<times> entropy" where
  "symmetric_key_random e = (let (bs, e') = fill_random 32 e in (arr32 bs, e'))"

definition key_from_slice :: "string \<Rightarrow> bytes \<Rightarrow> byte32 crypto_result" where
  "key_from_slice what bs =
     (if length bs \<noteq> 32 then Inl (InvalidKey what) else Inr (arr32 bs))"

definition IdentityKemPublicKey_from_slice :: "bytes \<Rightarrow> IdentityKemPublicKey crypto_result" where
  "IdentityKemPublicKey_from_slice = key_from_slice ''X25519 public key must be 32 bytes''"

definition IdentityKemPrivateKey_from_slice :: "bytes \<Rightarrow> IdentityKemPrivateKey crypto_result" where
  "IdentityKemPrivateKey_from_slice = key_from_slice ''X25519 private key must be 32 bytes''"

definition IdentitySigningPublicKey_from_slice :: "bytes \<Rightarrow> IdentitySigningPublicKey crypto_result" where
  "IdentitySigningPublicKey_from_slice = key_from_slice ''Ed25519 public key must be 32 bytes''"

definition IdentitySigningPrivateKey_from_slice :: "bytes \<Rightarrow> IdentitySigningPrivateKey crypto_result" where
  "IdentitySigningPrivateKey_from_slice = key_from_slice ''Ed25519 private key must be 32 bytes''"

record IdentityKemKeypair =
  kem_public :: IdentityKemPublicKey
  kem_private :: IdentityKemPrivateKey

record IdentitySigningKeypair =
  signing_public :: IdentitySigningPublicKey
  signing_private :: IdentitySigningPrivateKey

definition IdentityKemKeypair_from_private ::
  "'z crypto_lib_scheme \<Rightarrow> IdentityKemPrivateKey \<Rightarrow> IdentityKemKeypair" where
  "IdentityKemKeypair_from_private X private =
     \<lparr> kem_public = x25519_public X private, kem_private = private \<rparr>"

definition IdentityKemKeypair_generate ::
  "'z crypto_lib_scheme \<Rightarrow> entropy \<Rightarrow> IdentityKemKeypair \<times> entropy" where
  "IdentityKemKeypair_generate X e =
     (let (private, e') = fill_random 32 e; secret = arr32 private
      in (\<lparr> kem_public = x25519_public X secret, kem_private = secret \<rparr>, e'))"

definition IdentitySigningKeypair_from_private ::
  "'z crypto_lib_scheme \<Rightarrow> IdentitySigningPrivateKey \<Rightarrow> IdentitySigningKeypair" where
  "IdentitySigningKeypair_from_private X private =
     \<lparr> signing_public = ed25519_public X private, signing_private = private \<rparr>"

definition IdentitySigningKeypair_generate ::
  "'z crypto_lib_scheme \<Rightarrow> entropy \<Rightarrow> IdentitySigningKeypair \<times> entropy" where
  "IdentitySigningKeypair_generate X e =
     (let (private, e') = fill_random 32 e; signing = arr32 private
      in (\<lparr> signing_public = ed25519_public X signing, signing_private = signing \<rparr>, e'))"

section \<open>The recovery key on paper\<close>

text \<open>The loop of \<open>to_display_string\<close>, from character \<open>i\<close> on.  The encoder's output is ASCII,
  so its characters are its bytes.\<close>

fun hyphenate :: "nat \<Rightarrow> string \<Rightarrow> string" where
  "hyphenate i [] = []"
| "hyphenate i (ch # rest) =
     (if 0 < i \<and> i mod 4 = 0 then CHR ''-'' # ch # hyphenate (Suc i) rest
      else ch # hyphenate (Suc i) rest)"

definition to_display_string :: "'z crypto_lib_scheme \<Rightarrow> RecoveryKey \<Rightarrow> string" where
  "to_display_string X k = hyphenate 0 (base32_encode X (bytes32 k))"

definition clean_display :: "nat list \<Rightarrow> nat list" where
  "clean_display cs =
     map (\<lambda>c. if 97 \<le> c \<and> c \<le> 122 then c - 32 else c)
       (filter (\<lambda>c. \<not> is_whitespace c \<and> c \<noteq> 45) cs)"

definition from_display_string :: "'z crypto_lib_scheme \<Rightarrow> string \<Rightarrow> RecoveryKey crypto_result" where
  "from_display_string X s =
     (let cleaned = (case scalars s of None \<Rightarrow> s | Some cs \<Rightarrow> string_of_scalars (clean_display cs))
      in and_then (ok_or InvalidRecoveryKey (base32_decode X cleaned)) (\<lambda>decoded.
           if length decoded \<noteq> 32 then Inl InvalidRecoveryKey else Inr (arr32 decoded)))"

section \<open>Sealed boxes\<close>

definition sealed_box_nonce :: "'z crypto_lib_scheme \<Rightarrow> byte32 \<Rightarrow> byte32 \<Rightarrow> bytes" where
  "sealed_box_nonce X ephemeral_pk recipient_pk =
     blake2b_24 X (bytes32 ephemeral_pk @ bytes32 recipient_pk)"

definition seal :: "'z crypto_lib_scheme \<Rightarrow> IdentityKemPublicKey \<Rightarrow> bytes \<Rightarrow> entropy \<Rightarrow> bytes \<times> entropy" where
  "seal X recipient plaintext e =
     (let (ephemeral_private, e') = fill_random 32 e;
          ephemeral_sk = arr32 ephemeral_private;
          ephemeral_pk = box_public X ephemeral_sk;
          nonce = sealed_box_nonce X ephemeral_pk recipient;
          ct = box_encrypt X recipient ephemeral_sk nonce plaintext
      in (encode SealedBox (bytes32 ephemeral_pk @ ct), e'))"

definition unseal :: "'z crypto_lib_scheme \<Rightarrow> IdentityKemPrivateKey \<Rightarrow> bytes \<Rightarrow> bytes crypto_result" where
  "unseal X private blob =
     and_then (decode_expecting blob SealedBox) (\<lambda>payload.
       if length payload < 32 + 16 then Inl InvalidCiphertext
       else let ephemeral = arr32 (take 32 payload) in
         if \<not> x25519_contributory X private ephemeral
         then Inl (InvalidKey ''low-order ephemeral public key'')
         else let recipient_pk = box_public X private;
                  nonce = sealed_box_nonce X ephemeral recipient_pk
              in ok_or AuthFailure (box_decrypt X ephemeral private nonce (drop 32 payload)))"

section \<open>Lemmas\<close>

lemma key_from_slice_iff [result_simps]: "key_from_slice what bs = Inr k \<longleftrightarrow> bs = bytes32 k"
  by (auto simp: key_from_slice_def bytes32_inverse)

lemmas from_slice_defs = IdentityKemPublicKey_from_slice_def IdentityKemPrivateKey_from_slice_def
  IdentitySigningPublicKey_from_slice_def IdentitySigningPrivateKey_from_slice_def

lemma generate_from_private:
  "IdentityKemKeypair_generate X e =
     (IdentityKemKeypair_from_private X (arr32 (stake 32 e)), sdrop 32 e)"
  "IdentitySigningKeypair_generate X e =
     (IdentitySigningKeypair_from_private X (arr32 (stake 32 e)), sdrop 32 e)"
  by (simp_all add: IdentityKemKeypair_generate_def IdentityKemKeypair_from_private_def
    IdentitySigningKeypair_generate_def IdentitySigningKeypair_from_private_def fill_random_def Let_def)

lemma unseal_seal:
  assumes "kem_laws X"
  shows "unseal X s (fst (seal X (x25519_public X s) m e)) = Inr m"
  by (simp add: seal_def unseal_def fill_random_def Let_def kem_lawsD [OF assms] bytes32_inverse)

lemma filter_hyphenate:
  "list_all base32_char s \<Longrightarrow>
     filter (\<lambda>c. \<not> is_whitespace c \<and> c \<noteq> 45) (map of_char (hyphenate i s)) = map of_char s"
  by (induction s arbitrary: i) (auto simp: base32_char_def is_whitespace_def)

lemma clean_hyphenate:
  assumes "list_all base32_char s"
  shows "clean_display (map of_char (hyphenate i s)) = map of_char s"
  unfolding clean_display_def filter_hyphenate [OF assms]
  using assms by (induction s) (auto simp: base32_char_def)

lemma hyphenate_ascii: "list_all base32_char s \<Longrightarrow> is_ascii (hyphenate i s)"
  by (induction s arbitrary: i) (auto simp: base32_char_def)

lemma base32_string: "list_all base32_char s \<Longrightarrow> string_of_scalars (map of_char s) = s"
  by (subst string_of_scalars_ascii) (auto simp: list_all_iff base32_char_def o_def)

text \<open>What the user retypes may differ from the printed key in the case of its letters and in
  hyphens and white space anywhere.\<close>

lemma from_display_string_cleaned:
  assumes "base32_laws X" and "scalars s = Some cs"
    and "clean_display cs = map of_char (base32_encode X (bytes32 k))"
  shows "from_display_string X s = Inr k"
  using assms
  by (simp add: from_display_string_def base32_string base32_lawsD bytes32_inverse)

lemma displayed_key_parses:
  assumes "base32_laws X"
  shows "from_display_string X (to_display_string X k) = Inr k"
proof -
  let ?t = "base32_encode X (bytes32 k)"
  have t: "list_all base32_char ?t" by (rule base32_alphabet [OF assms])
  have "scalars (hyphenate 0 ?t) = Some (map of_char (hyphenate 0 ?t))"
    by (rule scalars_ascii, rule hyphenate_ascii, rule t)
  from from_display_string_cleaned [OF assms this clean_hyphenate [OF t]]
  show ?thesis by (simp add: to_display_string_def)
qed

section \<open>Properties\<close>

text \<open>The printed recovery key reads back: after printing, parsing gives the key again, and
  so does any retyping whose letters, in either case, and digits are the printed ones with
  white space and hyphens inserted or dropped anywhere.\<close>

theorem recovery_key_round_trip:
  assumes "base32_laws X"
  shows "from_display_string X (to_display_string X k) = Inr k
     \<and> (scalars s = Some cs \<and> clean_display cs = map of_char (base32_encode X (bytes32 k)) \<longrightarrow>
          from_display_string X s = Inr k)"
  using displayed_key_parses [OF assms] from_display_string_cleaned [OF assms] by blast

theorem recovery_key_round_trip_witness:
  "from_display_string toy_lib (to_display_string toy_lib (arr32 (replicate 32 200))) = Inr (arr32 (replicate 32 200))"
  using recovery_key_round_trip [OF toy_base32_laws] by blast

text \<open>Sealed boxes: what is sealed to the public key of a private key opens with it; and a
  blob whose ephemeral public key is not contributory is rejected before the cipher is
  consulted, whatever the rest of it is.\<close>

theorem sealed_box_round_trip:
  assumes "kem_laws X"
  shows "unseal X s (fst (seal X (x25519_public X s) m e)) = Inr m
     \<and> (\<not> x25519_contributory X s (arr32 eph) \<and> length eph = 32 \<and> 16 \<le> length rest \<longrightarrow>
          unseal X s (encode SealedBox (eph @ rest)) = Inl (InvalidKey ''low-order ephemeral public key''))"
  using unseal_seal [OF assms] by (auto simp: unseal_def Let_def)

theorem sealed_box_round_trip_witness:
  "unseal toy_lib (arr32 (replicate 32 3)) (encode SealedBox (replicate 32 0 @ replicate 20 9))
     = Inl (InvalidKey ''low-order ephemeral public key'')"
proof -
  have "\<not> x25519_contributory toy_lib (arr32 (replicate 32 3)) (arr32 (replicate 32 0))"
    by (simp add: toy_lib_def)
  with sealed_box_round_trip [OF toy_kem_laws, of "arr32 (replicate 32 3)" _ _ "replicate 32 0" "replicate 20 9"]
  show ?thesis by simp
qed

end
