(* ===== verification/Aead.thy ===== *)
theory Aead
  imports Wire Reference_Lib
begin

text \<open>
  \<open>aead.rs\<close>: XChaCha20-Poly1305 envelopes
  \<open>version || tag || nonce(24) || ciphertext || tag(16)\<close>.  Besides the round trip the
  lemmas characterise exactly which blobs open, and the locale \<open>sealed_slot\<close> turns that into
  the contract of a storage slot: a pair of seal and open operations that bind the slot's
  identity as additional authenticated data.  Every place of the program that stores a
  ciphertext (account wraps, vault keys, names, items, attachments) is an interpretation.
\<close>

definition NONCE_LEN :: nat where "NONCE_LEN = 24"

definition xchacha20_encrypt_with_aad ::
  "'z crypto_lib_scheme \<Rightarrow> byte32 \<Rightarrow> bytes \<Rightarrow> bytes \<Rightarrow> entropy \<Rightarrow> bytes \<times> entropy" where
  "xchacha20_encrypt_with_aad X key plaintext aad e =
     (let (nonce, e') = fill_random NONCE_LEN e;
          envelope = encode_with_capacity AeadXChaCha nonce (length plaintext + 16);
          (ct, tag) = xchacha_encrypt_detached X key nonce aad plaintext
      in (envelope @ ct @ tag, e'))"

definition xchacha20_encrypt :: "'z crypto_lib_scheme \<Rightarrow> byte32 \<Rightarrow> bytes \<Rightarrow> entropy \<Rightarrow> bytes \<times> entropy" where
  "xchacha20_encrypt X key plaintext e = xchacha20_encrypt_with_aad X key plaintext [] e"

definition xchacha20_decrypt_with_aad ::
  "'z crypto_lib_scheme \<Rightarrow> byte32 \<Rightarrow> bytes \<Rightarrow> bytes \<Rightarrow> bytes crypto_result" where
  "xchacha20_decrypt_with_aad X key blob aad =
     and_then (decode_expecting blob AeadXChaCha) (\<lambda>payload.
       if length payload < NONCE_LEN + 16 then Inl InvalidCiphertext
       else ok_or AuthFailure
              (xchacha_decrypt X key (take NONCE_LEN payload) aad (drop NONCE_LEN payload)))"

text \<open>\<open>decrypt\<close> without a \<open>Payload\<close> authenticates the empty associated data.\<close>

definition xchacha20_decrypt :: "'z crypto_lib_scheme \<Rightarrow> byte32 \<Rightarrow> bytes \<Rightarrow> bytes crypto_result" where
  "xchacha20_decrypt X key blob =
     and_then (decode_expecting blob AeadXChaCha) (\<lambda>payload.
       if length payload < NONCE_LEN + 16 then Inl InvalidCiphertext
       else ok_or AuthFailure
              (xchacha_decrypt X key (take NONCE_LEN payload) [] (drop NONCE_LEN payload)))"

text \<open>The envelope of a message under a given nonce.\<close>

definition envelope :: "'z crypto_lib_scheme \<Rightarrow> byte32 \<Rightarrow> bytes \<Rightarrow> bytes \<Rightarrow> bytes \<Rightarrow> bytes" where
  "envelope X key nonce aad m =
     encode AeadXChaCha (nonce @ fst (xchacha_encrypt_detached X key nonce aad m)
                               @ snd (xchacha_encrypt_detached X key nonce aad m))"

lemma encrypt_eq_envelope:
  "xchacha20_encrypt_with_aad X k m a e = (envelope X k (stake 24 e) a m, sdrop 24 e)"
  by (simp add: xchacha20_encrypt_with_aad_def fill_random_def NONCE_LEN_def envelope_def
    encode_conv encode_with_capacity_def case_prod_beta)

lemma decrypt_no_aad: "xchacha20_decrypt X k b = xchacha20_decrypt_with_aad X k b []"
  by (simp add: xchacha20_decrypt_def xchacha20_decrypt_with_aad_def)

lemma decrypt_eq_Inr:
  assumes "aead_laws X"
  shows "xchacha20_decrypt_with_aad X k b a = Inr m \<longleftrightarrow>
           (\<exists>nonce. length nonce = 24 \<and> b = envelope X k nonce a m)"
    (is "?opens \<longleftrightarrow> ?sealed")
proof
  assume ?opens
  then obtain p where p: "b = encode AeadXChaCha p" "length p \<ge> 40"
      and d: "xchacha_decrypt X k (take 24 p) a (drop 24 p) = Some m"
    by (auto simp: xchacha20_decrypt_with_aad_def result_simps NONCE_LEN_def split: if_splits)
  from d have "drop 24 p = fst (xchacha_encrypt_detached X k (take 24 p) a m)
      @ snd (xchacha_encrypt_detached X k (take 24 p) a m)"
    by (simp add: aead_exact [OF assms])
  then have "b = envelope X k (take 24 p) a m"
    unfolding envelope_def p(1) by (metis append_take_drop_id)
  with p(2) show ?sealed by (intro exI [of _ "take 24 p"]) simp
next
  assume ?sealed
  then obtain nonce where "length nonce = 24" and b: "b = envelope X k nonce a m" by blast
  moreover from this have "length (fst (xchacha_encrypt_detached X k nonce a m)
      @ snd (xchacha_encrypt_detached X k nonce a m)) \<ge> 16"
    by (simp add: aead_length [OF assms])
  moreover have "xchacha_decrypt X k nonce a (fst (xchacha_encrypt_detached X k nonce a m)
      @ snd (xchacha_encrypt_detached X k nonce a m)) = Some m"
    by (simp add: aead_exact [OF assms])
  ultimately show ?opens
    by (simp add: xchacha20_decrypt_with_aad_def envelope_def NONCE_LEN_def)
qed

text \<open>\<open>b\<close> is an envelope of \<open>m\<close> under key \<open>k\<close> and associated data \<open>a\<close>, for some nonce.\<close>

definition sealed_as :: "'z crypto_lib_scheme \<Rightarrow> byte32 \<Rightarrow> bytes \<Rightarrow> bytes \<Rightarrow> bytes \<Rightarrow> bool" where
  "sealed_as X k a m b \<longleftrightarrow> (\<exists>nonce. length nonce = 24 \<and> b = envelope X k nonce a m)"

lemma decrypt_iff_sealed:
  "aead_laws X \<Longrightarrow> xchacha20_decrypt_with_aad X k b a = Inr m \<longleftrightarrow> sealed_as X k a m b"
  by (simp add: decrypt_eq_Inr sealed_as_def)

lemma encrypt_sealed:
  "xchacha20_encrypt_with_aad X k m a e = (b, e') \<Longrightarrow> sealed_as X k a m b"
  by (auto simp: encrypt_eq_envelope sealed_as_def intro: exI [of _ "stake 24 e"])

lemma sealed_envelope [simp]: "length n = 24 \<Longrightarrow> sealed_as X k a m (envelope X k n a m)"
  by (auto simp: sealed_as_def)

lemma decrypt_envelope:
  "aead_laws X \<Longrightarrow> length nonce = 24 \<Longrightarrow> xchacha20_decrypt_with_aad X k (envelope X k nonce a m) a = Inr m"
  by (auto simp: decrypt_eq_Inr)

lemma decrypt_encrypt:
  "aead_laws X \<Longrightarrow> xchacha20_decrypt_with_aad X k (fst (xchacha20_encrypt_with_aad X k m a e)) a = Inr m"
  by (simp add: encrypt_eq_envelope decrypt_envelope)

lemma length_envelope:
  "aead_laws X \<Longrightarrow> length nonce = 24 \<Longrightarrow> length (envelope X k nonce a m) = length m + 42"
  by (simp add: envelope_def aead_length)

text \<open>Every failure of decryption, with its error.\<close>

lemma decrypt_errors:
  shows "decode_expecting b AeadXChaCha = Inl er \<Longrightarrow> xchacha20_decrypt_with_aad X k b a = Inl er"
    and "decode_expecting b AeadXChaCha = Inr p \<Longrightarrow> length p < 40 \<Longrightarrow>
           xchacha20_decrypt_with_aad X k b a = Inl InvalidCiphertext"
    and "decode_expecting b AeadXChaCha = Inr p \<Longrightarrow> 40 \<le> length p \<Longrightarrow>
           xchacha_decrypt X k (take 24 p) a (drop 24 p) = None \<Longrightarrow>
           xchacha20_decrypt_with_aad X k b a = Inl AuthFailure"
  by (simp_all add: xchacha20_decrypt_with_aad_def NONCE_LEN_def)

section \<open>Collisions of the primitive\<close>

text \<open>
  The blob \<open>b\<close> is what the cipher returns for two inputs that differ in key or associated
  data: \<open>k, a, m\<close> and \<open>k', a', m'\<close> under the one nonce that stands in \<open>b\<close>.  Nothing
  computable excludes that (a tag has 16 bytes), so a blob that opens in two places is not
  impossible; it is always such a collision, with the two plaintexts that were read.
\<close>

definition aead_collision ::
  "'z crypto_lib_scheme \<Rightarrow> bytes \<Rightarrow> byte32 \<times> bytes \<times> bytes \<Rightarrow> byte32 \<times> bytes \<times> bytes \<Rightarrow> bool" where
  "aead_collision X b i i' \<longleftrightarrow>
     (case (i, i') of ((k, a, m), (k', a', m')) \<Rightarrow>
        (k, a) \<noteq> (k', a') \<and>
        (\<exists>nonce ct tag. length nonce = 24 \<and> b = encode AeadXChaCha (nonce @ ct @ tag)
           \<and> xchacha_encrypt_detached X k nonce a m = (ct, tag)
           \<and> xchacha_encrypt_detached X k' nonce a' m' = (ct, tag)))"

lemma envelope_eq_iff:
  assumes "aead_laws X" and "length n = 24" and "length n' = 24"
  shows "envelope X k n a m = envelope X k' n' a' m' \<longleftrightarrow>
           n = n' \<and> xchacha_encrypt_detached X k n a m = xchacha_encrypt_detached X k' n a' m'"
    (is "?l \<longleftrightarrow> ?r")
proof
  assume ?l
  then have n: "n = n'" and ct: "fst (xchacha_encrypt_detached X k n a m) @ snd (xchacha_encrypt_detached X k n a m)
      = fst (xchacha_encrypt_detached X k' n a' m') @ snd (xchacha_encrypt_detached X k' n a' m')"
    using assms(2,3) by (auto simp: envelope_def encode_inj)
  from ct have "snd (xchacha_encrypt_detached X k n a m) = snd (xchacha_encrypt_detached X k' n a' m')"
    using aead_length(2) [OF assms(1)] by (metis append_eq_append_conv)
  with n ct show ?r by (auto intro: prod_eqI)
qed (auto simp: envelope_def)

lemma sealed_twice_collision:
  assumes "aead_laws X" and "sealed_as X k a m b" and "sealed_as X k' a' m' b" and "(k, a) \<noteq> (k', a')"
  shows "aead_collision X b (k, a, m) (k', a', m')"
proof -
  from assms(2,3) obtain n n' where n: "length n = 24" "length n' = 24"
      and b: "b = envelope X k n a m" "b = envelope X k' n' a' m'"
    by (auto simp: sealed_as_def)
  then have eq: "xchacha_encrypt_detached X k n a m = xchacha_encrypt_detached X k' n a' m'"
    using envelope_eq_iff [OF assms(1) n] by metis
  obtain ct tag where ct: "xchacha_encrypt_detached X k n a m = (ct, tag)" by fastforce
  with eq have "xchacha_encrypt_detached X k' n a' m' = (ct, tag)" by simp
  moreover from b(1) ct have "b = encode AeadXChaCha (n @ ct @ tag)" by (simp add: envelope_def)
  ultimately show ?thesis using n(1) ct assms(4) unfolding aead_collision_def by blast
qed

section \<open>Storage slots\<close>

text \<open>
  The contract every storage location of the program keeps: a value of type \<open>'v\<close> is written
  as bytes, sealed with associated data computed from the location's identity \<open>'c\<close>, and read
  back by the inverse.  \<open>slot_ok\<close> restricts the identities where the associated data needs it
  to be injective, \<open>storable\<close> the values where reading back needs it.
\<close>

locale sealed_slot =
  fixes slot_aad :: "'c \<Rightarrow> bytes"
    and slot_ok :: "'c \<Rightarrow> bool"
    and payload :: "'v \<Rightarrow> bytes"
    and storable :: "'v \<Rightarrow> bool"
    and parse :: "bytes \<Rightarrow> 'v crypto_result"
    and slot_seal :: "'z crypto_lib_scheme \<Rightarrow> byte32 \<Rightarrow> 'c \<Rightarrow> 'v \<Rightarrow> entropy \<Rightarrow> bytes \<times> entropy"
    and slot_open :: "'z crypto_lib_scheme \<Rightarrow> byte32 \<Rightarrow> 'c \<Rightarrow> bytes \<Rightarrow> 'v crypto_result"
  assumes slot_seal_conv: "slot_seal X k c v e = xchacha20_encrypt_with_aad X k (payload v) (slot_aad c) e"
    and slot_open_conv: "slot_open X k c b = and_then (xchacha20_decrypt_with_aad X k b (slot_aad c)) parse"
    and parse_payload: "storable v \<Longrightarrow> parse (payload v) = Inr v"
    and parse_exact: "parse bs = Inr v \<Longrightarrow> bs = payload v \<and> storable v"
    and slot_aad_inj: "slot_ok c \<Longrightarrow> slot_ok c' \<Longrightarrow> slot_aad c = slot_aad c' \<Longrightarrow> c = c'"
begin

lemma open_seal: "aead_laws X \<Longrightarrow> storable v \<Longrightarrow> slot_open X k c (fst (slot_seal X k c v e)) = Inr v"
  by (simp add: slot_seal_conv slot_open_conv decrypt_encrypt parse_payload)

lemma open_exact:
  assumes "aead_laws X"
  shows "slot_open X k c b = Inr v \<longleftrightarrow>
     storable v \<and> sealed_as X k (slot_aad c) (payload v) b"
  using assms parse_payload parse_exact
  by (auto simp: slot_open_conv and_then_eq_Inr decrypt_iff_sealed)

lemma length_sealed: "aead_laws X \<Longrightarrow> length (fst (slot_seal X k c v e)) = length (payload v) + 42"
  by (simp add: slot_seal_conv encrypt_eq_envelope length_envelope)

lemma misplaced_blob:
  assumes "aead_laws X" and "slot_open X k c b = Inr v" and "slot_open X k c' b = Inr v'"
    and "slot_ok c" and "slot_ok c'" and "c \<noteq> c'"
  shows "aead_collision X b (k, slot_aad c, payload v) (k, slot_aad c', payload v')"
proof -
  have "slot_aad c \<noteq> slot_aad c'" using assms(4-6) slot_aad_inj by blast
  with assms(2,3) show ?thesis
    by (intro sealed_twice_collision) (simp_all add: assms(1) open_exact)
qed

end

text \<open>The two ways the program reads a payload back: as UTF-8 text and as a 32-byte key.\<close>

definition parse_text :: "bytes \<Rightarrow> string crypto_result" where
  "parse_text bs = ok_or InvalidCiphertext (from_utf8 bs)"

definition parse_key :: "crypto_error \<Rightarrow> bytes \<Rightarrow> byte32 crypto_result" where
  "parse_key er bs = ok_or er (to_byte32 bs)"

lemma parse_text_iff: "parse_text bs = Inr s \<longleftrightarrow> bs = as_bytes s \<and> str_ok s"
  by (simp add: parse_text_def ok_or_eq_Inr from_utf8_eq_Some)

lemma parse_key_iff: "parse_key er bs = Inr k \<longleftrightarrow> bs = bytes32 k"
  by (simp add: parse_key_def ok_or_eq_Inr to_byte32_eq_Some)

lemma parse_key_if:
  "parse_key er bs = (if length bs \<noteq> 32 then Inl er else Inr (arr32 bs))"
  by (simp add: parse_key_def to_byte32_def)

lemma parse_text_eta: "(\<lambda>pt. ok_or InvalidCiphertext (from_utf8 pt)) = parse_text"
  by (simp add: fun_eq_iff parse_text_def)

lemma parse_key_eta: "(\<lambda>pt. ok_or er (to_byte32 pt)) = parse_key er"
  by (simp add: fun_eq_iff parse_key_def)

section \<open>Properties\<close>

text \<open>Envelopes: what is encrypted decrypts to itself under the same key and associated
  data; the envelope is 42 bytes longer than the message; and a blob decrypts to \<open>m\<close> only if it
  is an envelope of \<open>m\<close> under exactly this key and this associated data.\<close>

theorem aead_envelope_exact:
  assumes "aead_laws X"
  shows "xchacha20_decrypt_with_aad X k (fst (xchacha20_encrypt_with_aad X k m a e)) a = Inr m
     \<and> length (fst (xchacha20_encrypt_with_aad X k m a e)) = length m + 42
     \<and> (xchacha20_decrypt_with_aad X k b a = Inr m \<longleftrightarrow>
          (\<exists>nonce. length nonce = 24 \<and> fst (xchacha20_encrypt_with_aad X k m a (nonce @- e)) = b))"
proof -
  have "fst (xchacha20_encrypt_with_aad X k m a (nonce @- e)) = envelope X k nonce a m" if "length nonce = 24" for nonce
    using that by (simp add: encrypt_eq_envelope stake_shift)
  then have "xchacha20_decrypt_with_aad X k b a = Inr m \<longleftrightarrow>
      (\<exists>nonce. length nonce = 24 \<and> fst (xchacha20_encrypt_with_aad X k m a (nonce @- e)) = b)"
    unfolding decrypt_eq_Inr [OF assms] by auto
  moreover have "length (fst (xchacha20_encrypt_with_aad X k m a e)) = length m + 42"
    by (simp add: encrypt_eq_envelope length_envelope [OF assms])
  ultimately show ?thesis using decrypt_encrypt [OF assms] by blast
qed

theorem aead_envelope_exact_witness:
  "xchacha20_decrypt_with_aad toy_lib (arr32 (replicate 32 3))
     (fst (xchacha20_encrypt_with_aad toy_lib (arr32 (replicate 32 3)) [1, 2] [7] (sconst 1))) [7] = Inr [1, 2]"
  using aead_envelope_exact [OF toy_aead_laws] by blast

end
