(* ===== verification/Item_Crypto.thy ===== *)
theory Item_Crypto
  imports Item_Content Keys Aead
begin

text \<open>
  The second half of \<open>protocol/item.rs\<close>: sealing of item bodies, titles, tags, metadata and
  usage times, and the per-item content keys.  JSON encoding of the content structs is code
  generated by serde and serde\_json; \<open>item_lib\<close> extends the third-party interface by its two
  directions for each of the two types that are stored as JSON.
\<close>

record item_lib = crypto_lib +
  content_to_json :: "ItemContent \<Rightarrow> bytes option"
  content_from_json :: "bytes \<Rightarrow> ItemContent option"
  tags_to_json :: "string list \<Rightarrow> bytes option"
  tags_from_json :: "bytes \<Rightarrow> string list option"

definition item_json_laws :: "'z item_lib_scheme \<Rightarrow> bool" where
  "item_json_laws X \<longleftrightarrow>
     (\<forall>c bs. content_to_json X c = Some bs \<longrightarrow> content_from_json X bs = Some c)
   \<and> (\<forall>ts bs. tags_to_json X ts = Some bs \<longrightarrow> tags_from_json X bs = Some ts)"

section \<open>Associated data\<close>

definition body_aad :: "bytes \<Rightarrow> bytes" where
  "body_aad item_id = as_bytes ''body:'' @ item_id"

definition title_aad :: "bytes \<Rightarrow> bytes" where
  "title_aad item_id = as_bytes ''title:'' @ item_id"

definition tags_aad :: "bytes \<Rightarrow> bytes" where
  "tags_aad item_id = as_bytes ''tags:'' @ item_id"

definition metadata_aad :: "bytes \<Rightarrow> bytes" where
  "metadata_aad item_id = as_bytes ''item-metadata:'' @ item_id"

definition last_used_aad :: "bytes \<Rightarrow> bytes" where
  "last_used_aad item_id = as_bytes ''last_used:'' @ item_id"

definition content_key_wrap_aad :: "bytes \<Rightarrow> bytes" where
  "content_key_wrap_aad item_id = as_bytes ''item-content-key:'' @ item_id"

section \<open>Operations\<close>

definition generate_item_content_key :: "entropy \<Rightarrow> ItemContentKey \<times> entropy" where
  "generate_item_content_key = symmetric_key_random"

definition wrap_item_content_key ::
  "'z crypto_lib_scheme \<Rightarrow> VaultKey \<Rightarrow> bytes \<Rightarrow> ItemContentKey \<Rightarrow> entropy \<Rightarrow> bytes \<times> entropy" where
  "wrap_item_content_key X vault_key item_id content_key e =
     xchacha20_encrypt_with_aad X vault_key (bytes32 content_key) (content_key_wrap_aad item_id) e"

definition unwrap_item_content_key ::
  "'z crypto_lib_scheme \<Rightarrow> VaultKey \<Rightarrow> bytes \<Rightarrow> bytes \<Rightarrow> ItemContentKey crypto_result" where
  "unwrap_item_content_key X vault_key item_id blob =
     and_then (xchacha20_decrypt_with_aad X vault_key blob (content_key_wrap_aad item_id))
       (\<lambda>pt. ok_or InvalidCiphertext (to_byte32 pt))"

definition encrypt_item_with_content_key ::
  "'z item_lib_scheme \<Rightarrow> ItemContentKey \<Rightarrow> bytes \<Rightarrow> ItemContent \<Rightarrow> entropy \<Rightarrow> bytes crypto_result \<times> entropy" where
  "encrypt_item_with_content_key X content_key item_id content e =
     (case content_to_json X content of
        None \<Rightarrow> (Inl (Export ''item content json''), e)
      | Some json \<Rightarrow> apfst Inr (xchacha20_encrypt_with_aad X content_key json (body_aad item_id) e))"

definition decrypt_item_with_content_key ::
  "'z item_lib_scheme \<Rightarrow> ItemContentKey \<Rightarrow> bytes \<Rightarrow> bytes \<Rightarrow> ItemContent crypto_result" where
  "decrypt_item_with_content_key X content_key item_id blob =
     and_then (xchacha20_decrypt_with_aad X content_key blob (body_aad item_id))
       (\<lambda>pt. ok_or (Import ''item content json'') (content_from_json X pt))"

definition encrypt_title ::
  "'z crypto_lib_scheme \<Rightarrow> VaultKey \<Rightarrow> bytes \<Rightarrow> string \<Rightarrow> entropy \<Rightarrow> bytes \<times> entropy" where
  "encrypt_title X vault_key item_id title e =
     xchacha20_encrypt_with_aad X vault_key (as_bytes title) (title_aad item_id) e"

definition decrypt_title ::
  "'z crypto_lib_scheme \<Rightarrow> VaultKey \<Rightarrow> bytes \<Rightarrow> bytes \<Rightarrow> string crypto_result" where
  "decrypt_title X vault_key item_id blob =
     and_then (xchacha20_decrypt_with_aad X vault_key blob (title_aad item_id))
       (\<lambda>pt. ok_or InvalidCiphertext (from_utf8 pt))"

definition encrypt_tags ::
  "'z item_lib_scheme \<Rightarrow> VaultKey \<Rightarrow> bytes \<Rightarrow> string list \<Rightarrow> entropy \<Rightarrow> bytes crypto_result \<times> entropy" where
  "encrypt_tags X vault_key item_id tags e =
     (case tags_to_json X tags of
        None \<Rightarrow> (Inl (Export ''tags json''), e)
      | Some json \<Rightarrow> apfst Inr (xchacha20_encrypt_with_aad X vault_key json (tags_aad item_id) e))"

definition decrypt_tags ::
  "'z item_lib_scheme \<Rightarrow> VaultKey \<Rightarrow> bytes \<Rightarrow> bytes \<Rightarrow> string list crypto_result" where
  "decrypt_tags X vault_key item_id blob =
     and_then (xchacha20_decrypt_with_aad X vault_key blob (tags_aad item_id))
       (\<lambda>pt. ok_or (Import ''tags json'') (tags_from_json X pt))"

definition encrypt_metadata_json ::
  "'z crypto_lib_scheme \<Rightarrow> VaultKey \<Rightarrow> bytes \<Rightarrow> string \<Rightarrow> entropy \<Rightarrow> bytes \<times> entropy" where
  "encrypt_metadata_json X vault_key item_id json e =
     xchacha20_encrypt_with_aad X vault_key (as_bytes json) (metadata_aad item_id) e"

definition decrypt_metadata_json ::
  "'z crypto_lib_scheme \<Rightarrow> VaultKey \<Rightarrow> bytes \<Rightarrow> bytes \<Rightarrow> string crypto_result" where
  "decrypt_metadata_json X vault_key item_id blob =
     and_then (xchacha20_decrypt_with_aad X vault_key blob (metadata_aad item_id))
       (\<lambda>pt. ok_or InvalidCiphertext (from_utf8 pt))"

definition encrypt_last_used ::
  "'z crypto_lib_scheme \<Rightarrow> VaultKey \<Rightarrow> bytes \<Rightarrow> string \<Rightarrow> entropy \<Rightarrow> bytes \<times> entropy" where
  "encrypt_last_used X vault_key item_id rfc3339 e =
     xchacha20_encrypt_with_aad X vault_key (as_bytes rfc3339) (last_used_aad item_id) e"

definition decrypt_last_used ::
  "'z crypto_lib_scheme \<Rightarrow> VaultKey \<Rightarrow> bytes \<Rightarrow> bytes \<Rightarrow> string crypto_result" where
  "decrypt_last_used X vault_key item_id blob =
     and_then (xchacha20_decrypt_with_aad X vault_key blob (last_used_aad item_id))
       (\<lambda>pt. ok_or InvalidCiphertext (from_utf8 pt))"

section \<open>The slots\<close>

interpretation item_key_slot: sealed_slot content_key_wrap_aad "\<lambda>_. True" bytes32 "\<lambda>_. True"
  "parse_key InvalidCiphertext" wrap_item_content_key unwrap_item_content_key
  by unfold_locales
    (auto simp: wrap_item_content_key_def unwrap_item_content_key_def parse_key_eta parse_key_iff
      content_key_wrap_aad_def)

interpretation title_slot: sealed_slot title_aad "\<lambda>_. True" as_bytes str_ok parse_text
  encrypt_title decrypt_title
  by unfold_locales
    (auto simp: encrypt_title_def decrypt_title_def parse_text_eta parse_text_iff title_aad_def)

interpretation metadata_slot: sealed_slot metadata_aad "\<lambda>_. True" as_bytes str_ok parse_text
  encrypt_metadata_json decrypt_metadata_json
  by unfold_locales
    (auto simp: encrypt_metadata_json_def decrypt_metadata_json_def parse_text_eta parse_text_iff metadata_aad_def)

interpretation last_used_slot: sealed_slot last_used_aad "\<lambda>_. True" as_bytes str_ok parse_text
  encrypt_last_used decrypt_last_used
  by unfold_locales
    (auto simp: encrypt_last_used_def decrypt_last_used_def parse_text_eta parse_text_iff last_used_aad_def)

text \<open>Bodies and tags carry JSON, which has many spellings for one value, so they are not
  exact in the sense of \<open>sealed_slot\<close>.\<close>

lemma item_body_round_trip:
  assumes "aead_laws X" and "item_json_laws X"
    and "encrypt_item_with_content_key X ck item_id content e = (Inr blob, e')"
  shows "decrypt_item_with_content_key X ck item_id blob = Inr content"
  using assms
  by (auto simp: encrypt_item_with_content_key_def decrypt_item_with_content_key_def item_json_laws_def
      encrypt_eq_envelope decrypt_envelope split: option.splits)

lemma tags_round_trip:
  assumes "aead_laws X" and "item_json_laws X" and "encrypt_tags X vk item_id tags e = (Inr blob, e')"
  shows "decrypt_tags X vk item_id blob = Inr tags"
  using assms
  by (auto simp: encrypt_tags_def decrypt_tags_def item_json_laws_def encrypt_eq_envelope decrypt_envelope
      split: option.splits)

end
