(* ===== verification/Rust_Text.thy ===== *)
theory Rust_Text
  imports Rust_Str
begin

text \<open>
  More of Rust's standard library, as the resolver crate uses it: character boundaries,
  \<open>String::from_utf8_lossy\<close>, \<open>str::contains\<close> and the parser of \<open>std::net::IpAddr\<close>.
\<close>

section \<open>Character boundaries\<close>

text \<open>\<open>str::is_char_boundary\<close>: the start, the end, and every byte that is no continuation.\<close>

definition is_char_boundary :: "string \<Rightarrow> nat \<Rightarrow> bool" where
  "is_char_boundary s i \<longleftrightarrow> i = 0 \<or> i = length s \<or> i < length s \<and> \<not> cont_byte (of_char (s ! i))"

lemma utf8_next_split:
  assumes "utf8_next bs = Some (c, r)"
  obtains a w where "bs = a # w @ r" "list_all cont_byte w" "length w \<le> 3" "utf8_next (a # w) = Some (c, [])"
proof -
  have "\<exists>a w. bs = a # w @ r \<and> list_all cont_byte w \<and> length w \<le> 3 \<and> utf8_next (a # w) = Some (c, [])"
  proof (cases bs)
    case Nil
    with assms show ?thesis by simp
  next
    case (Cons a t)
    show ?thesis
    proof (cases "a < 128")
      case True
      with assms Cons show ?thesis by (intro exI [of _ a] exI [of _ "[]"]) simp
    next
      case False
      with assms Cons consider b where "t = b # r" "cont_byte b" "194 \<le> a" "a \<le> 223"
        | b d where "t = b # d # r" "cont_byte b" "cont_byte d" "224 \<le> a" "a \<le> 239"
        | b d e where "t = b # d # e # r" "cont_byte b" "cont_byte d" "cont_byte e" "240 \<le> a" "a \<le> 244"
        by (auto split: if_splits list.splits)
      then show ?thesis
      proof cases
        case (1 b)
        with assms Cons False show ?thesis
          by (intro exI [of _ a] exI [of _ "[b]"]) (simp split: if_splits)
      next
        case (2 b d)
        with assms Cons False show ?thesis
          by (intro exI [of _ a] exI [of _ "[b, d]"]) (simp split: if_splits)
      next
        case (3 b d e)
        with assms Cons False show ?thesis
          by (intro exI [of _ a] exI [of _ "[b, d, e]"]) (simp split: if_splits)
      qed
    qed
  qed
  with that show ?thesis by blast
qed

text \<open>A well-formed text cut at a boundary is well-formed; boundaries are at most three bytes apart.\<close>

lemma utf8_decode_take:
  "utf8_decode bs \<noteq> None \<Longrightarrow> i \<le> length bs \<Longrightarrow> i = length bs \<or> \<not> cont_byte (bs ! i)
    \<Longrightarrow> utf8_decode (take i bs) \<noteq> None"
proof (induction bs arbitrary: i rule: utf8_decode.induct)
  case (1 bs)
  show ?case
  proof (cases "bs = [] \<or> i = 0")
    case True
    then show ?thesis using "1.prems" by auto
  next
    case False
    then have ne: "bs \<noteq> []" by simp
    with "1.prems"(1) obtain c r where r: "utf8_next bs = Some (c, r)" and d: "utf8_decode r \<noteq> None"
      by (subst (asm) utf8_decode.simps) (auto split: option.splits)
    from r obtain a w where bs: "bs = a # w @ r" and w: "list_all cont_byte w"
        and n: "utf8_next (a # w) = Some (c, [])"
      by (rule utf8_next_split)
    obtain j where i: "i = Suc j" using False by (cases i) auto
    have "\<not> j < length w"
    proof
      assume j: "j < length w"
      then have "bs ! i = w ! j" by (simp add: bs i nth_append)
      with w j have "cont_byte (bs ! i)" by (simp add: list_all_length)
      moreover have "i \<noteq> length bs" using j by (simp add: bs i)
      ultimately show False using "1.prems"(3) by simp
    qed
    then obtain k where j: "j = length w + k" by (metis add_diff_inverse_nat)
    have "utf8_decode (take k r) \<noteq> None"
      by (rule "1.IH" [OF ne r refl d]) (use "1.prems" in \<open>auto simp: bs i j nth_append\<close>)
    moreover have "take i bs = a # w @ take k r" by (simp add: bs i j)
    moreover have "utf8_next (a # w @ take k r) = Some (c, take k r)"
      using utf8_next_append [OF n, of "take k r"] by simp
    ultimately show ?thesis by (subst utf8_decode.simps) (auto split: option.splits)
  qed
qed

lemma str_ok_take: "str_ok s \<Longrightarrow> is_char_boundary s i \<Longrightarrow> str_ok (take i s)"
  using utf8_decode_take [of "map of_char s" i]
  by (cases "i = 0") (auto simp: str_ok_def scalars_def is_char_boundary_def take_map)

lemma utf8_boundary_near:
  "utf8_decode bs \<noteq> None \<Longrightarrow> i < length bs \<Longrightarrow> \<exists>j \<le> i. i \<le> j + 3 \<and> \<not> cont_byte (bs ! j)"
proof (induction bs arbitrary: i rule: utf8_decode.induct)
  case (1 bs)
  then have ne: "bs \<noteq> []" by auto
  with "1.prems"(1) obtain c r where r: "utf8_next bs = Some (c, r)" and d: "utf8_decode r \<noteq> None"
    by (subst (asm) utf8_decode.simps) (auto split: option.splits)
  from r obtain a w where bs: "bs = a # w @ r" and w: "length w \<le> 3"
      and n: "utf8_next (a # w) = Some (c, [])"
    by (rule utf8_next_split)
  have a: "\<not> cont_byte a" using n by (auto simp: cont_byte_def split: if_splits)
  show ?case
  proof (cases "i \<le> length w")
    case True
    with w a show ?thesis by (intro exI [of _ 0]) (simp add: bs)
  next
    case False
    then obtain k where i: "i = Suc (length w) + k" by (metis add_diff_inverse_nat not_less_eq_eq not_less)
    have "k < length r" using "1.prems"(2) by (simp add: bs i)
    from "1.IH" [OF ne r refl d this] obtain j where "j \<le> k" "k \<le> j + 3" "\<not> cont_byte (r ! j)" by blast
    then show ?thesis by (intro exI [of _ "Suc (length w) + j"]) (simp add: bs i nth_append)
  qed
qed

section \<open>Lossy decoding\<close>

text \<open>\<open>String::from_utf8_lossy\<close> replaces every maximal ill-formed part by U+FFFD.  \<open>bad_len\<close> is
  the length of that part: the longest prefix of the input that begins some well-formed
  sequence, at least one byte.\<close>

fun second_ok :: "nat \<Rightarrow> nat \<Rightarrow> bool" where
  "second_ok a b \<longleftrightarrow> cont_byte b \<and> (a = 224 \<longrightarrow> 160 \<le> b) \<and> (a = 237 \<longrightarrow> b \<le> 159)
     \<and> (a = 240 \<longrightarrow> 144 \<le> b) \<and> (a = 244 \<longrightarrow> b \<le> 143)"

definition bad_len :: "nat list \<Rightarrow> nat" where
  "bad_len bs =
     (case bs of
        a # b # r \<Rightarrow>
          if 224 \<le> a \<and> a \<le> 239 \<and> second_ok a b then 2
          else if 240 \<le> a \<and> a \<le> 244 \<and> second_ok a b
          then (case r of c # _ \<Rightarrow> if cont_byte c then 3 else 2 | [] \<Rightarrow> 2)
          else 1
      | _ \<Rightarrow> 1)"

lemma bad_len_pos [simp]: "0 < bad_len bs"
  by (auto simp: bad_len_def split: list.splits)

function lossy_scalars :: "nat list \<Rightarrow> nat list" where
  "lossy_scalars bs =
     (if bs = [] then []
      else case utf8_next bs of
             Some (c, r) \<Rightarrow> c # lossy_scalars r
           | None \<Rightarrow> 65533 # lossy_scalars (drop (bad_len bs) bs))"
  by pat_completeness auto
termination
  by (relation "measure length") (auto dest: utf8_next_length)

declare lossy_scalars.simps [simp del]

definition from_utf8_lossy :: "bytes \<Rightarrow> string" where
  "from_utf8_lossy bs = string_of_scalars (lossy_scalars (map unat bs))"

lemma utf8_next_scalar: "utf8_next bs = Some (c, r) \<Longrightarrow> is_scalar c"
proof (cases bs)
  case (Cons a t)
  assume *: "utf8_next bs = Some (c, r)"
  show ?thesis
  proof (cases "a < 224")
    case True
    with * Cons show ?thesis by (auto simp: is_scalar_def cont_byte_def split: if_splits list.splits)
  next
    case False
    with * Cons consider b d where "t = b # d # r" "cont_byte b" "cont_byte d" "224 \<le> a" "a \<le> 239"
          "a = 237 \<longrightarrow> b \<le> 159" "c = (a - 224) * 4096 + (b - 128) * 64 + (d - 128)"
      | b d e where "t = b # d # e # r" "cont_byte b" "cont_byte d" "cont_byte e" "240 \<le> a" "a \<le> 244"
          "a = 240 \<longrightarrow> 144 \<le> b" "a = 244 \<longrightarrow> b \<le> 143"
          "c = (a - 240) * 262144 + (b - 128) * 4096 + (d - 128) * 64 + (e - 128)"
      by (auto split: if_splits list.splits)
    then show ?thesis
    proof cases
      case (1 b d)
      then have "a < 237 \<or> a = 237 \<or> 238 \<le> a" by linarith
      with 1 show ?thesis unfolding is_scalar_def cont_byte_def by linarith
    next
      case (2 b d e)
      define w x y z where "w = a - 240" and "x = b - 128" and "y = d - 128" and "z = e - 128"
      with 2 have "w \<le> 4" "x < 64" "y < 64" "z < 64" "w = 0 \<longrightarrow> 16 \<le> x" "w = 4 \<longrightarrow> x \<le> 15"
        "c = w * 262144 + x * 4096 + y * 64 + z"
        by (auto simp: cont_byte_def)
      then show ?thesis unfolding is_scalar_def by linarith
    qed
  qed
qed simp

lemma lossy_scalars_ok: "list_all is_scalar (lossy_scalars bs)"
proof (induction bs rule: lossy_scalars.induct)
  case (1 bs)
  then show ?case
    by (subst lossy_scalars.simps) (auto split: option.splits simp: is_scalar_def [of 65533] intro: utf8_next_scalar)
qed

lemma utf8_decode_encode: "list_all is_scalar cs \<Longrightarrow> utf8_decode (concat (map utf8_encode cs)) = Some cs"
proof (induction cs)
  case Nil
  then show ?case by simp
next
  case (Cons c cs)
  then have n: "utf8_next (utf8_encode c @ concat (map utf8_encode cs)) = Some (c, concat (map utf8_encode cs))"
    by (intro utf8_next_encode) simp
  moreover have "utf8_encode c \<noteq> []" by (simp add: utf8_encode_def)
  ultimately show ?case using Cons by (simp add: utf8_decode.simps [of "utf8_encode c @ _"])
qed

lemma utf8_encode_bytes: "is_scalar c \<Longrightarrow> x \<in> set (utf8_encode c) \<Longrightarrow> x < 256"
  by (auto simp: utf8_encode_def is_scalar_def split: if_splits)

lemma scalars_string_of_scalars: "list_all is_scalar cs \<Longrightarrow> scalars (string_of_scalars cs) = Some cs"
proof -
  assume cs: "list_all is_scalar cs"
  have "map (\<lambda>x. of_char (char_of x)) (concat (map utf8_encode cs)) = concat (map utf8_encode cs)"
    by (rule map_idI) (use cs in \<open>auto simp: of_char_of list_all_iff intro!: mod_less utf8_encode_bytes\<close>)
  with cs show ?thesis
    by (simp add: scalars_def string_of_scalars_def comp_def utf8_decode_encode del: map_concat)
qed

lemma from_utf8_lossy_str_ok: "str_ok (from_utf8_lossy bs)"
  by (simp add: from_utf8_lossy_def str_ok_def scalars_string_of_scalars lossy_scalars_ok)

lemma div_mod_64: "c = 64 * q + z \<Longrightarrow> z < 64 \<Longrightarrow> c div 64 = q \<and> c mod 64 = (z :: nat)"
  by simp

lemma utf8_encode_next: "utf8_next bs = Some (c, r) \<Longrightarrow> utf8_encode c @ r = bs"
proof (cases bs)
  case (Cons a t)
  assume *: "utf8_next bs = Some (c, r)"
  show ?thesis
  proof (cases "a < 128")
    case True
    with * Cons show ?thesis by (simp add: utf8_encode_def)
  next
    case False
    with * Cons consider b where "t = b # r" "cont_byte b" "194 \<le> a" "a \<le> 223" "c = (a - 192) * 64 + (b - 128)"
      | b d where "t = b # d # r" "cont_byte b" "cont_byte d" "224 \<le> a" "a \<le> 239"
          "a = 224 \<longrightarrow> 160 \<le> b" "c = (a - 224) * 4096 + (b - 128) * 64 + (d - 128)"
      | b d e where "t = b # d # e # r" "cont_byte b" "cont_byte d" "cont_byte e" "240 \<le> a" "a \<le> 244"
          "a = 240 \<longrightarrow> 144 \<le> b"
          "c = (a - 240) * 262144 + (b - 128) * 4096 + (d - 128) * 64 + (e - 128)"
      by (auto split: if_splits list.splits)
    then show ?thesis
    proof cases
      case (1 b)
      define x y where "x = a - 192" and "y = b - 128"
      with 1 have ab: "a = 192 + x" "b = 128 + y" and "y < 64" "2 \<le> x" "x < 32" and c: "c = 64 * x + y"
        by (auto simp: cont_byte_def)
      then have "c div 64 = x" "c mod 64 = y" "128 \<le> c" "c < 2048" by auto
      with Cons 1(1) ab show ?thesis by (simp add: utf8_encode_def)
    next
      case (2 b d)
      define x y z where "x = a - 224" and "y = b - 128" and "z = d - 128"
      with 2 have ab: "a = 224 + x" "b = 128 + y" "d = 128 + z" and b: "y < 64" "z < 64" "x < 16" "x = 0 \<longrightarrow> 32 \<le> y"
        and "c = x * 4096 + y * 64 + z"
        by (auto simp: cont_byte_def)
      then have c: "c = 64 * (64 * x + y) + z" by simp
      from b have "2048 \<le> c" "c < 65536" unfolding c by auto
      moreover note div_mod_64 [OF c b(2)]
      ultimately show ?thesis using Cons 2(1) ab b by (simp add: utf8_encode_def div_64_64)
    next
      case (3 b d e)
      define w x y z where "w = a - 240" and "x = b - 128" and "y = d - 128" and "z = e - 128"
      with 3 have ab: "a = 240 + w" "b = 128 + x" "d = 128 + y" "e = 128 + z"
        and b: "x < 64" "y < 64" "z < 64" "w \<le> 4" "w = 0 \<longrightarrow> 16 \<le> x"
        and "c = w * 262144 + x * 4096 + y * 64 + z"
        by (auto simp: cont_byte_def)
      then have c: "c = 64 * (64 * (64 * w + x) + y) + z" by simp
      from b have "65536 \<le> c" unfolding c by auto
      moreover note div_mod_64 [OF c b(3)] div_mod_64 [OF refl b(2), of "64 * w + x"]
      ultimately show ?thesis using Cons 3(1) ab b by (simp add: utf8_encode_def div_64_64)
    qed
  qed
qed simp

lemma lossy_scalars_decode: "utf8_decode bs = Some cs \<Longrightarrow> lossy_scalars bs = cs"
proof (induction bs arbitrary: cs rule: utf8_decode.induct)
  case (1 bs)
  show ?case
  proof (cases "bs = []")
    case True
    with "1.prems" show ?thesis by (simp add: lossy_scalars.simps)
  next
    case False
    with "1.prems" obtain c r cs' where r: "utf8_next bs = Some (c, r)"
      and d: "utf8_decode r = Some cs'" and cs: "cs = c # cs'"
      by (subst (asm) utf8_decode.simps) (auto split: option.splits)
    with "1.IH" [OF False r refl d] False show ?thesis by (subst lossy_scalars.simps) simp
  qed
qed

lemma utf8_encode_decode: "utf8_decode bs = Some cs \<Longrightarrow> concat (map utf8_encode cs) = bs"
proof (induction bs arbitrary: cs rule: utf8_decode.induct)
  case (1 bs)
  show ?case
  proof (cases "bs = []")
    case True
    with "1.prems" show ?thesis by simp
  next
    case False
    with "1.prems" obtain c r cs' where r: "utf8_next bs = Some (c, r)"
      and d: "utf8_decode r = Some cs'" and cs: "cs = c # cs'"
      by (subst (asm) utf8_decode.simps) (auto split: option.splits)
    with "1.IH" [OF False r refl d] show ?thesis by (simp add: utf8_encode_next)
  qed
qed

lemma string_of_scalars_scalars: "scalars s = Some cs \<Longrightarrow> string_of_scalars cs = s"
  unfolding scalars_def string_of_scalars_def by (simp add: utf8_encode_decode comp_def)

lemma from_utf8_lossy_valid: "str_ok s \<Longrightarrow> from_utf8_lossy (as_bytes s) = s"
proof -
  assume "str_ok s"
  then obtain cs where cs: "scalars s = Some cs" by (auto simp: str_ok_def)
  then have "lossy_scalars (map of_char s) = cs" unfolding scalars_def by (rule lossy_scalars_decode)
  with cs show ?thesis by (simp add: from_utf8_lossy_def as_bytes_def comp_def string_of_scalars_scalars)
qed

section \<open>Substrings\<close>

definition str_contains :: "string \<Rightarrow> string \<Rightarrow> bool" where
  "str_contains s pat = sublist pat s"

section \<open>IP addresses\<close>

text \<open>The recursive-descent parser of \<open>core::net\<close>.  A reader takes the remaining input and
  returns its value and the rest; on failure the caller keeps its own input, which is what
  \<open>read_atomically\<close> restores.\<close>

definition digit_value :: "nat \<Rightarrow> char \<Rightarrow> nat option" where
  "digit_value radix c =
     (let d = (if is_ascii_digit c then of_char c - 48
               else if 97 \<le> (of_char c :: nat) \<and> of_char c \<le> (122 :: nat) then of_char c - 87
               else if 65 \<le> (of_char c :: nat) \<and> of_char c \<le> (90 :: nat) then of_char c - 55
               else 99)
      in if d < radix then Some d else None)"

definition read_number :: "nat \<Rightarrow> nat \<Rightarrow> bool \<Rightarrow> nat \<Rightarrow> string \<Rightarrow> (nat \<times> string) option" where
  "read_number radix max_digits allow_zero_prefix bound s =
     (let ds = takeWhile (\<lambda>c. digit_value radix c \<noteq> None) s;
          v = foldl (\<lambda>v c. radix * v + the (digit_value radix c)) 0 ds
      in if ds = [] \<or> max_digits < length ds \<or> bound < v
            \<or> \<not> allow_zero_prefix \<and> hd ds = CHR ''0'' \<and> 1 < length ds
         then None else Some (v, drop (length ds) s))"

definition read_given_char :: "char \<Rightarrow> string \<Rightarrow> string option" where
  "read_given_char c s = (case s of x # r \<Rightarrow> if x = c then Some r else None | [] \<Rightarrow> None)"

text \<open>\<open>read_separator\<close>: the separator is expected before every element but the first.\<close>

definition read_separator :: "char \<Rightarrow> nat \<Rightarrow> (string \<Rightarrow> ('a \<times> string) option) \<Rightarrow> string \<Rightarrow> ('a \<times> string) option" where
  "read_separator sep i inner s =
     (if 0 < i then Option.bind (read_given_char sep s) inner else inner s)"

fun read_octets :: "nat \<Rightarrow> nat \<Rightarrow> string \<Rightarrow> (nat list \<times> string) option" where
  "read_octets i 0 s = Some ([], s)"
| "read_octets i (Suc n) s =
     (case read_separator CHR ''.'' i (read_number 10 3 False 255) s of
        None \<Rightarrow> None
      | Some (v, r) \<Rightarrow> map_option (\<lambda>(vs, r'). (v # vs, r')) (read_octets (Suc i) n r))"

definition read_ipv4_addr :: "string \<Rightarrow> (nat list \<times> string) option" where
  "read_ipv4_addr = read_octets 0 4"

text \<open>\<open>read_groups\<close>: the groups that were read, whether they end in an embedded IPv4 address,
  and the rest.  The third argument counts the groups that may still come.\<close>

fun read_groups :: "nat \<Rightarrow> nat \<Rightarrow> string \<Rightarrow> nat list \<times> bool \<times> string" where
  "read_groups i 0 s = ([], False, s)"
| "read_groups i (Suc left) s =
     (case (if 0 < left then read_separator CHR '':'' i read_ipv4_addr s else None) of
        Some ([a, b, c, d], r) \<Rightarrow> ([256 * a + b, 256 * c + d], True, r)
      | _ \<Rightarrow>
        (case read_separator CHR '':'' i (read_number 16 4 True 65535) s of
           None \<Rightarrow> ([], False, s)
         | Some (g, r) \<Rightarrow> (case read_groups (Suc i) left r of (gs, v4, r') \<Rightarrow> (g # gs, v4, r'))))"

definition read_ipv6_addr :: "string \<Rightarrow> (nat list \<times> string) option" where
  "read_ipv6_addr s =
     (case read_groups 0 8 s of (head, head_ipv4, r) \<Rightarrow>
        if length head = 8 then Some (head, r)
        else if head_ipv4 then None
        else Option.bind (read_given_char CHR '':'' r) (\<lambda>r1.
               Option.bind (read_given_char CHR '':'' r1) (\<lambda>r2.
                 case read_groups 0 (8 - (length head + 1)) r2 of (tail, _, r3) \<Rightarrow>
                   Some (head @ replicate (8 - length head - length tail) 0 @ tail, r3))))"

datatype IpAddr = V4 "nat list" | V6 "nat list"

definition parse_ip_addr :: "string \<Rightarrow> IpAddr option" where
  "parse_ip_addr s =
     (case (case read_ipv4_addr s of
              Some (a, r) \<Rightarrow> Some (V4 a, r)
            | None \<Rightarrow> map_option (apfst V6) (read_ipv6_addr s)) of
        Some (ip, []) \<Rightarrow> Some ip
      | _ \<Rightarrow> None)"

fun is_loopback :: "IpAddr \<Rightarrow> bool" where
  "is_loopback (V4 a) \<longleftrightarrow> hd a = 127"
| "is_loopback (V6 g) \<longleftrightarrow> g = [0, 0, 0, 0, 0, 0, 0, 1]"

end
