(* ===== verification/Resolver_Error.thy ===== *)
theory Resolver_Error
  imports Item_Crypto Rust_Text
begin

text \<open>
  \<open>error.rs\<close> of the resolver crate: the error type, the reading of the service's structured
  error bodies, and the cap on stored bodies.  The concrete client error is reqwest's; it is
  known by the two questions the classification asks.  \<open>error_lib\<close> adds the parser
  \<open>serde_json::from_str::<Value>\<close> to the third-party interface.
\<close>

record reqwest_error =
  is_timeout :: bool
  is_connect :: bool

datatype TransportErrorKind = Timeout | Connect | OtherTransport

record TransportError =
  transport_kind :: TransportErrorKind
  transport_source :: reqwest_error

definition from_reqwest :: "reqwest_error \<Rightarrow> TransportError" where
  "from_reqwest source =
     \<lparr> transport_kind = (if is_timeout source then Timeout else if is_connect source then Connect else OtherTransport),
       transport_source = source \<rparr>"

fun transport_display :: "TransportErrorKind \<Rightarrow> string" where
  "transport_display Timeout = ''upstream request timed out''"
| "transport_display Connect = ''upstream connection failed''"
| "transport_display OtherTransport = ''upstream transport failed''"

datatype ResolverError =
    UnsupportedScheme string
  | InvalidUri string
  | Transport TransportError
  | ServerError u16 string
  | Malformed string
  | Crypto crypto_error
  | ApprovalRequired uuid
  | NotImplemented string
  | UnknownField string
  | ResponseMismatch
  | Stale
  | Rotating
  | KeyVersion
  | InvalidInput string

type_synonym 'a resolver_result = "ResolverError + 'a"

definition transport :: "reqwest_error \<Rightarrow> ResolverError" where
  "transport source = Transport (from_reqwest source)"

record error_lib = item_lib +
  json_from_str :: "string \<Rightarrow> json option"

section \<open>Structured error bodies\<close>

text \<open>\<open>error\<close> at the top level, or \<open>data.body.error\<close> of a metered envelope.\<close>

definition envelope_error :: "json \<Rightarrow> json option" where
  "envelope_error value =
     (case json_get ''error'' value of
        Some e \<Rightarrow> Some e
      | None \<Rightarrow> Option.bind (Option.bind (json_get ''data'' value) (json_get ''body'')) (json_get ''error''))"

definition json_as_u16 :: "json \<Rightarrow> u16 option" where
  "json_as_u16 v = Option.bind (json_as_u64 v) (\<lambda>n. if unat n < 2 ^ 16 then Some (ucast n) else None)"

text \<open>The derived \<open>Deserialize\<close> of \<open>RetryMetadata\<close> on a value: an object with both fields, or an
  array of the two in order.\<close>

definition retry_metadata :: "json \<Rightarrow> (u16 \<times> u64) option" where
  "retry_metadata v =
     (case v of
        JObject m \<Rightarrow>
          Option.bind (Option.bind (map_of m ''code'') json_as_u16) (\<lambda>code.
          Option.bind (Option.bind (map_of m ''retry_after_ms'') json_as_u64) (\<lambda>ms. Some (code, ms)))
      | JArray [a, b] \<Rightarrow>
          Option.bind (json_as_u16 a) (\<lambda>code. Option.bind (json_as_u64 b) (\<lambda>ms. Some (code, ms)))
      | _ \<Rightarrow> None)"

definition retry_after :: "'z error_lib_scheme \<Rightarrow> ResolverError \<Rightarrow> u64 option" where
  "retry_after X err =
     (case err of
        ServerError status body \<Rightarrow>
          if status \<noteq> 429 then None
          else Option.bind (json_from_str X body) (\<lambda>value.
               Option.bind (envelope_error value) (\<lambda>error.
               Option.bind (retry_metadata error) (\<lambda>(code, ms).
                 if code = 429 \<and> 0 < ms then Some ms else None)))
      | _ \<Rightarrow> None)"

definition approval_request_id_from_error :: "'z crypto_lib_scheme \<Rightarrow> json \<Rightarrow> uuid option" where
  "approval_request_id_from_error X value =
     Option.bind (Option.bind (Option.bind (json_get ''error'' value)
       (json_get ''approval_request_id'')) json_as_str) (uuid_parse X)"

definition approval_request_id_from_value :: "'z crypto_lib_scheme \<Rightarrow> json \<Rightarrow> uuid option" where
  "approval_request_id_from_value X value =
     (case approval_request_id_from_error X value of
        Some u \<Rightarrow> Some u
      | None \<Rightarrow> Option.bind (Option.bind (json_get ''data'' value) (json_get ''body''))
                  (approval_request_id_from_error X))"

definition coded_server_error :: "'z error_lib_scheme \<Rightarrow> ResolverError \<Rightarrow> u16 \<Rightarrow> string \<Rightarrow> json option" where
  "coded_server_error X err status kind =
     (case err of
        ServerError got body \<Rightarrow>
          Option.bind (json_from_str X body) (\<lambda>value.
          Option.bind (envelope_error value) (\<lambda>error.
            if got = status \<and> Option.bind (json_get ''kind'' error) json_as_str = Some kind
            then Some error else None))
      | _ \<Rightarrow> None)"

definition is_coded_server_error :: "'z error_lib_scheme \<Rightarrow> ResolverError \<Rightarrow> u16 \<Rightarrow> string \<Rightarrow> bool" where
  "is_coded_server_error X err status kind \<longleftrightarrow> coded_server_error X err status kind \<noteq> None"

section \<open>The cap on stored bodies\<close>

definition MAX_STORED_ERROR_BODY :: nat where "MAX_STORED_ERROR_BODY = 1024"

fun boundary_below :: "string \<Rightarrow> nat \<Rightarrow> nat" where
  "boundary_below text 0 = 0"
| "boundary_below text (Suc n) = (if is_char_boundary text (Suc n) then Suc n else boundary_below text n)"

definition truncate_error_body :: "string \<Rightarrow> string" where
  "truncate_error_body text =
     (if MAX_STORED_ERROR_BODY < length text
      then take (boundary_below text MAX_STORED_ERROR_BODY) text @ ''... [truncated]'' else text)"

section \<open>Lemmas\<close>

lemma boundary_below_le: "boundary_below text n \<le> n"
  by (induction n) auto

lemma boundary_below_boundary: "is_char_boundary text (boundary_below text n)"
  by (induction n) (auto simp: is_char_boundary_def)

lemma boundary_below_greatest: "j \<le> n \<Longrightarrow> is_char_boundary text j \<Longrightarrow> j \<le> boundary_below text n"
proof (induction n)
  case (Suc n)
  then show ?case by (cases "j = Suc n") auto
qed simp

lemma boundary_below_near:
  assumes "str_ok text" and "n < length text"
  shows "n \<le> boundary_below text n + 3"
proof -
  from assms obtain j where j: "j \<le> n" "n \<le> j + 3" and "\<not> cont_byte (of_char (text ! j))"
    using utf8_boundary_near [of "map of_char text" n] by (auto simp: str_ok_def scalars_def)
  with assms(2) have "is_char_boundary text j" by (simp add: is_char_boundary_def)
  with boundary_below_greatest j show ?thesis by fastforce
qed

lemma truncate_bounds:
  assumes "str_ok text"
  shows "str_ok (truncate_error_body text) \<and> length (truncate_error_body text) \<le> 1039"
  using assms boundary_below_le [of "text" 1024] str_ok_take [OF assms boundary_below_boundary [of "text" 1024]]
  by (auto simp: truncate_error_body_def MAX_STORED_ERROR_BODY_def str_ok_ascii intro!: str_ok_append)

text \<open>A stored error body is the server's body unchanged up to 1024 bytes.  A longer one is cut
  at the last character boundary at or below 1024, so at most three bytes are lost below the
  cap, the marker follows, the result is well-formed UTF-8 and has at most 1039 bytes.\<close>

theorem truncate_error_body_spec:
  assumes "str_ok text"
  shows "(length text \<le> 1024 \<longrightarrow> truncate_error_body text = text)
    \<and> (1024 < length text \<longrightarrow>
        (\<exists>n. 1021 \<le> n \<and> n \<le> 1024 \<and> is_char_boundary text n
           \<and> (\<forall>m. n < m \<and> m \<le> 1024 \<longrightarrow> \<not> is_char_boundary text m)
           \<and> truncate_error_body text = take n text @ ''... [truncated]''))
    \<and> str_ok (truncate_error_body text) \<and> length (truncate_error_body text) \<le> 1039"
proof (cases "1024 < length text")
  case False
  with assms show ?thesis by (simp add: truncate_error_body_def MAX_STORED_ERROR_BODY_def)
next
  case True
  define n where "n = boundary_below text 1024"
  have eq: "truncate_error_body text = take n text @ ''... [truncated]''"
    using True by (simp add: truncate_error_body_def MAX_STORED_ERROR_BODY_def n_def)
  have le: "n \<le> 1024" by (simp add: n_def boundary_below_le)
  have near: "1021 \<le> n"
    using boundary_below_near [OF assms True] by (simp add: n_def)
  have bdry: "is_char_boundary text n" by (simp add: n_def boundary_below_boundary)
  have none_above: "\<not> is_char_boundary text m" if "n < m \<and> m \<le> 1024" for m
    using that boundary_below_greatest [of m 1024 "text"] by (auto simp: n_def)
  show ?thesis using True near le bdry none_above truncate_bounds [OF assms] by (auto simp: eq)
qed

theorem truncate_error_body_spec_witness:
  "truncate_error_body (replicate 1024 CHR ''a'') = replicate 1024 CHR ''a''"
  using truncate_error_body_spec [of "replicate 1024 CHR ''a''"]
  by (simp add: str_ok_ascii is_ascii_def)

end
