(* ===== verification/Field_Extract.thy ===== *)
theory Field_Extract
  imports Resolver_Error
begin

text \<open>
  Field extraction, the second half of \<open>seren_secrets.rs\<close>: from a decrypted item and a field
  name to the secret text.  There is one extractor per content struct; each matches the
  lower-cased name against the struct's own aliases and falls back to the custom fields.  The
  argument \<open>plain\<close> is \<open>extract_plain_text\<close> of the third-party ProseMirror crate.  The locale
  \<open>field_extractor\<close> is the contract the thirteen share, and \<open>extract_field\<close> relies on.
\<close>

section \<open>Helpers\<close>

definition unwrap_or_default :: "string option \<Rightarrow> string" where
  "unwrap_or_default v = (case v of None \<Rightarrow> [] | Some s \<Rightarrow> s)"

definition first :: "'a list \<Rightarrow> 'a option" where
  "first xs = (case xs of [] \<Rightarrow> None | x # _ \<Rightarrow> Some x)"

definition list_get :: "'a list \<Rightarrow> nat \<Rightarrow> 'a option" where
  "list_get xs i = (if i < length xs then Some (xs ! i) else None)"

definition projected_text :: "(json \<Rightarrow> string) \<Rightarrow> string \<Rightarrow> ProseDoc \<Rightarrow> string" where
  "projected_text plain cached doc = (if cached \<noteq> [] then cached else plain (prose_value doc))"

definition notes_field :: "(json \<Rightarrow> string) \<Rightarrow> 'a common_fields_scheme \<Rightarrow> string" where
  "notes_field plain c = projected_text plain (item_notes_text c) (item_notes c)"

definition purpose_of_name :: "string \<Rightarrow> FieldPurpose option" where
  "purpose_of_name n =
     (if n \<in> {''username'', ''user''} then Some PUsername
      else if n \<in> {''password'', ''pass''} then Some PPassword
      else if n \<in> {''notes'', ''note''} then Some PNotes
      else if n \<in> {''otp'', ''totp'', ''totp_secret''} then Some POtp
      else if n \<in> {''private_key'', ''private''} then Some PPrivateKey
      else if n \<in> {''public_key'', ''public''} then Some PPublicKey
      else if n \<in> {''card_number'', ''pan''} then Some PCardNumber
      else if n \<in> {''cvv'', ''cvc'', ''cvv2'', ''security_code''} then Some PCvv
      else if n = ''pin'' then Some PPin
      else None)"

definition extract_custom_field :: "CustomField list \<Rightarrow> string \<Rightarrow> string option" where
  "extract_custom_field cfs name =
     (case find (\<lambda>f. eq_ignore_ascii_case (cf_name f) name) cfs of
        Some f \<Rightarrow> Some (cf_value f)
      | None \<Rightarrow>
          Option.bind (purpose_of_name (to_ascii_lowercase name)) (\<lambda>p.
            map_option cf_value (find (\<lambda>f. cf_purpose f = Some p) cfs)))"

text \<open>The last arm of every extractor.\<close>

definition custom_or_unknown :: "'a common_fields_scheme \<Rightarrow> string \<Rightarrow> string \<Rightarrow> string resolver_result" where
  "custom_or_unknown c field other =
     ok_or (UnknownField field) (extract_custom_field (custom_fields c) other)"

definition join_nonempty :: "string \<Rightarrow> string list \<Rightarrow> string" where
  "join_nonempty sep parts = join sep (filter (\<lambda>p. p \<noteq> []) parts)"

definition join_full_name :: "string \<Rightarrow> string \<Rightarrow> string \<Rightarrow> string" where
  "join_full_name first_part middle last_part = join_nonempty '' '' [first_part, middle, last_part]"

definition format_address :: "PostalAddress \<Rightarrow> string" where
  "format_address a = join_nonempty '', '' [street a, city a, region a, postal_code a, country a]"

definition address_part :: "(PostalAddress \<Rightarrow> string) \<Rightarrow> PostalAddress option \<Rightarrow> string" where
  "address_part f a = unwrap_or_default (map_option f a)"

definition port_text :: "u32 option \<Rightarrow> string" where
  "port_text p = unwrap_or_default (map_option (\<lambda>n. dec_string (unat n)) p)"

section \<open>Identity selectors\<close>

datatype ArraySelector = Index nat "string option" | Label string "string option"

definition split_array_prefix :: "string \<Rightarrow> (string \<times> string) option" where
  "split_array_prefix field =
     (let try = (\<lambda>p. case strip_prefix p field of
                       Some (c # r) \<Rightarrow> if c \<in> {CHR ''['', CHR ''.''} then Some (p, c # r) else None
                     | _ \<Rightarrow> None)
      in first (List.map_filter try [''emails'', ''phones'', ''addresses'', ''government_ids'']))"

definition parse_subfield :: "string \<Rightarrow> string option option" where
  "parse_subfield tail = (if tail = [] then Some None else map_option Some (strip_prefix ''.'' tail))"

definition parse_selector :: "string \<Rightarrow> ArraySelector option" where
  "parse_selector rest =
     (case strip_prefix ''['' rest of
        Some after_bracket \<Rightarrow>
          Option.bind (split_once CHR '']'' after_bracket) (\<lambda>(idx_str, tail).
          Option.bind (parse_usize idx_str) (\<lambda>index.
          Option.bind (parse_subfield tail) (\<lambda>subfield. Some (Index index subfield))))
      | None \<Rightarrow>
        (case strip_prefix ''.'' rest of
           Some after_dot \<Rightarrow>
             if after_dot = [] then None
             else (case split_once CHR ''.'' after_dot of
                     Some (label, sub) \<Rightarrow> Some (Label label (Some sub))
                   | None \<Rightarrow> Some (Label after_dot None))
         | None \<Rightarrow> None))"

definition scalar_alphanumeric :: "nat \<Rightarrow> bool" where
  "scalar_alphanumeric c \<longleftrightarrow> c < 128 \<and> is_ascii_alphanumeric (char_of c)"

definition label_matches :: "string \<Rightarrow> string \<Rightarrow> bool" where
  "label_matches stored requested =
     (let stored = to_ascii_lowercase stored; requested = to_ascii_lowercase requested
      in if stored = requested then True
         else case (scalars stored, scalars requested) of
                (Some s, Some r) \<Rightarrow> r \<in> set (split_char (\<lambda>c. \<not> scalar_alphanumeric c) s)
              | _ \<Rightarrow> False)"

text \<open>The entry a selector denotes, and the sub-field it asks for.\<close>

fun select_entry :: "('a \<Rightarrow> string) \<Rightarrow> 'a list \<Rightarrow> ArraySelector \<Rightarrow> 'a option \<times> string option" where
  "select_entry label_of entries (Index index subfield) = (list_get entries index, subfield)"
| "select_entry label_of entries (Label label subfield) =
     (find (\<lambda>e. label_matches (label_of e) label) entries, subfield)"

definition sub_name :: "string \<Rightarrow> string option \<Rightarrow> string" where
  "sub_name dflt sub = to_ascii_lowercase (case sub of None \<Rightarrow> dflt | Some s \<Rightarrow> s)"

definition resolve_email :: "EmailEntry list \<Rightarrow> ArraySelector \<Rightarrow> string" where
  "resolve_email entries selector =
     (case select_entry entry_label entries selector of
        (None, _) \<Rightarrow> []
      | (Some entry, sub) \<Rightarrow>
          let n = sub_name ''value'' sub
          in if n \<in> {''value'', ''email'', ''address''} then entry_value entry
             else if n \<in> {''label'', ''tag''} then entry_label entry
             else [])"

definition resolve_phone :: "PhoneEntry list \<Rightarrow> ArraySelector \<Rightarrow> string" where
  "resolve_phone entries selector =
     (case select_entry entry_label entries selector of
        (None, _) \<Rightarrow> []
      | (Some entry, sub) \<Rightarrow>
          let n = sub_name ''value'' sub
          in if n \<in> {''value'', ''number'', ''phone''} then entry_value entry
             else if n \<in> {''label'', ''tag''} then entry_label entry
             else [])"

definition resolve_address :: "PostalAddress list \<Rightarrow> ArraySelector \<Rightarrow> string" where
  "resolve_address entries selector =
     (case (case selector of Index index subfield \<Rightarrow> (list_get entries index, subfield)
                           | Label _ _ \<Rightarrow> (None, None)) of
        (None, _) \<Rightarrow> []
      | (Some entry, sub) \<Rightarrow>
          let n = sub_name [] sub
          in if n \<in> {[], ''full'', ''full_address'', ''formatted''} then format_address entry
             else if n \<in> {''street'', ''street_address'', ''address_line''} then street entry
             else if n \<in> {''city'', ''locality''} then city entry
             else if n \<in> {''region'', ''state'', ''province''} then region entry
             else if n \<in> {''postal_code'', ''zip'', ''zip_code'', ''postcode''} then postal_code entry
             else if n = ''country'' then country entry
             else [])"

definition resolve_government_id :: "GovernmentId list \<Rightarrow> ArraySelector \<Rightarrow> string" where
  "resolve_government_id entries selector =
     (case select_entry gov_label entries selector of
        (None, _) \<Rightarrow> []
      | (Some entry, sub) \<Rightarrow>
          let n = sub_name ''number'' sub
          in if n \<in> {''number'', ''value'', ''id''} then gov_number entry
             else if n \<in> {''label'', ''kind'', ''type''} then gov_label entry
             else if n = ''issuer'' then gov_issuer entry
             else if n \<in> {''issued_on'', ''issued''} then unwrap_or_default (gov_issued_on entry)
             else if n \<in> {''expires_on'', ''expires'', ''expiration''} then unwrap_or_default (gov_expires_on entry)
             else [])"

definition try_extract_identity_multi :: "IdentityContent \<Rightarrow> string \<Rightarrow> string option" where
  "try_extract_identity_multi idc field =
     (let lower = to_ascii_lowercase field
      in Option.bind (split_array_prefix lower) (\<lambda>(base, rest).
         case parse_selector rest of
           None \<Rightarrow> Some []
         | Some selector \<Rightarrow>
             if base = ''emails'' then Some (resolve_email (emails idc) selector)
             else if base = ''phones'' then Some (resolve_phone (phones idc) selector)
             else if base = ''addresses'' then Some (resolve_address (identity_addresses idc) selector)
             else if base = ''government_ids'' then Some (resolve_government_id (government_ids idc) selector)
             else None))"

definition extract_government_id_number :: "GovernmentId list \<Rightarrow> string list \<Rightarrow> string option" where
  "extract_government_id_number ids label_terms =
     map_option gov_number
       (find (\<lambda>g. list_all (\<lambda>term. str_contains (to_ascii_lowercase (gov_label g)) term) label_terms) ids)"

section \<open>Extractors\<close>

definition extract_identity_field ::
  "(json \<Rightarrow> string) \<Rightarrow> IdentityContent \<Rightarrow> string \<Rightarrow> string resolver_result" where
  "extract_identity_field plain idc field =
     (case try_extract_identity_multi idc field of
        Some value \<Rightarrow> Inr value
      | None \<Rightarrow>
        let n = to_ascii_lowercase field; addr = first (identity_addresses idc)
        in if n \<in> {''first_name'', ''given_name''} then Inr (first_name idc)
           else if n = ''middle_name'' then Inr (middle_name idc)
           else if n \<in> {''last_name'', ''family_name'', ''surname''} then Inr (last_name idc)
           else if n \<in> {''full_name'', ''name''}
             then Inr (join_full_name (first_name idc) (middle_name idc) (last_name idc))
           else if n \<in> {''username'', ''handle''} then Inr (identity_username idc)
           else if n \<in> {''company'', ''employer'', ''organization''} then Inr (company idc)
           else if n \<in> {''job_title'', ''title''} then Inr (job_title idc)
           else if n \<in> {''gender'', ''sex''} then Inr (identity_gender idc)
           else if n = ''email'' then Inr (unwrap_or_default (map_option entry_value (first (emails idc))))
           else if n \<in> {''phone'', ''phone_number'', ''telephone''}
             then Inr (unwrap_or_default (map_option entry_value (first (phones idc))))
           else if n \<in> {''date_of_birth'', ''dob'', ''birthday'', ''birthdate''}
             then Inr (unwrap_or_default (identity_date_of_birth idc))
           else if n \<in> {''address'', ''full_address''} then Inr (address_part format_address addr)
           else if n \<in> {''street'', ''street_address'', ''address_line''} then Inr (address_part street addr)
           else if n \<in> {''city'', ''locality''} then Inr (address_part city addr)
           else if n \<in> {''region'', ''state'', ''province''} then Inr (address_part region addr)
           else if n \<in> {''postal_code'', ''zip'', ''zip_code'', ''postcode''} then Inr (address_part postal_code addr)
           else if n = ''country'' then Inr (address_part country addr)
           else if n \<in> {''government_id'', ''government_id_number'', ''id_number''}
             then Inr (unwrap_or_default (map_option gov_number (first (government_ids idc))))
           else if n \<in> {''passport'', ''passport_number''}
             then Inr (unwrap_or_default (extract_government_id_number (government_ids idc) [''passport'']))
           else if n \<in> {''driver_license'', ''drivers_license'', ''driver_license_number'',
                        ''drivers_license_number'', ''license_number''}
             then Inr (unwrap_or_default (extract_government_id_number (government_ids idc) [''driver'', ''license'']))
           else if n \<in> {''notes'', ''note''} then Inr (notes_field plain idc)
           else custom_or_unknown idc field n)"

definition extract_bank_account_field ::
  "(json \<Rightarrow> string) \<Rightarrow> BankAccountContent \<Rightarrow> string \<Rightarrow> string resolver_result" where
  "extract_bank_account_field plain bank field =
     (let n = to_ascii_lowercase field
      in if n \<in> {''bank_name'', ''bank''} then Inr (bank_name bank)
         else if n \<in> {''account_holder'', ''name''} then Inr (account_holder bank)
         else if n \<in> {''account_number'', ''account''} then Inr (account_number bank)
         else if n \<in> {''routing_number'', ''routing'', ''aba'', ''rtn''} then Inr (routing_number bank)
         else if n \<in> {''account_type'', ''type''} then Inr (account_type bank)
         else if n = ''iban'' then Inr (iban bank)
         else if n \<in> {''swift'', ''bic'', ''swift_code''} then Inr (swift bank)
         else if n = ''branch'' then Inr (branch bank)
         else if n = ''pin'' then Inr (bank_pin bank)
         else if n \<in> {''notes'', ''note''} then Inr (notes_field plain bank)
         else custom_or_unknown bank field n)"

definition extract_passport_field ::
  "(json \<Rightarrow> string) \<Rightarrow> PassportContent \<Rightarrow> string \<Rightarrow> string resolver_result" where
  "extract_passport_field plain p field =
     (let n = to_ascii_lowercase field
      in if n \<in> {''number'', ''passport_number''} then Inr (passport_number p)
         else if n \<in> {''passport_type'', ''type''} then Inr (passport_type p)
         else if n \<in> {''full_name'', ''name''} then Inr (passport_full_name p)
         else if n \<in> {''surname'', ''family_name'', ''last_name''} then Inr (surname p)
         else if n \<in> {''given_names'', ''first_name'', ''given_name''} then Inr (given_names p)
         else if n = ''nationality'' then Inr (nationality p)
         else if n \<in> {''date_of_birth'', ''dob'', ''birthday'', ''birthdate''}
           then Inr (unwrap_or_default (passport_date_of_birth p))
         else if n = ''place_of_birth'' then Inr (place_of_birth p)
         else if n \<in> {''gender'', ''sex''} then Inr (passport_gender p)
         else if n \<in> {''issuing_country'', ''country''} then Inr (issuing_country p)
         else if n \<in> {''issuing_authority'', ''authority''} then Inr (issuing_authority p)
         else if n \<in> {''issued_on'', ''issue_date'', ''issued''} then Inr (unwrap_or_default (passport_issued_on p))
         else if n \<in> {''expires_on'', ''expiry'', ''expiration'', ''expires''}
           then Inr (unwrap_or_default (passport_expires_on p))
         else if n \<in> {''notes'', ''note''} then Inr (notes_field plain p)
         else custom_or_unknown p field n)"

definition extract_driver_license_field ::
  "(json \<Rightarrow> string) \<Rightarrow> DriverLicenseContent \<Rightarrow> string \<Rightarrow> string resolver_result" where
  "extract_driver_license_field plain l field =
     (let n = to_ascii_lowercase field; addr = license_address l
      in if n \<in> {''number'', ''license_number''} then Inr (license_number l)
         else if n \<in> {''full_name'', ''name''} then Inr (license_full_name l)
         else if n \<in> {''date_of_birth'', ''dob'', ''birthday'', ''birthdate''}
           then Inr (unwrap_or_default (license_date_of_birth l))
         else if n \<in> {''gender'', ''sex''} then Inr (license_gender l)
         else if n \<in> {''address'', ''full_address''} then Inr (address_part format_address addr)
         else if n = ''city'' then Inr (address_part city addr)
         else if n \<in> {''region'', ''state'', ''province''} then Inr (address_part region addr)
         else if n \<in> {''postal_code'', ''zip'', ''postcode''} then Inr (address_part postal_code addr)
         else if n = ''country'' then Inr (license_country l)
         else if n = ''state_jurisdiction'' then Inr (state l)
         else if n \<in> {''license_class'', ''class''} then Inr (license_class l)
         else if n \<in> {''conditions'', ''restrictions'', ''endorsements''} then Inr (conditions l)
         else if n \<in> {''issued_on'', ''issue_date'', ''issued''} then Inr (unwrap_or_default (license_issued_on l))
         else if n \<in> {''expires_on'', ''expiry'', ''expiration'', ''expires''}
           then Inr (unwrap_or_default (license_expires_on l))
         else if n \<in> {''notes'', ''note''} then Inr (notes_field plain l)
         else custom_or_unknown l field n)"

definition extract_crypto_wallet_field ::
  "(json \<Rightarrow> string) \<Rightarrow> CryptoWalletContent \<Rightarrow> string \<Rightarrow> string resolver_result" where
  "extract_crypto_wallet_field plain w field =
     (let n = to_ascii_lowercase field
      in if n \<in> {''wallet_name'', ''name''} then Inr (wallet_name w)
         else if n \<in> {''network'', ''chain''} then Inr (network w)
         else if n \<in> {''seed_phrase'', ''mnemonic'', ''recovery_phrase''} then Inr (seed_phrase w)
         else if n \<in> {''private_key'', ''secret_key''} then Inr (wallet_private_key w)
         else if n \<in> {''password'', ''passphrase''} then Inr (wallet_password w)
         else if n \<in> {''derivation_path'', ''path''} then Inr (derivation_path w)
         else if n = ''address'' then Inr (unwrap_or_default (map_option entry_value (first (wallet_addresses w))))
         else if n \<in> {''notes'', ''note''} then Inr (notes_field plain w)
         else custom_or_unknown w field n)"

definition extract_server_field ::
  "(json \<Rightarrow> string) \<Rightarrow> ServerContent \<Rightarrow> string \<Rightarrow> string resolver_result" where
  "extract_server_field plain s field =
     (let n = to_ascii_lowercase field
      in if n \<in> {''hostname'', ''host'', ''server''} then Inr (hostname s)
         else if n = ''port'' then Inr (port_text (server_port s))
         else if n \<in> {''protocol'', ''scheme''} then Inr (protocol s)
         else if n \<in> {''username'', ''user''} then Inr (server_username s)
         else if n = ''password'' then Inr (server_password s)
         else if n \<in> {''ssh_key_reference'', ''key_reference'', ''ssh_key''} then Inr (ssh_key_reference s)
         else if n \<in> {''admin_console_url'', ''admin_url'', ''console''} then Inr (admin_console_url s)
         else if n \<in> {''notes'', ''note''} then Inr (notes_field plain s)
         else custom_or_unknown s field n)"

definition extract_database_field ::
  "(json \<Rightarrow> string) \<Rightarrow> DatabaseContent \<Rightarrow> string \<Rightarrow> string resolver_result" where
  "extract_database_field plain d field =
     (let n = to_ascii_lowercase field
      in if n \<in> {''database_type'', ''type'', ''engine''} then Inr (database_type d)
         else if n \<in> {''server'', ''host'', ''hostname''} then Inr (db_server d)
         else if n = ''port'' then Inr (port_text (db_port d))
         else if n \<in> {''database_name'', ''database'', ''db''} then Inr (database_name d)
         else if n \<in> {''username'', ''user''} then Inr (db_username d)
         else if n = ''password'' then Inr (db_password d)
         else if n = ''sid'' then Inr (sid d)
         else if n = ''schema'' then Inr (schema d)
         else if n \<in> {''notes'', ''note''} then Inr (notes_field plain d)
         else custom_or_unknown d field n)"

definition extract_card_field ::
  "(json \<Rightarrow> string) \<Rightarrow> CardContent \<Rightarrow> string \<Rightarrow> string resolver_result" where
  "extract_card_field plain cc field =
     (let n = to_ascii_lowercase field; addr = billing_address cc
      in if n \<in> {''number'', ''card_number'', ''pan'', ''account_number''} then Inr (card_number cc)
         else if n \<in> {''cardholder'', ''cardholder_name'', ''name_on_card'', ''name''} then Inr (cardholder_name cc)
         else if n \<in> {''brand'', ''network'', ''card_brand''} then Inr (brand cc)
         else if n \<in> {''expiry'', ''expires'', ''exp'', ''expiration'', ''expiration_date''} then Inr (expiry cc)
         else if n \<in> {''cvv'', ''cvc'', ''cvv2'', ''security_code''} then Inr (cvv cc)
         else if n = ''pin'' then Inr (card_pin cc)
         else if n = ''billing_address'' then Inr (address_part format_address addr)
         else if n = ''billing_street'' then Inr (address_part street addr)
         else if n = ''billing_city'' then Inr (address_part city addr)
         else if n \<in> {''billing_region'', ''billing_state'', ''billing_province''} then Inr (address_part region addr)
         else if n \<in> {''billing_postal_code'', ''billing_zip'', ''billing_zip_code''}
           then Inr (address_part postal_code addr)
         else if n = ''billing_country'' then Inr (address_part country addr)
         else if n \<in> {''notes'', ''note''} then Inr (notes_field plain cc)
         else custom_or_unknown cc field n)"

definition extract_ssh_key_field ::
  "(json \<Rightarrow> string) \<Rightarrow> SshKeyContent \<Rightarrow> string \<Rightarrow> string resolver_result" where
  "extract_ssh_key_field plain key field =
     (let n = to_ascii_lowercase field
      in if n \<in> {''private_key'', ''private'', ''private_key_pem'', ''key''} then Inr (ssh_private_key key)
         else if n \<in> {''public_key'', ''public'', ''authorized_key''} then Inr (ssh_public_key key)
         else if n \<in> {''passphrase'', ''password''} then Inr (passphrase key)
         else if n = ''fingerprint'' then Inr (fingerprint key)
         else if n \<in> {''key_type'', ''type'', ''algorithm''} then Inr (key_type key)
         else if n \<in> {''notes'', ''note''} then Inr (notes_field plain key)
         else custom_or_unknown key field n)"

definition extract_document_field ::
  "(json \<Rightarrow> string) \<Rightarrow> DocumentContent \<Rightarrow> string \<Rightarrow> string resolver_result" where
  "extract_document_field plain doc field =
     (let n = to_ascii_lowercase field
      in if n \<in> {''filename'', ''file_name'', ''name''} then Inr (document_filename doc)
         else if n \<in> {''content_type'', ''mime'', ''mime_type'', ''media_type''} then Inr (document_content_type doc)
         else if n \<in> {''size'', ''size_bytes'', ''byte_size''}
           then Inr (unwrap_or_default (map_option (\<lambda>k. dec_string (unat k)) (size_bytes doc)))
         else if n \<in> {''alt_text'', ''alt'', ''description''} then Inr (alt_text doc)
         else if n \<in> {''attachment_uri'', ''attachment'', ''uri'', ''url''} then Inr (attachment_uri doc)
         else if n \<in> {''notes'', ''note''} then Inr (notes_field plain doc)
         else custom_or_unknown doc field n)"

definition extract_login_field ::
  "(json \<Rightarrow> string) \<Rightarrow> LoginContent \<Rightarrow> string \<Rightarrow> string resolver_result" where
  "extract_login_field plain login field =
     (let n = to_ascii_lowercase field
      in if n \<in> {''username'', ''user''} then Inr (login_username login)
         else if n \<in> {''password'', ''pass''} then Inr (login_password login)
         else if n \<in> {''notes'', ''note''} then Inr (notes_field plain login)
         else if n \<in> {''url'', ''urls''}
           then Inr (unwrap_or_default (map_option login_url (first (login_urls login))))
         else if n \<in> {''totp'', ''otp'', ''totp_secret'', ''secret_base32''}
           then ok_or (UnknownField field) (map_option secret_base32 (login_totp login))
         else custom_or_unknown login field n)"

definition extract_secure_note_field ::
  "(json \<Rightarrow> string) \<Rightarrow> SecureNoteContent \<Rightarrow> string \<Rightarrow> string resolver_result" where
  "extract_secure_note_field plain note field =
     (let n = to_ascii_lowercase field
      in if n \<in> {''body'', ''note'', ''notes''} then Inr (notes_field plain note)
         else custom_or_unknown note field n)"

definition extract_api_credential_field ::
  "(json \<Rightarrow> string) \<Rightarrow> ApiCredentialContent \<Rightarrow> string \<Rightarrow> string resolver_result" where
  "extract_api_credential_field plain api field =
     (let n = to_ascii_lowercase field
      in if n \<in> {''primary'', ''primary_value'', ''value'', ''key''} then Inr (primary_value api)
         else if n \<in> {''secondary'', ''secondary_value'', ''secret''} then Inr (secondary_value api)
         else if n \<in> {''notes'', ''note''} then Inr (notes_field plain api)
         else (case find (\<lambda>h. eq_ignore_ascii_case (fst h) n) (headers api) of
                 Some h \<Rightarrow> Inr (snd h)
               | None \<Rightarrow> custom_or_unknown api field n))"

fun extract_content :: "(json \<Rightarrow> string) \<Rightarrow> ItemContent \<Rightarrow> string \<Rightarrow> string resolver_result" where
  "extract_content plain (Login c) field = extract_login_field plain c field"
| "extract_content plain (SecureNote c) field = extract_secure_note_field plain c field"
| "extract_content plain (ApiCredential c) field = extract_api_credential_field plain c field"
| "extract_content plain (Card c) field = extract_card_field plain c field"
| "extract_content plain (Identity c) field = extract_identity_field plain c field"
| "extract_content plain (Document c) field = extract_document_field plain c field"
| "extract_content plain (SshKey c) field = extract_ssh_key_field plain c field"
| "extract_content plain (Server c) field = extract_server_field plain c field"
| "extract_content plain (Database c) field = extract_database_field plain c field"
| "extract_content plain (BankAccount c) field = extract_bank_account_field plain c field"
| "extract_content plain (Passport c) field = extract_passport_field plain c field"
| "extract_content plain (DriverLicense c) field = extract_driver_license_field plain c field"
| "extract_content plain (CryptoWallet c) field = extract_crypto_wallet_field plain c field"

definition extract_field :: "(json \<Rightarrow> string) \<Rightarrow> ItemContent \<Rightarrow> string \<Rightarrow> string resolver_result" where
  "extract_field plain content field =
     and_then (extract_content plain content field) (\<lambda>value.
       if value = [] then Inl (UnknownField field) else Inr value)"

section \<open>The contract of an extractor\<close>

text \<open>\<open>covered fallback r r'\<close> relates the answer \<open>r\<close> of an item to the answer \<open>r'\<close> of the same item
  without its custom fields: they agree, or the item proper has no answer and \<open>r\<close> is the
  custom fields' answer.\<close>

definition covered :: "'e + 'a \<Rightarrow> 'e + 'a \<Rightarrow> 'e + 'a \<Rightarrow> bool" where
  "covered fallback r r' \<longleftrightarrow> r = r' \<or> r = fallback \<and> \<not> is_ok r'"

definition custom_answer :: "CustomField list \<Rightarrow> string \<Rightarrow> string resolver_result" where
  "custom_answer cfs field = ok_or (UnknownField field) (extract_custom_field cfs (to_ascii_lowercase field))"

lemma covered_refl: "covered fb r r"
  by (simp add: covered_def)

lemma covered_if:
  "x = x' \<Longrightarrow> covered fb r r' \<Longrightarrow> covered fb (if b then x else r) (if b then x' else r')"
  by (simp add: covered_def)

lemma covered_option:
  "v = v' \<Longrightarrow> covered fb r r' \<Longrightarrow>
    covered fb (case v of Some x \<Rightarrow> Inr (g x) | None \<Rightarrow> r) (case v' of Some x \<Rightarrow> Inr (g x) | None \<Rightarrow> r')"
  by (cases v') (simp_all add: covered_def)

lemma extract_custom_Nil [simp]: "extract_custom_field [] n = None"
  by (simp add: extract_custom_field_def)

lemma covered_custom:
  "custom_fields c' = [] \<Longrightarrow>
    covered (custom_answer (custom_fields c) field) (custom_or_unknown c field (to_ascii_lowercase field))
      (custom_or_unknown c' field n)"
  by (simp add: covered_def custom_answer_def custom_or_unknown_def)

lemma refold_custom:
  "map_err (\<lambda>_. UnknownField field) (custom_or_unknown c g n) = custom_or_unknown c field n"
  by (cases "extract_custom_field (custom_fields c) n") (simp_all add: custom_or_unknown_def)

lemmas refold_simps = to_ascii_lowercase_idem if_distrib [where f = "map_err _"] map_err_simps refold_custom

locale field_extractor =
  fixes answer :: "'c \<Rightarrow> string \<Rightarrow> string resolver_result"
    and strip :: "'c \<Rightarrow> 'c"
    and customs :: "'c \<Rightarrow> CustomField list"
  assumes fold_case: "map_err (\<lambda>_. UnknownField f) (answer c (to_ascii_lowercase f)) = answer c f"
    and answers: "covered (custom_answer (customs c) f) (answer c f) (answer (strip c) f)"
begin

lemma only_unknown: "answer c f = Inl e \<Longrightarrow> e = UnknownField f"
  using fold_case [of f c] by (auto simp: map_err_def split: sum.splits)

lemma ignores_case: "eq_ignore_ascii_case f g \<Longrightarrow> result_ok (answer c f) = result_ok (answer c g)"
  unfolding eq_ignore_ascii_case_def fold_case [of f c, symmetric] fold_case [of g c, symmetric]
  by (cases "answer c (to_ascii_lowercase g)") simp_all

lemma no_shadowing: "is_ok (answer (strip c) f) \<Longrightarrow> answer c f = answer (strip c) f"
  using answers [of c f] by (auto simp: covered_def)

lemma custom_only_fallback:
  "answer c f \<noteq> answer (strip c) f \<Longrightarrow> answer c f = custom_answer (customs c) f"
  using answers [of c f] by (auto simp: covered_def)

end

definition without_custom :: "'a common_fields_scheme \<Rightarrow> 'a common_fields_scheme" where
  "without_custom c = c\<lparr> custom_fields := [] \<rparr>"

interpretation login_extractor: field_extractor "extract_login_field plain" without_custom custom_fields
proof
  fix f :: string and c :: LoginContent
  show "map_err (\<lambda>_. UnknownField f) (extract_login_field plain c (to_ascii_lowercase f)) = extract_login_field plain c f"
    unfolding extract_login_field_def Let_def
    by (cases "login_totp c") (simp_all only: refold_simps option.map ok_or_simps)
  show "covered (custom_answer (custom_fields c) f) (extract_login_field plain c f)
      (extract_login_field plain (without_custom c) f)"
    unfolding extract_login_field_def Let_def
    by (intro covered_if covered_custom) (simp_all add: without_custom_def notes_field_def)
qed

interpretation secure_note_extractor: field_extractor "extract_secure_note_field plain"
  "without_custom :: common_fields \<Rightarrow> _" custom_fields
  by (unfold_locales; unfold extract_secure_note_field_def Let_def refold_simps;
      (rule refl | intro covered_if covered_custom; simp add: without_custom_def notes_field_def))

interpretation card_extractor: field_extractor "extract_card_field plain"
  "without_custom :: CardContent \<Rightarrow> _" custom_fields
  by (unfold_locales; unfold extract_card_field_def Let_def refold_simps;
      (rule refl | intro covered_if covered_custom; simp add: without_custom_def notes_field_def))

interpretation document_extractor: field_extractor "extract_document_field plain"
  "without_custom :: DocumentContent \<Rightarrow> _" custom_fields
  by (unfold_locales; unfold extract_document_field_def Let_def refold_simps;
      (rule refl | intro covered_if covered_custom; simp add: without_custom_def notes_field_def))

interpretation ssh_key_extractor: field_extractor "extract_ssh_key_field plain"
  "without_custom :: SshKeyContent \<Rightarrow> _" custom_fields
  by (unfold_locales; unfold extract_ssh_key_field_def Let_def refold_simps;
      (rule refl | intro covered_if covered_custom; simp add: without_custom_def notes_field_def))

interpretation server_extractor: field_extractor "extract_server_field plain"
  "without_custom :: ServerContent \<Rightarrow> _" custom_fields
  by (unfold_locales; unfold extract_server_field_def Let_def refold_simps;
      (rule refl | intro covered_if covered_custom; simp add: without_custom_def notes_field_def))

interpretation database_extractor: field_extractor "extract_database_field plain"
  "without_custom :: DatabaseContent \<Rightarrow> _" custom_fields
  by (unfold_locales; unfold extract_database_field_def Let_def refold_simps;
      (rule refl | intro covered_if covered_custom; simp add: without_custom_def notes_field_def))

interpretation bank_account_extractor: field_extractor "extract_bank_account_field plain"
  "without_custom :: BankAccountContent \<Rightarrow> _" custom_fields
  by (unfold_locales; unfold extract_bank_account_field_def Let_def refold_simps;
      (rule refl | intro covered_if covered_custom; simp add: without_custom_def notes_field_def))

interpretation passport_extractor: field_extractor "extract_passport_field plain"
  "without_custom :: PassportContent \<Rightarrow> _" custom_fields
  by (unfold_locales; unfold extract_passport_field_def Let_def refold_simps;
      (rule refl | intro covered_if covered_custom; simp add: without_custom_def notes_field_def))

interpretation driver_license_extractor: field_extractor "extract_driver_license_field plain"
  "without_custom :: DriverLicenseContent \<Rightarrow> _" custom_fields
  by (unfold_locales; unfold extract_driver_license_field_def Let_def refold_simps;
      (rule refl | intro covered_if covered_custom; simp add: without_custom_def notes_field_def))

interpretation crypto_wallet_extractor: field_extractor "extract_crypto_wallet_field plain"
  "without_custom :: CryptoWalletContent \<Rightarrow> _" custom_fields
  by (unfold_locales; unfold extract_crypto_wallet_field_def Let_def refold_simps;
      (rule refl | intro covered_if covered_custom; simp add: without_custom_def notes_field_def))

interpretation api_credential_extractor: field_extractor "extract_api_credential_field plain"
  "without_custom :: ApiCredentialContent \<Rightarrow> _" custom_fields
  by (unfold_locales; unfold extract_api_credential_field_def Let_def refold_simps
        option.case_distrib [where h = "map_err _"];
      (rule refl | intro covered_if covered_option covered_custom; simp add: without_custom_def notes_field_def))

lemma without_custom_arrays:
  "emails (without_custom idc) = emails idc" "phones (without_custom idc) = phones idc"
  "identity_addresses (without_custom idc) = identity_addresses idc"
  "government_ids (without_custom idc) = government_ids idc"
  by (simp_all add: without_custom_def)

lemma identity_multi_folds [simp]:
  "try_extract_identity_multi idc (to_ascii_lowercase f) = try_extract_identity_multi idc f"
  "try_extract_identity_multi (without_custom idc) f = try_extract_identity_multi idc f"
  unfolding try_extract_identity_multi_def without_custom_arrays to_ascii_lowercase_idem by (rule refl)+

interpretation identity_extractor: field_extractor "extract_identity_field plain"
  "without_custom :: IdentityContent \<Rightarrow> _" custom_fields
  by (unfold_locales; unfold extract_identity_field_def Let_def refold_simps identity_multi_folds
        option.case_distrib [where h = "map_err _"];
      (rule refl | intro covered_if covered_option covered_custom; simp add: without_custom_def notes_field_def))

text \<open>The dispatcher is an extractor as well.\<close>

fun content_custom_fields :: "ItemContent \<Rightarrow> CustomField list" where
  "content_custom_fields (Login c) = custom_fields c"
| "content_custom_fields (SecureNote c) = custom_fields c"
| "content_custom_fields (ApiCredential c) = custom_fields c"
| "content_custom_fields (Card c) = custom_fields c"
| "content_custom_fields (Identity c) = custom_fields c"
| "content_custom_fields (Document c) = custom_fields c"
| "content_custom_fields (SshKey c) = custom_fields c"
| "content_custom_fields (Server c) = custom_fields c"
| "content_custom_fields (Database c) = custom_fields c"
| "content_custom_fields (BankAccount c) = custom_fields c"
| "content_custom_fields (Passport c) = custom_fields c"
| "content_custom_fields (DriverLicense c) = custom_fields c"
| "content_custom_fields (CryptoWallet c) = custom_fields c"

fun content_without_custom :: "ItemContent \<Rightarrow> ItemContent" where
  "content_without_custom (Login c) = Login (without_custom c)"
| "content_without_custom (SecureNote c) = SecureNote (without_custom c)"
| "content_without_custom (ApiCredential c) = ApiCredential (without_custom c)"
| "content_without_custom (Card c) = Card (without_custom c)"
| "content_without_custom (Identity c) = Identity (without_custom c)"
| "content_without_custom (Document c) = Document (without_custom c)"
| "content_without_custom (SshKey c) = SshKey (without_custom c)"
| "content_without_custom (Server c) = Server (without_custom c)"
| "content_without_custom (Database c) = Database (without_custom c)"
| "content_without_custom (BankAccount c) = BankAccount (without_custom c)"
| "content_without_custom (Passport c) = Passport (without_custom c)"
| "content_without_custom (DriverLicense c) = DriverLicense (without_custom c)"
| "content_without_custom (CryptoWallet c) = CryptoWallet (without_custom c)"

lemmas extractors_fold_case = login_extractor.fold_case secure_note_extractor.fold_case
  api_credential_extractor.fold_case card_extractor.fold_case identity_extractor.fold_case
  document_extractor.fold_case ssh_key_extractor.fold_case server_extractor.fold_case
  database_extractor.fold_case bank_account_extractor.fold_case passport_extractor.fold_case
  driver_license_extractor.fold_case crypto_wallet_extractor.fold_case

lemmas extractors_answers = login_extractor.answers secure_note_extractor.answers
  api_credential_extractor.answers card_extractor.answers identity_extractor.answers
  document_extractor.answers ssh_key_extractor.answers server_extractor.answers
  database_extractor.answers bank_account_extractor.answers passport_extractor.answers
  driver_license_extractor.answers crypto_wallet_extractor.answers

interpretation content_extractor: field_extractor "extract_content plain" content_without_custom content_custom_fields
proof
  fix f c
  show "map_err (\<lambda>_. UnknownField f) (extract_content plain c (to_ascii_lowercase f)) = extract_content plain c f"
    by (cases c) (simp_all add: extractors_fold_case)
  show "covered (custom_answer (content_custom_fields c) f) (extract_content plain c f)
      (extract_content plain (content_without_custom c) f)"
    by (cases c) (simp_all add: extractors_answers)
qed

section \<open>Properties\<close>

text \<open>Field lookup ignores ASCII case: two spellings of a name that differ in case only give
  the same secret or both fail.  A secret is never empty, and the only failure is that the field
  is unknown, reported with the name as it was asked for.\<close>

theorem extract_field_spelling:
  "(eq_ignore_ascii_case f g \<longrightarrow> result_ok (extract_field plain c f) = result_ok (extract_field plain c g))
   \<and> extract_field plain c f \<noteq> Inr []
   \<and> (\<forall>e. extract_field plain c f = Inl e \<longrightarrow> e = UnknownField f)"
proof (intro conjI impI allI)
  assume "eq_ignore_ascii_case f g"
  from content_extractor.ignores_case [OF this, of plain c]
  show "result_ok (extract_field plain c f) = result_ok (extract_field plain c g)"
    by (cases "extract_content plain c f"; cases "extract_content plain c g") (auto simp: extract_field_def)
next
  show "extract_field plain c f \<noteq> Inr []" by (auto simp: extract_field_def and_then_eq_Inr)
next
  fix e
  assume "extract_field plain c f = Inl e"
  then show "e = UnknownField f"
    using content_extractor.only_unknown [of plain c f] by (auto simp: extract_field_def and_then_eq_Inl split: if_splits)
qed

definition sample_login :: LoginContent where
  "sample_login = common_fields.extend
     (default_common\<lparr> custom_fields :=
        [\<lparr> cf_name = ''Password'', cf_kind = Concealed, cf_value = ''shadow'', cf_purpose = None, cf_section_id = None \<rparr>,
         \<lparr> cf_name = ''Door code'', cf_kind = Concealed, cf_value = ''4711'', cf_purpose = Some PPin, cf_section_id = None \<rparr>] \<rparr>)
     (LoginContent.fields ''alice'' ''hunter2'' [LoginUrl_plain ''https://example.org''] None [] None None [])"

theorem extract_field_spelling_witness:
  "result_ok (extract_field (\<lambda>_. []) (Login sample_login) ''PASSWORD'')
     = result_ok (extract_field (\<lambda>_. []) (Login sample_login) ''password'')"
  by (rule extract_field_spelling [THEN conjunct1, THEN mp])
    (simp add: eq_ignore_ascii_case_def ascii_lower_def char_of_def bit_Suc_0_iff)

lemma extract_custom_field_Some:
  assumes "extract_custom_field cfs (to_ascii_lowercase f) = Some v"
  shows "\<exists>i < length cfs. v = cf_value (cfs ! i)
          \<and> (eq_ignore_ascii_case (cf_name (cfs ! i)) f \<and> (\<forall>j < i. \<not> eq_ignore_ascii_case (cf_name (cfs ! j)) f)
             \<or> (\<forall>j < length cfs. \<not> eq_ignore_ascii_case (cf_name (cfs ! j)) f) \<and> cf_purpose (cfs ! i) \<noteq> None
                \<and> purpose_of_name (to_ascii_lowercase f) = cf_purpose (cfs ! i)
                \<and> (\<forall>j < i. cf_purpose (cfs ! j) \<noteq> cf_purpose (cfs ! i)))"
proof (cases "find (\<lambda>c. eq_ignore_ascii_case (cf_name c) f) cfs")
  case (Some c)
  with assms have "v = cf_value c" by (simp add: extract_custom_field_def)
  with Some show ?thesis by (auto simp: find_Some_iff)
next
  case None
  with assms obtain p c where p: "purpose_of_name (to_ascii_lowercase f) = Some p"
    and c: "find (\<lambda>c. cf_purpose c = Some p) cfs = Some c" and v: "v = cf_value c"
    by (auto simp: extract_custom_field_def bind_eq_Some_conv)
  from c obtain i where "i < length cfs" "cf_purpose (cfs ! i) = Some p" "c = cfs ! i"
      "\<forall>j < i. cf_purpose (cfs ! j) \<noteq> Some p"
    by (auto simp: find_Some_iff)
  moreover have "\<forall>j < length cfs. \<not> eq_ignore_ascii_case (cf_name (cfs ! j)) f"
    using None by (auto simp: find_None_iff)
  ultimately show ?thesis using p v by (intro exI [of _ i]) simp
qed

text \<open>C32. Custom fields are a fallback only.  Where the item proper answers a name, no custom field
  can shadow the answer.  Where the answer does come from the custom fields, it is the value of
  the first field with that name in any case; only if there is none, it is the first field
  that carries the purpose the name stands for.\<close>

theorem custom_fields_are_fallback:
  "(is_ok (extract_content plain (content_without_custom c) f) \<longrightarrow>
      extract_field plain c f = extract_field plain (content_without_custom c) f)
   \<and> (extract_field plain c f = Inr v \<and> extract_field plain c f \<noteq> extract_field plain (content_without_custom c) f \<longrightarrow>
      (let cfs = content_custom_fields c; named = (\<lambda>i. eq_ignore_ascii_case (cf_name (cfs ! i)) f)
       in \<exists>i < length cfs. v = cf_value (cfs ! i)
          \<and> (named i \<and> (\<forall>j < i. \<not> named j)
             \<or> (\<forall>j < length cfs. \<not> named j) \<and> cf_purpose (cfs ! i) \<noteq> None
                \<and> purpose_of_name (to_ascii_lowercase f) = cf_purpose (cfs ! i)
                \<and> (\<forall>j < i. cf_purpose (cfs ! j) \<noteq> cf_purpose (cfs ! i)))))"
proof (intro conjI impI)
  assume "is_ok (extract_content plain (content_without_custom c) f)"
  from content_extractor.no_shadowing [OF this]
  show "extract_field plain c f = extract_field plain (content_without_custom c) f"
    by (simp add: extract_field_def)
next
  define cfs where "cfs = content_custom_fields c"
  assume a: "extract_field plain c f = Inr v
    \<and> extract_field plain c f \<noteq> extract_field plain (content_without_custom c) f"
  then have "extract_content plain c f = Inr v"
      and "extract_content plain c f \<noteq> extract_content plain (content_without_custom c) f"
    by (auto simp: extract_field_def and_then_eq_Inr split: if_splits)
  with content_extractor.custom_only_fallback [of plain c f]
  have "custom_answer cfs f = Inr v" by (simp add: cfs_def)
  then have "extract_custom_field cfs (to_ascii_lowercase f) = Some v"
    by (simp add: custom_answer_def ok_or_eq_Inr)
  then show "let cfs = content_custom_fields c; named = (\<lambda>i. eq_ignore_ascii_case (cf_name (cfs ! i)) f)
       in \<exists>i < length cfs. v = cf_value (cfs ! i)
          \<and> (named i \<and> (\<forall>j < i. \<not> named j)
             \<or> (\<forall>j < length cfs. \<not> named j) \<and> cf_purpose (cfs ! i) \<noteq> None
                \<and> purpose_of_name (to_ascii_lowercase f) = cf_purpose (cfs ! i)
                \<and> (\<forall>j < i. cf_purpose (cfs ! j) \<noteq> cf_purpose (cfs ! i)))"
    unfolding cfs_def [symmetric] Let_def by (rule extract_custom_field_Some)
qed

theorem custom_fields_are_fallback_witness:
  "extract_field (\<lambda>_. []) (Login sample_login) ''password''
     = extract_field (\<lambda>_. []) (content_without_custom (Login sample_login)) ''password''"
  by (rule custom_fields_are_fallback [THEN conjunct1, THEN mp])
    (simp add: extract_login_field_def ascii_lower_def)

section \<open>Selectors\<close>

lemma split_char_mem:
  "w \<in> set (split_char p s) \<longleftrightarrow>
    (\<exists>a b. s = a @ w @ b \<and> (\<forall>x \<in> set w. \<not> p x) \<and> (a = [] \<or> p (last a)) \<and> (b = [] \<or> p (hd b)))"
    (is "_ \<longleftrightarrow> ?R s")
proof
  show "w \<in> set (split_char p s) \<Longrightarrow> ?R s"
  proof (induction "length s" arbitrary: s rule: less_induct)
    case less
    show ?case
    proof (cases "\<exists>x \<in> set s. p x")
      case False
      with less.prems show ?thesis by (intro exI [of _ "[]"]) (simp add: split_char_none)
    next
      case True
      then obtain u c v where s: "s = u @ c # v" and c: "p c" and u: "\<forall>x \<in> set u. \<not> p x"
        by (metis split_list_first_prop)
      have "w = u \<or> w \<in> set (split_char p v)"
        using less.prems by (simp add: s split_char_append [OF u c])
      then show ?thesis
      proof
        assume "w = u"
        with u c s show ?thesis by (intro exI [of _ "[]"] exI [of _ "c # v"]) simp
      next
        assume "w \<in> set (split_char p v)"
        then have "?R v" by (intro less.hyps) (simp_all add: s)
        then obtain a b where "v = a @ w @ b" "\<forall>x \<in> set w. \<not> p x" "a = [] \<or> p (last a)" "b = [] \<or> p (hd b)"
          by blast
        with c s show ?thesis by (intro exI [of _ "u @ c # a"] exI [of _ b]) auto
      qed
    qed
  qed
  show "?R s \<Longrightarrow> w \<in> set (split_char p s)"
  proof (induction "length s" arbitrary: s rule: less_induct)
    case less
    then obtain a b where s: "s = a @ w @ b" and w: "\<forall>x \<in> set w. \<not> p x" and a: "a = [] \<or> p (last a)"
      and b: "b = [] \<or> p (hd b)"
      by blast
    show ?case
    proof (cases "a = []")
      case True
      with s w b show ?thesis
        by (cases b) (simp_all add: split_char_none split_char_append)
    next
      case False
      with a have "\<exists>x \<in> set a. p x" by auto
      then obtain u c v where a': "a = u @ c # v" and c: "p c" and u: "\<forall>x \<in> set u. \<not> p x"
        by (metis split_list_first_prop)
      have "?R (v @ w @ b)" using w b a a' by (intro exI [of _ v] exI [of _ b]) (auto split: if_splits)
      then have "w \<in> set (split_char p (v @ w @ b))" by (intro less.hyps) (simp_all add: s a')
      then show ?thesis by (simp add: s a' split_char_append [OF u c])
    qed
  qed
qed

lemma parse_usize_dec: "n < 2 ^ 64 \<Longrightarrow> parse_usize (dec_string n) = Some n"
proof -
  assume n: "n < 2 ^ 64"
  obtain c r where cr: "dec_string n = c # r" by (cases "dec_string n") auto
  have "is_ascii_digit c" using dec_string_digits [of n] by (simp add: cr)
  then have "c \<noteq> CHR ''+''" by (auto simp: is_ascii_digit_def)
  moreover have "dec_value (c # r) = n" using dec_value_dec_string [of n] by (simp add: cr)
  moreover have "list_all is_ascii_digit (c # r)" using dec_string_digits [of n] by (simp add: cr)
  ultimately show ?thesis using n by (simp add: parse_usize_def cr)
qed

lemma dec_string_lower [simp]: "to_ascii_lowercase (dec_string n) = dec_string n"
proof -
  have "ascii_lower c = c" if "is_ascii_digit c" for c
    using that by (simp add: is_ascii_digit_def ascii_lower_def)
  then show ?thesis
    using dec_string_digits [of n] by (auto simp: to_ascii_lowercase_def list_all_iff intro: map_idI)
qed

lemma parse_index_selector:
  assumes "n < 2 ^ 64"
  shows "parse_selector (CHR ''['' # dec_string n @ '']'') = Some (Index n None)"
proof -
  have "split_once CHR '']'' (dec_string n @ '']'') = Some (dec_string n, [])"
    by (simp add: split_once_eq_Some dec_string_not_mem is_ascii_digit_def)
  with assms show ?thesis
    by (simp add: parse_selector_def strip_prefix_def parse_usize_dec parse_subfield_def)
qed

definition indexed :: "string \<Rightarrow> nat \<Rightarrow> string" where
  "indexed name n = name @ ''['' @ dec_string n @ '']''"

text \<open>What a list of values answers to an index: the value there, unless it is empty.\<close>

definition answer_at :: "string \<Rightarrow> string list \<Rightarrow> nat \<Rightarrow> string resolver_result" where
  "answer_at name values n =
     (if n < length values \<and> values ! n \<noteq> [] then Inr (values ! n) else Inl (UnknownField (indexed name n)))"

lemma literal_lower:
  "to_ascii_lowercase ''emails'' = ''emails''" "to_ascii_lowercase ''phones'' = ''phones''"
  "to_ascii_lowercase ''addresses'' = ''addresses''" "to_ascii_lowercase ''government_ids'' = ''government_ids''"
  "to_ascii_lowercase ''value'' = ''value''" "to_ascii_lowercase ''number'' = ''number''"
  by (simp_all add: ascii_lower_def)

lemma sub_name_default:
  "sub_name ''value'' None = ''value''" "sub_name ''number'' None = ''number''" "sub_name [] None = []"
  unfolding sub_name_def by (simp_all only: option.case literal_lower to_ascii_lowercase_simps(1))

lemma indexed_lower:
  "to_ascii_lowercase name = name \<Longrightarrow> to_ascii_lowercase (indexed name n) = name @ CHR ''['' # dec_string n @ '']''"
  by (simp add: indexed_def) (simp add: ascii_lower_def)

lemma split_array_prefix_literal:
  "split_array_prefix (''emails'' @ CHR ''['' # r) = Some (''emails'', CHR ''['' # r)"
  "split_array_prefix (''phones'' @ CHR ''['' # r) = Some (''phones'', CHR ''['' # r)"
  "split_array_prefix (''addresses'' @ CHR ''['' # r) = Some (''addresses'', CHR ''['' # r)"
  "split_array_prefix (''government_ids'' @ CHR ''['' # r) = Some (''government_ids'', CHR ''['' # r)"
  by (simp_all add: split_array_prefix_def strip_prefix_def first_def List.map_filter_def)

lemma extract_identity_indexed:
  assumes "n < 2 ^ 64" and "to_ascii_lowercase name = name"
    and "split_array_prefix (name @ CHR ''['' # dec_string n @ '']'') = Some (name, CHR ''['' # dec_string n @ '']'')"
    and "\<And>b. (if name = ''emails'' then Some (resolve_email (emails c) (Index n None))
             else if name = ''phones'' then Some (resolve_phone (phones c) (Index n None))
             else if name = ''addresses'' then Some (resolve_address (identity_addresses c) (Index n None))
             else if name = ''government_ids'' then Some (resolve_government_id (government_ids c) (Index n None))
             else None) = Some (unwrap_or_default (list_get values n))"
  shows "extract_field plain (Identity c) (indexed name n) = answer_at name values n"
proof -
  have "try_extract_identity_multi c (indexed name n) = Some (unwrap_or_default (list_get values n))"
    using assms(3,4) by (simp add: try_extract_identity_multi_def indexed_lower [OF assms(2)] parse_index_selector [OF assms(1)])
  then show ?thesis
    by (auto simp: extract_field_def extract_identity_field_def answer_at_def list_get_def unwrap_or_default_def)
qed

text \<open>On an identity, \<open>emails[n]\<close>, \<open>phones[n]\<close>, \<open>addresses[n]\<close> and \<open>government_ids[n]\<close>
  return the value of the entry with that index, and an index past the end, or an empty entry,
  is an unknown field: no index ever yields another entry.\<close>

theorem identity_index_selectors:
  assumes "n < 2 ^ 64"
  shows "extract_field plain (Identity c) (indexed ''emails'' n)
      = answer_at ''emails'' (map entry_value (emails c)) n
    \<and> extract_field plain (Identity c) (indexed ''phones'' n)
      = answer_at ''phones'' (map entry_value (phones c)) n
    \<and> extract_field plain (Identity c) (indexed ''addresses'' n)
      = answer_at ''addresses'' (map format_address (identity_addresses c)) n
    \<and> extract_field plain (Identity c) (indexed ''government_ids'' n)
      = answer_at ''government_ids'' (map gov_number (government_ids c)) n"
  by (intro conjI extract_identity_indexed [OF assms] literal_lower split_array_prefix_literal)
    (simp_all add: resolve_email_def resolve_phone_def resolve_address_def resolve_government_id_def
      sub_name_default list_get_def unwrap_or_default_def)

definition sample_identity :: IdentityContent where
  "sample_identity = common_fields.extend default_common
     (IdentityContent.fields ''Ada'' [] ''Lovelace'' [] [] [] [] None
        [\<lparr> entry_label = ''Work email'', entry_value = ''a@example.org'' \<rparr>,
         \<lparr> entry_label = ''Home'', entry_value = ''b@example.org'' \<rparr>] [] [] [])"

theorem identity_index_selectors_witness:
  "extract_field (\<lambda>_. []) (Identity sample_identity) (indexed ''emails'' 1) = Inr ''b@example.org''"
  using identity_index_selectors [of 1 "\<lambda>_. []" sample_identity]
  by (simp add: answer_at_def sample_identity_def common_fields.defs IdentityContent.defs)

text \<open>A label selector matches whole words: a stored label answers to a request exactly when
  they agree up to ASCII case, or when the request consists of ASCII letters and digits and stands in the label
  between two places that are an end of the label or a character of another kind.\<close>

theorem label_matches_whole_words:
  assumes "scalars (to_ascii_lowercase stored) = Some s" and "scalars (to_ascii_lowercase requested) = Some r"
  shows "label_matches stored requested \<longleftrightarrow>
    eq_ignore_ascii_case stored requested
    \<or> (\<exists>a b. s = a @ r @ b \<and> (\<forall>c \<in> set r. scalar_alphanumeric c)
         \<and> (a = [] \<or> \<not> scalar_alphanumeric (last a)) \<and> (b = [] \<or> \<not> scalar_alphanumeric (hd b)))"
  using assms by (auto simp add: label_matches_def eq_ignore_ascii_case_def split_char_mem)

theorem label_matches_whole_words_witness: "label_matches ''US passport'' ''Passport''"
proof -
  have s: "scalars (to_ascii_lowercase ''US passport'') = Some ([117, 115, 32] @ [112, 97, 115, 115, 112, 111, 114, 116] @ [])"
    and r: "scalars (to_ascii_lowercase ''Passport'') = Some [112, 97, 115, 115, 112, 111, 114, 116]"
    by (simp_all add: scalars_def ascii_lower_def of_char_of)
  show ?thesis
    unfolding label_matches_whole_words [OF s r]
    by (rule disjI2, rule exI [of _ "[117, 115, 32]"], rule exI [of _ "[]"])
      (simp add: scalar_alphanumeric_def is_ascii_alphanumeric_def is_ascii_digit_def is_ascii_lowercase_def of_char_of)
qed

end
