(* ===== verification/Http.thy ===== *)
theory Http
  imports Resolver_Error Reference_Lib
begin

text \<open>
  \<open>http.rs\<close> of the resolver crate: the transport policy (which endpoints are accepted, what the
  client may do with proxies and redirects) and the capped reading of response bodies.  URL
  parsing is the url crate's; a parsed URL is known by the parts the checks look at.  The
  client is reqwest's: its configuration is a record, and \<open>http_lib\<close> adds building it and
  sending a request.  A response is its status and the results of the calls to \<open>chunk\<close>, in
  order, the end of the list being \<open>Ok(None)\<close>.
\<close>

record Url =
  url_scheme :: string
  url_host :: "string option"
  url_username :: string
  url_password :: "string option"
  url_query :: "string option"
  url_fragment :: "string option"

datatype ResolverNetwork = HostEnvironment | Direct

record http_client =
  connect_timeout_ms :: nat
  request_timeout_ms :: nat
  proxy_disabled :: bool
  redirects_disabled :: bool

datatype http_method = Get | Post | Put | Patch | Delete

record http_request =
  req_method :: http_method
  req_url :: string
  req_bearer :: "string option"
  req_body :: "bytes option"

record http_response =
  resp_status :: u16
  resp_chunks :: "(reqwest_error + bytes) list"

record http_lib = error_lib +
  url_parse :: "string \<Rightarrow> Url option"
  client_build :: "http_client \<Rightarrow> reqwest_error option"
    \<comment> \<open>the error of \<open>ClientBuilder::build\<close>, if any\<close>
  http_send :: "http_client \<Rightarrow> http_request \<Rightarrow> reqwest_error + http_response"

definition MAX_RESOLVE_BODY :: nat where "MAX_RESOLVE_BODY = 16 * 1024 * 1024"
definition MAX_GATEWAY_BODY :: nat where "MAX_GATEWAY_BODY = 64 * 1024 * 1024"
definition MAX_ERROR_BODY :: nat where "MAX_ERROR_BODY = 64 * 1024"
definition CONNECT_TIMEOUT :: nat where "CONNECT_TIMEOUT = 10 * 1000"
definition REQUEST_TIMEOUT :: nat where "REQUEST_TIMEOUT = 180 * 1000"

section \<open>Transport policy\<close>

definition client_builder :: "nat \<Rightarrow> http_client" where
  "client_builder request_timeout =
     \<lparr> connect_timeout_ms = CONNECT_TIMEOUT, request_timeout_ms = request_timeout,
       proxy_disabled = False, redirects_disabled = False \<rparr>"

definition validate_direct_url :: "'z http_lib_scheme \<Rightarrow> string \<Rightarrow> unit resolver_result" where
  "validate_direct_url X base_url =
     and_then (ok_or (InvalidUri ''base_url is not a valid URL'') (url_parse X base_url)) (\<lambda>url.
       if url_scheme url \<notin> {''http'', ''https''} \<or> url_host url = None \<or> url_username url \<noteq> []
          \<or> url_password url \<noteq> None \<or> url_query url \<noteq> None \<or> url_fragment url \<noteq> None
       then Inl (InvalidUri ''base_url must be an HTTP(S) endpoint without credentials, query, or fragment'')
       else Inr ())"

definition is_loopback_host :: "string \<Rightarrow> bool" where
  "is_loopback_host host =
     (if eq_ignore_ascii_case host ''localhost'' then True
      else let host = (case Option.bind (strip_prefix ''['' host) (strip_suffix '']'') of
                         Some h \<Rightarrow> h | None \<Rightarrow> host)
           in case parse_ip_addr host of Some ip \<Rightarrow> is_loopback ip | None \<Rightarrow> False)"

definition validate_base_url :: "'z http_lib_scheme \<Rightarrow> string \<Rightarrow> unit resolver_result" where
  "validate_base_url X base_url =
     and_then (ok_or (InvalidUri ''base_url is not a valid URL'') (url_parse X base_url)) (\<lambda>url.
       if url_scheme url = ''https'' then Inr ()
       else if url_scheme url = ''http'' \<and> (case url_host url of Some h \<Rightarrow> is_loopback_host h | None \<Rightarrow> False)
       then Inr ()
       else if url_scheme url = ''http''
       then Inl (InvalidUri ''base_url must use https for non-loopback hosts'')
       else Inl (InvalidUri ''base_url scheme must be http(s)''))"

fun validate_endpoint :: "'z http_lib_scheme \<Rightarrow> ResolverNetwork \<Rightarrow> string \<Rightarrow> unit resolver_result" where
  "validate_endpoint X HostEnvironment base_url = validate_base_url X base_url"
| "validate_endpoint X Direct base_url = validate_direct_url X base_url"

definition network_client ::
  "'z http_lib_scheme \<Rightarrow> string \<Rightarrow> ResolverNetwork \<Rightarrow> nat \<Rightarrow> http_client resolver_result" where
  "network_client X base_url mode request_timeout =
     (let builder = client_builder request_timeout
      in and_then
           (case mode of
              HostEnvironment \<Rightarrow> and_then (validate_base_url X base_url) (\<lambda>_. Inr builder)
            | Direct \<Rightarrow> and_then (validate_direct_url X base_url) (\<lambda>_.
                Inr (builder\<lparr> proxy_disabled := True, redirects_disabled := True \<rparr>)))
           (\<lambda>builder. case client_build X builder of
                        None \<Rightarrow> Inr builder | Some e \<Rightarrow> Inl (transport e)))"

section \<open>Capped bodies\<close>

definition cap_extend :: "bytes \<Rightarrow> bytes \<Rightarrow> nat \<Rightarrow> bytes resolver_result" where
  "cap_extend buf chunk cap =
     (if cap < min (length buf + length chunk) (2 ^ 64 - 1)
      then Inl (Malformed ''response body exceeded size cap'') else Inr (buf @ chunk))"

fun read_chunks :: "(reqwest_error + bytes) list \<Rightarrow> nat \<Rightarrow> bytes \<Rightarrow> bytes resolver_result" where
  "read_chunks [] cap buf = Inr buf"
| "read_chunks (Inl e # _) cap buf = Inl (transport e)"
| "read_chunks (Inr chunk # rest) cap buf =
     and_then (cap_extend buf chunk cap) (\<lambda>buf. read_chunks rest cap buf)"

definition read_capped :: "http_response \<Rightarrow> nat \<Rightarrow> bytes resolver_result" where
  "read_capped resp cap = read_chunks (resp_chunks resp) cap []"

definition read_capped_text :: "http_response \<Rightarrow> nat \<Rightarrow> string" where
  "read_capped_text resp cap =
     (case read_capped resp cap of Inr bytes \<Rightarrow> from_utf8_lossy bytes | Inl _ \<Rightarrow> [])"

section \<open>Lemmas\<close>

lemma cap_extend_Inr: "cap < 2 ^ 64 - 1 \<Longrightarrow>
    cap_extend buf chunk cap = Inr b \<longleftrightarrow> b = buf @ chunk \<and> length b \<le> cap"
  by (auto simp: cap_extend_def min_def)

lemma cap_extend_Inl: "cap < 2 ^ 64 - 1 \<Longrightarrow>
    cap_extend buf chunk cap = Inl e \<longleftrightarrow>
      cap < length buf + length chunk \<and> e = Malformed ''response body exceeded size cap''"
  by (auto simp: cap_extend_def min_def)

lemma read_chunks_Inr:
  assumes "cap < 2 ^ 64 - 1" and "length buf \<le> cap"
  shows "read_chunks chunks cap buf = Inr b \<longleftrightarrow>
    (\<exists>cs. chunks = map Inr cs \<and> b = buf @ concat cs \<and> length b \<le> cap)"
  using assms(2)
proof (induction chunks arbitrary: buf)
  case Nil
  then show ?case by auto
next
  case (Cons x rest)
  show ?case
  proof (cases x)
    case (Inl e)
    then show ?thesis by (auto simp: Cons_eq_map_conv)
  next
    case (Inr chunk)
    have "read_chunks (x # rest) cap buf = Inr b \<longleftrightarrow>
        length (buf @ chunk) \<le> cap \<and> read_chunks rest cap (buf @ chunk) = Inr b"
      using assms(1) by (auto simp: Inr and_then_eq_Inr cap_extend_Inr)
    also have "\<dots> \<longleftrightarrow> (\<exists>cs. rest = map Inr cs \<and> b = buf @ chunk @ concat cs \<and> length b \<le> cap)"
      using Cons.IH [of "buf @ chunk"] by auto
    also have "\<dots> \<longleftrightarrow> (\<exists>cs. x # rest = map Inr cs \<and> b = buf @ concat cs \<and> length b \<le> cap)"
      by (auto simp: Inr Cons_eq_map_conv)
    finally show ?thesis .
  qed
qed

lemma read_chunks_cap:
  assumes "cap < 2 ^ 64 - 1" and "length buf \<le> cap"
  shows "read_chunks chunks cap buf = Inl (Malformed m) \<longleftrightarrow>
    m = ''response body exceeded size cap''
    \<and> (\<exists>cs rest. chunks = map Inr cs @ rest \<and> cap < length buf + length (concat cs))"
  using assms(2)
proof (induction chunks arbitrary: buf)
  case Nil
  then show ?case by auto
next
  case (Cons x rest)
  show ?case
  proof (cases x)
    case (Inl e)
    then show ?thesis using Cons.prems by (auto simp: transport_def Cons_eq_append_conv Cons_eq_map_conv)
  next
    case (Inr chunk)
    have split: "(\<exists>cs r. x # rest = map Inr cs @ r \<and> cap < length buf + length (concat cs)) \<longleftrightarrow>
        (\<exists>cs r. rest = map Inr cs @ r \<and> cap < length buf + length chunk + length (concat cs))" (is "?L = ?R")
    proof
      assume ?L
      then obtain cs r where *: "x # rest = map Inr cs @ r" "cap < length buf + length (concat cs)" by blast
      then obtain c cs' where "cs = c # cs'" using Cons.prems by (cases cs) auto
      with * Inr show ?R by (intro exI [of _ cs'] exI [of _ r]) auto
    next
      assume ?R
      then obtain cs r where "rest = map Inr cs @ r" "cap < length buf + length chunk + length (concat cs)" by blast
      with Inr show ?L by (intro exI [of _ "chunk # cs"] exI [of _ r]) auto
    qed
    show ?thesis
    proof (cases "length (buf @ chunk) \<le> cap")
      case True
      then show ?thesis using assms(1) Cons.IH [of "buf @ chunk"] unfolding split
        by (simp add: Inr cap_extend_def)
    next
      case False
      then have "?thesis \<longleftrightarrow> (m = ''response body exceeded size cap'' \<longleftrightarrow> m = ''response body exceeded size cap''
          \<and> (\<exists>cs r. rest = map Inr cs @ r \<and> cap < length buf + length chunk + length (concat cs)))"
        using assms(1) unfolding split by (auto simp: Inr cap_extend_def min_def)
      moreover have "\<exists>cs r. rest = map Inr cs @ r \<and> cap < length buf + length chunk + length (concat cs)"
        using False by (intro exI [of _ "[]"] exI [of _ rest]) simp
      ultimately show ?thesis by blast
    qed
  qed
qed

text \<open>C33. Reading a body under a cap succeeds exactly when every chunk arrives and the whole
  body fits the cap, and then returns the whole body; it reports the cap exactly when the
  chunks that arrived before anything went wrong already exceed it.\<close>

theorem read_capped_exact:
  assumes "cap < 2 ^ 64 - 1"
  shows "(read_capped resp cap = Inr b \<longleftrightarrow>
           (\<exists>cs. resp_chunks resp = map Inr cs \<and> b = concat cs \<and> length b \<le> cap))
       \<and> (read_capped resp cap = Inl (Malformed ''response body exceeded size cap'') \<longleftrightarrow>
           (\<exists>cs rest. resp_chunks resp = map Inr cs @ rest \<and> cap < length (concat cs)))"
  using read_chunks_Inr [OF assms, of "[]" "resp_chunks resp" b] read_chunks_cap [OF assms, of "[]" "resp_chunks resp"]
  by (simp add: read_capped_def)

theorem read_capped_exact_witness:
  "read_capped \<lparr> resp_status = 200, resp_chunks = [Inr [1, 2], Inr [3]] \<rparr> 3 = Inr [1, 2, 3]"
proof (rule read_capped_exact [THEN conjunct1, THEN iffD2])
  show "\<exists>cs. resp_chunks \<lparr> resp_status = 200, resp_chunks = [Inr [1, 2], Inr [3]] \<rparr> = map Inr cs
      \<and> [1, 2, 3] = concat cs \<and> length [1, 2, 3 :: u8] \<le> 3"
    by (rule exI [of _ "[[1, 2], [3]]"]) simp
qed simp

section \<open>Loopback hosts\<close>

lemma digit_value_10 [simp]: "is_ascii_digit c \<Longrightarrow> digit_value 10 c = Some (of_char c - 48)"
  by (auto simp: digit_value_def is_ascii_digit_def Let_def)

lemma takeWhile_digits:
  assumes "list_all is_ascii_digit s" and "r = [] \<or> digit_value 10 (hd r) = None"
  shows "takeWhile (\<lambda>c. digit_value 10 c \<noteq> None) (s @ r) = s"
  using assms by (induction s) (auto simp: takeWhile_eq_Nil_iff)

lemma hd_dec_string: "hd (dec_string n) = CHR ''0'' \<longleftrightarrow> n = 0"
proof (induction n rule: dec_string.induct)
  case (1 n)
  show ?case
  proof (cases "n < 10")
    case True
    have "digit_char n = CHR ''0'' \<longleftrightarrow> (of_char (digit_char n) :: nat) = of_char (CHR ''0'')"
      by (metis of_char_eq_iff)
    with True show ?thesis by (simp add: dec_string.simps [of n])
  next
    case False
    with 1 show ?thesis by (simp add: dec_string.simps [of n])
  qed
qed

lemma length_dec_string_le: "n < 1000 \<Longrightarrow> length (dec_string n) \<le> 3"
  by (simp add: dec_string.simps [of n] dec_string.simps [of "n div 10"] dec_string.simps [of "n div 10 div 10"])

lemma foldl_digits:
  "list_all is_ascii_digit s \<Longrightarrow>
    foldl (\<lambda>v c. 10 * v + the (digit_value 10 c)) a s = foldl (\<lambda>v c. 10 * v + (of_char c - 48)) a s"
  by (induction s arbitrary: a) simp_all

lemma read_octet:
  assumes "n < 256" and "r = [] \<or> digit_value 10 (hd r) = None"
  shows "read_number 10 3 False 255 (dec_string n @ r) = Some (n, r)"
proof -
  note tw = takeWhile_digits [OF dec_string_digits [of n] assms(2)]
  have v: "foldl (\<lambda>v c. 10 * v + the (digit_value 10 c)) 0 (dec_string n) = n"
    by (simp add: foldl_digits dec_string_digits dec_value_def [symmetric])
  have z: "\<not> (hd (dec_string n) = CHR ''0'' \<and> 1 < length (dec_string n))"
    by (auto simp: hd_dec_string dec_string.simps [of 0])
  show ?thesis
    unfolding read_number_def tw v Let_def using assms(1) length_dec_string_le [of n] z by simp
qed

definition dotted :: "nat list \<Rightarrow> string" where
  "dotted octets = join ''.'' (map dec_string octets)"

lemma read_dotted:
  assumes "a < 256" "b < 256" "c < 256" "d < 256"
  shows "read_ipv4_addr (dotted [a, b, c, d]) = Some ([a, b, c, d], [])"
proof -
  have dot: "digit_value 10 CHR ''.'' = None" by (simp add: digit_value_def is_ascii_digit_def)
  have octet: "read_number 10 3 False 255 (dec_string n @ CHR ''.'' # r) = Some (n, CHR ''.'' # r)"
    if "n < 256" for n r
    using that dot by (intro read_octet) simp_all
  have last: "read_number 10 3 False 255 (dec_string d) = Some (d, [])"
    using read_octet [OF assms(4), of "[]"] by simp
  have four: "(4 :: nat) = Suc (Suc (Suc (Suc 0)))" by simp
  show ?thesis unfolding read_ipv4_addr_def dotted_def four
    by (simp add: read_separator_def read_given_char_def octet last assms)
qed

lemma loopback_dotted:
  assumes "a < 256" "b < 256" "c < 256" "d < 256"
  shows "is_loopback_host (dotted [a, b, c, d]) \<longleftrightarrow> a = 127"
proof -
  have l: "ascii_lower CHR ''l'' = CHR ''l''" by (simp add: ascii_lower_def)
  have hd: "is_ascii_digit (hd (dotted [a, b, c, d]))"
    using dec_string_digits [of a] dec_string_nonempty [of a]
    by (cases "dec_string a") (auto simp: dotted_def)
  have "dotted [a, b, c, d] \<noteq> []" by (simp add: dotted_def)
  then obtain x r where xr: "dotted [a, b, c, d] = x # r" by (cases "dotted [a, b, c, d]") auto
  with hd have "is_ascii_digit x" by simp
  then have "ascii_lower x = x" and "x \<noteq> CHR ''l''" and "x \<noteq> CHR ''[''"
    by (auto simp: is_ascii_digit_def ascii_lower_def)
  then have "\<not> eq_ignore_ascii_case (dotted [a, b, c, d]) ''localhost''"
      and "strip_prefix ''['' (dotted [a, b, c, d]) = None"
    using l by (auto simp: xr eq_ignore_ascii_case_def strip_prefix_def)
  then show ?thesis
    using read_dotted [OF assms] by (simp add: is_loopback_host_def parse_ip_addr_def)
qed

lemma validate_base_url_ok:
  "validate_base_url X base_url = Inr () \<longleftrightarrow>
    (\<exists>url. url_parse X base_url = Some url \<and> (url_scheme url = ''https''
       \<or> url_scheme url = ''http'' \<and> (\<exists>h. url_host url = Some h \<and> is_loopback_host h)))"
  by (cases "url_parse X base_url") (auto simp: validate_base_url_def split: option.splits)

lemma validate_direct_url_ok:
  "validate_direct_url X base_url = Inr () \<longleftrightarrow>
    (\<exists>url. url_parse X base_url = Some url \<and> url_scheme url \<in> {''http'', ''https''} \<and> url_host url \<noteq> None
       \<and> url_username url = [] \<and> url_password url = None \<and> url_query url = None \<and> url_fragment url = None)"
  by (cases "url_parse X base_url") (auto simp: validate_direct_url_def)

text \<open>A client is only built for an endpoint its mode accepts.  In the host's environment that
  is an HTTPS endpoint or an HTTP endpoint on a loopback host, and a dotted-decimal host is
  loopback exactly when its first octet is 127; direct mode takes any HTTP(S) endpoint without
  credentials, query or fragment, and then uses neither a proxy nor a redirect.\<close>

theorem network_client_policy:
  assumes "network_client X base_url mode timeout = Inr client"
  shows "(mode = HostEnvironment \<longrightarrow>
      (\<exists>url. url_parse X base_url = Some url \<and> (url_scheme url = ''https''
         \<or> url_scheme url = ''http'' \<and> (\<exists>h. url_host url = Some h \<and> is_loopback_host h
             \<and> (\<forall>a b c d. a < 256 \<and> b < 256 \<and> c < 256 \<and> d < 256 \<and> h = dotted [a, b, c, d] \<longrightarrow> a = 127)))))
    \<and> (mode = Direct \<longrightarrow> proxy_disabled client \<and> redirects_disabled client
        \<and> (\<exists>url. url_parse X base_url = Some url \<and> url_scheme url \<in> {''http'', ''https''} \<and> url_host url \<noteq> None
             \<and> url_username url = [] \<and> url_password url = None \<and> url_query url = None \<and> url_fragment url = None))
    \<and> connect_timeout_ms client = 10000 \<and> request_timeout_ms client = timeout"
proof (cases mode)
  case HostEnvironment
  with assms have v: "validate_base_url X base_url = Inr ()" and c: "client = client_builder timeout"
    by (auto simp: network_client_def Let_def and_then_eq_Inr split: option.splits)
  have "a = 127" if "is_loopback_host (dotted [a, b, c, d])" "a < 256" "b < 256" "c < 256" "d < 256" for a b c d
    using that loopback_dotted by blast
  with v c show ?thesis
    unfolding validate_base_url_ok by (auto simp: HostEnvironment client_builder_def CONNECT_TIMEOUT_def)
next
  case Direct
  with assms show ?thesis
    by (auto simp: network_client_def Let_def and_then_eq_Inr validate_direct_url_ok client_builder_def
        CONNECT_TIMEOUT_def split: option.splits)
qed

definition toy_http_lib :: "Url \<Rightarrow> http_lib" where
  "toy_http_lib url =
     crypto_lib.extend toy_lib (item_lib_ext (\<lambda>_. None) (\<lambda>_. None) (\<lambda>_. None) (\<lambda>_. None)
       (error_lib_ext (\<lambda>_. None)
       (http_lib_ext (\<lambda>_. Some url) (\<lambda>_. None) (\<lambda>_ _. Inl \<lparr> is_timeout = True, is_connect = False \<rparr>) ())))"

definition sample_url :: Url where
  "sample_url = \<lparr> url_scheme = ''http'', url_host = Some ''service'', url_username = [], url_password = None,
     url_query = None, url_fragment = None \<rparr>"

theorem network_client_policy_witness:
  "\<exists>c. network_client (toy_http_lib sample_url) ''http://service'' Direct 5 = Inr c
     \<and> proxy_disabled c \<and> redirects_disabled c \<and> request_timeout_ms c = 5"
proof -
  have "url_parse (toy_http_lib sample_url) = (\<lambda>_. Some sample_url)" "client_build (toy_http_lib sample_url) = (\<lambda>_. None)"
    by (simp_all add: toy_http_lib_def crypto_lib.defs)
  then obtain c where c: "network_client (toy_http_lib sample_url) ''http://service'' Direct 5 = Inr c"
    by (simp add: network_client_def validate_direct_url_def sample_url_def)
  with network_client_policy [OF c] show ?thesis by auto
qed

end
