(* ===== verification/Signing.thy ===== *)
theory Signing
  imports Keys
begin

text \<open>
  \<open>signing.rs\<close>: Ed25519 signatures in the wire envelope and context-bound signatures for
  application messages.  The locale \<open>signed_payload\<close> is the contract of every signed request
  of the program: a canonical encoding that loses nothing, a builder that signs it and a
  verifier that checks it.  What it gives is stated as a reduction: if one signature is
  accepted for two different requests then Ed25519 itself accepts it for two different messages.
\<close>

definition SIGNATURE_BYTES :: nat where "SIGNATURE_BYTES = 64"

definition CONTEXT_SIGNATURE_DOMAIN :: bytes where
  "CONTEXT_SIGNATURE_DOMAIN = as_bytes ''seren-secrets/context-signature''"

definition MAX_SIGNATURE_CONTEXT_LEN :: nat where "MAX_SIGNATURE_CONTEXT_LEN = 255"

definition sign :: "'z crypto_lib_scheme \<Rightarrow> IdentitySigningPrivateKey \<Rightarrow> bytes \<Rightarrow> bytes" where
  "sign X private message = encode Ed25519Sig (ed25519_sign X private message)"

definition verify ::
  "'z crypto_lib_scheme \<Rightarrow> IdentitySigningPublicKey \<Rightarrow> bytes \<Rightarrow> bytes \<Rightarrow> unit crypto_result" where
  "verify X public message blob =
     and_then (decode_expecting blob Ed25519Sig) (\<lambda>payload.
       if length payload \<noteq> SIGNATURE_BYTES then Inl (MalformedWire ''ed25519 signature wrong length'')
       else if \<not> ed25519_key_ok X public then Inl (InvalidKey ''ed25519 verifying key'')
       else if \<not> ed25519_verify_strict X public message payload then Inl InvalidSignature
       else Inr ())"

definition context_signing_bytes :: "string \<Rightarrow> bytes \<Rightarrow> bytes crypto_result" where
  "context_signing_bytes context message =
     (let ctx = as_bytes context in
      if \<not> (length ctx \<le> MAX_SIGNATURE_CONTEXT_LEN \<and> 0 < length ctx)
      then Inl (Canonicalization ''signature context must be 1 to 255 bytes'')
      else if \<not> list_all is_ascii_graphic context
      then Inl (Canonicalization ''signature context must be printable non-space ASCII'')
      else Inr (CONTEXT_SIGNATURE_DOMAIN @ [word_of_nat (length ctx)] @ ctx @ message))"

definition sign_with_context ::
  "'z crypto_lib_scheme \<Rightarrow> IdentitySigningPrivateKey \<Rightarrow> string \<Rightarrow> bytes \<Rightarrow> bytes crypto_result" where
  "sign_with_context X private context message =
     and_then (context_signing_bytes context message) (\<lambda>m. Inr (sign X private m))"

definition verify_with_context ::
  "'z crypto_lib_scheme \<Rightarrow> IdentitySigningPublicKey \<Rightarrow> string \<Rightarrow> bytes \<Rightarrow> bytes \<Rightarrow> unit crypto_result" where
  "verify_with_context X public context message blob =
     and_then (context_signing_bytes context message) (\<lambda>m. verify X public m blob)"

section \<open>Signatures\<close>

lemma verify_iff:
  "verify X p m b = Inr () \<longleftrightarrow>
     (\<exists>s. length s = 64 \<and> b = encode Ed25519Sig s \<and> ed25519_key_ok X p \<and> ed25519_verify_strict X p m s)"
  by (auto simp: verify_def result_simps SIGNATURE_BYTES_def split: if_splits)

lemma verify_sign: "ed25519_laws X \<Longrightarrow> verify X (ed25519_public X k) m (sign X k m) = Inr ()"
  by (auto simp: verify_iff sign_def ed25519_lawsD encode_inj)

text \<open>The signature in the blob \<open>b\<close> is one that Ed25519 accepts for the two different messages
  \<open>m\<close> and \<open>m'\<close>.\<close>

definition signature_collision :: "'z crypto_lib_scheme \<Rightarrow> byte32 \<Rightarrow> bytes \<Rightarrow> bytes \<Rightarrow> bytes \<Rightarrow> bool" where
  "signature_collision X p b m m' \<longleftrightarrow>
     m \<noteq> m' \<and> (\<exists>s. length s = 64 \<and> b = encode Ed25519Sig s
       \<and> ed25519_verify_strict X p m s \<and> ed25519_verify_strict X p m' s)"

lemma verify_two_collision:
  "verify X p m b = Inr () \<Longrightarrow> verify X p m' b = Inr () \<Longrightarrow> m \<noteq> m' \<Longrightarrow> signature_collision X p b m m'"
  by (auto simp: verify_iff signature_collision_def encode_inj)

section \<open>Signed requests\<close>

locale signed_payload =
  fixes canon :: "'z crypto_lib_scheme \<Rightarrow> 'r \<Rightarrow> bytes crypto_result"
    and lib_ok :: "'z crypto_lib_scheme \<Rightarrow> bool"
    and req_ok :: "'r \<Rightarrow> bool"
    and domain :: bytes
    and build :: "'z crypto_lib_scheme \<Rightarrow> byte32 \<Rightarrow> 'r \<Rightarrow> bytes crypto_result"
    and check :: "'z crypto_lib_scheme \<Rightarrow> byte32 \<Rightarrow> 'r \<Rightarrow> bytes \<Rightarrow> unit crypto_result"
  assumes build_conv: "build X k r = and_then (canon X r) (\<lambda>m. Inr (sign X k m))"
    and check_conv: "check X p r b = and_then (canon X r) (\<lambda>m. verify X p m b)"
    and canon_inj: "lib_ok X \<Longrightarrow> req_ok r \<Longrightarrow> req_ok r' \<Longrightarrow> canon X r = Inr m \<Longrightarrow> canon X r' = Inr m \<Longrightarrow> r = r'"
    and canon_domain: "canon X r = Inr m \<Longrightarrow> \<exists>rest. m = domain @ rest"
begin

lemma check_build: "ed25519_laws X \<Longrightarrow> build X k r = Inr b \<Longrightarrow> check X (ed25519_public X k) r b = Inr ()"
  by (auto simp: build_conv check_conv and_then_eq_Inr verify_sign)

lemma check_iff: "check X p r b = Inr () \<longleftrightarrow> (\<exists>m. canon X r = Inr m \<and> verify X p m b = Inr ())"
  by (simp add: check_conv and_then_eq_Inr)

lemma reuse_collision:
  assumes "lib_ok X" and "req_ok r" and "req_ok r'" and "check X p r b = Inr ()"
    and "check X p r' b = Inr ()" and "r \<noteq> r'"
  shows "\<exists>m m'. canon X r = Inr m \<and> canon X r' = Inr m' \<and> signature_collision X p b m m'"
proof -
  obtain m m' where m: "canon X r = Inr m" "canon X r' = Inr m'"
      and v: "verify X p m b = Inr ()" "verify X p m' b = Inr ()"
    using assms(4,5) by (auto simp: check_iff)
  moreover have "m \<noteq> m'" using canon_inj [OF assms(1-3)] m assms(6) by blast
  ultimately show ?thesis using verify_two_collision by blast
qed

lemma foreign_message_collision:
  assumes "check X p r b = Inr ()" and "verify X p (d @ x) b = Inr ()" and "clash domain d"
  shows "\<exists>m. canon X r = Inr m \<and> signature_collision X p b m (d @ x)"
proof -
  obtain m where m: "canon X r = Inr m" "verify X p m b = Inr ()"
    using assms(1) by (auto simp: check_iff)
  moreover from m(1) obtain rest where "m = domain @ rest" using canon_domain by blast
  ultimately show ?thesis
    using verify_two_collision [OF m(2) assms(2)] clash_append [OF assms(3)] by blast
qed

end

section \<open>Context signatures\<close>

lemma context_signing_bytes_iff:
  "context_signing_bytes c m = Inr bs \<longleftrightarrow>
     0 < length c \<and> length c \<le> 255 \<and> list_all is_ascii_graphic c
     \<and> bs = CONTEXT_SIGNATURE_DOMAIN @ word_of_nat (length c) # as_bytes c @ m"
  by (auto simp: context_signing_bytes_def Let_def MAX_SIGNATURE_CONTEXT_LEN_def split: if_splits)

lemma u8_length_inj: "m \<le> 255 \<Longrightarrow> n \<le> 255 \<Longrightarrow> (word_of_nat m :: u8) = word_of_nat n \<longleftrightarrow> m = n"
  using word_of_nat_mod_256 [of m n] by simp

lemma context_signing_bytes_inj:
  assumes "context_signing_bytes c m = Inr bs" and "context_signing_bytes c' m' = Inr bs"
  shows "c = c' \<and> m = m'"
proof -
  from assms have eq: "word_of_nat (length c) # as_bytes c @ m = (word_of_nat (length c') :: u8) # as_bytes c' @ m'"
      and "length c \<le> 255" "length c' \<le> 255"
    by (simp_all add: context_signing_bytes_iff)
  then have "length c = length c'" by (simp add: u8_length_inj)
  with eq show ?thesis by simp
qed

interpretation context_payload: signed_payload
  "\<lambda>X r. context_signing_bytes (fst r) (snd r)" "\<lambda>_. True" "\<lambda>_. True" CONTEXT_SIGNATURE_DOMAIN
  "\<lambda>X k r. sign_with_context X k (fst r) (snd r)"
  "\<lambda>X p r. verify_with_context X p (fst r) (snd r)"
proof unfold_locales
  fix r r' :: "string \<times> bytes" and m
  assume "context_signing_bytes (fst r) (snd r) = Inr m" and "context_signing_bytes (fst r') (snd r') = Inr m"
  then show "r = r'" by (simp add: context_signing_bytes_inj prod_eq_iff)
qed (auto simp: sign_with_context_def verify_with_context_def context_signing_bytes_iff)

end
