(* ===== verification/Canonical.thy ===== *)
theory Canonical
  imports Signing Reference_Lib "HOL-Library.List_Lexorder" "HOL-Library.Char_ord"
  "HOL-Library.Multiset"
begin

text \<open>
  The signed requests of the protocol: \<open>resolve.rs\<close>, \<open>recovery_proof.rs\<close>,
  \<open>approval.rs\<close>, \<open>membership_grant.rs\<close> and \<open>account_secrets_update.rs\<close>, each with its
  hand-written canonical bytes, builder and verifier, and each an interpretation of
  \<open>signed_payload\<close>: the interpretation proof is the proof that the canonical form determines
  the request.  The digest of an account-secrets blob and the canonical JSON writer are here too.
\<close>

abbreviation nl :: string where "nl \<equiv> [CHR 0x0A]"

section \<open>Resolve requests\<close>

record ResolveRequest =
  uri :: string
  caller_identity_id :: uuid
  resolve_issued_at :: timestamp
  nonce :: uuid

definition canonical_resolve :: "'z crypto_lib_scheme \<Rightarrow> ResolveRequest \<Rightarrow> bytes crypto_result" where
  "canonical_resolve X req =
     (if CHR 0x0A \<in> set (uri req) \<or> CHR 0x0D \<in> set (uri req)
      then Inl (MalformedWire ''resolve uri must not contain CR or LF'')
      else Inr (as_bytes
        (''seren-secrets-resolve'' @ nl @ ''uri='' @ uri req @ nl
         @ ''caller_identity_id='' @ uuid_to_string X (caller_identity_id req) @ nl
         @ ''issued_at='' @ timestamp_to_string X (resolve_issued_at req) @ nl
         @ ''nonce='' @ uuid_to_string X (nonce req) @ nl)))"

definition build_resolve_signature ::
  "'z crypto_lib_scheme \<Rightarrow> IdentitySigningPrivateKey \<Rightarrow> ResolveRequest \<Rightarrow> bytes crypto_result" where
  "build_resolve_signature X private request =
     and_then (canonical_resolve X request) (\<lambda>m. Inr (sign X private m))"

definition verify_resolve_signature ::
  "'z crypto_lib_scheme \<Rightarrow> IdentitySigningPublicKey \<Rightarrow> ResolveRequest \<Rightarrow> bytes \<Rightarrow> unit crypto_result" where
  "verify_resolve_signature X public request signature =
     and_then (canonical_resolve X request) (\<lambda>m. verify X public m signature)"

section \<open>Recovery proofs\<close>

record RecoveryProof =
  recovery_request_id :: uuid
  recovery_user_id :: uuid
  challenge :: byte32
  new_kem_public_key :: IdentityKemPublicKey

definition canonical_recovery :: "'z crypto_lib_scheme \<Rightarrow> RecoveryProof \<Rightarrow> bytes" where
  "canonical_recovery X proof =
     as_bytes (''seren-secrets-recovery-proof'' @ nl)
     @ as_bytes ''recovery_request_id='' @ as_bytes (uuid_to_string X (recovery_request_id proof)) @ as_bytes nl
     @ as_bytes ''user_id='' @ as_bytes (uuid_to_string X (recovery_user_id proof)) @ as_bytes nl
     @ as_bytes ''challenge='' @ bytes32 (challenge proof) @ as_bytes nl
     @ as_bytes ''new_kem_public_key='' @ bytes32 (new_kem_public_key proof) @ as_bytes nl"

definition build_recovery_proof ::
  "'z crypto_lib_scheme \<Rightarrow> IdentitySigningPrivateKey \<Rightarrow> RecoveryProof \<Rightarrow> bytes" where
  "build_recovery_proof X private proof = sign X private (canonical_recovery X proof)"

definition verify_recovery_proof ::
  "'z crypto_lib_scheme \<Rightarrow> IdentitySigningPublicKey \<Rightarrow> RecoveryProof \<Rightarrow> bytes \<Rightarrow> unit crypto_result" where
  "verify_recovery_proof X public proof signature = verify X public (canonical_recovery X proof) signature"

section \<open>Approval requests\<close>

datatype ApprovalTarget = VaultTarget uuid | ItemTarget uuid uuid

record ApprovalRequest =
  request_id :: uuid
  requesting_identity_id :: uuid
  target :: ApprovalTarget
  timeout_seconds :: u32

definition canonical_request :: "'z crypto_lib_scheme \<Rightarrow> ApprovalRequest \<Rightarrow> bytes" where
  "canonical_request X request =
     (let (target_kind, vault_id, item) =
        (case target request of
           VaultTarget v \<Rightarrow> (''vault'', v, [])
         | ItemTarget v i \<Rightarrow> (''item'', v, uuid_to_string X i))
      in as_bytes
        (''approval-request'' @ nl
         @ ''request_id='' @ uuid_to_string X (request_id request) @ nl
         @ ''requesting_identity_id='' @ uuid_to_string X (requesting_identity_id request) @ nl
         @ ''target_kind='' @ target_kind @ nl
         @ ''vault_id='' @ uuid_to_string X vault_id @ nl
         @ ''item_id='' @ item @ nl
         @ ''timeout_seconds='' @ dec_string (unat (timeout_seconds request)) @ nl))"

definition build_approval_request ::
  "'z crypto_lib_scheme \<Rightarrow> IdentitySigningPrivateKey \<Rightarrow> ApprovalRequest \<Rightarrow> bytes" where
  "build_approval_request X private request = sign X private (canonical_request X request)"

definition verify_approval_request ::
  "'z crypto_lib_scheme \<Rightarrow> IdentitySigningPublicKey \<Rightarrow> ApprovalRequest \<Rightarrow> bytes \<Rightarrow> unit crypto_result" where
  "verify_approval_request X public request signature = verify X public (canonical_request X request) signature"

section \<open>Membership grants\<close>

definition MEMBERSHIP_GRANT_DOMAIN :: bytes where
  "MEMBERSHIP_GRANT_DOMAIN = as_bytes ''seren-secrets/membership-grant''"

definition ACCESS_LEVEL_READ :: u8 where "ACCESS_LEVEL_READ = 1"
definition ACCESS_LEVEL_WRITE :: u8 where "ACCESS_LEVEL_WRITE = 2"
definition ACCESS_LEVEL_ADMIN :: u8 where "ACCESS_LEVEL_ADMIN = 3"

definition access_level_byte :: "string \<Rightarrow> u8 option" where
  "access_level_byte access_level =
     (if access_level = ''read'' then Some ACCESS_LEVEL_READ
      else if access_level = ''write'' then Some ACCESS_LEVEL_WRITE
      else if access_level = ''admin'' then Some ACCESS_LEVEL_ADMIN
      else None)"

text \<open>The parameters \<open>vault_id\<close> and \<open>identity_id\<close> are \<open>[u8; 16]\<close> in the source.\<close>

definition membership_grant_signing_bytes :: "bytes \<Rightarrow> bytes \<Rightarrow> u8 \<Rightarrow> bytes \<Rightarrow> bytes" where
  "membership_grant_signing_bytes vault_id identity_id access_level wrapped_vault_key =
     MEMBERSHIP_GRANT_DOMAIN @ vault_id @ identity_id @ [access_level] @ wrapped_vault_key"

definition sign_membership_grant ::
  "'z crypto_lib_scheme \<Rightarrow> IdentitySigningPrivateKey \<Rightarrow> bytes \<Rightarrow> bytes \<Rightarrow> u8 \<Rightarrow> bytes \<Rightarrow> bytes" where
  "sign_membership_grant X granter vault_id identity_id access_level wrapped_vault_key =
     sign X granter (membership_grant_signing_bytes vault_id identity_id access_level wrapped_vault_key)"

definition verify_membership_grant ::
  "'z crypto_lib_scheme \<Rightarrow> IdentitySigningPublicKey \<Rightarrow> bytes \<Rightarrow> bytes \<Rightarrow> u8 \<Rightarrow> bytes \<Rightarrow> bytes
     \<Rightarrow> unit crypto_result" where
  "verify_membership_grant X granter vault_id identity_id access_level wrapped_vault_key signature =
     verify X granter (membership_grant_signing_bytes vault_id identity_id access_level wrapped_vault_key)
       signature"

section \<open>Replacement of the account secrets\<close>

record AccountSecretsUpdateProof =
  update_user_id :: uuid
  issued_at :: timestamp
  blob_digest :: byte32

definition canonical_update :: "'z crypto_lib_scheme \<Rightarrow> AccountSecretsUpdateProof \<Rightarrow> bytes" where
  "canonical_update X proof =
     as_bytes (''seren-secrets-account-secrets-update'' @ nl)
     @ as_bytes ''user_id='' @ as_bytes (uuid_to_string X (update_user_id proof)) @ as_bytes nl
     @ as_bytes ''issued_at='' @ as_bytes (timestamp_to_string X (issued_at proof)) @ as_bytes nl
     @ as_bytes ''blob_digest='' @ bytes32 (blob_digest proof) @ as_bytes nl"

definition build_update_proof ::
  "'z crypto_lib_scheme \<Rightarrow> IdentitySigningPrivateKey \<Rightarrow> AccountSecretsUpdateProof \<Rightarrow> bytes" where
  "build_update_proof X private proof = sign X private (canonical_update X proof)"

definition verify_update_proof ::
  "'z crypto_lib_scheme \<Rightarrow> IdentitySigningPublicKey \<Rightarrow> AccountSecretsUpdateProof \<Rightarrow> bytes
     \<Rightarrow> unit crypto_result" where
  "verify_update_proof X public proof signature = verify X public (canonical_update X proof) signature"

definition verify_update_proof_fresh ::
  "'z crypto_lib_scheme \<Rightarrow> IdentitySigningPublicKey \<Rightarrow> AccountSecretsUpdateProof \<Rightarrow> bytes \<Rightarrow> timestamp \<Rightarrow> int
     \<Rightarrow> unit crypto_result" where
  "verify_update_proof_fresh X public proof signature now max_age =
     and_then (verify_update_proof X public proof signature) (\<lambda>_.
       if max_age < 0 \<or> ts_ns (issued_at proof) > ts_ns now then Inl InvalidSignature
       else and_then (ok_or InvalidSignature (timestamp_checked_add X (issued_at proof) max_age)) (\<lambda>expires_at.
         if ts_ns expires_at < ts_ns now then Inl InvalidSignature else Inr ()))"

text \<open>The bytes fed to SHA-256: a tag and six labelled fields, labels and values prefixed by
  their lengths as big-endian \<open>u64\<close>.\<close>

definition len_prefixed :: "bytes \<Rightarrow> bytes" where
  "len_prefixed bs = be_bytes 8 (length bs) @ bs"

fun digest_fields :: "(bytes \<times> bytes) list \<Rightarrow> bytes" where
  "digest_fields [] = []"
| "digest_fields ((label, v) # rest) = len_prefixed label @ len_prefixed v @ digest_fields rest"

definition digest_preimage :: "bytes \<Rightarrow> bytes \<Rightarrow> bytes \<Rightarrow> bytes \<Rightarrow> bytes \<Rightarrow> bytes \<Rightarrow> bytes" where
  "digest_preimage kdf_json recovery_kdf_json akw kpw spw rkw =
     (as_bytes ''seren-account-secrets-blob'' @ [0] @
       digest_fields
         [(as_bytes ''kdf_params'', kdf_json),
          (as_bytes ''recovery_kdf_params'', recovery_kdf_json),
          (as_bytes ''account_key_wrap'', akw),
          (as_bytes ''account_kem_private_wrap'', kpw),
          (as_bytes ''account_signing_private_wrap'', spw),
          (as_bytes ''recovery_key_wrap'', rkw)])"

definition digest_account_secrets_blob ::
  "'z crypto_lib_scheme \<Rightarrow> bytes \<Rightarrow> bytes \<Rightarrow> bytes \<Rightarrow> bytes \<Rightarrow> bytes \<Rightarrow> bytes \<Rightarrow> byte32" where
  "digest_account_secrets_blob X kdf_json recovery_kdf_json akw kpw spw rkw =
     sha256 X (digest_preimage kdf_json recovery_kdf_json akw kpw spw rkw)"

section \<open>Canonical JSON\<close>

text \<open>The elements of an array or object with commas between them.\<close>

fun comma_separated :: "bytes list \<Rightarrow> bytes" where
  "comma_separated [] = []"
| "comma_separated [b] = b"
| "comma_separated (b # bs) = b @ 44 # comma_separated bs"

text \<open>The writer stops at the first error, and the bytes written so far are dropped with the
  buffer.  The entries of an object are sorted by key, compared byte by byte.\<close>

function (sequential) write_canonical_json_value :: "'z crypto_lib_scheme \<Rightarrow> json \<Rightarrow> bytes crypto_result" where
  "write_canonical_json_value X JNull = Inr (as_bytes ''null'')"
| "write_canonical_json_value X (JBool True) = Inr (as_bytes ''true'')"
| "write_canonical_json_value X (JBool False) = Inr (as_bytes ''false'')"
| "write_canonical_json_value X (JNumber number) =
     (case number of Float _ \<Rightarrow> Inl (Canonicalization ''non-integer json number'')
      | _ \<Rightarrow> Inr (as_bytes (json_number_to_string X number)))"
| "write_canonical_json_value X (JString s) = ok_or (Canonicalization ''json string'') (json_write_string X s)"
| "write_canonical_json_value X (JArray values) =
     and_then (collect_results (\<lambda>item. write_canonical_json_value X item) values)
       (\<lambda>bs. Inr (91 # comma_separated bs @ [93]))"
| "write_canonical_json_value X (JObject m) =
     and_then (collect_results (\<lambda>kv.
         and_then (ok_or (Canonicalization ''json object key'') (json_write_string X (fst kv))) (\<lambda>key.
         and_then (write_canonical_json_value X (snd kv)) (\<lambda>item. Inr (key @ 58 # item))))
         (sort_key fst m))
       (\<lambda>bs. Inr (123 # comma_separated bs @ [125]))"
  by pat_completeness auto
termination
proof (relation "measure (\<lambda>(X, v). size v)")
  fix m :: "(string \<times> json) list" and kv X
  assume "kv \<in> set (sort_key fst m)"
  then have "kv \<in> set m" by simp
  then have "size (snd kv) < size (JObject m)"
    by (induction m) auto
  then show "((X, snd kv), X, JObject m) \<in> measure (\<lambda>(X, v). size v)" by simp
qed (auto simp: less_Suc_eq_le size_list_estimation')

definition canonical_json_bytes :: "'z crypto_lib_scheme \<Rightarrow> json \<Rightarrow> bytes crypto_result" where
  "canonical_json_bytes X v = write_canonical_json_value X v"

section \<open>The canonical forms determine the requests\<close>

lemma uuid_frame [framing]:
  "uuid_laws X \<Longrightarrow> uuid_to_string X u @ x = uuid_to_string X v @ y \<longleftrightarrow> u = v \<and> x = y"
  by (simp add: uuid_string_length uuid_string_inj)

lemma uuid_bytes_frame [framing]:
  "uuid_laws X \<Longrightarrow> as_bytes (uuid_to_string X u) @ x = as_bytes (uuid_to_string X v) @ y \<longleftrightarrow> u = v \<and> x = y"
  by (simp add: uuid_string_length uuid_string_inj)

lemma timestamp_frame [framing]:
  "timestamp_laws X \<Longrightarrow>
     timestamp_to_string X s @ CHR 0x0A # x = timestamp_to_string X t @ CHR 0x0A # y \<longleftrightarrow> s = t \<and> x = y"
  by (simp add: delimited_eq timestamp_lawsD)

lemma timestamp_bytes_frame [framing]:
  assumes "timestamp_laws X"
  shows "as_bytes (timestamp_to_string X s) @ 10 # x = as_bytes (timestamp_to_string X t) @ 10 # y
     \<longleftrightarrow> s = t \<and> x = y"
proof -
  have "(10 :: u8) \<notin> set (as_bytes (timestamp_to_string X r))" for r
    using timestamp_one_line [OF assms, of r] in_set_as_bytes [of "CHR 0x0A"] by simp
  then show ?thesis by (simp add: delimited_eq timestamp_string_inj [OF assms])
qed

definition dated_laws :: "'z crypto_lib_scheme \<Rightarrow> bool" where
  "dated_laws X \<longleftrightarrow> uuid_laws X \<and> timestamp_laws X"

lemma canonical_resolve_inj:
  assumes "dated_laws X" and "canonical_resolve X r = Inr m" and "canonical_resolve X r' = Inr m"
  shows "r = r'"
proof -
  from assms(1) have l: "uuid_laws X" "timestamp_laws X" by (simp_all add: dated_laws_def)
  from assms(2,3) have "CHR 0x0A \<notin> set (uri r)" "CHR 0x0A \<notin> set (uri r')"
    by (auto simp: canonical_resolve_def split: if_splits)
  with assms(2,3) show ?thesis
    by (cases r; cases r')
      (auto simp: canonical_resolve_def delimited_eq uuid_frame [OF l(1)] timestamp_frame [OF l(2)]
        uuid_string_inj [OF l(1)] simp del: as_bytes_simps split: if_splits)
qed

interpretation resolve_payload: signed_payload canonical_resolve dated_laws "\<lambda>_. True"
  "as_bytes (''seren-secrets-resolve'' @ nl)" build_resolve_signature verify_resolve_signature
  by unfold_locales
    (auto simp: build_resolve_signature_def verify_resolve_signature_def canonical_resolve_def
      dest: canonical_resolve_inj split: if_splits)

lemma canonical_recovery_inj:
  "uuid_laws X \<Longrightarrow> canonical_recovery X r = canonical_recovery X r' \<Longrightarrow> r = r'"
  by (cases r; cases r') (auto simp: canonical_recovery_def uuid_bytes_frame uuid_string_inj)

interpretation recovery_payload: signed_payload "\<lambda>X r. Inr (canonical_recovery X r)" uuid_laws "\<lambda>_. True"
  "as_bytes (''seren-secrets-recovery-proof'' @ nl)" "\<lambda>X k r. Inr (build_recovery_proof X k r)"
  verify_recovery_proof
  by unfold_locales
    (auto simp: build_recovery_proof_def verify_recovery_proof_def dest: canonical_recovery_inj,
     simp add: canonical_recovery_def)

lemma canonical_request_inj:
  assumes "uuid_laws X" and "canonical_request X r = canonical_request X r'"
  shows "r = r'"
proof -
  have n: "CHR 0x0A \<notin> set (dec_string k)" for k
    by (rule dec_string_not_mem) (simp add: is_ascii_digit_def)
  from assms show ?thesis
    by (cases r; cases r'; cases "target r"; cases "target r'")
      (auto simp: canonical_request_def uuid_frame delimited_eq n word_unat_eq_iff [symmetric] simp del: as_bytes_simps)
qed

interpretation approval_payload: signed_payload "\<lambda>X r. Inr (canonical_request X r)" uuid_laws "\<lambda>_. True"
  "as_bytes (''approval-request'' @ nl)" "\<lambda>X k r. Inr (build_approval_request X k r)"
  verify_approval_request
  by unfold_locales
    (auto simp: build_approval_request_def verify_approval_request_def dest: canonical_request_inj,
     simp add: canonical_request_def case_prod_beta)

lemma canonical_update_inj:
  assumes "dated_laws X" and "canonical_update X r = canonical_update X r'"
  shows "r = r'"
  using assms
  by (cases r; cases r')
    (auto simp: canonical_update_def dated_laws_def uuid_bytes_frame timestamp_bytes_frame timestamp_string_inj)

interpretation update_payload: signed_payload "\<lambda>X r. Inr (canonical_update X r)" dated_laws "\<lambda>_. True"
  "as_bytes (''seren-secrets-account-secrets-update'' @ nl)" "\<lambda>X k r. Inr (build_update_proof X k r)"
  verify_update_proof
  by unfold_locales
    (auto simp: build_update_proof_def verify_update_proof_def dest: canonical_update_inj,
     simp add: canonical_update_def)

text \<open>A grant as one value: vault, grantee, access level, wrapped key.\<close>

type_synonym grant = "(bytes \<times> bytes) \<times> u8 \<times> bytes"

definition grant_ok :: "grant \<Rightarrow> bool" where
  "grant_ok g \<longleftrightarrow> length (fst (fst g)) = 16 \<and> length (snd (fst g)) = 16"

definition grant_bytes :: "grant \<Rightarrow> bytes" where
  "grant_bytes g = membership_grant_signing_bytes (fst (fst g)) (snd (fst g)) (fst (snd g)) (snd (snd g))"

lemma grant_bytes_inj: "grant_ok g \<Longrightarrow> grant_ok g' \<Longrightarrow> grant_bytes g = grant_bytes g' \<Longrightarrow> g = g'"
  by (cases g; cases g') (auto simp: grant_ok_def grant_bytes_def membership_grant_signing_bytes_def)

interpretation grant_payload: signed_payload "\<lambda>X g. Inr (grant_bytes g)" "\<lambda>_. True" grant_ok
  MEMBERSHIP_GRANT_DOMAIN
  "\<lambda>X k g. Inr (sign_membership_grant X k (fst (fst g)) (snd (fst g)) (fst (snd g)) (snd (snd g)))"
  "\<lambda>X p g. verify_membership_grant X p (fst (fst g)) (snd (fst g)) (fst (snd g)) (snd (snd g))"
  by unfold_locales
    (auto simp: sign_membership_grant_def verify_membership_grant_def grant_bytes_def [symmetric]
      dest: grant_bytes_inj, simp add: grant_bytes_def membership_grant_signing_bytes_def)

section \<open>The digest of the stored secrets\<close>

lemma len_prefixed_frame [framing]:
  assumes "length a < 2 ^ 64" and "length b < 2 ^ 64"
  shows "len_prefixed a @ x = len_prefixed b @ y \<longleftrightarrow> a = b \<and> x = y"
proof -
  have "be_bytes 8 (length a) = be_bytes 8 (length b) \<longleftrightarrow> length a = length b"
    using assms by (simp add: be_bytes_inj)
  then show ?thesis by (auto simp: len_prefixed_def)
qed

lemma digest_fields_inj:
  "map fst xs = map fst ys \<Longrightarrow> \<forall>(l, v) \<in> set xs \<union> set ys. length l < 2 ^ 64 \<and> length v < 2 ^ 64
     \<Longrightarrow> digest_fields xs = digest_fields ys \<Longrightarrow> xs = ys"
proof (induction xs arbitrary: ys)
  case Nil
  then show ?case by simp
next
  case (Cons x xs)
  then obtain y ys' where ys: "ys = y # ys'" by (cases ys) auto
  with Cons.prems have "fst x = fst y"
    and "len_prefixed (fst x) @ len_prefixed (snd x) @ digest_fields xs
       = len_prefixed (fst x) @ len_prefixed (snd y) @ digest_fields ys'"
    by (cases x; cases y; simp)+
  moreover have "length (snd x) < 2 ^ 64" "length (snd y) < 2 ^ 64"
    using Cons.prems(2) ys by (auto simp: case_prod_beta)
  ultimately have "snd x = snd y" and "digest_fields xs = digest_fields ys'"
    by (simp_all add: len_prefixed_frame)
  with \<open>fst x = fst y\<close> Cons.IH [of ys'] Cons.prems ys show ?case by (auto simp: prod_eq_iff)
qed

section \<open>What canonical JSON ignores and rejects\<close>

text \<open>The same value up to the order in which the entries of its objects are listed, at any
  depth.\<close>

inductive same_value :: "json \<Rightarrow> json \<Rightarrow> bool" where
  same_refl: "same_value v v"
| same_array: "list_all2 same_value vs ws \<Longrightarrow> same_value (JArray vs) (JArray ws)"
| same_object:
    "distinct (map fst m) \<Longrightarrow> mset m = mset m' \<Longrightarrow>
     list_all2 (\<lambda>p q. fst p = fst q \<and> same_value (snd p) (snd q)) m' n \<Longrightarrow>
     same_value (JObject m) (JObject n)"

lemma insort_key_map: "insort_key f (g x) (map g xs) = map g (insort_key (f \<circ> g) x xs)"
  by (induction xs) simp_all

lemma sort_key_map: "sort_key f (map g xs) = map g (sort_key (f \<circ> g) xs)"
  by (induction xs) (simp_all add: insort_key_map comp_def)

lemma insort_key_agree:
  "\<forall>z \<in> insert x (set xs). f z = g z \<Longrightarrow> insort_key f x xs = insort_key g x xs"
  by (induction xs) simp_all

lemma sort_key_agree: "\<forall>z \<in> set xs. f z = g z \<Longrightarrow> sort_key f xs = sort_key g xs"
  by (induction xs) (simp_all add: insort_key_agree)

lemma sort_key_list_all2:
  assumes "list_all2 (\<lambda>p q. f p = g q \<and> P p q) xs ys"
  shows "list_all2 P (sort_key f xs) (sort_key g ys)"
proof -
  let ?z = "zip xs ys"
  have z: "map fst ?z = xs" "map snd ?z = ys" using assms by (simp_all add: list_all2_lengthD)
  have key: "\<forall>z \<in> set ?z. f (fst z) = g (snd z) \<and> P (fst z) (snd z)"
    using assms by (auto simp: list_all2_iff)
  then have "sort_key (f \<circ> fst) ?z = sort_key (g \<circ> snd) ?z"
    by (intro sort_key_agree) simp
  then have "sort_key f xs = map fst (sort_key (f \<circ> fst) ?z)" "sort_key g ys = map snd (sort_key (f \<circ> fst) ?z)"
    using z sort_key_map [of f fst ?z] sort_key_map [of g snd ?z] by simp_all
  with key show ?thesis by (auto simp: list.rel_map list.rel_refl_strong intro!: list.rel_refl_strong)
qed

lemma sort_key_distinct_mset: "distinct (map fst m) \<Longrightarrow> mset m = mset n \<Longrightarrow> sort_key fst m = sort_key fst n"
  by (rule sort_key_eq_sort_key) (simp_all add: distinct_map)

lemma collect_results_list_all2:
  "list_all2 (\<lambda>x y. f x = g y) xs ys \<Longrightarrow> collect_results f xs = collect_results g ys"
  by (induction rule: list_all2_induct) simp_all

lemma write_canonical_same_value:
  "same_value v w \<Longrightarrow> write_canonical_json_value X v = write_canonical_json_value X w"
proof (induction rule: same_value.induct)
  case (same_array vs ws)
  then have "list_all2 (\<lambda>x y. write_canonical_json_value X x = write_canonical_json_value X y) vs ws"
    by (auto elim: list_all2_mono)
  then show ?case by (simp add: collect_results_list_all2)
next
  case (same_object m m' n)
  then have "list_all2 (\<lambda>p q. fst p = fst q \<and>
      (fst p = fst q \<and> write_canonical_json_value X (snd p) = write_canonical_json_value X (snd q))) m' n"
    by (auto elim: list_all2_mono)
  from sort_key_list_all2 [OF this] have "list_all2 (\<lambda>p q. fst p = fst q \<and>
      write_canonical_json_value X (snd p) = write_canonical_json_value X (snd q)) (sort_key fst m) (sort_key fst n)"
    using sort_key_distinct_mset [OF same_object.hyps(1,2)] by simp
  then have eq: "collect_results (\<lambda>kv.
         and_then (ok_or (Canonicalization ''json object key'') (json_write_string X (fst kv))) (\<lambda>key.
         and_then (write_canonical_json_value X (snd kv)) (\<lambda>item. Inr (key @ 58 # item)))) (sort_key fst m)
     = collect_results (\<lambda>kv.
         and_then (ok_or (Canonicalization ''json object key'') (json_write_string X (fst kv))) (\<lambda>key.
         and_then (write_canonical_json_value X (snd kv)) (\<lambda>item. Inr (key @ 58 # item)))) (sort_key fst n)"
    by (intro collect_results_list_all2) (auto elim!: list_all2_mono)
  show ?case by (simp only: write_canonical_json_value.simps eq)
qed simp

fun json_has_float :: "json \<Rightarrow> bool" where
  "json_has_float (JNumber (Float _)) = True"
| "json_has_float (JArray vs) = list_ex json_has_float vs"
| "json_has_float (JObject m) = list_ex (\<lambda>kv. json_has_float (snd kv)) m"
| "json_has_float _ = False"

lemma collect_results_ok: "is_ok (collect_results f xs) \<longleftrightarrow> (\<forall>x \<in> set xs. is_ok (f x))"
proof (induction xs)
  case Nil
  then show ?case by simp
next
  case (Cons x xs)
  then show ?case by (cases "f x"; cases "collect_results f xs") auto
qed

lemma write_canonical_ok:
  assumes "\<forall>s. json_write_string X s \<noteq> None"
  shows "is_ok (write_canonical_json_value X v) \<longleftrightarrow> \<not> json_has_float v"
  using assms
proof (induction X v rule: write_canonical_json_value.induct)
  case (4 X n)
  then show ?case by (cases n) simp_all
next
  case (5 X s)
  then obtain b where "json_write_string X s = Some b" by auto
  then show ?case by simp
next
  case (6 X vs)
  then show ?case by (simp add: is_ok_and_then_Inr collect_results_ok list_ex_iff)
next
  case (7 X m)
  have key: "\<exists>b. json_write_string X k = Some b" for k using "7.prems" by auto
  have "is_ok (and_then (ok_or (Canonicalization ''json object key'') (json_write_string X k)) (\<lambda>key.
         and_then r (\<lambda>item. Inr (key @ 58 # item)))) \<longleftrightarrow> is_ok r" for k and r :: "bytes crypto_result"
    using key [of k] by (auto simp: is_ok_and_then_Inr)
  then have "is_ok (write_canonical_json_value X (JObject m)) \<longleftrightarrow>
      (\<forall>kv \<in> set m. is_ok (write_canonical_json_value X (snd kv)))"
    by (simp add: is_ok_and_then_Inr collect_results_ok)
  also have "\<dots> \<longleftrightarrow> (\<forall>kv \<in> set m. \<not> json_has_float (snd kv))"
  proof (rule ball_cong [OF refl])
    fix kv assume kv: "kv \<in> set m"
    obtain b where "json_write_string X (fst kv) = Some b" using key by blast
    with "7.IH" [of kv b] "7.prems" kv
    show "is_ok (write_canonical_json_value X (snd kv)) \<longleftrightarrow> \<not> json_has_float (snd kv)" by simp
  qed
  also have "\<dots> \<longleftrightarrow> \<not> json_has_float (JObject m)" by (simp add: list_ex_iff)
  finally show ?case .
qed simp_all

section \<open>Properties\<close>

text \<open>A resolve signature authorizes one request: a signature built for a request is
  accepted for it, a request whose URI contains CR or LF can neither be signed nor accepted,
  and if one signature is accepted for two different requests then Ed25519 accepts it for
  their two different canonical messages.\<close>

theorem resolve_signature_binds:
  assumes "ed25519_laws X" and "uuid_laws X" and "timestamp_laws X"
  shows "(build_resolve_signature X k r = Inr b \<longrightarrow>
            verify_resolve_signature X (ed25519_public X k) r b = Inr ())
     \<and> (CHR 0x0A \<in> set (uri r) \<or> CHR 0x0D \<in> set (uri r) \<longrightarrow>
            \<not> is_ok (build_resolve_signature X k r) \<and> \<not> is_ok (verify_resolve_signature X p r b))
     \<and> (verify_resolve_signature X p r b = Inr () \<and> verify_resolve_signature X p r' b = Inr () \<and> r \<noteq> r' \<longrightarrow>
            (\<exists>m m'. canonical_resolve X r = Inr m \<and> canonical_resolve X r' = Inr m'
               \<and> signature_collision X p b m m'))"
proof -
  have "dated_laws X" using assms(2,3) by (simp add: dated_laws_def)
  then show ?thesis
    using resolve_payload.check_build [OF assms(1)] resolve_payload.reuse_collision [where X = X and r = r and r' = r' and p = p and b = b]
    by (auto simp: build_resolve_signature_def verify_resolve_signature_def canonical_resolve_def)
qed

definition sample_request :: ResolveRequest where
  "sample_request = \<lparr> uri = ''seren-secrets://a/b/c'', caller_identity_id = 1,
     resolve_issued_at = Timestamp 0, nonce = 2 \<rparr>"

theorem resolve_signature_binds_witness:
  "\<exists>b. build_resolve_signature toy_lib (arr32 (replicate 32 5)) sample_request = Inr b
     \<and> verify_resolve_signature toy_lib (arr32 (replicate 32 5)) sample_request b = Inr ()"
proof -
  obtain b where b: "build_resolve_signature toy_lib (arr32 (replicate 32 5)) sample_request = Inr b"
    by (simp add: build_resolve_signature_def canonical_resolve_def sample_request_def)
  have "ed25519_public toy_lib k = k" for k by (simp add: toy_lib_def)
  then show ?thesis
    using b resolve_signature_binds [OF toy_ed25519_laws toy_uuid_laws toy_timestamp_laws,
        of "arr32 (replicate 32 5)" sample_request b] by auto
qed

text \<open>C38. A fresh update proof is accepted exactly when its signature verifies and the moment
  \<open>now\<close> lies in the closed interval from its issue to its issue plus a non-negative
  \<open>max_age\<close> (and that end is representable).\<close>

theorem update_proof_fresh_exact:
  assumes "timestamp_laws X"
  shows "verify_update_proof_fresh X p proof b now max_age = Inr () \<longleftrightarrow>
     verify_update_proof X p proof b = Inr () \<and> 0 \<le> max_age
     \<and> ts_ns (issued_at proof) \<le> ts_ns now \<and> ts_ns now \<le> ts_ns (issued_at proof) + max_age
     \<and> ts_ns (issued_at proof) + max_age \<le> TIMESTAMP_MAX"
proof -
  let ?t = "ts_ns (issued_at proof) + max_age"
  have rep: "(\<exists>x. ts_ns x = ?t) \<longleftrightarrow> ?t \<le> TIMESTAMP_MAX" if "0 \<le> max_age"
  proof
    assume "\<exists>x. ts_ns x = ?t"
    then show "?t \<le> TIMESTAMP_MAX" using ts_ns by (metis (mono_tags, lifting) mem_Collect_eq)
  next
    assume "?t \<le> TIMESTAMP_MAX"
    moreover have "TIMESTAMP_MIN \<le> ?t" using that ts_ns [of "issued_at proof"] by simp
    ultimately show "\<exists>x. ts_ns x = ?t" by (intro exI [of _ "Timestamp ?t"]) simp
  qed
  have "verify_update_proof_fresh X p proof b now max_age = Inr () \<longleftrightarrow>
     verify_update_proof X p proof b = Inr () \<and> 0 \<le> max_age \<and> ts_ns (issued_at proof) \<le> ts_ns now
     \<and> (\<exists>x. ts_ns x = ?t) \<and> ts_ns now \<le> ?t"
    by (auto simp: verify_update_proof_fresh_def result_simps timestamp_add [OF assms] not_less)
  then show ?thesis using rep by blast
qed

theorem update_proof_fresh_exact_witness:
  "verify_update_proof_fresh toy_lib (arr32 (replicate 32 5))
     \<lparr> update_user_id = 1, issued_at = Timestamp 10, blob_digest = arr32 (replicate 32 0) \<rparr>
     (build_update_proof toy_lib (arr32 (replicate 32 5))
        \<lparr> update_user_id = 1, issued_at = Timestamp 10, blob_digest = arr32 (replicate 32 0) \<rparr>)
     (Timestamp 30) 20 = Inr ()"
proof -
  have pub: "ed25519_public toy_lib k = k" for k by (simp add: toy_lib_def)
  have ns: "ts_ns (Timestamp 10) = 10" "ts_ns (Timestamp 30) = 30" "30 \<le> TIMESTAMP_MAX"
    by (simp_all add: TIMESTAMP_MIN_def TIMESTAMP_MAX_def)
  show ?thesis
    unfolding update_proof_fresh_exact [OF toy_timestamp_laws]
    using verify_sign [OF toy_ed25519_laws, of "arr32 (replicate 32 5)"]
    by (simp add: ns pub verify_update_proof_def build_update_proof_def)
qed

text \<open>The digest of the stored secrets is SHA-256 of a framing that loses nothing: two
  sets of six fields have the same preimage only if they are equal field by field.\<close>

theorem account_secrets_digest_framing:
  assumes "\<forall>v \<in> {a, b, c, d, e, f, a', b', c', d', e', f'}. length v < 2 ^ 64"
  shows "digest_account_secrets_blob X a b c d e f = sha256 X (digest_preimage a b c d e f)
     \<and> (digest_preimage a b c d e f = digest_preimage a' b' c' d' e' f' \<longrightarrow>
          a = a' \<and> b = b' \<and> c = c' \<and> d = d' \<and> e = e' \<and> f = f')"
proof -
  have "[(as_bytes ''kdf_params'', a), (as_bytes ''recovery_kdf_params'', b), (as_bytes ''account_key_wrap'', c),
      (as_bytes ''account_kem_private_wrap'', d), (as_bytes ''account_signing_private_wrap'', e),
      (as_bytes ''recovery_key_wrap'', f)] =
    [(as_bytes ''kdf_params'', a'), (as_bytes ''recovery_kdf_params'', b'), (as_bytes ''account_key_wrap'', c'),
      (as_bytes ''account_kem_private_wrap'', d'), (as_bytes ''account_signing_private_wrap'', e'),
      (as_bytes ''recovery_key_wrap'', f')]"
    if "digest_preimage a b c d e f = digest_preimage a' b' c' d' e' f'"
    by (rule digest_fields_inj) (use that assms in \<open>simp_all add: digest_preimage_def del: digest_fields.simps\<close>)
  then show ?thesis by (auto simp: digest_account_secrets_blob_def)
qed

theorem account_secrets_digest_framing_witness:
  "digest_preimage [1] [2] [] [] [] [] \<noteq> digest_preimage [1, 2] [] [] [] [] []"
  using account_secrets_digest_framing [of "[1]" "[2]" "[]" "[]" "[]" "[]" "[1, 2]" "[]" "[]" "[]" "[]" "[]"]
  by auto

text \<open>C39. Canonical JSON does not depend on the order in which object entries are listed, at any
  depth.\<close>

theorem canonical_json_ignores_key_order:
  assumes "same_value v w"
  shows "canonical_json_bytes X v = canonical_json_bytes X w"
  by (simp add: canonical_json_bytes_def write_canonical_same_value [OF assms])

theorem canonical_json_ignores_key_order_witness:
  "canonical_json_bytes toy_lib (JArray [JObject [(''b'', JNull), (''a'', JBool True)]])
     = canonical_json_bytes toy_lib (JArray [JObject [(''a'', JBool True), (''b'', JNull)]])"
proof (rule canonical_json_ignores_key_order)
  have "same_value (JObject [(''b'', JNull), (''a'', JBool True)]) (JObject [(''a'', JBool True), (''b'', JNull)])"
    by (rule same_object [where m' = "[(''a'', JBool True), (''b'', JNull)]"]) (auto intro: same_refl)
  then show "same_value (JArray [JObject [(''b'', JNull), (''a'', JBool True)]])
      (JArray [JObject [(''a'', JBool True), (''b'', JNull)]])"
    by (intro same_array) simp
qed

text \<open>Canonical JSON is defined exactly on the values that contain no floating-point number,
  at any depth.\<close>

theorem canonical_json_rejects_floats:
  assumes "\<forall>s. json_write_string X s \<noteq> None"
  shows "(\<exists>bs. canonical_json_bytes X v = Inr bs) \<longleftrightarrow> \<not> json_has_float v"
  using write_canonical_ok [OF assms] by (simp add: canonical_json_bytes_def is_ok_conv)

theorem canonical_json_rejects_floats_witness:
  "\<not> (\<exists>bs. canonical_json_bytes toy_lib (JArray [JNull, JObject [(''a'', JNumber (Float 1))]]) = Inr bs)"
proof -
  have "\<forall>s. json_write_string toy_lib s \<noteq> None" by (simp add: toy_lib_def)
  from canonical_json_rejects_floats [OF this] show ?thesis by simp
qed

text \<open>A membership grant signature is accepted for the grant it was built for, and a
  signature accepted for two different grants (another vault, grantee, access level or wrapped
  key) is one that Ed25519 accepts for two different messages; the three access-level names have
  three different bytes and no other name has one.\<close>

theorem membership_grant_binds:
  assumes "ed25519_laws X" and "length v = 16" and "length i = 16" and "length v' = 16" and "length i' = 16"
  shows "verify_membership_grant X (ed25519_public X k) v i l w (sign_membership_grant X k v i l w) = Inr ()
     \<and> (verify_membership_grant X p v i l w b = Inr () \<and> verify_membership_grant X p v' i' l' w' b = Inr ()
          \<and> (v, i, l, w) \<noteq> (v', i', l', w') \<longrightarrow>
          signature_collision X p b (membership_grant_signing_bytes v i l w)
            (membership_grant_signing_bytes v' i' l' w'))
     \<and> (\<forall>n n'. access_level_byte n \<noteq> None \<and> access_level_byte n = access_level_byte n' \<longrightarrow> n = n')"
proof -
  have "grant_ok ((v, i), l, w)" "grant_ok ((v', i'), l', w')"
    using assms(2-) by (simp_all add: grant_ok_def)
  then show ?thesis
    using grant_payload.check_build [OF assms(1), of k "((v, i), l, w)"]
      grant_payload.reuse_collision
        [where X = X and r = "((v, i), l, w)" and r' = "((v', i'), l', w')" and p = p and b = b]
    by (auto simp: grant_bytes_def access_level_byte_def ACCESS_LEVEL_READ_def ACCESS_LEVEL_WRITE_def
        ACCESS_LEVEL_ADMIN_def split: if_splits)
qed

theorem membership_grant_binds_witness:
  "verify_membership_grant toy_lib (ed25519_public toy_lib (arr32 (replicate 32 5)))
     (replicate 16 1) (replicate 16 2) 3 [4]
     (sign_membership_grant toy_lib (arr32 (replicate 32 5)) (replicate 16 1) (replicate 16 2) 3 [4]) = Inr ()"
  using membership_grant_binds [OF toy_ed25519_laws, of "replicate 16 1" "replicate 16 2" "replicate 16 1" "replicate 16 2"]
  by simp

end
