(* ===== verification/Vault_Crypto.thy ===== *)
theory Vault_Crypto
  imports Keys Aead
begin

text \<open>
  \<open>protocol/vault.rs\<close>, \<open>protocol/attachment.rs\<close> and \<open>protocol/blind_index.rs\<close>: the vault key
  handed to an identity, and every blob sealed under a vault or attachment key.  Identifiers
  are byte slices, as in the source; where two of them are joined by a colon the
  location is unambiguous for identifiers of 16 bytes, which is what all callers pass.
\<close>

section \<open>Vault keys\<close>

definition generate_vault_key :: "entropy \<Rightarrow> VaultKey \<times> entropy" where
  "generate_vault_key = symmetric_key_random"

definition wrap_vault_key_for_identity ::
  "'z crypto_lib_scheme \<Rightarrow> VaultKey \<Rightarrow> IdentityKemPublicKey \<Rightarrow> entropy \<Rightarrow> bytes \<times> entropy" where
  "wrap_vault_key_for_identity X vault_key recipient e = seal X recipient (bytes32 vault_key) e"

definition unwrap_vault_key ::
  "'z crypto_lib_scheme \<Rightarrow> IdentityKemPrivateKey \<Rightarrow> bytes \<Rightarrow> VaultKey crypto_result" where
  "unwrap_vault_key X private wrapped =
     and_then (unseal X private wrapped) (\<lambda>bs.
       if length bs \<noteq> 32 then Inl (InvalidKey ''wrapped vault key was not 32 bytes'')
       else Inr (arr32 bs))"

section \<open>Vault metadata\<close>

definition vault_name_aad :: "bytes \<Rightarrow> bytes" where
  "vault_name_aad vault_id = as_bytes ''vault-name:'' @ vault_id"

definition vault_description_aad :: "bytes \<Rightarrow> bytes" where
  "vault_description_aad vault_id = as_bytes ''vault-description:'' @ vault_id"

definition vault_invitation_email_aad :: "bytes \<Rightarrow> bytes \<Rightarrow> bytes" where
  "vault_invitation_email_aad vault_id invitation_id =
     as_bytes ''vault-invitation-email:'' @ vault_id @ as_bytes '':'' @ invitation_id"

definition live_share_recipient_email_aad :: "bytes \<Rightarrow> bytes \<Rightarrow> bytes" where
  "live_share_recipient_email_aad vault_id share_id =
     as_bytes ''live-share-recipient-email:'' @ vault_id @ as_bytes '':'' @ share_id"

definition encrypt_vault_name ::
  "'z crypto_lib_scheme \<Rightarrow> VaultKey \<Rightarrow> bytes \<Rightarrow> string \<Rightarrow> entropy \<Rightarrow> bytes \<times> entropy" where
  "encrypt_vault_name X vault_key vault_id name e =
     xchacha20_encrypt_with_aad X vault_key (as_bytes name) (vault_name_aad vault_id) e"

definition decrypt_vault_name ::
  "'z crypto_lib_scheme \<Rightarrow> VaultKey \<Rightarrow> bytes \<Rightarrow> bytes \<Rightarrow> string crypto_result" where
  "decrypt_vault_name X vault_key vault_id blob =
     and_then (xchacha20_decrypt_with_aad X vault_key blob (vault_name_aad vault_id))
       (\<lambda>pt. ok_or InvalidCiphertext (from_utf8 pt))"

definition encrypt_vault_description ::
  "'z crypto_lib_scheme \<Rightarrow> VaultKey \<Rightarrow> bytes \<Rightarrow> string \<Rightarrow> entropy \<Rightarrow> bytes \<times> entropy" where
  "encrypt_vault_description X vault_key vault_id description e =
     xchacha20_encrypt_with_aad X vault_key (as_bytes description) (vault_description_aad vault_id) e"

definition decrypt_vault_description ::
  "'z crypto_lib_scheme \<Rightarrow> VaultKey \<Rightarrow> bytes \<Rightarrow> bytes \<Rightarrow> string crypto_result" where
  "decrypt_vault_description X vault_key vault_id blob =
     and_then (xchacha20_decrypt_with_aad X vault_key blob (vault_description_aad vault_id))
       (\<lambda>pt. ok_or InvalidCiphertext (from_utf8 pt))"

definition encrypt_vault_invitation_email ::
  "'z crypto_lib_scheme \<Rightarrow> VaultKey \<Rightarrow> bytes \<Rightarrow> bytes \<Rightarrow> string \<Rightarrow> entropy \<Rightarrow> bytes \<times> entropy" where
  "encrypt_vault_invitation_email X vault_key vault_id invitation_id email e =
     xchacha20_encrypt_with_aad X vault_key (as_bytes email)
       (vault_invitation_email_aad vault_id invitation_id) e"

definition decrypt_vault_invitation_email ::
  "'z crypto_lib_scheme \<Rightarrow> VaultKey \<Rightarrow> bytes \<Rightarrow> bytes \<Rightarrow> bytes \<Rightarrow> string crypto_result" where
  "decrypt_vault_invitation_email X vault_key vault_id invitation_id blob =
     and_then (xchacha20_decrypt_with_aad X vault_key blob
         (vault_invitation_email_aad vault_id invitation_id))
       (\<lambda>pt. ok_or InvalidCiphertext (from_utf8 pt))"

definition encrypt_live_share_recipient_email ::
  "'z crypto_lib_scheme \<Rightarrow> VaultKey \<Rightarrow> bytes \<Rightarrow> bytes \<Rightarrow> string \<Rightarrow> entropy \<Rightarrow> bytes \<times> entropy" where
  "encrypt_live_share_recipient_email X vault_key vault_id share_id email e =
     xchacha20_encrypt_with_aad X vault_key (as_bytes email)
       (live_share_recipient_email_aad vault_id share_id) e"

definition decrypt_live_share_recipient_email ::
  "'z crypto_lib_scheme \<Rightarrow> VaultKey \<Rightarrow> bytes \<Rightarrow> bytes \<Rightarrow> bytes \<Rightarrow> string crypto_result" where
  "decrypt_live_share_recipient_email X vault_key vault_id share_id blob =
     and_then (xchacha20_decrypt_with_aad X vault_key blob
         (live_share_recipient_email_aad vault_id share_id))
       (\<lambda>pt. ok_or InvalidCiphertext (from_utf8 pt))"

section \<open>Attachments\<close>

definition generate_attachment_key :: "entropy \<Rightarrow> AttachmentKey \<times> entropy" where
  "generate_attachment_key = symmetric_key_random"

definition wrap_aad :: "bytes \<Rightarrow> bytes \<Rightarrow> bytes" where
  "wrap_aad item_id attachment_id =
     as_bytes ''attachment-content-key:'' @ item_id @ as_bytes '':'' @ attachment_id"

definition blob_aad :: "bytes \<Rightarrow> bytes \<Rightarrow> bytes" where
  "blob_aad item_id attachment_id =
     as_bytes ''attachment-blob:'' @ item_id @ as_bytes '':'' @ attachment_id"

definition filename_aad :: "bytes \<Rightarrow> bytes \<Rightarrow> bytes" where
  "filename_aad item_id attachment_id =
     as_bytes ''attachment-filename:'' @ item_id @ as_bytes '':'' @ attachment_id"

definition content_type_aad :: "bytes \<Rightarrow> bytes \<Rightarrow> bytes" where
  "content_type_aad item_id attachment_id =
     as_bytes ''attachment-content-type:'' @ item_id @ as_bytes '':'' @ attachment_id"

definition digest_aad :: "bytes \<Rightarrow> bytes \<Rightarrow> bytes" where
  "digest_aad item_id attachment_id =
     as_bytes ''attachment-digest:'' @ item_id @ as_bytes '':'' @ attachment_id"

definition wrap_attachment_key ::
  "'z crypto_lib_scheme \<Rightarrow> VaultKey \<Rightarrow> bytes \<Rightarrow> bytes \<Rightarrow> AttachmentKey \<Rightarrow> entropy \<Rightarrow> bytes \<times> entropy" where
  "wrap_attachment_key X vault_key item_id attachment_id attachment_key e =
     xchacha20_encrypt_with_aad X vault_key (bytes32 attachment_key) (wrap_aad item_id attachment_id) e"

definition unwrap_attachment_key ::
  "'z crypto_lib_scheme \<Rightarrow> VaultKey \<Rightarrow> bytes \<Rightarrow> bytes \<Rightarrow> bytes \<Rightarrow> AttachmentKey crypto_result" where
  "unwrap_attachment_key X vault_key item_id attachment_id wrapped =
     and_then (xchacha20_decrypt_with_aad X vault_key wrapped (wrap_aad item_id attachment_id)) (\<lambda>bs.
       if length bs \<noteq> 32 then Inl (InvalidKey ''attachment key must be 32 bytes'') else Inr (arr32 bs))"

definition plaintext_digest :: "'z crypto_lib_scheme \<Rightarrow> bytes \<Rightarrow> byte32" where
  "plaintext_digest X plaintext = sha256 X plaintext"

definition encrypt_digest ::
  "'z crypto_lib_scheme \<Rightarrow> AttachmentKey \<Rightarrow> bytes \<Rightarrow> bytes \<Rightarrow> byte32 \<Rightarrow> entropy \<Rightarrow> bytes \<times> entropy" where
  "encrypt_digest X attachment_key item_id attachment_id digest e =
     xchacha20_encrypt_with_aad X attachment_key (bytes32 digest) (digest_aad item_id attachment_id) e"

definition decrypt_digest ::
  "'z crypto_lib_scheme \<Rightarrow> AttachmentKey \<Rightarrow> bytes \<Rightarrow> bytes \<Rightarrow> bytes \<Rightarrow> byte32 crypto_result" where
  "decrypt_digest X attachment_key item_id attachment_id ciphertext =
     and_then (xchacha20_decrypt_with_aad X attachment_key ciphertext (digest_aad item_id attachment_id))
       (\<lambda>pt. ok_or InvalidCiphertext (to_byte32 pt))"

definition encrypt_blob ::
  "'z crypto_lib_scheme \<Rightarrow> AttachmentKey \<Rightarrow> bytes \<Rightarrow> bytes \<Rightarrow> bytes \<Rightarrow> entropy \<Rightarrow> bytes \<times> entropy" where
  "encrypt_blob X attachment_key item_id attachment_id plaintext e =
     xchacha20_encrypt_with_aad X attachment_key plaintext (blob_aad item_id attachment_id) e"

definition decrypt_blob ::
  "'z crypto_lib_scheme \<Rightarrow> AttachmentKey \<Rightarrow> bytes \<Rightarrow> bytes \<Rightarrow> bytes \<Rightarrow> bytes crypto_result" where
  "decrypt_blob X attachment_key item_id attachment_id blob =
     xchacha20_decrypt_with_aad X attachment_key blob (blob_aad item_id attachment_id)"

definition encrypt_filename ::
  "'z crypto_lib_scheme \<Rightarrow> VaultKey \<Rightarrow> bytes \<Rightarrow> bytes \<Rightarrow> string \<Rightarrow> entropy \<Rightarrow> bytes \<times> entropy" where
  "encrypt_filename X vault_key item_id attachment_id filename e =
     xchacha20_encrypt_with_aad X vault_key (as_bytes filename) (filename_aad item_id attachment_id) e"

definition decrypt_filename ::
  "'z crypto_lib_scheme \<Rightarrow> VaultKey \<Rightarrow> bytes \<Rightarrow> bytes \<Rightarrow> bytes \<Rightarrow> string crypto_result" where
  "decrypt_filename X vault_key item_id attachment_id blob =
     and_then (xchacha20_decrypt_with_aad X vault_key blob (filename_aad item_id attachment_id))
       (\<lambda>pt. ok_or InvalidCiphertext (from_utf8 pt))"

definition encrypt_content_type ::
  "'z crypto_lib_scheme \<Rightarrow> VaultKey \<Rightarrow> bytes \<Rightarrow> bytes \<Rightarrow> string \<Rightarrow> entropy \<Rightarrow> bytes \<times> entropy" where
  "encrypt_content_type X vault_key item_id attachment_id content_type e =
     xchacha20_encrypt_with_aad X vault_key (as_bytes content_type) (content_type_aad item_id attachment_id) e"

definition decrypt_content_type ::
  "'z crypto_lib_scheme \<Rightarrow> VaultKey \<Rightarrow> bytes \<Rightarrow> bytes \<Rightarrow> bytes \<Rightarrow> string crypto_result" where
  "decrypt_content_type X vault_key item_id attachment_id blob =
     and_then (xchacha20_decrypt_with_aad X vault_key blob (content_type_aad item_id attachment_id))
       (\<lambda>pt. ok_or InvalidCiphertext (from_utf8 pt))"

section \<open>Blind index\<close>

text \<open>\<open>str::trim\<close>, on the scalar values of the string.\<close>

definition trim_scalars :: "nat list \<Rightarrow> nat list" where
  "trim_scalars cs = rev (dropWhile is_whitespace (rev (dropWhile is_whitespace cs)))"

definition trim_str :: "string \<Rightarrow> string" where
  "trim_str s = (case scalars s of None \<Rightarrow> s | Some cs \<Rightarrow> string_of_scalars (trim_scalars cs))"

definition normalize_title :: "'z crypto_lib_scheme \<Rightarrow> string \<Rightarrow> string" where
  "normalize_title X title = unicode_lowercase X (trim_str title)"

definition blind_index_title :: "'z crypto_lib_scheme \<Rightarrow> BlindIndexKey \<Rightarrow> string \<Rightarrow> bytes" where
  "blind_index_title X key title =
     encode HmacSha256 (bytes32 (hmac_sha256 X (bytes32 key) (as_bytes (normalize_title X title))))"

section \<open>The slots\<close>

definition ids16 :: "bytes \<times> bytes \<Rightarrow> bool" where
  "ids16 c \<longleftrightarrow> length (fst c) = 16 \<and> length (snd c) = 16"

interpretation vault_name_slot: sealed_slot vault_name_aad "\<lambda>_. True" as_bytes str_ok parse_text
  encrypt_vault_name decrypt_vault_name
  by unfold_locales
    (auto simp: encrypt_vault_name_def decrypt_vault_name_def parse_text_eta parse_text_iff vault_name_aad_def)

interpretation vault_description_slot: sealed_slot vault_description_aad "\<lambda>_. True" as_bytes str_ok parse_text
  encrypt_vault_description decrypt_vault_description
  by unfold_locales
    (auto simp: encrypt_vault_description_def decrypt_vault_description_def parse_text_eta parse_text_iff
      vault_description_aad_def)

interpretation invitation_email_slot: sealed_slot
  "\<lambda>c. vault_invitation_email_aad (fst c) (snd c)" ids16 as_bytes str_ok parse_text
  "\<lambda>X k c. encrypt_vault_invitation_email X k (fst c) (snd c)"
  "\<lambda>X k c. decrypt_vault_invitation_email X k (fst c) (snd c)"
  by unfold_locales
    (auto simp: encrypt_vault_invitation_email_def decrypt_vault_invitation_email_def parse_text_eta
      parse_text_iff vault_invitation_email_aad_def ids16_def prod_eq_iff)

interpretation share_email_slot: sealed_slot
  "\<lambda>c. live_share_recipient_email_aad (fst c) (snd c)" ids16 as_bytes str_ok parse_text
  "\<lambda>X k c. encrypt_live_share_recipient_email X k (fst c) (snd c)"
  "\<lambda>X k c. decrypt_live_share_recipient_email X k (fst c) (snd c)"
  by unfold_locales
    (auto simp: encrypt_live_share_recipient_email_def decrypt_live_share_recipient_email_def parse_text_eta
      parse_text_iff live_share_recipient_email_aad_def ids16_def prod_eq_iff)

interpretation attachment_key_slot: sealed_slot
  "\<lambda>c. wrap_aad (fst c) (snd c)" ids16 bytes32 "\<lambda>_. True"
  "parse_key (InvalidKey ''attachment key must be 32 bytes'')"
  "\<lambda>X k c. wrap_attachment_key X k (fst c) (snd c)" "\<lambda>X k c. unwrap_attachment_key X k (fst c) (snd c)"
  by unfold_locales
    (auto simp: wrap_attachment_key_def unwrap_attachment_key_def parse_key_if [symmetric] parse_key_iff
      wrap_aad_def ids16_def prod_eq_iff)

interpretation attachment_digest_slot: sealed_slot
  "\<lambda>c. digest_aad (fst c) (snd c)" ids16 bytes32 "\<lambda>_. True" "parse_key InvalidCiphertext"
  "\<lambda>X k c. encrypt_digest X k (fst c) (snd c)" "\<lambda>X k c. decrypt_digest X k (fst c) (snd c)"
  by unfold_locales
    (auto simp: encrypt_digest_def decrypt_digest_def parse_key_eta parse_key_iff
      digest_aad_def ids16_def prod_eq_iff)

interpretation attachment_blob_slot: sealed_slot
  "\<lambda>c. blob_aad (fst c) (snd c)" ids16 "\<lambda>v. v" "\<lambda>_. True" Inr
  "\<lambda>X k c. encrypt_blob X k (fst c) (snd c)" "\<lambda>X k c. decrypt_blob X k (fst c) (snd c)"
  by unfold_locales
    (auto simp: encrypt_blob_def decrypt_blob_def and_then_def blob_aad_def ids16_def prod_eq_iff
      split: sum.splits)

interpretation attachment_filename_slot: sealed_slot
  "\<lambda>c. filename_aad (fst c) (snd c)" ids16 as_bytes str_ok parse_text
  "\<lambda>X k c. encrypt_filename X k (fst c) (snd c)" "\<lambda>X k c. decrypt_filename X k (fst c) (snd c)"
  by unfold_locales
    (auto simp: encrypt_filename_def decrypt_filename_def parse_text_eta parse_text_iff
      filename_aad_def ids16_def prod_eq_iff)

interpretation attachment_content_type_slot: sealed_slot
  "\<lambda>c. content_type_aad (fst c) (snd c)" ids16 as_bytes str_ok parse_text
  "\<lambda>X k c. encrypt_content_type X k (fst c) (snd c)" "\<lambda>X k c. decrypt_content_type X k (fst c) (snd c)"
  by unfold_locales
    (auto simp: encrypt_content_type_def decrypt_content_type_def parse_text_eta parse_text_iff
      content_type_aad_def ids16_def prod_eq_iff)

section \<open>Vault keys across identities\<close>

lemma unwrap_wrap_vault_key:
  assumes "kem_laws X"
  shows "unwrap_vault_key X s (fst (wrap_vault_key_for_identity X vk (x25519_public X s) e)) = Inr vk"
  by (simp add: wrap_vault_key_for_identity_def unwrap_vault_key_def unseal_seal [OF assms])

end
