(* ===== verification/Resolver.thy ===== *)
theory Resolver
  imports Field_Extract Http Canonical Vault_Crypto Reference_Lib
begin

text \<open>
  The resolver proper: the first half of \<open>seren_secrets.rs\<close> and \<open>types.rs\<close>.  A reference
  \<open>seren-secrets://<vault>/<item>/<field>\<close> is parsed, the request is signed and sent, the
  response's ciphertexts are opened with the caller's keys, and the field is extracted.  The
  clock and the random nonce are arguments; \<open>resolver_lib\<close> adds the derived (de)serializers of
  the request and response structs, the plain-text extractor and the UUID variant test.
\<close>

section \<open>Data\<close>

record ResolutionContext =
  agent_identity_id :: "uuid option"
  ctx_organization_id :: uuid
  ctx_user_id :: uuid
  correlation_id :: "uuid option"

definition for_agent :: "uuid \<Rightarrow> uuid \<Rightarrow> uuid \<Rightarrow> ResolutionContext" where
  "for_agent agent organization user =
     \<lparr> agent_identity_id = Some agent, ctx_organization_id = organization, ctx_user_id = user, correlation_id = None \<rparr>"

definition for_user :: "uuid \<Rightarrow> uuid \<Rightarrow> ResolutionContext" where
  "for_user organization user =
     \<lparr> agent_identity_id = None, ctx_organization_id = organization, ctx_user_id = user, correlation_id = None \<rparr>"

definition with_correlation_id :: "ResolutionContext \<Rightarrow> uuid \<Rightarrow> ResolutionContext" where
  "with_correlation_id ctx c = ctx\<lparr> correlation_id := Some c \<rparr>"

datatype SecretSource = OrgSecret | UserSecret | SerenSecrets

record ResolvedSecret =
  secret_plaintext :: string
  field_name :: string
  secret_source :: SecretSource

record SerenSecretsResolverConfig =
  config_base_url :: string
  config_bearer_token :: string
  config_caller_identity_id :: uuid
  config_signing_keypair :: IdentitySigningKeypair
  config_kem_keypair :: IdentityKemKeypair
  config_network :: ResolverNetwork

record SerenSecretsResolver =
  resolver_http :: http_client
  resolver_base_url :: string
  resolver_bearer_token :: string
  resolver_caller_identity_id :: uuid
  resolver_signing_keypair :: IdentitySigningKeypair
  resolver_kem_keypair :: IdentityKemKeypair

record ResolveBody =
  body_uri :: string
  body_issued_at :: timestamp
  body_nonce :: uuid
  request_signature :: string

record ResolveResponseBody =
  response_vault_id :: uuid
  response_item_id :: uuid
  response_field_name :: string
  content_ciphertext :: string
  content_key_wrap :: string
  response_wrapped_vault_key :: string

record resolver_lib = http_lib +
  uuid_is_rfc4122 :: "uuid \<Rightarrow> bool"
  extract_plain_text :: "json \<Rightarrow> string"
  resolve_body_to_json :: "ResolveBody \<Rightarrow> bytes"
  resolve_envelope_from_json :: "bytes \<Rightarrow> ResolveResponseBody option"
    \<comment> \<open>\<open>ResolveEnvelope\<close>, whose only field is \<open>data\<close>\<close>
  error_envelope_from_json :: "bytes \<Rightarrow> uuid option option"
    \<comment> \<open>\<open>ErrorEnvelope\<close>: the optional approval id of a body that has the shape\<close>

text \<open>The uuid crate reads the hyphenated form in either case.\<close>

definition uuid_case_laws :: "'z crypto_lib_scheme \<Rightarrow> bool" where
  "uuid_case_laws X \<longleftrightarrow> (\<forall>s u. eq_ignore_ascii_case (uuid_to_string X u) s \<longrightarrow> uuid_parse X s = Some u)"

section \<open>References\<close>

definition parse_reference_uuid :: "'z resolver_lib_scheme \<Rightarrow> string \<Rightarrow> uuid option" where
  "parse_reference_uuid X value =
     Option.bind (uuid_parse X value) (\<lambda>u.
       if eq_ignore_ascii_case (uuid_to_string X u) value \<and> uuid_is_rfc4122 X u then Some u else None)"

definition parse_seren_secrets_uri ::
  "'z resolver_lib_scheme \<Rightarrow> string \<Rightarrow> (uuid \<times> uuid \<times> string) resolver_result" where
  "parse_seren_secrets_uri X ref =
     (if has_whitespace ref then Inl (InvalidUri ''uri must not contain whitespace'')
      else and_then (ok_or (InvalidUri ''uri must start with seren-secrets://'')
             (strip_prefix ''seren-secrets://'' ref)) (\<lambda>rest.
        (case split_char ((=) CHR ''/'') rest of
           [part0, part1, field] \<Rightarrow>
             and_then (ok_or (InvalidUri ''vault uuid'') (parse_reference_uuid X part0)) (\<lambda>vault_id.
             and_then (ok_or (InvalidUri ''item uuid'') (parse_reference_uuid X part1)) (\<lambda>item_id.
               if field = [] then Inl (InvalidUri ''field name'')
               else if CHR ''?'' \<in> set field \<or> CHR ''#'' \<in> set field
               then Inl (InvalidUri ''field must not contain query or fragment markers'')
               else Inr (vault_id, item_id, field)))
         | _ \<Rightarrow> Inl (InvalidUri ''uri shape is seren-secrets://<vault>/<item>/<field>''))))"

section \<open>Decryption of a response\<close>

definition decrypt_resolve_payload ::
  "'z resolver_lib_scheme \<Rightarrow> ResolveResponseBody \<Rightarrow> uuid \<Rightarrow> uuid \<Rightarrow> string \<Rightarrow> IdentityKemPrivateKey
    \<Rightarrow> ItemContent resolver_result" where
  "decrypt_resolve_payload X payload expected_vault_id expected_item_id requested_field private =
     (if response_vault_id payload \<noteq> expected_vault_id \<or> response_item_id payload \<noteq> expected_item_id
      then Inl (Malformed ''response vault_id/item_id mismatch'')
      else if response_field_name payload \<noteq> requested_field
      then Inl (Malformed ''response field_name mismatch'')
      else
        and_then (ok_or (Malformed ''wrapped_vault_key base64'')
          (base64_decode X (response_wrapped_vault_key payload))) (\<lambda>wrapped_vault_key.
        and_then (ok_or (Malformed ''content_key_wrap base64'')
          (base64_decode X (content_key_wrap payload))) (\<lambda>content_key_wrap.
        and_then (ok_or (Malformed ''content_ciphertext base64'')
          (base64_decode X (content_ciphertext payload))) (\<lambda>content_ciphertext.
        and_then (map_err Crypto (unwrap_vault_key X private wrapped_vault_key)) (\<lambda>vault_key.
        and_then (map_err Crypto (unwrap_item_content_key X vault_key
          (uuid_as_bytes X expected_item_id) content_key_wrap)) (\<lambda>content_key.
        map_err Crypto (decrypt_item_with_content_key X content_key
          (uuid_as_bytes X expected_item_id) content_ciphertext)))))))"

section \<open>Resolution\<close>

definition resolver_with_request_timeout ::
  "'z resolver_lib_scheme \<Rightarrow> SerenSecretsResolverConfig \<Rightarrow> nat \<Rightarrow> SerenSecretsResolver resolver_result" where
  "resolver_with_request_timeout X config request_timeout =
     and_then (network_client X (config_base_url config) (config_network config) request_timeout) (\<lambda>http.
       Inr \<lparr> resolver_http = http,
             resolver_base_url = trim_end_char CHR ''/'' (config_base_url config),
             resolver_bearer_token = config_bearer_token config,
             resolver_caller_identity_id = config_caller_identity_id config,
             resolver_signing_keypair = config_signing_keypair config,
             resolver_kem_keypair = config_kem_keypair config \<rparr>)"

definition resolver_new ::
  "'z resolver_lib_scheme \<Rightarrow> SerenSecretsResolverConfig \<Rightarrow> SerenSecretsResolver resolver_result" where
  "resolver_new X config = resolver_with_request_timeout X config REQUEST_TIMEOUT"

text \<open>The request \<open>resolve\<close> sends, at the time \<open>now\<close> with the fresh nonce \<open>u\<close>.\<close>

definition resolve_request ::
  "'z resolver_lib_scheme \<Rightarrow> SerenSecretsResolver \<Rightarrow> string \<Rightarrow> timestamp \<Rightarrow> uuid \<Rightarrow> http_request resolver_result" where
  "resolve_request X self ref now u =
     and_then (map_err Crypto (build_resolve_signature X (signing_private (resolver_signing_keypair self))
       \<lparr> uri = ref, caller_identity_id = resolver_caller_identity_id self, resolve_issued_at = now, nonce = u \<rparr>))
     (\<lambda>signature.
       Inr \<lparr> req_method = Post, req_url = resolver_base_url self @ ''/resolve'',
             req_bearer = Some (resolver_bearer_token self),
             req_body = Some (resolve_body_to_json X
               \<lparr> body_uri = ref, body_issued_at = now, body_nonce = u,
                 request_signature = base64_encode X signature \<rparr>) \<rparr>)"

definition is_success :: "u16 \<Rightarrow> bool" where
  "is_success status \<longleftrightarrow> 200 \<le> status \<and> status < 300"

definition resolve_response ::
  "'z resolver_lib_scheme \<Rightarrow> http_response \<Rightarrow> ResolveResponseBody resolver_result" where
  "resolve_response X response =
     (let status = resp_status response
      in if status = 403
         then (let body = (case read_capped response MAX_ERROR_BODY of Inr b \<Rightarrow> b | Inl _ \<Rightarrow> [])
               in case error_envelope_from_json X body of
                    Some (Some rid) \<Rightarrow> Inl (ApprovalRequired rid)
                  | _ \<Rightarrow> Inl (ServerError status ''forbidden''))
         else if \<not> is_success status
         then Inl (ServerError status (truncate_error_body (read_capped_text response MAX_ERROR_BODY)))
         else and_then (read_capped response MAX_RESOLVE_BODY) (\<lambda>body.
              ok_or (Malformed ''response body'') (resolve_envelope_from_json X body)))"

definition resolve ::
  "'z resolver_lib_scheme \<Rightarrow> SerenSecretsResolver \<Rightarrow> string \<Rightarrow> ResolutionContext \<Rightarrow> timestamp \<Rightarrow> uuid
    \<Rightarrow> ResolvedSecret resolver_result" where
  "resolve X self ref ctx now u =
     and_then (parse_seren_secrets_uri X ref) (\<lambda>(vault_id, item_id, requested_field).
     and_then (resolve_request X self ref now u) (\<lambda>request.
     and_then (map_err transport (http_send X (resolver_http self) request)) (\<lambda>response.
     and_then (resolve_response X response) (\<lambda>payload.
     and_then (decrypt_resolve_payload X payload vault_id item_id requested_field
       (kem_private (resolver_kem_keypair self))) (\<lambda>content.
     and_then (extract_field (extract_plain_text X) content requested_field) (\<lambda>plaintext.
       Inr \<lparr> secret_plaintext = plaintext, field_name = requested_field, secret_source = SerenSecrets \<rparr>))))))"

section \<open>Parsing is exact\<close>

lemma parse_reference_uuid_iff:
  "uuid_case_laws X \<Longrightarrow> parse_reference_uuid X s = Some u \<longleftrightarrow>
     eq_ignore_ascii_case (uuid_to_string X u) s \<and> uuid_is_rfc4122 X u"
  by (auto simp: parse_reference_uuid_def uuid_case_laws_def bind_eq_Some_conv split: if_splits)

lemma split_three:
  "split_char ((=) (c :: char)) s = [x, y, z] \<longleftrightarrow> s = x @ c # y @ c # z \<and> c \<notin> set x \<and> c \<notin> set y \<and> c \<notin> set z"
proof
  assume *: "split_char ((=) c) s = [x, y, z]"
  then have "s = x @ c # y @ c # z" using join_split_char [of c s] by simp
  moreover have "c \<notin> set w" if "w \<in> {x, y, z}" for w
    using split_char_pieces [of w "(=) c" s c] that by (auto simp: *)
  ultimately show "s = x @ c # y @ c # z \<and> c \<notin> set x \<and> c \<notin> set y \<and> c \<notin> set z" by simp
next
  assume *: "s = x @ c # y @ c # z \<and> c \<notin> set x \<and> c \<notin> set y \<and> c \<notin> set z"
  then have "\<forall>u \<in> set x. \<not> c = u" "\<forall>u \<in> set y. \<not> c = u" "\<forall>u \<in> set z. \<not> c = u" by auto
  with * show "split_char ((=) c) s = [x, y, z]" by (simp add: split_char_append split_char_none)
qed

lemma case_three_eq_Inr:
  "(case l of [x, y, z] \<Rightarrow> g x y z | _ \<Rightarrow> Inl e) = Inr r \<longleftrightarrow> (\<exists>x y z. l = [x, y, z] \<and> g x y z = Inr r)"
  by (auto split: list.splits)

lemma uuid_spelling_no_slash:
  assumes "uuid_laws X" and "eq_ignore_ascii_case (uuid_to_string X u) s"
  shows "CHR ''/'' \<notin> set s"
proof
  assume "CHR ''/'' \<in> set s"
  then have "ascii_lower CHR ''/'' \<in> set (to_ascii_lowercase s)" by (simp add: to_ascii_lowercase_def)
  with assms(2) have "ascii_lower CHR ''/'' \<in> ascii_lower ` set (uuid_to_string X u)"
    unfolding eq_ignore_ascii_case_def to_ascii_lowercase_def by (metis set_map)
  then obtain c where "c \<in> set (uuid_to_string X u)" and c: "ascii_lower c = ascii_lower CHR ''/''" by auto
  with uuid_string_alphabet [OF assms(1), of u] have "uuid_char c" by (auto simp: list_all_iff)
  then have "c \<noteq> CHR ''/''" and "ascii_lower c = c" by (auto simp: uuid_char_def is_ascii_digit_def ascii_lower_def)
  with c show False by (simp add: ascii_lower_def)
qed

lemma parse_uri_iff:
  assumes "uuid_laws X" and "uuid_case_laws X"
  shows "parse_seren_secrets_uri X ref = Inr (v, i, f) \<longleftrightarrow>
    \<not> has_whitespace ref
    \<and> (\<exists>a b. ref = ''seren-secrets://'' @ a @ CHR ''/'' # b @ CHR ''/'' # f
         \<and> eq_ignore_ascii_case (uuid_to_string X v) a \<and> eq_ignore_ascii_case (uuid_to_string X i) b)
    \<and> uuid_is_rfc4122 X v \<and> uuid_is_rfc4122 X i
    \<and> f \<noteq> [] \<and> CHR ''/'' \<notin> set f \<and> CHR ''?'' \<notin> set f \<and> CHR ''#'' \<notin> set f" (is "_ \<longleftrightarrow> ?R")
proof
  assume "parse_seren_secrets_uri X ref = Inr (v, i, f)"
  then obtain rest a b where "ref = ''seren-secrets://'' @ rest" and s: "split_char ((=) CHR ''/'') rest = [a, b, f]"
    and "\<not> has_whitespace ref" "parse_reference_uuid X a = Some v" "parse_reference_uuid X b = Some i"
      "f \<noteq> []" "CHR ''?'' \<notin> set f" "CHR ''#'' \<notin> set f"
    unfolding parse_seren_secrets_uri_def if_Inl_eq_Inr and_then_eq_Inr ok_or_eq_Inr case_three_eq_Inr
      strip_prefix_eq_Some by (elim conjE exE) (simp split: if_splits)
  moreover have "rest = a @ CHR ''/'' # b @ CHR ''/'' # f \<and> CHR ''/'' \<notin> set f"
    using s by (simp add: split_three)
  ultimately show ?R using assms(2) by (auto simp: parse_reference_uuid_iff)
next
  assume R: ?R
  then obtain a b where ref: "ref = ''seren-secrets://'' @ a @ CHR ''/'' # b @ CHR ''/'' # f"
    and ab: "eq_ignore_ascii_case (uuid_to_string X v) a" "eq_ignore_ascii_case (uuid_to_string X i) b" by blast
  have "split_char ((=) CHR ''/'') (a @ CHR ''/'' # b @ CHR ''/'' # f) = [a, b, f]"
    using R ab uuid_spelling_no_slash [OF assms(1)] by (simp add: split_three)
  moreover have "parse_reference_uuid X a = Some v" "parse_reference_uuid X b = Some i"
    using R ab assms(2) by (simp_all add: parse_reference_uuid_iff)
  moreover have "strip_prefix ''seren-secrets://'' ref = Some (a @ CHR ''/'' # b @ CHR ''/'' # f)"
    unfolding ref by (rule strip_prefix_append)
  ultimately show "parse_seren_secrets_uri X ref = Inr (v, i, f)"
    using R by (simp add: parse_seren_secrets_uri_def)
qed

section \<open>Properties\<close>

text \<open>C30. The parser of references is exact: it accepts precisely the strings that spell two
  RFC 4122 identifiers in hyphenated form (in either case) and one non-empty field without
  separators, query, fragment or white space, and returns what they spell.  Two accepted
  references to the same field of the same item differ in case at most, so a signed reference
  has no second encoding.\<close>

theorem reference_parse_exact:
  assumes "uuid_laws X" and "uuid_case_laws X"
  shows "(parse_seren_secrets_uri X ref = Inr (v, i, f) \<longleftrightarrow>
      \<not> has_whitespace ref
      \<and> (\<exists>a b. ref = ''seren-secrets://'' @ a @ CHR ''/'' # b @ CHR ''/'' # f
           \<and> eq_ignore_ascii_case (uuid_to_string X v) a \<and> eq_ignore_ascii_case (uuid_to_string X i) b)
      \<and> uuid_is_rfc4122 X v \<and> uuid_is_rfc4122 X i
      \<and> f \<noteq> [] \<and> CHR ''/'' \<notin> set f \<and> CHR ''?'' \<notin> set f \<and> CHR ''#'' \<notin> set f)
    \<and> (parse_seren_secrets_uri X ref = Inr (v, i, f) \<and> parse_seren_secrets_uri X ref' = Inr (v, i, f)
         \<longrightarrow> eq_ignore_ascii_case ref ref')"
  unfolding parse_uri_iff [OF assms] by (auto simp: eq_ignore_ascii_case_def)

section \<open>What a successful resolution means\<close>

lemma decrypt_resolve_payload_iff:
  assumes "aead_laws X"
  shows "decrypt_resolve_payload X payload v i f private = Inr content \<longleftrightarrow>
    response_vault_id payload = v \<and> response_item_id payload = i \<and> response_field_name payload = f
    \<and> (\<exists>wrap ckw ct vk ck json.
         base64_decode X (response_wrapped_vault_key payload) = Some wrap
         \<and> base64_decode X (content_key_wrap payload) = Some ckw
         \<and> base64_decode X (content_ciphertext payload) = Some ct
         \<and> unwrap_vault_key X private wrap = Inr vk
         \<and> sealed_as X vk (content_key_wrap_aad (uuid_as_bytes X i)) (bytes32 ck) ckw
         \<and> sealed_as X ck (body_aad (uuid_as_bytes X i)) json ct
         \<and> content_from_json X json = Some content)"
  using decrypt_iff_sealed [OF assms]
  by (auto simp: decrypt_resolve_payload_def and_then_eq_Inr ok_or_eq_Inr map_err_eq_Inr
      unwrap_item_content_key_def decrypt_item_with_content_key_def to_byte32_eq_Some split: if_splits)

lemma resolve_response_Inr:
  "resolve_response X response = Inr payload \<longleftrightarrow>
     is_success (resp_status response)
     \<and> (\<exists>b. read_capped response MAX_RESOLVE_BODY = Inr b \<and> resolve_envelope_from_json X b = Some payload)"
  by (auto simp: resolve_response_def is_success_def Let_def and_then_eq_Inr ok_or_eq_Inr split: option.splits if_splits)

lemma resolve_request_Inr:
  assumes "ed25519_laws X"
    and "resolve_request X self ref now u = Inr request"
  shows "\<exists>signature. req_bearer request = Some (resolver_bearer_token self)
    \<and> req_url request = resolver_base_url self @ ''/resolve''
    \<and> req_body request = Some (resolve_body_to_json X
        \<lparr> body_uri = ref, body_issued_at = now, body_nonce = u, request_signature = base64_encode X signature \<rparr>)
    \<and> verify_resolve_signature X (ed25519_public X (signing_private (resolver_signing_keypair self)))
        \<lparr> uri = ref, caller_identity_id = resolver_caller_identity_id self, resolve_issued_at = now, nonce = u \<rparr>
        signature = Inr ()"
proof -
  define k where "k = signing_private (resolver_signing_keypair self)"
  define rec where "rec = \<lparr> uri = ref, caller_identity_id = resolver_caller_identity_id self,
      resolve_issued_at = now, nonce = u \<rparr>"
  from assms(2) obtain m where m: "canonical_resolve X rec = Inr m"
    and request: "request = \<lparr> req_method = Post, req_url = resolver_base_url self @ ''/resolve'',
             req_bearer = Some (resolver_bearer_token self),
             req_body = Some (resolve_body_to_json X
               \<lparr> body_uri = ref, body_issued_at = now, body_nonce = u,
                 request_signature = base64_encode X (sign X k m) \<rparr>) \<rparr>"
    unfolding resolve_request_def build_resolve_signature_def rec_def [symmetric] k_def [symmetric]
    by (auto simp: and_then_eq_Inr map_err_eq_Inr)
  have "verify_resolve_signature X (ed25519_public X k) rec (sign X k m) = Inr ()"
    by (simp add: verify_resolve_signature_def m verify_sign [OF assms(1)])
  then show ?thesis unfolding k_def [symmetric] rec_def [symmetric]
    by (intro exI [of _ "sign X k m"]) (simp add: request)
qed

text \<open>C3. A secret is only ever returned for a well-formed reference, after a request that carries
  the bearer token and a signature that verifies for exactly this reference, caller, time and
  nonce; the response names the same vault, item and field, its vault key opens with the
  caller's private key, its content key is sealed under that vault key for this item and its
  content under that content key for this item, and the secret is the requested field of the
  content.\<close>

theorem resolve_sound:
  assumes "aead_laws X" and "ed25519_laws X"
    and "resolve X self ref ctx now u = Inr secret"
  shows "\<exists>v i f request response payload signature wrap ckw ct vk ck json content.
      parse_seren_secrets_uri X ref = Inr (v, i, f)
    \<and> http_send X (resolver_http self) request = Inr response \<and> is_success (resp_status response)
    \<and> req_bearer request = Some (resolver_bearer_token self)
    \<and> req_body request = Some (resolve_body_to_json X
        \<lparr> body_uri = ref, body_issued_at = now, body_nonce = u, request_signature = base64_encode X signature \<rparr>)
    \<and> verify_resolve_signature X (ed25519_public X (signing_private (resolver_signing_keypair self)))
        \<lparr> uri = ref, caller_identity_id = resolver_caller_identity_id self, resolve_issued_at = now, nonce = u \<rparr>
        signature = Inr ()
    \<and> resolve_response X response = Inr payload
    \<and> response_vault_id payload = v \<and> response_item_id payload = i \<and> response_field_name payload = f
    \<and> base64_decode X (response_wrapped_vault_key payload) = Some wrap
    \<and> base64_decode X (content_key_wrap payload) = Some ckw
    \<and> base64_decode X (content_ciphertext payload) = Some ct
    \<and> unwrap_vault_key X (kem_private (resolver_kem_keypair self)) wrap = Inr vk
    \<and> sealed_as X vk (content_key_wrap_aad (uuid_as_bytes X i)) (bytes32 ck) ckw
    \<and> sealed_as X ck (body_aad (uuid_as_bytes X i)) json ct
    \<and> content_from_json X json = Some content
    \<and> extract_field (extract_plain_text X) content f = Inr (secret_plaintext secret)
    \<and> secret = \<lparr> secret_plaintext = secret_plaintext secret, field_name = f, secret_source = SerenSecrets \<rparr>"
proof -
  from assms(3) obtain v i f request response payload content plain where
    p: "parse_seren_secrets_uri X ref = Inr (v, i, f)"
    and rq: "resolve_request X self ref now u = Inr request"
    and send: "http_send X (resolver_http self) request = Inr response"
    and rs: "resolve_response X response = Inr payload"
    and dec: "decrypt_resolve_payload X payload v i f (kem_private (resolver_kem_keypair self)) = Inr content"
    and ex: "extract_field (extract_plain_text X) content f = Inr plain"
    and sec: "secret = \<lparr> secret_plaintext = plain, field_name = f, secret_source = SerenSecrets \<rparr>"
    by (auto simp: resolve_def and_then_eq_Inr map_err_eq_Inr)
  from resolve_request_Inr [OF assms(2) rq] dec [unfolded decrypt_resolve_payload_iff [OF assms(1)]]
    rs [unfolded resolve_response_Inr] p send rs ex sec
  show ?thesis by (elim exE conjE) (intro exI conjI, assumption+, simp_all)
qed

lemma no_whitespace_line: "str_ok s \<Longrightarrow> \<not> has_whitespace s \<Longrightarrow> CHR 0x0A \<notin> set s \<and> CHR 0x0D \<notin> set s"
  using no_whitespace_ascii [of s "CHR 0x0A"] no_whitespace_ascii [of s "CHR 0x0D"]
  by (auto simp: is_whitespace_def)

lemma resolve_request_ok:
  assumes "str_ok ref" and "parse_seren_secrets_uri X ref = Inr r"
  shows "is_ok (resolve_request X self ref now u)"
proof -
  have "\<not> has_whitespace ref" using assms(2) by (auto simp: parse_seren_secrets_uri_def split: if_splits)
  with assms(1) have "CHR 0x0A \<notin> set ref \<and> CHR 0x0D \<notin> set ref" by (rule no_whitespace_line)
  then show ?thesis by (simp add: resolve_request_def build_resolve_signature_def canonical_resolve_def)
qed

lemma honest_service_resolves:
  assumes "aead_laws X" "kem_laws X" "base64_laws X" "item_json_laws X"
    and "str_ok ref" and "parse_seren_secrets_uri X ref = Inr (v, i, f)"
    and "kem_public (resolver_kem_keypair self) = x25519_public X (kem_private (resolver_kem_keypair self))"
    and answer: "\<And>request. resolve_request X self ref now u = Inr request \<Longrightarrow>
        http_send X (resolver_http self) request = Inr \<lparr> resp_status = 200, resp_chunks = map Inr chunks \<rparr>"
    and "length (concat chunks) \<le> MAX_RESOLVE_BODY"
    and "resolve_envelope_from_json X (concat chunks) = Some
        \<lparr> response_vault_id = v, response_item_id = i, response_field_name = f,
          content_ciphertext = base64_encode X ct, content_key_wrap = base64_encode X ckw,
          response_wrapped_vault_key = base64_encode X wrap \<rparr>"
    and "wrap_vault_key_for_identity X vk (kem_public (resolver_kem_keypair self)) e1 = (wrap, e2)"
    and "wrap_item_content_key X vk (uuid_as_bytes X i) ck e3 = (ckw, e4)"
    and "encrypt_item_with_content_key X ck (uuid_as_bytes X i) content e5 = (Inr ct, e6)"
    and "extract_field (extract_plain_text X) content f = Inr s"
  shows "resolve X self ref ctx now u =
    Inr \<lparr> secret_plaintext = s, field_name = f, secret_source = SerenSecrets \<rparr>"
proof -
  from resolve_request_ok [OF assms(5,6), of self now u] obtain request where
    rq: "resolve_request X self ref now u = Inr request" by (auto simp: is_ok_conv)
  have "MAX_RESOLVE_BODY < 2 ^ 64 - 1" by (simp add: MAX_RESOLVE_BODY_def)
  then have "read_capped \<lparr> resp_status = 200, resp_chunks = map Inr chunks \<rparr> MAX_RESOLVE_BODY = Inr (concat chunks)"
    using assms(9) by (auto simp: read_capped_def read_chunks_Inr)
  then have rs: "resolve_response X \<lparr> resp_status = 200, resp_chunks = map Inr chunks \<rparr> = Inr
        \<lparr> response_vault_id = v, response_item_id = i, response_field_name = f,
          content_ciphertext = base64_encode X ct, content_key_wrap = base64_encode X ckw,
          response_wrapped_vault_key = base64_encode X wrap \<rparr>"
    using assms(10) by (simp add: resolve_response_Inr is_success_def)
  have vk: "unwrap_vault_key X (kem_private (resolver_kem_keypair self)) wrap = Inr vk"
    using unwrap_wrap_vault_key [OF assms(2)] assms(7,11) by (metis fst_conv)
  have ckw: "unwrap_item_content_key X vk (uuid_as_bytes X i) ckw = Inr ck"
    using assms(12) decrypt_encrypt [OF assms(1)]
    by (auto simp: unwrap_item_content_key_def wrap_item_content_key_def)
      (metis fst_conv and_then_simps(2) ok_or_simps(2) to_byte32_bytes32)
  have body: "decrypt_item_with_content_key X ck (uuid_as_bytes X i) ct = Inr content"
    by (rule item_body_round_trip [OF assms(1,4,13)])
  show ?thesis
    using answer [OF rq] rs rq vk ckw body assms(14) base64_round_trip [OF assms(3)]
    by (simp add: resolve_def assms(6) decrypt_resolve_payload_def)
qed

text \<open>C4. Resolution delivers: if the service answers the signed request with the item's own
  ciphertexts (the vault key wrapped for the caller, the content key wrapped under it, the
  content encrypted under that) in a body within the size cap, and the item has the field, then
  the resolver returns exactly that field.\<close>

theorem resolve_delivers:
  assumes "aead_laws X" "kem_laws X" "base64_laws X" "item_json_laws X"
    and "str_ok ref" and "parse_seren_secrets_uri X ref = Inr (v, i, f)"
    and "kem_public (resolver_kem_keypair self) = x25519_public X (kem_private (resolver_kem_keypair self))"
    and answer: "\<And>request. resolve_request X self ref now u = Inr request \<Longrightarrow>
        http_send X (resolver_http self) request = Inr \<lparr> resp_status = 200, resp_chunks = map Inr chunks \<rparr>"
    and "length (concat chunks) \<le> MAX_RESOLVE_BODY"
    and "resolve_envelope_from_json X (concat chunks) = Some
        \<lparr> response_vault_id = v, response_item_id = i, response_field_name = f,
          content_ciphertext = base64_encode X ct, content_key_wrap = base64_encode X ckw,
          response_wrapped_vault_key = base64_encode X wrap \<rparr>"
    and "wrap_vault_key_for_identity X vk (kem_public (resolver_kem_keypair self)) e1 = (wrap, e2)"
    and "wrap_item_content_key X vk (uuid_as_bytes X i) ck e3 = (ckw, e4)"
    and "encrypt_item_with_content_key X ck (uuid_as_bytes X i) content e5 = (Inr ct, e6)"
    and "extract_field (extract_plain_text X) content f = Inr s"
  shows "resolve X self ref ctx now u =
    Inr \<lparr> secret_plaintext = s, field_name = f, secret_source = SerenSecrets \<rparr>"
  using assms by (rule honest_service_resolves)

text \<open>C31. Every refusal by the service is an error value: a 403 that names an approval request
  becomes that request, and any other status outside 200 to 299 becomes a server error with that
  status and a well-formed text of at most 1039 bytes.\<close>

theorem resolve_refusals:
  assumes "parse_seren_secrets_uri X ref = Inr r" and "resolve_request X self ref now u = Inr request"
    and "http_send X (resolver_http self) request = Inr response"
    and "\<not> is_success (resp_status response)"
  shows "(\<exists>rid. resp_status response = 403 \<and> resolve X self ref ctx now u = Inl (ApprovalRequired rid))
    \<or> (\<exists>body. resolve X self ref ctx now u = Inl (ServerError (resp_status response) body)
         \<and> str_ok body \<and> length body \<le> 1039)"
proof -
  define text1 where "text1 = read_capped_text response MAX_ERROR_BODY"
  have ok: "str_ok text1"
    by (auto simp: text1_def read_capped_text_def from_utf8_lossy_str_ok split: sum.splits)
  have cut: "str_ok (truncate_error_body text1)" "length (truncate_error_body text1) \<le> 1039"
    using truncate_bounds [OF ok] by simp_all
  have "resolve X self ref ctx now u = Inl e" if "resolve_response X response = Inl e" for e
    using assms(1-3) that by (cases r) (simp add: resolve_def)
  moreover have "(\<exists>rid. resp_status response = 403 \<and> resolve_response X response = Inl (ApprovalRequired rid))
      \<or> (\<exists>body. resolve_response X response = Inl (ServerError (resp_status response) body)
         \<and> str_ok body \<and> length body \<le> 1039)"
    using assms(4) cut
    by (auto simp: resolve_response_def Let_def text1_def [symmetric] str_ok_ascii split: option.splits)
  ultimately show ?thesis by blast
qed

section \<open>A service in a box\<close>

text \<open>An instance of the interface with one item: every request is answered with \<open>response\<close>, every
  body reads as \<open>payload\<close>, and JSON knows one content.\<close>

definition toy_resolver_lib ::
  "ItemContent \<Rightarrow> http_response \<Rightarrow> ResolveResponseBody \<Rightarrow> 'z \<Rightarrow> 'z resolver_lib_scheme" where
  "toy_resolver_lib content response payload rest =
     crypto_lib.extend toy_lib
       (item_lib_ext (\<lambda>c. if c = content then Some [] else None) (\<lambda>_. Some content) (\<lambda>_. None) (\<lambda>_. None)
       (error_lib_ext (\<lambda>_. None)
       (http_lib_ext (\<lambda>_. Some (sample_url\<lparr> url_scheme := ''https'' \<rparr>)) (\<lambda>_. None) (\<lambda>_ _. Inr response)
       (resolver_lib_ext (\<lambda>_. True) (\<lambda>_. []) (\<lambda>_. []) (\<lambda>_. Some payload) (\<lambda>_. None) rest))))"

lemma toy_resolver_selectors [simp]:
  "content_to_json (toy_resolver_lib c r p z) = (\<lambda>d. if d = c then Some [] else None)"
  "content_from_json (toy_resolver_lib c r p z) = (\<lambda>_. Some c)"
  "http_send (toy_resolver_lib c r p z) = (\<lambda>_ _. Inr r)"
  "uuid_is_rfc4122 (toy_resolver_lib c r p z) = (\<lambda>_. True)"
  "extract_plain_text (toy_resolver_lib c r p z) = (\<lambda>_. [])"
  "resolve_envelope_from_json (toy_resolver_lib c r p z) = (\<lambda>_. Some p)"
  "error_envelope_from_json (toy_resolver_lib c r p z) = (\<lambda>_. None)"
  "uuid_to_string (toy_resolver_lib c r p z) = uuid_to_string toy_lib"
  "uuid_parse (toy_resolver_lib c r p z) = uuid_parse toy_lib"
  "url_parse (toy_resolver_lib c r p z) = (\<lambda>_. Some (sample_url\<lparr> url_scheme := ''https'' \<rparr>))"
  "client_build (toy_resolver_lib c r p z) = (\<lambda>_. None)"
  by (simp_all add: toy_resolver_lib_def) (simp_all add: crypto_lib.defs)

lemma toy_resolver_laws [simp]:
  "aead_laws (toy_resolver_lib c r p z)" "kem_laws (toy_resolver_lib c r p z)" "ed25519_laws (toy_resolver_lib c r p z)"
  "base64_laws (toy_resolver_lib c r p z)" "uuid_laws (toy_resolver_lib c r p z)" "item_json_laws (toy_resolver_lib c r p z)"
  by (simp_all add: toy_resolver_lib_def item_json_laws_def) (simp_all add: crypto_lib.defs)

lemma toy_uuid_case: "eq_ignore_ascii_case (toy_uuid_to_string u) s \<Longrightarrow> toy_uuid_parse s = Some u"
proof -
  assume eq: "eq_ignore_ascii_case (toy_uuid_to_string u) s"
  define h where "h = hex_encode hex_char (be_bytes 16 (unat u))"
  have h: "length h = 32" "to_ascii_lowercase h = h" by (simp_all add: h_def)
  from eq have low: "to_ascii_lowercase s = h @ ''----''"
    by (simp add: eq_ignore_ascii_case_def toy_uuid_to_string_def h_def [symmetric] h(2)) (simp add: ascii_lower_def)
  have len: "length s = 36" using arg_cong [OF low, of length] h(1) by simp
  have "to_ascii_lowercase (take 32 s) = h"
    using arg_cong [OF low, of "take 32"] h(1) by (simp add: to_ascii_lowercase_def take_map)
  moreover have "drop 32 s = ''----''"
  proof -
    have "to_ascii_lowercase (drop 32 s) = ''----''"
      using arg_cong [OF low, of "drop 32"] h(1) by (simp add: to_ascii_lowercase_def drop_map)
    moreover have "c = CHR ''-''" if "ascii_lower c = CHR ''-''" for c
    proof (cases "65 \<le> (of_char c :: nat) \<and> of_char c \<le> (90 :: nat)")
      case True
      then have "(of_char (ascii_lower c) :: nat) = of_char c + 32" by (simp add: ascii_lower_def of_char_of)
      moreover have "(of_char (ascii_lower c) :: nat) = 45" unfolding that by simp
      ultimately show ?thesis using True by simp
    qed (use that in \<open>auto simp: ascii_lower_def split: if_splits\<close>)
    ultimately show ?thesis by (auto simp: to_ascii_lowercase_def map_eq_Cons_conv)
  qed
  moreover have "unat u < 256 ^ 16" using unsigned_less [of u, where ?'a = nat] by simp
  ultimately show ?thesis using len
    by (simp add: toy_uuid_parse_def h_def hex_decode_encode hex_digit_char from_be_be_bytes)
qed

lemma toy_resolver_case_laws [simp]: "uuid_case_laws (toy_resolver_lib c r p z)"
  using toy_uuid_case by (simp add: uuid_case_laws_def toy_lib_def)

text \<open>The sample login under the reference of vault 1 and item 2.\<close>

definition sample_reference :: string where
  "sample_reference = ''seren-secrets://'' @ uuid_to_string toy_lib 1 @ ''/'' @ uuid_to_string toy_lib 2 @ ''/password''"

definition sample_resolver :: SerenSecretsResolver where
  "sample_resolver =
    \<lparr> resolver_http = client_builder REQUEST_TIMEOUT, resolver_base_url = ''https://secrets'', resolver_bearer_token = ''t'',
      resolver_caller_identity_id = 7,
      resolver_signing_keypair = IdentitySigningKeypair_from_private toy_lib (arr32 (replicate 32 5)),
      resolver_kem_keypair = IdentityKemKeypair_from_private toy_lib (arr32 (replicate 32 9)) \<rparr>"

definition sample_payload :: ResolveResponseBody where
  "sample_payload =
    \<lparr> response_vault_id = 1, response_item_id = 2, response_field_name = ''password'',
      content_ciphertext = base64_encode toy_lib
        (fst (xchacha20_encrypt_with_aad toy_lib (arr32 (replicate 32 2)) [] (body_aad (uuid_as_bytes toy_lib 2)) (sconst 1))),
      content_key_wrap = base64_encode toy_lib
        (fst (wrap_item_content_key toy_lib (arr32 (replicate 32 3)) (uuid_as_bytes toy_lib 2) (arr32 (replicate 32 2)) (sconst 1))),
      response_wrapped_vault_key = base64_encode toy_lib
        (fst (wrap_vault_key_for_identity toy_lib (arr32 (replicate 32 3))
           (x25519_public toy_lib (arr32 (replicate 32 9))) (sconst 1))) \<rparr>"

abbreviation sample_service_lib :: "'z \<Rightarrow> 'z resolver_lib_scheme" where
  "sample_service_lib z \<equiv>
     toy_resolver_lib (Login sample_login) \<lparr> resp_status = 200, resp_chunks = map Inr [] \<rparr> sample_payload z"

abbreviation sample_lib :: resolver_lib where
  "sample_lib \<equiv> sample_service_lib ()"

lemma ascii_no_whitespace:
  "is_ascii s \<Longrightarrow> list_all (\<lambda>c. \<not> is_whitespace (of_char c)) s \<Longrightarrow> \<not> has_whitespace s"
  by (auto simp: has_whitespace_def scalars_ascii list_ex_iff list_all_iff)

lemma uuid_text_plain:
  "is_ascii (uuid_to_string toy_lib u) \<and> list_all (\<lambda>c. \<not> is_whitespace (of_char c)) (uuid_to_string toy_lib u)"
proof -
  have "list_all uuid_char (uuid_to_string toy_lib u)" by (rule uuid_string_alphabet) simp
  moreover have "of_char c < (128 :: nat) \<and> \<not> is_whitespace (of_char c)" if "uuid_char c" for c
    using that by (auto simp: uuid_char_def is_ascii_digit_def is_whitespace_def)
  ultimately show ?thesis unfolding list_all_iff is_ascii_def by blast
qed

lemma sample_reference_plain: "str_ok sample_reference \<and> \<not> has_whitespace sample_reference"
proof -
  have "is_ascii sample_reference" "list_all (\<lambda>c. \<not> is_whitespace (of_char c)) sample_reference"
    by (simp_all add: sample_reference_def uuid_text_plain) (simp add: is_whitespace_def)
  then show ?thesis by (simp add: str_ok_ascii ascii_no_whitespace)
qed

lemma sample_reference_split:
  "\<exists>a b. sample_reference = ''seren-secrets://'' @ a @ CHR ''/'' # b @ CHR ''/'' # ''password''
     \<and> eq_ignore_ascii_case (uuid_to_string toy_lib 1) a \<and> eq_ignore_ascii_case (uuid_to_string toy_lib 2) b"
  by (rule exI [of _ "uuid_to_string toy_lib 1"], rule exI [of _ "uuid_to_string toy_lib 2"])
    (simp add: sample_reference_def)

lemma sample_reference_parse: "parse_seren_secrets_uri (toy_resolver_lib c r p z) sample_reference = Inr (1, 2, ''password'')"
  using sample_reference_split sample_reference_plain
  by (subst parse_uri_iff) (simp_all only: toy_resolver_laws toy_resolver_case_laws toy_resolver_selectors, simp)

theorem reference_parse_exact_witness:
  "parse_seren_secrets_uri sample_lib sample_reference = Inr (1, 2, ''password'')"
proof (rule reference_parse_exact [THEN conjunct1, THEN iffD2])
  show "\<not> has_whitespace sample_reference
      \<and> (\<exists>a b. sample_reference = ''seren-secrets://'' @ a @ CHR ''/'' # b @ CHR ''/'' # ''password''
           \<and> eq_ignore_ascii_case (uuid_to_string sample_lib 1) a \<and> eq_ignore_ascii_case (uuid_to_string sample_lib 2) b)
      \<and> uuid_is_rfc4122 sample_lib 1 \<and> uuid_is_rfc4122 sample_lib 2
      \<and> ''password'' \<noteq> [] \<and> CHR ''/'' \<notin> set ''password'' \<and> CHR ''?'' \<notin> set ''password'' \<and> CHR ''#'' \<notin> set ''password''"
    using sample_reference_split sample_reference_plain by (simp only: toy_resolver_selectors) simp
qed (rule toy_resolver_laws toy_resolver_case_laws)+

lemma sample_login_password: "extract_field (\<lambda>_. []) (Login sample_login) ''password'' = Inr ''hunter2''"
proof -
  have "to_ascii_lowercase ''password'' = ''password''" by (simp add: ascii_lower_def)
  then show ?thesis
    unfolding extract_field_def extract_content.simps extract_login_field_def Let_def
    by (simp add: sample_login_def common_fields.defs LoginContent.defs)
qed

text \<open>The toy service only differs from the toy cipher library in the added fields.\<close>

lemma toy_resolver_crypto [simp]:
  "base64_encode (toy_resolver_lib c r p z) = base64_encode toy_lib"
  "uuid_as_bytes (toy_resolver_lib c r p z) = uuid_as_bytes toy_lib"
  "x25519_public (toy_resolver_lib c r p z) = x25519_public toy_lib"
  "xchacha20_encrypt_with_aad (toy_resolver_lib c r p z) = xchacha20_encrypt_with_aad toy_lib"
  "wrap_item_content_key (toy_resolver_lib c r p z) = wrap_item_content_key toy_lib"
  "wrap_vault_key_for_identity (toy_resolver_lib c r p z) = wrap_vault_key_for_identity toy_lib"
  by (simp_all add: toy_resolver_lib_def fun_eq_iff xchacha20_encrypt_with_aad_def wrap_item_content_key_def
      wrap_vault_key_for_identity_def seal_def sealed_box_nonce_def)

lemma sample_encrypt:
  "encrypt_item_with_content_key (toy_resolver_lib content r p z) ck (uuid_as_bytes toy_lib i) content e
    = apfst Inr (xchacha20_encrypt_with_aad toy_lib ck [] (body_aad (uuid_as_bytes toy_lib i)) e)"
  by (simp add: encrypt_item_with_content_key_def)

lemma sample_keypair:
  "kem_public (resolver_kem_keypair sample_resolver) = x25519_public toy_lib (arr32 (replicate 32 9))"
  "kem_private (resolver_kem_keypair sample_resolver) = arr32 (replicate 32 9)"
  by (simp_all add: sample_resolver_def IdentityKemKeypair_from_private_def)

abbreviation sample_ct :: "bytes \<times> entropy" where
  "sample_ct \<equiv> xchacha20_encrypt_with_aad toy_lib (arr32 (replicate 32 2)) [] (body_aad (uuid_as_bytes toy_lib 2)) (sconst 1)"

abbreviation sample_ckw :: "bytes \<times> entropy" where
  "sample_ckw \<equiv> wrap_item_content_key toy_lib (arr32 (replicate 32 3)) (uuid_as_bytes toy_lib 2) (arr32 (replicate 32 2)) (sconst 1)"

abbreviation sample_wrap :: "bytes \<times> entropy" where
  "sample_wrap \<equiv> wrap_vault_key_for_identity toy_lib (arr32 (replicate 32 3)) (x25519_public toy_lib (arr32 (replicate 32 9))) (sconst 1)"

lemma sample_service:
  shows "str_ok sample_reference"
    and "kem_public (resolver_kem_keypair sample_resolver) = x25519_public (sample_service_lib z) (kem_private (resolver_kem_keypair sample_resolver))"
    and "http_send (sample_service_lib z) (resolver_http sample_resolver) request = Inr \<lparr> resp_status = 200, resp_chunks = map Inr [] \<rparr>"
    and "length (concat []) \<le> MAX_RESOLVE_BODY"
    and "resolve_envelope_from_json (sample_service_lib z) (concat []) = Some
      \<lparr> response_vault_id = 1, response_item_id = 2, response_field_name = ''password'',
        content_ciphertext = base64_encode (sample_service_lib z) (fst sample_ct),
        content_key_wrap = base64_encode (sample_service_lib z) (fst sample_ckw),
        response_wrapped_vault_key = base64_encode (sample_service_lib z) (fst sample_wrap) \<rparr>"
    and "wrap_vault_key_for_identity (sample_service_lib z) (arr32 (replicate 32 3)) (kem_public (resolver_kem_keypair sample_resolver)) (sconst 1)
      = (fst sample_wrap, snd sample_wrap)"
    and "wrap_item_content_key (sample_service_lib z) (arr32 (replicate 32 3)) (uuid_as_bytes (sample_service_lib z) 2) (arr32 (replicate 32 2)) (sconst 1)
      = (fst sample_ckw, snd sample_ckw)"
    and "encrypt_item_with_content_key (sample_service_lib z) (arr32 (replicate 32 2)) (uuid_as_bytes (sample_service_lib z) 2) (Login sample_login) (sconst 1)
      = (Inr (fst sample_ct), snd sample_ct)"
    and "extract_field (extract_plain_text (sample_service_lib z)) (Login sample_login) ''password'' = Inr ''hunter2''"
  using sample_reference_plain
  by (simp_all add: sample_keypair sample_payload_def sample_encrypt sample_login_password apfst_def map_prod_def split_beta)

lemmas sample_service_answers = toy_resolver_laws(1,2,4,6) sample_service(1) sample_reference_parse sample_service(2)
  sample_service(3) sample_service(4-9)

theorem resolve_delivers_witness:
  "resolve sample_lib sample_resolver sample_reference (for_user 1 2) (Timestamp 0) 5 =
    Inr \<lparr> secret_plaintext = ''hunter2'', field_name = ''password'', secret_source = SerenSecrets \<rparr>"
  by (rule resolve_delivers [OF sample_service_answers])

lemma sample_resolved:
  "resolve (sample_service_lib z) sample_resolver sample_reference ctx (Timestamp 0) 5 =
    Inr \<lparr> secret_plaintext = ''hunter2'', field_name = ''password'', secret_source = SerenSecrets \<rparr>"
  by (rule honest_service_resolves [OF sample_service_answers])

theorem resolve_sound_witness:
  "\<exists>content. extract_field (extract_plain_text sample_lib) content ''password'' = Inr ''hunter2''"
  using resolve_sound [OF _ _ sample_resolved] by force

lemma sample_resolves:
  "is_ok (resolve_request (toy_resolver_lib c r p z) sample_resolver sample_reference (Timestamp 0) 5)"
  using sample_reference_plain by (intro resolve_request_ok [OF _ sample_reference_parse]) simp

theorem resolve_refusals_witness:
  "\<exists>body. resolve (toy_resolver_lib (Login sample_login) \<lparr> resp_status = 500, resp_chunks = [] \<rparr> sample_payload ())
       sample_resolver sample_reference (for_user 1 2) (Timestamp 0) 5 = Inl (ServerError 500 body) \<and> length body \<le> 1039"
proof -
  let ?X = "toy_resolver_lib (Login sample_login) \<lparr> resp_status = 500, resp_chunks = [] \<rparr> sample_payload ()"
  obtain request where rq: "resolve_request ?X sample_resolver sample_reference (Timestamp 0) 5 = Inr request"
    using sample_resolves [of "Login sample_login" "\<lparr> resp_status = 500, resp_chunks = [] \<rparr>" sample_payload "()"]
    unfolding is_ok_conv by blast
  from resolve_refusals [OF sample_reference_parse rq, of "\<lparr> resp_status = 500, resp_chunks = [] \<rparr>" "for_user 1 2"]
  show ?thesis by (auto simp: is_success_def)
qed

end
