(* ===== verification/Revision.thy ===== *)
theory Revision
  imports Resolver
begin

text \<open>
  \<open>revision.rs\<close>: item revisions and service timestamps.  Both wrap the server's own spelling
  of an RFC 3339 instant; the two types are distinct, so a lifecycle time can never stand in an
  \<open>If-Match\<close> header.  The calendar is jiff's; \<open>revision_lib\<close> adds its parser.
\<close>

record revision_lib = resolver_lib +
  timestamp_parse :: "string \<Rightarrow> timestamp option"

section \<open>Validation\<close>

definition two_digits :: "char \<Rightarrow> char \<Rightarrow> nat" where
  "two_digits a b = (of_char a - 48) * 10 + of_char b - 48"

definition valid_offset :: "string \<Rightarrow> bool" where
  "valid_offset offset \<longleftrightarrow>
     offset \<in> {''Z'', ''z''}
     \<or> length offset = 6 \<and> offset ! 0 \<in> {CHR ''+'', CHR ''-''} \<and> offset ! 3 = CHR '':''
        \<and> list_all is_ascii_digit [offset ! 1, offset ! 2, offset ! 4, offset ! 5]
        \<and> two_digits (offset ! 1) (offset ! 2) \<le> 23 \<and> two_digits (offset ! 4) (offset ! 5) \<le> 59"

definition valid_rfc3339 :: "'z revision_lib_scheme \<Rightarrow> string \<Rightarrow> bool" where
  "valid_rfc3339 X value =
     (if length value < 20 \<or> value ! 4 \<noteq> CHR ''-'' \<or> value ! 7 \<noteq> CHR ''-''
         \<or> value ! 10 \<notin> {CHR ''T'', CHR ''t''} \<or> value ! 13 \<noteq> CHR '':'' \<or> value ! 16 \<noteq> CHR '':''
         \<or> \<not> list_all (\<lambda>i. i \<in> {4, 7, 10, 13, 16} \<or> is_ascii_digit (value ! i)) [0..<19]
      then False
      else
        let fraction = (if value ! 19 = CHR ''.'' then takeWhile is_ascii_digit (drop 20 value) else []);
            offset_start = (if value ! 19 = CHR ''.'' then 20 + length fraction else 19)
        in if value ! 19 = CHR ''.'' \<and> offset_start = 20 then False
           else let offset = drop offset_start value
                in if \<not> valid_offset offset then False
                   else if 29 < offset_start
                   then timestamp_parse X (take 29 value @ drop offset_start value) \<noteq> None
                   else timestamp_parse X value \<noteq> None)"

section \<open>The two types\<close>

datatype ItemRevision = ItemRevision (revision_str: string)

datatype ServiceTimestamp = ServiceTimestamp (service_str: string)

definition ItemRevision_new :: "'z revision_lib_scheme \<Rightarrow> string \<Rightarrow> ItemRevision resolver_result" where
  "ItemRevision_new X value =
     (if \<not> valid_rfc3339 X value then Inl (InvalidInput ''item revision must be RFC3339'')
      else Inr (ItemRevision value))"

definition ServiceTimestamp_new :: "'z revision_lib_scheme \<Rightarrow> string \<Rightarrow> ServiceTimestamp resolver_result" where
  "ServiceTimestamp_new X value =
     (if \<not> valid_rfc3339 X value then Inl (InvalidInput ''timestamp must be RFC3339'')
      else Inr (ServiceTimestamp value))"

text \<open>The weak entity tag of a conditional write, \<open>format!("W/\"{updated_at}\"")\<close>.\<close>

definition weak_etag :: "ItemRevision \<Rightarrow> string" where
  "weak_etag r = ''W/'' @ [CHR 0x22] @ revision_str r @ [CHR 0x22]"

section \<open>Lemmas\<close>

definition revision_char :: "char \<Rightarrow> bool" where
  "revision_char c \<longleftrightarrow> is_ascii_digit c \<or> c \<in> set ''-:.+TtZz''"

lemma length_6_conv: "length s = 6 \<longleftrightarrow> (\<exists>a b c d e f. s = [a, b, c, d, e, f])"
  by (auto simp: numeral_eq_Suc length_Suc_conv)

lemma valid_offset_chars: "valid_offset s \<Longrightarrow> list_all revision_char s"
  unfolding valid_offset_def length_6_conv by (auto simp: revision_char_def numeral_eq_Suc)

lemma valid_rfc3339_chars:
  assumes "valid_rfc3339 X s"
  shows "list_all revision_char s"
proof -
  define n where "n = (if s ! 19 = CHR ''.'' then 20 + length (takeWhile is_ascii_digit (drop 20 s)) else 19)"
  from assms have len: "20 \<le> length s" and sep: "s ! 4 = CHR ''-''" "s ! 7 = CHR ''-''" "s ! 10 \<in> {CHR ''T'', CHR ''t''}"
      "s ! 13 = CHR '':''" "s ! 16 = CHR '':''"
    and dig: "\<forall>i < 19. i \<in> {4, 7, 10, 13, 16} \<or> is_ascii_digit (s ! i)"
    and off: "valid_offset (drop n s)"
    by (auto simp: valid_rfc3339_def n_def list_all_iff Let_def split: if_splits)
  have head: "revision_char (s ! i)" if "i < 19" for i
  proof (cases "i \<in> {4, 7, 10, 13, 16}")
    case True
    with sep show ?thesis by (auto simp: revision_char_def)
  next
    case False
    with dig that show ?thesis by (auto simp: revision_char_def)
  qed
  have mid: "revision_char (s ! i)" if "19 \<le> i" "i < n" for i
  proof -
    have dot: "s ! 19 = CHR ''.''" using that by (auto simp: n_def split: if_splits)
    show ?thesis
    proof (cases "i = 19")
      case True
      with dot show ?thesis by (simp add: revision_char_def)
    next
      case False
      define j where "j = i - 20"
      have j: "j < length (takeWhile is_ascii_digit (drop 20 s))" and i: "i = 20 + j"
        using that dot False by (auto simp: n_def j_def)
      have "is_ascii_digit (takeWhile is_ascii_digit (drop 20 s) ! j)"
        using j by (metis nth_mem set_takeWhileD)
      moreover have "takeWhile is_ascii_digit (drop 20 s) ! j = drop 20 s ! j" using j by (rule takeWhile_nth)
      moreover have "drop 20 s ! j = s ! i" using len by (simp add: i nth_drop)
      ultimately show ?thesis by (simp add: revision_char_def)
    qed
  qed
  have "revision_char (s ! i)" if "i < length s" for i
  proof -
    consider "i < 19" | "19 \<le> i" "i < n" | "n \<le> i" by linarith
    then show ?thesis
    proof cases
      case 3
      then have "s ! i = drop n s ! (i - n)" using that by simp
      moreover have "i - n < length (drop n s)" using 3 that by simp
      ultimately show ?thesis using valid_offset_chars [OF off] by (simp add: list_all_length)
    qed (simp_all add: head mid)
  qed
  then show ?thesis by (simp add: list_all_length)
qed

lemma valid_rfc3339_length: "valid_rfc3339 X s \<Longrightarrow> 20 \<le> length s"
  by (auto simp: valid_rfc3339_def split: if_splits)

text \<open>A revision keeps the server's exact spelling, and only spellings made of the digits and
  separators of RFC 3339 are accepted: the entity tag built from one is its text between the
  two quotation marks that were put there, with no further quotation mark, white space, line
  break or non-ASCII byte.  The same holds of service timestamps.\<close>

theorem revision_header_safe:
  assumes "ItemRevision_new X s = Inr r"
  shows "revision_str r = s \<and> weak_etag r = ''W/'' @ [CHR 0x22] @ s @ [CHR 0x22]
    \<and> (\<forall>c \<in> set s. revision_char c \<and> c \<noteq> CHR 0x22 \<and> \<not> is_whitespace (of_char c) \<and> of_char c < (128 :: nat))
    \<and> ServiceTimestamp_new X s = Inr (ServiceTimestamp s)"
proof -
  from assms have ok: "valid_rfc3339 X s" and r: "r = ItemRevision s"
    by (auto simp: ItemRevision_new_def split: if_splits)
  have "c \<noteq> CHR 0x22 \<and> \<not> is_whitespace (of_char c) \<and> of_char c < (128 :: nat)" if "revision_char c" for c
    using that by (auto simp: revision_char_def is_ascii_digit_def is_whitespace_def)
  with valid_rfc3339_chars [OF ok] ok r show ?thesis
    by (auto simp: weak_etag_def list_all_iff ServiceTimestamp_new_def)
qed

definition toy_revision_lib :: revision_lib where
  "toy_revision_lib = resolver_lib.extend sample_lib (revision_lib.fields (\<lambda>_. Some (Timestamp 0)))"

lemma timestamp_parse_toy [simp]: "timestamp_parse toy_revision_lib = (\<lambda>_. Some (Timestamp 0))"
  by (simp add: toy_revision_lib_def resolver_lib.defs revision_lib.defs)

lemma upt_19: "[0..<19] = [0, 1, 2, 3, 4, 5, 6, 7, 8, 9, 10, 11, 12, 13, 14, 15, 16, 17, 18 :: nat]"
  by (simp add: upt_conv_Cons)

lemma sample_revision: "ItemRevision_new toy_revision_lib ''2026-01-02T03:04:05.678Z'' = Inr (ItemRevision ''2026-01-02T03:04:05.678Z'')"
  by (simp add: ItemRevision_new_def valid_rfc3339_def valid_offset_def upt_19 is_ascii_digit_def)

theorem revision_header_safe_witness:
  "weak_etag (ItemRevision ''2026-01-02T03:04:05.678Z'') = ''W/'' @ [CHR 0x22] @ ''2026-01-02T03:04:05.678Z'' @ [CHR 0x22]"
  using revision_header_safe [OF sample_revision] by blast

end
