(* ===== verification/Kdf.thy ===== *)
theory Kdf
  imports Keys Reference_Lib
begin

text \<open>
  \<open>kdf.rs\<close>: Argon2id parameters, their defaults, the approved profiles, the recommendation
  from a throughput probe (64-bit saturating arithmetic as in the source) and key derivation.
\<close>

datatype KdfAlgorithm = Argon2id

record KdfParams =
  kdf_version :: u8
  algorithm :: KdfAlgorithm
  memory_kib :: u32
  time_cost :: u32
  parallelism :: u32
  output_len :: u32
  salt :: bytes

definition default_params :: "entropy \<Rightarrow> KdfParams \<times> entropy" where
  "default_params e =
     (let (s, e') = fill_random 16 e
      in (\<lparr> kdf_version = 1, algorithm = Argon2id, memory_kib = 64 * 1024, time_cost = 2,
            parallelism = 1, output_len = 32, salt = s \<rparr>, e'))"

text \<open>The comparison mints a full set of defaults and so draws a salt it never looks at.\<close>

definition needs_upgrade :: "KdfParams \<Rightarrow> entropy \<Rightarrow> bool \<times> entropy" where
  "needs_upgrade params e =
     (let (defaults, e') = default_params e
      in (algorithm params \<noteq> algorithm defaults
          \<or> kdf_version params < kdf_version defaults
          \<or> memory_kib params < memory_kib defaults
          \<or> time_cost params < time_cost defaults
          \<or> parallelism params < parallelism defaults
          \<or> output_len params < output_len defaults, e'))"

definition upgraded_params :: "KdfParams \<Rightarrow> entropy \<Rightarrow> KdfParams option \<times> entropy" where
  "upgraded_params current e =
     (let (b, e') = needs_upgrade current e
      in if b then (let (p, e'') = default_params e' in (Some p, e'')) else (None, e'))"

definition MIN_RECOMMENDED_MEMORY_KIB :: u32 where "MIN_RECOMMENDED_MEMORY_KIB = 19 * 1024"
definition MIN_RECOMMENDED_TIME_COST :: u32 where "MIN_RECOMMENDED_TIME_COST = 2"
definition PROBE_MEMORY_KIB :: u32 where "PROBE_MEMORY_KIB = 8 * 1024"
definition PROBE_TIME_COST :: u32 where "PROBE_TIME_COST = 1"

definition PROFILES :: "(u32 \<times> u32) list" where
  "PROFILES =
     [(64 * 1024, 2), (64 * 1024, 1), (32 * 1024, 2),
      (MIN_RECOMMENDED_MEMORY_KIB, MIN_RECOMMENDED_TIME_COST)]"

definition validate_stored_params :: "KdfParams \<Rightarrow> unit crypto_result" where
  "validate_stored_params params =
     (if kdf_version params \<noteq> 1 then Inl (Kdf ''unsupported KDF version'')
      else if algorithm params \<noteq> Argon2id then Inl (Kdf ''unsupported KDF algorithm'')
      else if parallelism params \<noteq> 1 then Inl (Kdf ''unsupported KDF parallelism'')
      else if output_len params \<noteq> 32 then Inl (Kdf ''unsupported KDF output length'')
      else if length (salt params) \<noteq> 16 then Inl (Kdf ''unsupported KDF salt length'')
      else if list_all (\<lambda>b. b = 0) (salt params) then Inl (Kdf ''unsupported KDF salt value'')
      else if \<not> list_ex (\<lambda>(memory, time). memory = memory_kib params \<and> time = time_cost params) PROFILES
      then Inl (Kdf ''unsupported KDF memory/time profile'')
      else Inr ())"

definition probe_params :: KdfParams where
  "probe_params =
     \<lparr> kdf_version = 1, algorithm = Argon2id, memory_kib = PROBE_MEMORY_KIB,
       time_cost = PROBE_TIME_COST, parallelism = 1, output_len = 32, salt = replicate 16 0 \<rparr>"

text \<open>\<open>u64::from\<close> of a \<open>u32\<close>; the product of two never wraps.\<close>

definition units :: "u32 \<times> u32 \<Rightarrow> u64" where
  "units p = ucast (fst p) * ucast (snd p)"

definition estimated_ms :: "u64 \<Rightarrow> u32 \<times> u32 \<Rightarrow> u64" where
  "estimated_ms probe_ms p = saturating_mul probe_ms (units p) div units (PROBE_MEMORY_KIB, PROBE_TIME_COST)"

text \<open>The \<open>for\<close> loop with \<open>break\<close>.\<close>

fun choose_profile :: "u64 \<Rightarrow> u64 \<Rightarrow> u32 \<times> u32 \<Rightarrow> (u32 \<times> u32) list \<Rightarrow> u32 \<times> u32" where
  "choose_profile probe_ms budget chosen [] = chosen"
| "choose_profile probe_ms budget chosen (p # ps) =
     (if estimated_ms probe_ms p \<le> budget then p else choose_profile probe_ms budget chosen ps)"

definition recommend_params_for_throughput :: "u64 \<Rightarrow> u32 \<Rightarrow> entropy \<Rightarrow> KdfParams \<times> entropy" where
  "recommend_params_for_throughput probe_ms target_ms e =
     (let probe_ms = max probe_ms 1;
          budget = ucast target_ms;
          chosen = choose_profile probe_ms budget
            (MIN_RECOMMENDED_MEMORY_KIB, MIN_RECOMMENDED_TIME_COST) PROFILES;
          (s, e') = fill_random 16 e
      in (\<lparr> kdf_version = 1, algorithm = Argon2id, memory_kib = fst chosen, time_cost = snd chosen,
            parallelism = 1, output_len = 32, salt = s \<rparr>, e'))"

definition derive_key :: "'z crypto_lib_scheme \<Rightarrow> bytes \<Rightarrow> KdfParams \<Rightarrow> bytes crypto_result" where
  "derive_key X password params =
     (if algorithm params \<noteq> Argon2id then Inl (Kdf ''unsupported algorithm'')
      else let len = unat (output_len params) in
        if \<not> argon2_params_ok X (memory_kib params) (time_cost params) (parallelism params) len
        then Inl (Kdf ''invalid Argon2 parameters'')
        else ok_or (Kdf ''argon2 derivation failed'')
               (argon2id X (memory_kib params) (time_cost params) (parallelism params) len
                  password (salt params)))"

section \<open>Lemmas\<close>

lemmas profile_defs = PROFILES_def MIN_RECOMMENDED_MEMORY_KIB_def MIN_RECOMMENDED_TIME_COST_def
  PROBE_MEMORY_KIB_def PROBE_TIME_COST_def

lemma KdfAlgorithm_eq [simp]: "(a :: KdfAlgorithm) = b"
  by (cases a; cases b) simp

text \<open>The stored profiles: what \<open>validate_stored_params\<close> lets through.\<close>

definition approved :: "KdfParams \<Rightarrow> bool" where
  "approved p \<longleftrightarrow> kdf_version p = 1 \<and> parallelism p = 1 \<and> output_len p = 32 \<and> length (salt p) = 16
     \<and> salt p \<noteq> replicate 16 0 \<and> (memory_kib p, time_cost p) \<in> set PROFILES"

lemma all_zero_iff: "length bs = n \<Longrightarrow> list_all (\<lambda>b. b = 0) bs \<longleftrightarrow> bs = replicate n (0 :: u8)"
proof
  assume "length bs = n" and "list_all (\<lambda>b. b = 0) bs"
  then show "bs = replicate n 0" by (intro replicate_eqI) (simp_all add: list_all_iff)
next
  assume "bs = replicate n 0"
  then show "list_all (\<lambda>b. b = 0) bs" by (simp add: list_all_iff)
qed

lemma validate_iff_approved: "validate_stored_params p = Inr () \<longleftrightarrow> approved p"
  by (auto simp: validate_stored_params_def approved_def all_zero_iff list_ex_iff)

lemma default_params_conv:
  "default_params e =
     (\<lparr> kdf_version = 1, algorithm = Argon2id, memory_kib = 65536, time_cost = 2,
        parallelism = 1, output_len = 32, salt = stake 16 e \<rparr>, sdrop 16 e)"
  by (simp add: default_params_def fill_random_def)

lemma default_params_approved:
  "stake 16 e \<noteq> replicate 16 0 \<Longrightarrow> approved (fst (default_params e))"
  by (simp add: approved_def default_params_conv profile_defs)

lemma profile_ok:
  assumes "argon2_laws X" and "approved p"
  shows "argon2_params_ok X (memory_kib p) (time_cost p) (parallelism p) (unat (output_len p))"
proof -
  from assms(2) have "(memory_kib p, time_cost p) \<in> set PROFILES" and pp: "parallelism p = 1" "output_len p = 32"
    by (simp_all add: approved_def)
  then have "8 \<le> unat (memory_kib p) \<and> unat (memory_kib p) \<le> 65536 \<and> 1 \<le> unat (time_cost p) \<and> unat (time_cost p) \<le> 2"
    by (auto simp: profile_defs)
  with pp argon2_params_okI [OF assms(1), of "memory_kib p" "time_cost p"] show ?thesis by simp
qed

lemma derive_key_approved:
  assumes "argon2_laws X" and "approved p" and "length pw < 2 ^ 32"
  shows "\<exists>k. derive_key X pw p = Inr k \<and> length k = 32"
proof -
  obtain k where "argon2id X (memory_kib p) (time_cost p) (parallelism p) (unat (output_len p)) pw (salt p) = Some k"
      and "length k = unat (output_len p)"
    using argon2id_ok [OF assms(1) profile_ok [OF assms(1,2)] assms(3), of "salt p"] assms(2)
    by (auto simp: approved_def)
  then show ?thesis
    using profile_ok [OF assms(1,2)] assms(2) by (auto simp: derive_key_def approved_def)
qed

lemma choose_profile_spec:
  "choose_profile t b d ps =
     (case filter (\<lambda>p. estimated_ms t p \<le> b) ps of [] \<Rightarrow> d | p # _ \<Rightarrow> p)"
  by (induction ps) auto

lemma unat_units: "unat (units p) = unat (fst p) * unat (snd p)"
proof -
  have "unat (fst p) < 2 ^ 32" "unat (snd p) < 2 ^ 32"
    using unsigned_less [of "fst p", where ?'a = nat] unsigned_less [of "snd p", where ?'a = nat] by simp_all
  moreover from this have "unat (fst p) * unat (snd p) < 2 ^ 32 * 2 ^ 32"
    by (intro mult_strict_mono) simp_all
  ultimately show ?thesis
    by (simp add: units_def unat_word_ariths unsigned_ucast_eq take_bit_eq_mod)
qed

lemma unat_estimated_ms:
  "unat (estimated_ms t p) = min (unat t * (unat (fst p) * unat (snd p))) (2 ^ 64 - 1) div 8192"
  by (simp add: estimated_ms_def unat_div unat_saturating_mul unat_units profile_defs)

text \<open>The estimate in unbounded arithmetic.  A saturated product is far above every budget
  that fits in 32 bits, so saturation never changes a decision.\<close>

definition cost_ms :: "u64 \<Rightarrow> u32 \<times> u32 \<Rightarrow> nat" where
  "cost_ms probe_ms p = max (unat probe_ms) 1 * (unat (fst p) * unat (snd p)) div 8192"

lemma fits_iff:
  "estimated_ms (max probe_ms 1) p \<le> ucast (target_ms :: u32) \<longleftrightarrow> cost_ms probe_ms p \<le> unat target_ms"
proof -
  have u: "unat (max probe_ms 1) = max (unat probe_ms) 1"
    by (simp add: max_def word_le_nat_alt)
  have t: "unat target_ms < 2 ^ 32" using unsigned_less [of target_ms, where ?'a = nat] by simp
  then have c: "unat (ucast target_ms :: u64) = unat target_ms"
    by (simp add: unsigned_ucast_eq take_bit_eq_mod)
  have "min a (2 ^ 64 - 1) div 8192 \<le> unat target_ms \<longleftrightarrow> a div 8192 \<le> unat target_ms" for a :: nat
  proof (cases "a \<le> 2 ^ 64 - 1")
    case False
    then have "(2 ^ 64 - 1) div 8192 \<le> a div 8192" by (intro div_le_mono) simp
    with t False show ?thesis by simp
  qed simp
  then show ?thesis
    by (simp add: word_le_nat_alt unat_estimated_ms u c cost_ms_def)
qed

lemma descending_choice:
  assumes "sorted_wrt (\<lambda>p q. w q \<le> w p) ps" and "q \<in> set ps" and "P q"
  shows "\<exists>p r. filter P ps = p # r \<and> P p \<and> p \<in> set ps \<and> (w q :: nat) \<le> w p"
  using assms by (induction ps) auto

section \<open>Properties\<close>

text \<open>C40. The recommended profile is one of the approved ones; if any approved profile fits the
  time budget (measured in exact arithmetic), the recommended one fits and does at least as
  much work as every fitting one; if none fits it is the 19 MiB, two-pass floor; and the result
  passes validation unless the drawn salt is all zeros.\<close>

theorem recommend_strongest_fitting:
  "let p = fst (recommend_params_for_throughput probe_ms target_ms e);
       chosen = (memory_kib p, time_cost p)
   in chosen \<in> set PROFILES
      \<and> (\<forall>q \<in> set PROFILES. cost_ms probe_ms q \<le> unat target_ms \<longrightarrow>
           cost_ms probe_ms chosen \<le> unat target_ms
           \<and> unat (fst q) * unat (snd q) \<le> unat (fst chosen) * unat (snd chosen))
      \<and> ((\<forall>q \<in> set PROFILES. unat target_ms < cost_ms probe_ms q) \<longrightarrow> chosen = (19 * 1024, 2))
      \<and> (stake 16 e \<noteq> replicate 16 0 \<longrightarrow> validate_stored_params p = Inr ())"
proof -
  let ?p = "fst (recommend_params_for_throughput probe_ms target_ms e)"
  let ?fits = "\<lambda>q. cost_ms probe_ms q \<le> unat target_ms"
  let ?floor = "(MIN_RECOMMENDED_MEMORY_KIB, MIN_RECOMMENDED_TIME_COST)"
  let ?w = "\<lambda>q :: u32 \<times> u32. unat (fst q) * unat (snd q)"
  define c where "c = (case filter ?fits PROFILES of [] \<Rightarrow> ?floor | q # _ \<Rightarrow> q)"
  have p: "(memory_kib ?p, time_cost ?p) = c" "kdf_version ?p = 1" "parallelism ?p = 1" "output_len ?p = 32"
      "salt ?p = stake 16 e"
    by (simp_all add: recommend_params_for_throughput_def Let_def fill_random_def choose_profile_spec
        fits_iff c_def)
  have sorted: "sorted_wrt (\<lambda>p q. ?w q \<le> ?w p) PROFILES" by (simp add: profile_defs)
  have best: "?fits c \<and> ?w q \<le> ?w c" if "q \<in> set PROFILES" "?fits q" for q
    using descending_choice [OF sorted that(1), of ?fits] that by (auto simp: c_def)
  have mem: "c \<in> set PROFILES"
  proof (cases "filter ?fits PROFILES")
    case Nil
    then show ?thesis by (simp add: c_def PROFILES_def)
  next
    case (Cons q r)
    then have "q \<in> set PROFILES" by (metis filter_is_subset list.set_intros(1) subsetD)
    with Cons show ?thesis by (simp add: c_def)
  qed
  have "filter ?fits PROFILES = []" if "\<forall>q \<in> set PROFILES. unat target_ms < cost_ms probe_ms q"
    using that by (auto simp: filter_empty_conv not_le)
  then have none: "c = (19 * 1024, 2)" if "\<forall>q \<in> set PROFILES. unat target_ms < cost_ms probe_ms q"
    using that by (simp add: c_def profile_defs)
  have "approved ?p" if "stake 16 e \<noteq> replicate 16 0"
    unfolding approved_def p using mem that by simp
  with best mem none show ?thesis
    by (simp only: Let_def p validate_iff_approved) blast
qed

theorem recommend_strongest_fitting_witness:
  "let p = fst (recommend_params_for_throughput 10 100 (sconst 1))
   in cost_ms 10 (memory_kib p, time_cost p) \<le> 100 \<and> 65536 \<le> unat (memory_kib p) * unat (time_cost p)"
  using recommend_strongest_fitting [of 10 100 "sconst 1"]
  by (simp add: Let_def profile_defs cost_ms_def)

text \<open>Among the profiles that pass validation exactly those below the default costs are
  upgraded, and the replacement itself needs no upgrade.\<close>

theorem needs_upgrade_exact:
  assumes "validate_stored_params p = Inr ()"
  shows "(fst (needs_upgrade p e) \<longleftrightarrow> (memory_kib p, time_cost p) \<noteq> (64 * 1024, 2))
     \<and> (case fst (upgraded_params p e) of
          None \<Rightarrow> \<not> fst (needs_upgrade p e)
        | Some d \<Rightarrow> fst (needs_upgrade p e) \<and> \<not> fst (needs_upgrade d e'))"
proof -
  from assms have a: "kdf_version p = 1" "parallelism p = 1" "output_len p = 32"
      "(memory_kib p, time_cost p) \<in> set PROFILES"
    by (simp_all add: validate_iff_approved approved_def)
  then have "fst (needs_upgrade p e) \<longleftrightarrow> (memory_kib p, time_cost p) \<noteq> (64 * 1024, 2)"
    by (auto simp: needs_upgrade_def default_params_conv profile_defs)
  then show ?thesis
    by (auto simp: upgraded_params_def needs_upgrade_def default_params_conv Let_def)
qed

theorem needs_upgrade_exact_witness:
  "fst (needs_upgrade (fst (recommend_params_for_throughput 10 100 (sconst 1))) (sconst 1)) \<longleftrightarrow>
     (memory_kib (fst (recommend_params_for_throughput 10 100 (sconst 1))),
      time_cost (fst (recommend_params_for_throughput 10 100 (sconst 1)))) \<noteq> (64 * 1024, 2)"
proof -
  have "approved (fst (recommend_params_for_throughput 10 100 (sconst 1)))"
    by (simp add: recommend_params_for_throughput_def Let_def fill_random_def approved_def choose_profile_spec
        fits_iff [of 10 _ 100, simplified] cost_ms_def profile_defs numeral_eq_Suc)
  then have "validate_stored_params (fst (recommend_params_for_throughput 10 100 (sconst 1))) = Inr ()"
    by (simp add: validate_iff_approved)
  from needs_upgrade_exact [OF this] show ?thesis by blast
qed

end
