(* ===== verification/Account.thy ===== *)
theory Account
  imports Kdf Aead Reference_Lib
begin

text \<open>
  \<open>protocol/account.rs\<close> and \<open>protocol/recovery.rs\<close>: signup, unlock, change of the master
  password, recovery and rotation of the recovery key.  Operations that take
  \<open>&mut AccountSecrets\<close> return the secrets beside their result, changed as far as the code
  had come when it returned.  The four wraps of an account are interpretations of
  \<open>sealed_slot\<close> (with a trivial identity: the labels are fixed).
\<close>

definition ACCOUNT_KEY_WRAP_AAD :: bytes where
  "ACCOUNT_KEY_WRAP_AAD = as_bytes ''account-key-wrap:''"
definition RECOVERY_KEY_WRAP_AAD :: bytes where
  "RECOVERY_KEY_WRAP_AAD = as_bytes ''recovery-key-wrap:''"
definition ACCOUNT_KEM_PRIVATE_WRAP_AAD :: bytes where
  "ACCOUNT_KEM_PRIVATE_WRAP_AAD = as_bytes ''account-kem-private-wrap:''"
definition ACCOUNT_SIGNING_PRIVATE_WRAP_AAD :: bytes where
  "ACCOUNT_SIGNING_PRIVATE_WRAP_AAD = as_bytes ''account-signing-private-wrap:''"

record AccountSecrets =
  kdf_params :: KdfParams
  recovery_kdf_params :: KdfParams
  account_key_wrap :: bytes
  account_kem_private_wrap :: bytes
  account_signing_private_wrap :: bytes
  recovery_key_wrap :: bytes
  kem_public_key :: IdentityKemPublicKey
  signing_public_key :: IdentitySigningPublicKey

record AccountSetupBundle =
  secrets :: AccountSecrets
  recovery_key :: RecoveryKey
  kem_keypair :: IdentityKemKeypair
  signing_keypair :: IdentitySigningKeypair

record UnlockedAccount =
  account_key :: AccountKey
  unlocked_kem_private :: IdentityKemPrivateKey
  unlocked_signing_private :: IdentitySigningPrivateKey

section \<open>Key derivation and unwrapping\<close>

definition derive_master_key :: "'z crypto_lib_scheme \<Rightarrow> bytes \<Rightarrow> KdfParams \<Rightarrow> MasterKey crypto_result" where
  "derive_master_key X password params =
     and_then (derive_key X password params) (\<lambda>bs.
       if length bs \<noteq> 32 then Inl (Kdf ''master key derivation produced wrong length'')
       else Inr (arr32 bs))"

definition derive_recovery_key ::
  "'z crypto_lib_scheme \<Rightarrow> bytes \<Rightarrow> KdfParams \<Rightarrow> RecoveryDerivedKey crypto_result" where
  "derive_recovery_key X recovery_key_bytes params =
     and_then (derive_key X recovery_key_bytes params) (\<lambda>bs.
       if length bs \<noteq> 32 then Inl (Kdf ''recovery-derived key derivation produced wrong length'')
       else Inr (arr32 bs))"

definition unwrap_account_key :: "'z crypto_lib_scheme \<Rightarrow> MasterKey \<Rightarrow> bytes \<Rightarrow> AccountKey crypto_result" where
  "unwrap_account_key X master_key wrap =
     and_then (xchacha20_decrypt_with_aad X master_key wrap ACCOUNT_KEY_WRAP_AAD) (\<lambda>bs.
       if length bs \<noteq> 32 then Inl (InvalidKey ''account key wrong length'') else Inr (arr32 bs))"

definition unwrap_account_signing_private_key ::
  "'z crypto_lib_scheme \<Rightarrow> AccountKey \<Rightarrow> bytes \<Rightarrow> IdentitySigningPrivateKey crypto_result" where
  "unwrap_account_signing_private_key X key wrap =
     and_then (xchacha20_decrypt_with_aad X key wrap ACCOUNT_SIGNING_PRIVATE_WRAP_AAD)
       IdentitySigningPrivateKey_from_slice"

section \<open>Signup and unlock\<close>

definition account_setup_with_params ::
  "'z crypto_lib_scheme \<Rightarrow> bytes \<Rightarrow> KdfParams \<Rightarrow> KdfParams \<Rightarrow> entropy
     \<Rightarrow> AccountSetupBundle crypto_result \<times> entropy" where
  "account_setup_with_params X master_password params recovery_params e =
    (case validate_stored_params params of Inl er \<Rightarrow> (Inl er, e) | Inr _ \<Rightarrow>
     case validate_stored_params recovery_params of Inl er \<Rightarrow> (Inl er, e) | Inr _ \<Rightarrow>
     let (rk, e) = symmetric_key_random e in
     case derive_master_key X master_password params of Inl er \<Rightarrow> (Inl er, e) | Inr master_key \<Rightarrow>
     case derive_recovery_key X (bytes32 rk) recovery_params of Inl er \<Rightarrow> (Inl er, e) | Inr recovery_derived \<Rightarrow>
     let (ak, e) = symmetric_key_random e;
         (kem, e) = IdentityKemKeypair_generate X e;
         (sig, e) = IdentitySigningKeypair_generate X e;
         (akw, e) = xchacha20_encrypt_with_aad X master_key (bytes32 ak) ACCOUNT_KEY_WRAP_AAD e;
         (rkw, e) = xchacha20_encrypt_with_aad X recovery_derived (bytes32 ak) RECOVERY_KEY_WRAP_AAD e;
         (kpw, e) = xchacha20_encrypt_with_aad X ak (bytes32 (kem_private kem)) ACCOUNT_KEM_PRIVATE_WRAP_AAD e;
         (spw, e) = xchacha20_encrypt_with_aad X ak (bytes32 (signing_private sig)) ACCOUNT_SIGNING_PRIVATE_WRAP_AAD e
     in (Inr \<lparr> secrets =
            \<lparr> kdf_params = params, recovery_kdf_params = recovery_params,
              account_key_wrap = akw, account_kem_private_wrap = kpw,
              account_signing_private_wrap = spw, recovery_key_wrap = rkw,
              kem_public_key = kem_public kem, signing_public_key = signing_public sig \<rparr>,
          recovery_key = rk, kem_keypair = kem, signing_keypair = sig \<rparr>, e))"

definition account_setup ::
  "'z crypto_lib_scheme \<Rightarrow> bytes \<Rightarrow> entropy \<Rightarrow> AccountSetupBundle crypto_result \<times> entropy" where
  "account_setup X master_password e =
     (let (p, e) = default_params e; (rp, e) = default_params e
      in account_setup_with_params X master_password p rp e)"

definition unlock_account ::
  "'z crypto_lib_scheme \<Rightarrow> bytes \<Rightarrow> AccountSecrets \<Rightarrow> UnlockedAccount crypto_result" where
  "unlock_account X master_password s =
    and_then (validate_stored_params (kdf_params s)) (\<lambda>_.
    and_then (derive_master_key X master_password (kdf_params s)) (\<lambda>master_key.
    and_then (unwrap_account_key X master_key (account_key_wrap s)) (\<lambda>ak.
    and_then (xchacha20_decrypt_with_aad X ak (account_kem_private_wrap s) ACCOUNT_KEM_PRIVATE_WRAP_AAD) (\<lambda>kem_private_bytes.
    and_then (xchacha20_decrypt_with_aad X ak (account_signing_private_wrap s) ACCOUNT_SIGNING_PRIVATE_WRAP_AAD) (\<lambda>signing_private_bytes.
    and_then (IdentityKemPrivateKey_from_slice kem_private_bytes) (\<lambda>kp.
    and_then (IdentitySigningPrivateKey_from_slice signing_private_bytes) (\<lambda>sp.
      if kem_public (IdentityKemKeypair_from_private X kp) \<noteq> kem_public_key s
      then Inl (InvalidKey ''kem public key does not match unwrapped private key'')
      else if signing_public (IdentitySigningKeypair_from_private X sp) \<noteq> signing_public_key s
      then Inl (InvalidKey ''signing public key does not match unwrapped private key'')
      else Inr \<lparr> account_key = ak, unlocked_kem_private = kp, unlocked_signing_private = sp \<rparr>)))))))"

definition change_master_password ::
  "'z crypto_lib_scheme \<Rightarrow> AccountKey \<Rightarrow> bytes \<Rightarrow> AccountSecrets \<Rightarrow> entropy
     \<Rightarrow> unit crypto_result \<times> AccountSecrets \<times> entropy" where
  "change_master_password X ak new_password s e =
    (let (new_params, e) = default_params e in
     case derive_master_key X new_password new_params of Inl er \<Rightarrow> (Inl er, s, e) | Inr new_master \<Rightarrow>
     let (new_wrap, e) = xchacha20_encrypt_with_aad X new_master (bytes32 ak) ACCOUNT_KEY_WRAP_AAD e
     in (Inr (), s\<lparr> kdf_params := new_params, account_key_wrap := new_wrap \<rparr>, e))"

section \<open>Recovery\<close>

definition recover_with_recovery_key ::
  "'z crypto_lib_scheme \<Rightarrow> RecoveryKey \<Rightarrow> AccountSecrets \<Rightarrow> AccountKey crypto_result" where
  "recover_with_recovery_key X rk s =
    and_then (validate_stored_params (recovery_kdf_params s)) (\<lambda>_.
    and_then (derive_recovery_key X (bytes32 rk) (recovery_kdf_params s)) (\<lambda>derived.
    and_then (xchacha20_decrypt_with_aad X derived (recovery_key_wrap s) RECOVERY_KEY_WRAP_AAD) (\<lambda>bs.
      if length bs \<noteq> 32 then Inl (InvalidKey ''recovered account key wrong length'')
      else Inr (arr32 bs))))"

definition regenerate_recovery_key ::
  "'z crypto_lib_scheme \<Rightarrow> AccountKey \<Rightarrow> AccountSecrets \<Rightarrow> entropy
     \<Rightarrow> RecoveryKey crypto_result \<times> AccountSecrets \<times> entropy" where
  "regenerate_recovery_key X ak s e =
    (let (new_params, e) = default_params e; (rk, e) = symmetric_key_random e in
     case derive_recovery_key X (bytes32 rk) new_params of Inl er \<Rightarrow> (Inl er, s, e) | Inr derived \<Rightarrow>
     let (wrap, e) = xchacha20_encrypt_with_aad X derived (bytes32 ak) RECOVERY_KEY_WRAP_AAD e
     in (Inr rk, s\<lparr> recovery_kdf_params := new_params, recovery_key_wrap := wrap \<rparr>, e))"

definition rewrap_account_key_after_recovery ::
  "'z crypto_lib_scheme \<Rightarrow> AccountKey \<Rightarrow> bytes \<Rightarrow> AccountSecrets \<Rightarrow> entropy
     \<Rightarrow> RecoveryKey crypto_result \<times> AccountSecrets \<times> entropy" where
  "rewrap_account_key_after_recovery X ak new_password s e =
    (let (new_params, e) = default_params e in
     case derive_master_key X new_password new_params of Inl er \<Rightarrow> (Inl er, s, e) | Inr mk \<Rightarrow>
     let s = s\<lparr> kdf_params := new_params \<rparr>;
         (wrap, e) = xchacha20_encrypt_with_aad X mk (bytes32 ak) ACCOUNT_KEY_WRAP_AAD e;
         s = s\<lparr> account_key_wrap := wrap \<rparr>
     in regenerate_recovery_key X ak s e)"

section \<open>The wraps as slots\<close>

lemmas account_aad_defs = ACCOUNT_KEY_WRAP_AAD_def RECOVERY_KEY_WRAP_AAD_def
  ACCOUNT_KEM_PRIVATE_WRAP_AAD_def ACCOUNT_SIGNING_PRIVATE_WRAP_AAD_def

lemma key_from_slice_parse: "key_from_slice what = parse_key (InvalidKey what)"
  by (simp add: fun_eq_iff key_from_slice_def parse_key_if)

interpretation account_key_slot: sealed_slot
  "\<lambda>_ :: unit. ACCOUNT_KEY_WRAP_AAD" "\<lambda>_. True" bytes32 "\<lambda>_. True"
  "parse_key (InvalidKey ''account key wrong length'')"
  "\<lambda>X k _ v e. xchacha20_encrypt_with_aad X k (bytes32 v) ACCOUNT_KEY_WRAP_AAD e"
  "\<lambda>X k _ b. unwrap_account_key X k b"
  by unfold_locales (auto simp: unwrap_account_key_def parse_key_iff parse_key_if [symmetric])

interpretation signing_private_slot: sealed_slot
  "\<lambda>_ :: unit. ACCOUNT_SIGNING_PRIVATE_WRAP_AAD" "\<lambda>_. True" bytes32 "\<lambda>_. True"
  "parse_key (InvalidKey ''Ed25519 private key must be 32 bytes'')"
  "\<lambda>X k _ v e. xchacha20_encrypt_with_aad X k (bytes32 v) ACCOUNT_SIGNING_PRIVATE_WRAP_AAD e"
  "\<lambda>X k _ b. unwrap_account_signing_private_key X k b"
  by unfold_locales
    (auto simp: unwrap_account_signing_private_key_def parse_key_iff from_slice_defs key_from_slice_parse)

section \<open>Characterisations\<close>

lemma derive_master_key_iff:
  "derive_master_key X pw p = Inr k \<longleftrightarrow> derive_key X pw p = Inr (bytes32 k)"
  by (auto simp: derive_master_key_def result_simps bytes32_inverse split: if_splits)

lemma derive_recovery_key_iff:
  "derive_recovery_key X rk p = Inr k \<longleftrightarrow> derive_key X rk p = Inr (bytes32 k)"
  by (auto simp: derive_recovery_key_def result_simps bytes32_inverse split: if_splits)

lemma derive_approved:
  assumes "argon2_laws X" and "approved p" and "length pw < 2 ^ 32"
  obtains k where "derive_master_key X pw p = Inr k" and "derive_recovery_key X pw p = Inr k"
proof -
  obtain bs where "derive_key X pw p = Inr bs" and "length bs = 32"
    using derive_key_approved [OF assms] by blast
  then have "derive_key X pw p = Inr (bytes32 (arr32 bs))" by simp
  then show thesis using that by (simp add: derive_master_key_iff derive_recovery_key_iff)
qed

lemma recover_iff:
  assumes "aead_laws X"
  shows "recover_with_recovery_key X rk s = Inr ak \<longleftrightarrow>
     approved (recovery_kdf_params s) \<and>
     (\<exists>d. derive_recovery_key X (bytes32 rk) (recovery_kdf_params s) = Inr d
        \<and> sealed_as X d RECOVERY_KEY_WRAP_AAD (bytes32 ak) (recovery_key_wrap s))"
  by (auto simp: recover_with_recovery_key_def result_simps validate_iff_approved
      decrypt_iff_sealed [OF assms] parse_key_if [symmetric] parse_key_iff)

lemma unlock_iff:
  assumes "aead_laws X"
  shows "unlock_account X pw s = Inr u \<longleftrightarrow>
     approved (kdf_params s)
     \<and> (\<exists>mk. derive_master_key X pw (kdf_params s) = Inr mk
          \<and> sealed_as X mk ACCOUNT_KEY_WRAP_AAD (bytes32 (account_key u)) (account_key_wrap s))
     \<and> sealed_as X (account_key u) ACCOUNT_KEM_PRIVATE_WRAP_AAD
          (bytes32 (unlocked_kem_private u)) (account_kem_private_wrap s)
     \<and> sealed_as X (account_key u) ACCOUNT_SIGNING_PRIVATE_WRAP_AAD
          (bytes32 (unlocked_signing_private u)) (account_signing_private_wrap s)
     \<and> kem_public_key s = x25519_public X (unlocked_kem_private u)
     \<and> signing_public_key s = ed25519_public X (unlocked_signing_private u)"
    (is "?l \<longleftrightarrow> ?r")
proof
  assume ?l
  then show ?r
    by (auto simp: unlock_account_def result_simps validate_iff_approved decrypt_iff_sealed [OF assms]
        account_key_slot.open_exact [OF assms] from_slice_defs
        IdentityKemKeypair_from_private_def IdentitySigningKeypair_from_private_def split: if_splits)
next
  assume ?r
  then show ?l
    by (cases u) (auto simp: unlock_account_def result_simps validate_iff_approved decrypt_iff_sealed [OF assms]
        account_key_slot.open_exact [OF assms] from_slice_defs
        IdentityKemKeypair_from_private_def IdentitySigningKeypair_from_private_def)
qed

section \<open>Flows\<close>

text \<open>The state an account is in after signup and after every later flow: the password and
  the recovery key both lead to the same account key, and that key to the identity keys.\<close>

definition account_opens ::
  "'z crypto_lib_scheme \<Rightarrow> AccountSecrets \<Rightarrow> bytes \<Rightarrow> RecoveryKey \<Rightarrow> UnlockedAccount \<Rightarrow> bool" where
  "account_opens X s pw rk u \<longleftrightarrow>
     unlock_account X pw s = Inr u \<and> recover_with_recovery_key X rk s = Inr (account_key u)"

lemma setup_opens:
  assumes "aead_laws X" and "argon2_laws X" and "approved p" and "approved rp" and "length pw < 2 ^ 32"
  shows "\<exists>b e' u. account_setup_with_params X pw p rp e = (Inr b, e')
           \<and> account_opens X (secrets b) pw (recovery_key b) u
           \<and> unlocked_kem_private u = kem_private (kem_keypair b)
           \<and> unlocked_signing_private u = signing_private (signing_keypair b)
           \<and> kdf_params (secrets b) = p \<and> recovery_kdf_params (secrets b) = rp"
proof -
  let ?rk = "arr32 (stake 32 e)"
  obtain mk where mk: "derive_master_key X pw p = Inr mk"
    using derive_approved [OF assms(2,3,5)] .
  have "length (bytes32 ?rk) < 2 ^ 32" by simp
  then obtain dk where dk: "derive_recovery_key X (bytes32 ?rk) rp = Inr dk"
    using derive_approved [OF assms(2,4)] by blast
  have v: "validate_stored_params p = Inr ()" "validate_stored_params rp = Inr ()"
    using assms(3,4) by (simp_all add: validate_iff_approved)
  show ?thesis
    using mk dk v assms(3,4)
    by (auto simp: account_setup_with_params_def symmetric_key_random_def fill_random_def Let_def
        generate_from_private encrypt_eq_envelope account_opens_def unlock_iff [OF assms(1)]
        recover_iff [OF assms(1)] IdentityKemKeypair_from_private_def
        IdentitySigningKeypair_from_private_def
        intro!: exI [of _ "\<lparr> account_key = arr32 (stake 32 (sdrop 32 e)),
            unlocked_kem_private = _, unlocked_signing_private = _ \<rparr>"])
qed

lemma change_password_opens:
  assumes "aead_laws X" and "argon2_laws X" and "account_opens X s pw rk u"
    and "length new < 2 ^ 32" and "stake 16 e \<noteq> replicate 16 0"
  shows "\<exists>s' e'. change_master_password X (account_key u) new s e = (Inr (), s', e')
           \<and> account_opens X s' new rk u
           \<and> s' = s\<lparr> kdf_params := kdf_params s', account_key_wrap := account_key_wrap s' \<rparr>"
proof -
  from assms(5) have a: "approved (fst (default_params e))" by (rule default_params_approved)
  obtain mk where "derive_master_key X new (fst (default_params e)) = Inr mk"
    using derive_approved [OF assms(2) a assms(4)] .
  with a assms(3) show ?thesis
    by (auto simp: change_master_password_def Let_def case_prod_beta account_opens_def
        unlock_iff [OF assms(1)] recover_iff [OF assms(1)] encrypt_eq_envelope default_params_conv)
qed

lemma regenerate_opens:
  assumes "aead_laws X" and "argon2_laws X" and "unlock_account X pw s = Inr u"
    and "stake 16 e \<noteq> replicate 16 0"
  shows "\<exists>rk s' e'. regenerate_recovery_key X (account_key u) s e = (Inr rk, s', e')
           \<and> account_opens X s' pw rk u
           \<and> s' = s\<lparr> recovery_kdf_params := recovery_kdf_params s',
                      recovery_key_wrap := recovery_key_wrap s' \<rparr>"
proof -
  let ?rk = "arr32 (stake 32 (sdrop 16 e))"
  from assms(4) have a: "approved (fst (default_params e))" by (rule default_params_approved)
  have "length (bytes32 ?rk) < 2 ^ 32" by simp
  then obtain d where "derive_recovery_key X (bytes32 ?rk) (fst (default_params e)) = Inr d"
    using derive_approved [OF assms(2) a] by blast
  with a assms(3) show ?thesis
    by (auto simp: regenerate_recovery_key_def Let_def case_prod_beta account_opens_def
        symmetric_key_random_def fill_random_def
        unlock_iff [OF assms(1)] recover_iff [OF assms(1)] encrypt_eq_envelope default_params_conv)
qed

text \<open>The rewrap after a recovery is a change of password followed by a rotation of the
  recovery key.\<close>

lemma rewrap_conv:
  "rewrap_account_key_after_recovery X ak pw s e =
     (case change_master_password X ak pw s e of
        (Inl er, s', e') \<Rightarrow> (Inl er, s', e')
      | (Inr _, s', e') \<Rightarrow> regenerate_recovery_key X ak s' e')"
  by (simp add: rewrap_account_key_after_recovery_def change_master_password_def Let_def
      case_prod_beta split: sum.splits)

lemma rewrap_opens:
  assumes "aead_laws X" and "argon2_laws X" and "account_opens X s pw rk u"
    and "length new < 2 ^ 32" and "stake 16 e \<noteq> replicate 16 0"
    and "stake 16 (sdrop 40 e) \<noteq> replicate 16 0"
  shows "\<exists>rk' s' e'. rewrap_account_key_after_recovery X (account_key u) new s e = (Inr rk', s', e')
           \<and> account_opens X s' new rk' u
           \<and> s' = s\<lparr> kdf_params := kdf_params s', account_key_wrap := account_key_wrap s',
                     recovery_kdf_params := recovery_kdf_params s',
                     recovery_key_wrap := recovery_key_wrap s' \<rparr>"
proof -
  from change_password_opens [OF assms(1-5)] obtain s1 e1 where
    s1: "change_master_password X (account_key u) new s e = (Inr (), s1, e1)" "account_opens X s1 new rk u"
      "s1 = s\<lparr> kdf_params := kdf_params s1, account_key_wrap := account_key_wrap s1 \<rparr>"
    by blast
  from s1(1) have "e1 = sdrop 40 e"
    by (auto simp: change_master_password_def default_params_conv encrypt_eq_envelope Let_def split: sum.splits)
  with assms(6) have z: "stake 16 e1 \<noteq> replicate 16 0" by simp
  from s1(2) have "unlock_account X new s1 = Inr u" by (simp add: account_opens_def)
  from regenerate_opens [OF assms(1,2) this z] obtain rk' s' e' where
    r: "regenerate_recovery_key X (account_key u) s1 e1 = (Inr rk', s', e')" "account_opens X s' new rk' u"
      "s' = s1\<lparr> recovery_kdf_params := recovery_kdf_params s', recovery_key_wrap := recovery_key_wrap s' \<rparr>"
    by blast
  have "rewrap_account_key_after_recovery X (account_key u) new s e = (Inr rk', s', e')"
    using s1(1) r(1) by (simp add: rewrap_conv)
  moreover have "s' = s\<lparr> kdf_params := kdf_params s', account_key_wrap := account_key_wrap s',
      recovery_kdf_params := recovery_kdf_params s', recovery_key_wrap := recovery_key_wrap s' \<rparr>"
    by (subst r(3), subst s1(3), subst (4 5) r(3)) simp
  ultimately show ?thesis using r(2) by blast
qed

text \<open>A secret that opened the previous wrap opens the new one only if the key derivation
  gives the same key for both secrets or the cipher has a collision.\<close>

lemma retired_recovery_key:
  assumes "aead_laws X" and "recover_with_recovery_key X rk s = Inr ak"
    and "recover_with_recovery_key X rk' s = Inr ak'"
  shows "derive_key X (bytes32 rk) (recovery_kdf_params s) = derive_key X (bytes32 rk') (recovery_kdf_params s)
     \<or> (\<exists>d d'. derive_recovery_key X (bytes32 rk) (recovery_kdf_params s) = Inr d
          \<and> derive_recovery_key X (bytes32 rk') (recovery_kdf_params s) = Inr d'
          \<and> aead_collision X (recovery_key_wrap s)
               (d, RECOVERY_KEY_WRAP_AAD, bytes32 ak) (d', RECOVERY_KEY_WRAP_AAD, bytes32 ak'))"
  using assms sealed_twice_collision [OF assms(1)]
  by (fastforce simp: recover_iff derive_recovery_key_iff)

lemma retired_password:
  assumes "aead_laws X" and "unlock_account X pw s = Inr u" and "unlock_account X pw' s = Inr u'"
  shows "derive_key X pw (kdf_params s) = derive_key X pw' (kdf_params s)
     \<or> (\<exists>d d'. derive_master_key X pw (kdf_params s) = Inr d \<and> derive_master_key X pw' (kdf_params s) = Inr d'
          \<and> aead_collision X (account_key_wrap s) (d, ACCOUNT_KEY_WRAP_AAD, bytes32 (account_key u))
               (d', ACCOUNT_KEY_WRAP_AAD, bytes32 (account_key u')))"
  using assms sealed_twice_collision [OF assms(1)]
  by (fastforce simp: unlock_iff derive_master_key_iff)

section \<open>Properties\<close>

text \<open>C6. Signup works end to end: with parameters that pass validation, any password shorter
  than \<open>2 ^ 32\<close> bytes and any entropy, setup succeeds; the password then unlocks the stored
  secrets, the recovery key recovers the same account key, and the unlocked private keys are
  those of the keypairs setup returned.\<close>

theorem signup_unlock_recover:
  assumes "aead_laws X" and "argon2_laws X"
    and "validate_stored_params p = Inr ()" and "validate_stored_params rp = Inr ()"
    and "length pw < 2 ^ 32"
  shows "\<exists>b e' u. account_setup_with_params X pw p rp e = (Inr b, e')
           \<and> unlock_account X pw (secrets b) = Inr u
           \<and> recover_with_recovery_key X (recovery_key b) (secrets b) = Inr (account_key u)
           \<and> unlocked_kem_private u = kem_private (kem_keypair b)
           \<and> unlocked_signing_private u = signing_private (signing_keypair b)"
  using setup_opens [OF assms(1,2) _ _ assms(5)] assms(3,4)
  by (fastforce simp: validate_iff_approved account_opens_def)

definition sample_params :: KdfParams where
  "sample_params = fst (default_params (sconst 1))"

lemma sample_params_valid: "validate_stored_params sample_params = Inr ()"
  unfolding validate_iff_approved sample_params_def
  by (rule default_params_approved, rule stake_nonzero) simp

lemma sample_account:
  obtains s rk u where "unlock_account toy_lib [1, 2, 3] s = Inr u"
    and "recover_with_recovery_key toy_lib rk s = Inr (account_key u)"
proof -
  have "approved sample_params" using sample_params_valid by (simp add: validate_iff_approved)
  from setup_opens [OF toy_aead_laws toy_argon2_laws this this, of "[1, 2, 3]" "sconst 1"]
  show thesis using that by (auto simp: account_opens_def)
qed

theorem signup_unlock_recover_witness:
  "\<exists>b e' u. account_setup_with_params toy_lib [1, 2, 3] sample_params sample_params (sconst 1) = (Inr b, e')
     \<and> unlock_account toy_lib [1, 2, 3] (secrets b) = Inr u
     \<and> recover_with_recovery_key toy_lib (recovery_key b) (secrets b) = Inr (account_key u)
     \<and> unlocked_kem_private u = kem_private (kem_keypair b)
     \<and> unlocked_signing_private u = signing_private (signing_keypair b)"
  by (rule signup_unlock_recover) (simp_all add: sample_params_valid)

text \<open>C9. What an unlock accepts, exactly: the stored parameters are an approved profile, the
  derived master key opens the account-key wrap, the account key opens both identity wraps
  under their own labels, and both stored public keys are the ones computed from the private
  keys just unwrapped.\<close>

theorem unlock_account_exact:
  assumes "aead_laws X"
  shows "unlock_account X pw s = Inr u \<longleftrightarrow>
     validate_stored_params (kdf_params s) = Inr ()
     \<and> (\<exists>mk. derive_master_key X pw (kdf_params s) = Inr mk
          \<and> sealed_as X mk ACCOUNT_KEY_WRAP_AAD (bytes32 (account_key u)) (account_key_wrap s))
     \<and> sealed_as X (account_key u) ACCOUNT_KEM_PRIVATE_WRAP_AAD
          (bytes32 (unlocked_kem_private u)) (account_kem_private_wrap s)
     \<and> sealed_as X (account_key u) ACCOUNT_SIGNING_PRIVATE_WRAP_AAD
          (bytes32 (unlocked_signing_private u)) (account_signing_private_wrap s)
     \<and> kem_public_key s = x25519_public X (unlocked_kem_private u)
     \<and> signing_public_key s = ed25519_public X (unlocked_signing_private u)"
  by (simp add: unlock_iff [OF assms] validate_iff_approved)

theorem unlock_account_exact_witness:
  "\<exists>s u. unlock_account toy_lib [1, 2, 3] s = Inr u
     \<and> kem_public_key s = x25519_public toy_lib (unlocked_kem_private u)
     \<and> signing_public_key s = ed25519_public toy_lib (unlocked_signing_private u)"
proof -
  obtain s rk u where "unlock_account toy_lib [1, 2, 3] s = Inr u" by (rule sample_account)
  then show ?thesis using unlock_account_exact [OF toy_aead_laws] by blast
qed

text \<open>C36. Changing the master password of an account that opens keeps the account: the new
  password unlocks the same keys, the old recovery key still recovers the account key, and only
  the KDF parameters and the account-key wrap change.  If the old password also still unlocks,
  then the key derivation maps both passwords to one key or the new wrap is a collision of the
  cipher under the two derived keys.\<close>

theorem change_master_password_keeps_account:
  assumes "aead_laws X" and "argon2_laws X" and "unlock_account X pw s = Inr u"
    and "recover_with_recovery_key X rk s = Inr (account_key u)"
    and "length new < 2 ^ 32" and "stake 16 e \<noteq> replicate 16 0"
  shows "\<exists>s' e'. change_master_password X (account_key u) new s e = (Inr (), s', e')
           \<and> unlock_account X new s' = Inr u
           \<and> recover_with_recovery_key X rk s' = Inr (account_key u)
           \<and> s' = s\<lparr> kdf_params := kdf_params s', account_key_wrap := account_key_wrap s' \<rparr>
           \<and> (\<forall>u'. unlock_account X pw s' = Inr u' \<longrightarrow>
                derive_key X pw (kdf_params s') = derive_key X new (kdf_params s')
                \<or> (\<exists>d d'. derive_master_key X pw (kdf_params s') = Inr d
                     \<and> derive_master_key X new (kdf_params s') = Inr d'
                     \<and> aead_collision X (account_key_wrap s')
                          (d, ACCOUNT_KEY_WRAP_AAD, bytes32 (account_key u'))
                          (d', ACCOUNT_KEY_WRAP_AAD, bytes32 (account_key u))))"
proof -
  from assms(3,4) have "account_opens X s pw rk u" by (simp add: account_opens_def)
  from change_password_opens [OF assms(1,2) this assms(5,6)] obtain s' e' where
    "change_master_password X (account_key u) new s e = (Inr (), s', e')" and o: "account_opens X s' new rk u"
    and "s' = s\<lparr> kdf_params := kdf_params s', account_key_wrap := account_key_wrap s' \<rparr>" by blast
  moreover from o have "unlock_account X new s' = Inr u" "recover_with_recovery_key X rk s' = Inr (account_key u)"
    by (simp_all add: account_opens_def)
  ultimately show ?thesis
    using retired_password [OF assms(1), of pw s' _ new u] by blast
qed

theorem change_master_password_keeps_account_witness:
  "\<exists>s u s' e'. unlock_account toy_lib [1, 2, 3] s = Inr u
     \<and> change_master_password toy_lib (account_key u) [9] s (sconst 1) = (Inr (), s', e')
     \<and> unlock_account toy_lib [9] s' = Inr u"
proof -
  obtain s rk u where a: "unlock_account toy_lib [1, 2, 3] s = Inr u"
      "recover_with_recovery_key toy_lib rk s = Inr (account_key u)" by (rule sample_account)
  have z: "stake 16 (sconst 1) \<noteq> replicate 16 (0 :: u8)" by (rule stake_nonzero) simp
  have "length ([9] :: bytes) < 2 ^ 32" by simp
  from change_master_password_keeps_account [OF toy_aead_laws toy_argon2_laws a this z] a(1)
  show ?thesis by blast
qed

text \<open>C37. After a recovery the account is re-wrapped under the new password and a fresh
  recovery key; both open the same account, nothing but the two wraps and their parameters
  changes, and the consumed recovery key opens the new wrap only through a coincidence of
  the key derivation or because that wrap is a collision of the cipher under the two
  derived keys.\<close>

theorem rewrap_after_recovery:
  assumes "aead_laws X" and "argon2_laws X" and "unlock_account X pw s = Inr u"
    and "recover_with_recovery_key X rk s = Inr (account_key u)"
    and "length new < 2 ^ 32" and "stake 16 e \<noteq> replicate 16 0"
    and "stake 16 (sdrop 40 e) \<noteq> replicate 16 0"
  shows "\<exists>rk' s' e'. rewrap_account_key_after_recovery X (account_key u) new s e = (Inr rk', s', e')
           \<and> unlock_account X new s' = Inr u
           \<and> recover_with_recovery_key X rk' s' = Inr (account_key u)
           \<and> s' = s\<lparr> kdf_params := kdf_params s', account_key_wrap := account_key_wrap s',
                     recovery_kdf_params := recovery_kdf_params s',
                     recovery_key_wrap := recovery_key_wrap s' \<rparr>
           \<and> (\<forall>ak. recover_with_recovery_key X rk s' = Inr ak \<longrightarrow>
                derive_key X (bytes32 rk) (recovery_kdf_params s')
                  = derive_key X (bytes32 rk') (recovery_kdf_params s')
                \<or> (\<exists>d d'. derive_recovery_key X (bytes32 rk) (recovery_kdf_params s') = Inr d
                     \<and> derive_recovery_key X (bytes32 rk') (recovery_kdf_params s') = Inr d'
                     \<and> aead_collision X (recovery_key_wrap s') (d, RECOVERY_KEY_WRAP_AAD, bytes32 ak)
                          (d', RECOVERY_KEY_WRAP_AAD, bytes32 (account_key u))))"
  using rewrap_opens [OF assms(1,2) _ assms(5-7), of s pw rk u] assms(3,4)
    retired_recovery_key [OF assms(1), of rk _ _ _ "account_key u"]
  unfolding account_opens_def by blast

theorem rewrap_after_recovery_witness:
  "\<exists>s u rk' s' e'. unlock_account toy_lib [1, 2, 3] s = Inr u
     \<and> rewrap_account_key_after_recovery toy_lib (account_key u) [9] s (sconst 1) = (Inr rk', s', e')
     \<and> unlock_account toy_lib [9] s' = Inr u
     \<and> recover_with_recovery_key toy_lib rk' s' = Inr (account_key u)"
proof -
  obtain s rk u where a: "unlock_account toy_lib [1, 2, 3] s = Inr u"
      "recover_with_recovery_key toy_lib rk s = Inr (account_key u)" by (rule sample_account)
  have z: "stake 16 (sconst 1) \<noteq> replicate 16 (0 :: u8)"
      "stake 16 (sdrop 40 (sconst 1)) \<noteq> replicate 16 (0 :: u8)"
    by (rule stake_nonzero, simp)+
  have "length ([9] :: bytes) < 2 ^ 32" by simp
  from rewrap_after_recovery [OF toy_aead_laws toy_argon2_laws a this z] a(1)
  show ?thesis by blast
qed

end
