(* ===== verification/Gateway.thy ===== *)
theory Gateway
  imports Revision Account
begin

text \<open>
  The transport half of \<open>vault.rs\<close>: authenticated calls through the gateway and the unwrapping
  of its envelopes.  An operation of the client is a function on the \<open>world\<close>: the requests sent
  so far, the operating system's entropy and the supply of random identifiers.  The service is
  an arbitrary function \<open>S\<close> from the history of requests to the answer to the last one, so the
  theorems hold for every behaviour it may have, honest or not.
\<close>

section \<open>Operations\<close>

record gateway_request =
  gw_client :: http_client
  gw_method :: http_method
  gw_url :: string
  gw_bearer :: string
  gw_if_match :: "string option"
  gw_body :: "json option"

record world =
  sent :: "gateway_request list"
  rng :: entropy
  fresh_uuids :: "uuid stream"

type_synonym server = "gateway_request list \<Rightarrow> reqwest_error + http_response"
type_synonym 'a op = "world \<Rightarrow> 'a resolver_result \<times> world"

definition op_lift :: "'a resolver_result \<Rightarrow> 'a op" where
  "op_lift r = (\<lambda>w. (r, w))"

definition op_return :: "'a \<Rightarrow> 'a op" where
  "op_return x = op_lift (Inr x)"

text \<open>\<open>m?\<close> and then the rest.\<close>

definition op_then :: "'a op \<Rightarrow> ('a \<Rightarrow> 'b op) \<Rightarrow> 'b op" where
  "op_then m f = (\<lambda>w. case m w of (Inl e, w') \<Rightarrow> (Inl e, w') | (Inr x, w') \<Rightarrow> f x w')"

definition op_map_err :: "(ResolverError \<Rightarrow> ResolverError) \<Rightarrow> 'a op \<Rightarrow> 'a op" where
  "op_map_err g m = (\<lambda>w. case m w of (r, w') \<Rightarrow> (map_err g r, w'))"

definition op_random :: "(entropy \<Rightarrow> 'a \<times> entropy) \<Rightarrow> 'a op" where
  "op_random draw = (\<lambda>w. case draw (rng w) of (x, e) \<Rightarrow> (Inr x, w\<lparr> rng := e \<rparr>))"

definition op_uuid :: "uuid op" where
  "op_uuid = (\<lambda>w. (Inr (shd (fresh_uuids w)), w\<lparr> fresh_uuids := stl (fresh_uuids w) \<rparr>))"

definition op_send :: "server \<Rightarrow> gateway_request \<Rightarrow> http_response op" where
  "op_send S request =
     (\<lambda>w. (map_err transport (S (sent w @ [request])), w\<lparr> sent := sent w @ [request] \<rparr>))"

section \<open>Envelopes\<close>

record gateway_lib = revision_lib +
  json_from_slice :: "bytes \<Rightarrow> json option"
  json_to_string :: "json \<Rightarrow> string"
    \<comment> \<open>\<open>Display\<close> of a JSON value\<close>

definition unwrap_metered :: "'z gateway_lib_scheme \<Rightarrow> json \<Rightarrow> json resolver_result" where
  "unwrap_metered X value =
     and_then (ok_or (Malformed ''missing data'') (json_get ''data'' value)) (\<lambda>outer.
       let accept =
         (let service_resp = (case json_get ''body'' outer of Some body \<Rightarrow> body | None \<Rightarrow> outer)
          in Inr (case json_get ''data'' service_resp of Some inner \<Rightarrow> inner | None \<Rightarrow> service_resp))
       in case Option.bind (json_get ''status'' outer) json_as_u64 of
            None \<Rightarrow> accept
          | Some status \<Rightarrow>
              if 200 \<le> status \<and> status < 300 then accept
              else let body = (case json_get ''body'' outer of Some b \<Rightarrow> b | None \<Rightarrow> outer)
                   in case (if status = 403 then approval_request_id_from_value X body else None) of
                        Some rid \<Rightarrow> Inl (ApprovalRequired rid)
                      | None \<Rightarrow> Inl (ServerError (ucast status) (truncate_error_body (json_to_string X body))))"

section \<open>The client\<close>

datatype VaultKeySource =
    MasterPassword AccountSecrets bytes
  | AgentKey IdentityKemPrivateKey

fun key_source_kem_private :: "'z crypto_lib_scheme \<Rightarrow> VaultKeySource \<Rightarrow> IdentityKemPrivateKey resolver_result" where
  "key_source_kem_private X (AgentKey private) = Inr private"
| "key_source_kem_private X (MasterPassword stored master_password) =
     map_err Crypto (and_then (unlock_account X master_password stored) (\<lambda>u. Inr (unlocked_kem_private u)))"

record VaultClientConfig =
  vcc_base_url :: string
  vcc_bearer_token :: string
  vcc_key_source :: VaultKeySource
  vcc_network :: ResolverNetwork
  vcc_caller_identity_id :: uuid

record VaultClient =
  vc_http :: http_client
  vc_base_url :: string
  vc_bearer :: string
  vc_key_source :: VaultKeySource
  vc_caller_identity_id :: uuid

definition vault_client_with_request_timeout ::
  "'z http_lib_scheme \<Rightarrow> VaultClientConfig \<Rightarrow> nat \<Rightarrow> VaultClient resolver_result" where
  "vault_client_with_request_timeout X config request_timeout =
     and_then (network_client X (vcc_base_url config) (vcc_network config) request_timeout) (\<lambda>http.
       Inr \<lparr> vc_http = http, vc_base_url = trim_end_char CHR ''/'' (vcc_base_url config),
             vc_bearer = vcc_bearer_token config, vc_key_source = vcc_key_source config,
             vc_caller_identity_id = vcc_caller_identity_id config \<rparr>)"

definition vault_client_new :: "'z http_lib_scheme \<Rightarrow> VaultClientConfig \<Rightarrow> VaultClient resolver_result" where
  "vault_client_new X config = vault_client_with_request_timeout X config REQUEST_TIMEOUT"

text \<open>What a response means to the client.\<close>

definition read_answer :: "'z gateway_lib_scheme \<Rightarrow> nat \<Rightarrow> http_response \<Rightarrow> json resolver_result" where
  "read_answer X response_cap resp =
     (let status = resp_status resp
      in if \<not> is_success status
         then (let raw = read_capped_text resp MAX_ERROR_BODY
               in case (if status = 403 then Option.bind (json_from_str X raw) (approval_request_id_from_value X) else None) of
                    Some rid \<Rightarrow> Inl (ApprovalRequired rid)
                  | None \<Rightarrow> Inl (ServerError status (truncate_error_body raw)))
         else and_then (read_capped resp response_cap) (\<lambda>body.
              and_then (ok_or (Malformed ''response body'') (json_from_slice X body)) (unwrap_metered X)))"

definition call_with_options ::
  "'z gateway_lib_scheme \<Rightarrow> server \<Rightarrow> VaultClient \<Rightarrow> http_method \<Rightarrow> string \<Rightarrow> json option \<Rightarrow> ItemRevision option
    \<Rightarrow> nat \<Rightarrow> json op" where
  "call_with_options X S self method path body if_match_updated_at response_cap =
     op_then (op_send S
       \<lparr> gw_client = vc_http self, gw_method = method, gw_url = vc_base_url self @ path,
         gw_bearer = vc_bearer self, gw_if_match = map_option weak_etag if_match_updated_at, gw_body = body \<rparr>)
     (\<lambda>resp. op_lift (read_answer X response_cap resp))"

definition call ::
  "'z gateway_lib_scheme \<Rightarrow> server \<Rightarrow> VaultClient \<Rightarrow> http_method \<Rightarrow> string \<Rightarrow> json option \<Rightarrow> json op" where
  "call X S self method path body = call_with_options X S self method path body None MAX_GATEWAY_BODY"

section \<open>Calls before a client exists\<close>

text \<open>\<open>gateway_get\<close>, \<open>gateway_post\<close> and \<open>gateway_delete\<close> differ in the method and the body only; unlike
  \<open>call\<close> they do not look for an approval id in a refused response.\<close>

definition read_gateway_answer :: "'z gateway_lib_scheme \<Rightarrow> http_response \<Rightarrow> json resolver_result" where
  "read_gateway_answer X resp =
     (let status = resp_status resp
      in if \<not> is_success status
         then Inl (ServerError status (truncate_error_body (read_capped_text resp MAX_ERROR_BODY)))
         else and_then (read_capped resp MAX_GATEWAY_BODY) (\<lambda>body.
              and_then (ok_or (Malformed ''response body'') (json_from_slice X body)) (unwrap_metered X)))"

definition gateway_exchange ::
  "'z gateway_lib_scheme \<Rightarrow> server \<Rightarrow> http_client \<Rightarrow> string \<Rightarrow> string \<Rightarrow> http_method \<Rightarrow> string \<Rightarrow> json option \<Rightarrow> json op" where
  "gateway_exchange X S http base_url bearer method path body =
     op_then (op_lift (validate_base_url X base_url)) (\<lambda>_.
     op_then (op_send S
       \<lparr> gw_client = http, gw_method = method, gw_url = base_url @ path, gw_bearer = bearer,
         gw_if_match = None, gw_body = body \<rparr>)
     (\<lambda>resp. op_lift (read_gateway_answer X resp)))"

definition gateway_get ::
  "'z gateway_lib_scheme \<Rightarrow> server \<Rightarrow> http_client \<Rightarrow> string \<Rightarrow> string \<Rightarrow> string \<Rightarrow> json op" where
  "gateway_get X S http base_url bearer path = gateway_exchange X S http base_url bearer Get path None"

definition gateway_post ::
  "'z gateway_lib_scheme \<Rightarrow> server \<Rightarrow> http_client \<Rightarrow> string \<Rightarrow> string \<Rightarrow> string \<Rightarrow> json \<Rightarrow> json op" where
  "gateway_post X S http base_url bearer path body =
     gateway_exchange X S http base_url bearer Post path (Some body)"

definition gateway_delete ::
  "'z gateway_lib_scheme \<Rightarrow> server \<Rightarrow> http_client \<Rightarrow> string \<Rightarrow> string \<Rightarrow> string \<Rightarrow> json op" where
  "gateway_delete X S http base_url bearer path = gateway_exchange X S http base_url bearer Delete path None"

section \<open>Lemmas\<close>

named_theorems op_simps "evaluation of client operations"

lemma op_basic [op_simps]:
  "op_lift r w = (r, w)" "op_return x w = (Inr x, w)"
  "op_random draw w = (Inr (fst (draw (rng w))), w\<lparr> rng := snd (draw (rng w)) \<rparr>)"
  "op_uuid w = (Inr (shd (fresh_uuids w)), w\<lparr> fresh_uuids := stl (fresh_uuids w) \<rparr>)"
  by (simp_all add: op_lift_def op_return_def op_random_def op_uuid_def split_beta)

lemma op_then_eq_Inr [op_simps]:
  "op_then m f w = (Inr y, w') \<longleftrightarrow> (\<exists>x w1. m w = (Inr x, w1) \<and> f x w1 = (Inr y, w'))"
  by (auto simp: op_then_def split: prod.splits sum.splits)

lemma op_then_eq_Inl [op_simps]:
  "op_then m f w = (Inl e, w') \<longleftrightarrow> m w = (Inl e, w') \<or> (\<exists>x w1. m w = (Inr x, w1) \<and> f x w1 = (Inl e, w'))"
  by (auto simp: op_then_def split: prod.splits sum.splits)

lemma op_map_err_eq_Inr [op_simps]: "op_map_err g m w = (Inr y, w') \<longleftrightarrow> m w = (Inr y, w')"
  by (auto simp: op_map_err_def map_err_eq_Inr split: prod.splits)

lemma op_map_err_eq_Inl [op_simps]: "op_map_err g m w = (Inl e, w') \<longleftrightarrow> (\<exists>e'. m w = (Inl e', w') \<and> e = g e')"
  by (auto simp: op_map_err_def map_err_eq_Inl split: prod.splits)

lemma op_send_eq [op_simps]:
  "op_send S request w = (map_err transport (S (sent w @ [request])), w\<lparr> sent := sent w @ [request] \<rparr>)"
  by (simp add: op_send_def)

lemma op_then_Inr: "m w = (Inr x, w1) \<Longrightarrow> op_then m f w = f x w1"
  by (simp add: op_then_def)

lemma op_then_lift: "op_then (op_lift (Inr x)) f = f x"
  by (simp add: op_then_def op_lift_def)

text \<open>A call sends exactly one request, whatever comes back.\<close>

definition request_of ::
  "VaultClient \<Rightarrow> http_method \<Rightarrow> string \<Rightarrow> json option \<Rightarrow> ItemRevision option \<Rightarrow> gateway_request" where
  "request_of self method path body if_match =
     \<lparr> gw_client = vc_http self, gw_method = method, gw_url = vc_base_url self @ path,
       gw_bearer = vc_bearer self, gw_if_match = map_option weak_etag if_match, gw_body = body \<rparr>"

lemma call_with_options_eq:
  "call_with_options X S self method path body if_match cap w =
     (let request = request_of self method path body if_match
      in (and_then (map_err transport (S (sent w @ [request]))) (read_answer X cap),
          w\<lparr> sent := sent w @ [request] \<rparr>))"
  by (cases "S (sent w @ [request_of self method path body if_match])")
    (simp_all add: call_with_options_def op_then_def op_send_eq op_lift_def request_of_def Let_def)

lemma call_with_options_sent:
  "call_with_options X S self method path body if_match cap w = (r, w') \<Longrightarrow>
     w' = w\<lparr> sent := sent w @ [request_of self method path body if_match] \<rparr>"
  by (auto simp: call_with_options_eq Let_def)

lemma call_sent:
  "call X S self method path body w = (r, w') \<Longrightarrow>
     w' = w\<lparr> sent := sent w @ [request_of self method path body None] \<rparr>"
  unfolding call_def by (rule call_with_options_sent)

lemma unwrap_metered_Inr:
  "unwrap_metered X v = Inr t \<longleftrightarrow>
    (\<exists>outer. json_get ''data'' v = Some outer
      \<and> (\<forall>status. Option.bind (json_get ''status'' outer) json_as_u64 = Some status \<longrightarrow> 200 \<le> status \<and> status < 300)
      \<and> (let resp = (case json_get ''body'' outer of Some b \<Rightarrow> b | None \<Rightarrow> outer)
         in t = (case json_get ''data'' resp of Some inner \<Rightarrow> inner | None \<Rightarrow> resp)))"
proof (cases "json_get ''data'' v")
  case None
  then show ?thesis by (simp add: unwrap_metered_def)
next
  case (Some outer)
  then show ?thesis
    by (cases "Option.bind (json_get ''status'' outer) json_as_u64")
      (auto simp: unwrap_metered_def Let_def split: option.splits)
qed

lemma read_answer_Inr:
  "read_answer X cap resp = Inr t \<longleftrightarrow>
     is_success (resp_status resp)
     \<and> (\<exists>b v. read_capped resp cap = Inr b \<and> json_from_slice X b = Some v \<and> unwrap_metered X v = Inr t)"
  by (auto simp: read_answer_def is_success_def Let_def and_then_eq_Inr ok_or_eq_Inr split: option.splits if_splits)


text \<open>A gateway that answers every request with one JSON value.\<close>

definition toy_gateway_lib :: "json \<Rightarrow> gateway_lib" where
  "toy_gateway_lib v =
     revision_lib.extend toy_revision_lib (gateway_lib.fields (\<lambda>_. Some v) (\<lambda>_. ''{}''))"

definition toy_server :: "u16 \<Rightarrow> server" where
  "toy_server status = (\<lambda>_. Inr \<lparr> resp_status = status, resp_chunks = [] \<rparr>)"

definition toy_vault_client :: VaultClient where
  "toy_vault_client =
     \<lparr> vc_http = client_builder 5, vc_base_url = ''https://gateway'', vc_bearer = ''token'',
       vc_key_source = AgentKey (arr32 (replicate 32 9)), vc_caller_identity_id = 7 \<rparr>"

definition toy_world :: world where
  "toy_world = \<lparr> sent = [], rng = sconst 1, fresh_uuids = sconst 3 \<rparr>"

definition metered_envelope :: json where
  "metered_envelope = JObject [(''data'', JObject [(''status'', JNumber (PosInt 200)),
     (''body'', JObject [(''data'', JString ''payload'')])])]"

lemma toy_gateway_answer: "read_answer (toy_gateway_lib metered_envelope) cap \<lparr> resp_status = 200, resp_chunks = [] \<rparr> = Inr (JString ''payload'')"
  by (simp add: read_answer_Inr is_success_def read_capped_def toy_gateway_lib_def revision_lib.defs gateway_lib.defs
      unwrap_metered_Inr metered_envelope_def)


end
