(* ===== verification/Vault_Client.thy ===== *)
theory Vault_Client
  imports Gateway
begin

text \<open>
  The vault client of \<open>vault.rs\<close>: its wire records, the pure builders and decryptors, and the
  operations on items.  The derived deserializers of the wire records are fields of
  \<open>vault_lib\<close>; the serializers of the two request bodies are written out, since what is sent is
  part of what is proved.
\<close>

section \<open>Wire records\<close>

datatype VaultAccessLevel = VRead | VWrite | VAdmin

fun access_rank :: "VaultAccessLevel \<Rightarrow> nat" where
  "access_rank VRead = 0" | "access_rank VWrite = 1" | "access_rank VAdmin = 2"

record SyncMembership =
  sm_vault_id :: uuid
  sm_identity_id :: uuid
  sm_access_level :: VaultAccessLevel
  sm_revoked_at :: "timestamp option"

record VaultRecord =
  vr_vault_id :: uuid
  name_ciphertext :: string
  description_ciphertext :: "string option"
  vr_vault_key_version :: "i32 option"
  vr_wrapped_vault_key :: "string option"
  requires_approval :: json
  vr_created_at :: string
  vr_updated_at :: string

record ItemSummary =
  is_item_id :: uuid
  is_vault_id :: uuid
  is_title_ciphertext :: string
  is_tags_ciphertext :: "string option"
  is_metadata_ciphertext :: string
  is_title_blind_index :: string
  is_updated_at :: ItemRevision
  is_trashed_at :: "string option"

record SyncResponse =
  sync_vaults :: "VaultRecord list"
  item_overviews :: "ItemSummary list"
  memberships :: "SyncMembership list"
  server_time :: string

record ItemRecord =
  ir_item_id :: uuid
  ir_vault_id :: uuid
  ir_title_ciphertext :: string
  ir_content_ciphertext :: string
  ir_tags_ciphertext :: "string option"
  ir_title_blind_index :: string
  ir_content_key_wrap :: string
  ir_metadata_ciphertext :: string
  ir_sensitive :: bool
  ir_vault_key_version :: "i32 option"
  ir_created_at :: string
  ir_updated_at :: ItemRevision
  ir_archived_at :: "string option"
  ir_trashed_at :: "string option"

record AccountSecretsRecord =
  asr_kdf_params :: json
  asr_recovery_kdf_params :: json
  asr_account_key_wrap :: string
  asr_account_kem_private_wrap :: string
  asr_account_signing_private_wrap :: string
  asr_recovery_key_wrap :: string

record IdentityRecord =
  idr_kem_public_key :: string
  idr_signing_public_key :: string

record UpdateItemRequest =
  rq_title_ciphertext :: string
  rq_content_ciphertext :: string
  rq_tags_ciphertext :: "string option"
  rq_title_blind_index :: string
  rq_content_key_wrap :: string
  rq_metadata_ciphertext :: string
  rq_sensitive :: bool
  wrapping_key_version :: "i32 option"

text \<open>\<open>CreateItemRequest\<close> has one field more.\<close>

record CreateItemRequest = UpdateItemRequest +
  rq_item_id :: uuid

record DecryptedVault =
  dv_vault_id :: uuid
  dv_name :: string
  dv_key :: VaultKey
  dv_key_version :: i32
  dv_access :: "VaultAccessLevel option"

record DecryptedItem =
  di_item_id :: uuid
  di_title :: string
  di_tags :: "string list"
  di_sensitive :: bool
  di_content :: ItemContent
  di_metadata_json :: string
  di_updated_at :: ItemRevision
  di_trashed_at :: "ServiceTimestamp option"

record DecryptedItemSummary =
  ds_item_id :: uuid
  ds_title :: string
  ds_updated_at :: ItemRevision
  ds_trashed_at :: "ServiceTimestamp option"

datatype ItemListState = Active | Trashed

datatype TrashOutcome = OTrashed | OAlreadyTrashed

record TrashResult =
  trash_outcome :: TrashOutcome
  trash_updated_at :: ItemRevision

datatype ApprovalStatus = Pending | Approved | Denied | Expired

record vault_lib = gateway_lib +
  kdf_params_from_value :: "json \<Rightarrow> KdfParams option"
  account_secrets_from_value :: "json \<Rightarrow> AccountSecretsRecord option"
  identity_from_value :: "json \<Rightarrow> IdentityRecord option"
  sync_from_value :: "json \<Rightarrow> (VaultRecord list \<times> ItemSummary list \<times> json list \<times> string) option"
    \<comment> \<open>vaults, overviews, raw membership rows, server time\<close>
  membership_from_value :: "json \<Rightarrow> SyncMembership option"
  item_summaries_from_value :: "json \<Rightarrow> ItemSummary list option"
  item_record_from_value :: "json \<Rightarrow> ItemRecord option"
  trash_from_value :: "json \<Rightarrow> TrashResult option"
  approval_status_from_value :: "json \<Rightarrow> ApprovalStatus option"

section \<open>Reading\<close>

definition readable_memberships :: "'z vault_lib_scheme \<Rightarrow> json list \<Rightarrow> SyncMembership list" where
  "readable_memberships X rows = List.map_filter (membership_from_value X) rows"

definition sync_response :: "'z vault_lib_scheme \<Rightarrow> json \<Rightarrow> SyncResponse option" where
  "sync_response X v = map_option (\<lambda>(vs, is, rows, t).
     \<lparr> sync_vaults = vs, item_overviews = is, memberships = readable_memberships X rows, server_time = t \<rparr>)
     (sync_from_value X v)"

text \<open>\<open>Iterator::min\<close> returns the first of the least elements.\<close>

definition caller_access :: "SyncMembership list \<Rightarrow> uuid \<Rightarrow> uuid \<Rightarrow> VaultAccessLevel option" where
  "caller_access rows caller vault =
     (case map sm_access_level (filter (\<lambda>row. sm_identity_id row = caller \<and> sm_vault_id row = vault
              \<and> sm_revoked_at row = None) rows) of
        [] \<Rightarrow> None
      | l # ls \<Rightarrow> Some (arg_min_list access_rank (l # ls)))"

definition item_trashed_at :: "'z revision_lib_scheme \<Rightarrow> string option \<Rightarrow> ServiceTimestamp option resolver_result" where
  "item_trashed_at X trashed_at =
     (case trashed_at of
        None \<Rightarrow> Inr None
      | Some t \<Rightarrow> map_err (\<lambda>_. Malformed ''item trashed_at'')
                   (and_then (ServiceTimestamp_new X t) (\<lambda>s. Inr (Some s))))"

fun item_write_error :: "ResolverError \<Rightarrow> ResolverError" where
  "item_write_error (ServerError status body) =
     (if status = 412 then Stale else if status = 423 then Rotating else ServerError status body)"
| "item_write_error other = other"

definition b64_decode :: "'z crypto_lib_scheme \<Rightarrow> string \<Rightarrow> string \<Rightarrow> bytes resolver_result" where
  "b64_decode X s field = ok_or (Malformed field) (base64_decode X s)"

definition assemble_account_secrets ::
  "'z vault_lib_scheme \<Rightarrow> AccountSecretsRecord \<Rightarrow> IdentityRecord \<Rightarrow> AccountSecrets resolver_result" where
  "assemble_account_secrets X rec ident =
     and_then (ok_or (Malformed ''kdf_params'') (kdf_params_from_value X (asr_kdf_params rec))) (\<lambda>kdf.
     and_then (ok_or (Malformed ''recovery_kdf_params'') (kdf_params_from_value X (asr_recovery_kdf_params rec))) (\<lambda>rkdf.
     and_then (b64_decode X (asr_account_key_wrap rec) ''account_key_wrap'') (\<lambda>akw.
     and_then (b64_decode X (asr_account_kem_private_wrap rec) ''account_kem_private_wrap'') (\<lambda>kpw.
     and_then (b64_decode X (asr_account_signing_private_wrap rec) ''account_signing_private_wrap'') (\<lambda>spw.
     and_then (b64_decode X (asr_recovery_key_wrap rec) ''recovery_key_wrap'') (\<lambda>rkw.
     and_then (b64_decode X (idr_kem_public_key ident) ''kem_public_key'') (\<lambda>kb.
     and_then (map_err (\<lambda>_. Malformed ''kem_public_key length'') (IdentityKemPublicKey_from_slice kb)) (\<lambda>kp.
     and_then (b64_decode X (idr_signing_public_key ident) ''signing_public_key'') (\<lambda>sb.
     and_then (map_err (\<lambda>_. Malformed ''signing_public_key length'') (IdentitySigningPublicKey_from_slice sb)) (\<lambda>sp.
       Inr \<lparr> kdf_params = kdf, recovery_kdf_params = rkdf, account_key_wrap = akw, account_kem_private_wrap = kpw,
             account_signing_private_wrap = spw, recovery_key_wrap = rkw,
             kem_public_key = kp, signing_public_key = sp \<rparr>))))))))))"

definition ensure_record_matches :: "uuid \<Rightarrow> uuid \<Rightarrow> ItemRecord \<Rightarrow> unit resolver_result" where
  "ensure_record_matches expected_vault_id expected_item_id rec =
     (if ir_item_id rec \<noteq> expected_item_id \<or> ir_vault_id rec \<noteq> expected_vault_id
      then Inl ResponseMismatch else Inr ())"

definition written_updated_at :: "'z vault_lib_scheme \<Rightarrow> uuid \<Rightarrow> uuid \<Rightarrow> json \<Rightarrow> ItemRevision resolver_result" where
  "written_updated_at X expected_vault_id expected_item_id value =
     and_then (ok_or (Malformed ''item record'') (item_record_from_value X value)) (\<lambda>rec.
     and_then (ensure_record_matches expected_vault_id expected_item_id rec) (\<lambda>_.
       Inr (ir_updated_at rec)))"

definition decrypt_item_record ::
  "'z vault_lib_scheme \<Rightarrow> VaultKey \<Rightarrow> uuid \<Rightarrow> uuid \<Rightarrow> ItemRecord \<Rightarrow> DecryptedItem resolver_result" where
  "decrypt_item_record X vault_key expected_vault_id expected_item_id rec =
     and_then (ensure_record_matches expected_vault_id expected_item_id rec) (\<lambda>_.
     and_then (item_trashed_at X (ir_trashed_at rec)) (\<lambda>trashed_at.
     let iid = uuid_as_bytes X expected_item_id in
     and_then (b64_decode X (ir_content_key_wrap rec) ''content_key_wrap'') (\<lambda>ck_wrap_bytes.
     and_then (b64_decode X (ir_content_ciphertext rec) ''content_ciphertext'') (\<lambda>content_ct_bytes.
     and_then (b64_decode X (ir_title_ciphertext rec) ''title_ciphertext'') (\<lambda>title_ct_bytes.
     and_then (b64_decode X (ir_metadata_ciphertext rec) ''metadata_ciphertext'') (\<lambda>metadata_ct_bytes.
     and_then (map_err Crypto (unwrap_item_content_key X vault_key iid ck_wrap_bytes)) (\<lambda>content_key.
     and_then (map_err Crypto (decrypt_item_with_content_key X content_key iid content_ct_bytes)) (\<lambda>content.
     and_then (map_err Crypto (decrypt_title X vault_key iid title_ct_bytes)) (\<lambda>title.
     and_then (case ir_tags_ciphertext rec of
                 Some tc \<Rightarrow> and_then (b64_decode X tc ''tags_ciphertext'') (\<lambda>tc_bytes.
                              map_err Crypto (decrypt_tags X vault_key iid tc_bytes))
               | None \<Rightarrow> Inr []) (\<lambda>tags.
     and_then (map_err Crypto (decrypt_metadata_json X vault_key iid metadata_ct_bytes)) (\<lambda>metadata_json.
       Inr \<lparr> di_item_id = expected_item_id, di_title = title, di_tags = tags, di_sensitive = ir_sensitive rec,
             di_content = content, di_metadata_json = metadata_json,
             di_updated_at = ir_updated_at rec, di_trashed_at = trashed_at \<rparr>)))))))))))"

definition decrypt_vault_record ::
  "'z crypto_lib_scheme \<Rightarrow> IdentityKemPrivateKey \<Rightarrow> VaultRecord \<Rightarrow> DecryptedVault resolver_result" where
  "decrypt_vault_record X private rec =
     and_then (ok_or (Malformed ''missing wrapped_vault_key'') (vr_wrapped_vault_key rec)) (\<lambda>wrapped.
     and_then (b64_decode X wrapped ''wrapped_vault_key'') (\<lambda>wrapped_bytes.
     and_then (map_err Crypto (unwrap_vault_key X private wrapped_bytes)) (\<lambda>vault_key.
     and_then (b64_decode X (name_ciphertext rec) ''name_ciphertext'') (\<lambda>name_ct_bytes.
     let name = (case decrypt_vault_name X vault_key (uuid_as_bytes X (vr_vault_id rec)) name_ct_bytes of
                   Inr n \<Rightarrow> n | Inl _ \<Rightarrow> ''(unreadable vault)'')
     in Inr \<lparr> dv_vault_id = vr_vault_id rec, dv_name = name, dv_key = vault_key,
              dv_key_version = (case vr_vault_key_version rec of Some n \<Rightarrow> n | None \<Rightarrow> 1), dv_access = None \<rparr>))))"

section \<open>Building requests\<close>

fun item_kind_str :: "ItemContent \<Rightarrow> string" where
  "item_kind_str (Login _) = ''login''"
| "item_kind_str (SecureNote _) = ''secure_note''"
| "item_kind_str (ApiCredential _) = ''api_credential''"
| "item_kind_str (Card _) = ''card''"
| "item_kind_str (Identity _) = ''identity''"
| "item_kind_str (Document _) = ''document''"
| "item_kind_str (SshKey _) = ''ssh_key''"
| "item_kind_str (Server _) = ''server''"
| "item_kind_str (Database _) = ''database''"
| "item_kind_str (BankAccount _) = ''bank_account''"
| "item_kind_str (Passport _) = ''passport''"
| "item_kind_str (DriverLicense _) = ''driver_license''"
| "item_kind_str (CryptoWallet _) = ''crypto_wallet''"

definition bool_text :: "bool \<Rightarrow> string" where
  "bool_text b = (if b then ''true'' else ''false'')"

definition quoted :: "string \<Rightarrow> string" where
  "quoted s = [CHR 0x22] @ s @ [CHR 0x22]"

text \<open>The format string of the metadata.\<close>

definition metadata_text :: "string \<Rightarrow> bool \<Rightarrow> bool \<Rightarrow> bool \<Rightarrow> string" where
  "metadata_text item_kind favorite sensitive reprompt =
     ''{'' @ quoted ''item_kind'' @ '':'' @ quoted item_kind @ '','' @ quoted ''favorite'' @ '':'' @ bool_text favorite
     @ '','' @ quoted ''sensitive'' @ '':'' @ bool_text sensitive
     @ '','' @ quoted ''reprompt'' @ '':'' @ bool_text reprompt @ ''}''"

definition json_as_bool :: "json \<Rightarrow> bool option" where
  "json_as_bool v = (case v of JBool b \<Rightarrow> Some b | _ \<Rightarrow> None)"

definition json_flag :: "string \<Rightarrow> json \<Rightarrow> bool" where
  "json_flag k v = (case Option.bind (json_get k v) json_as_bool of Some b \<Rightarrow> b | None \<Rightarrow> False)"

definition metadata_flags :: "'z error_lib_scheme \<Rightarrow> string \<Rightarrow> bool \<times> bool" where
  "metadata_flags X metadata_json =
     (case json_from_str X metadata_json of
        None \<Rightarrow> (False, False)
      | Some value \<Rightarrow> (json_flag ''favorite'' value, json_flag ''reprompt'' value))"

definition encrypt_optional_tags ::
  "'z item_lib_scheme \<Rightarrow> VaultKey \<Rightarrow> bytes \<Rightarrow> string list \<Rightarrow> entropy \<Rightarrow> bytes option crypto_result \<times> entropy" where
  "encrypt_optional_tags X vault_key iid tags e =
     (if tags = [] then (Inr None, e)
      else case encrypt_tags X vault_key iid tags e of (r, e') \<Rightarrow> (and_then r (\<lambda>t. Inr (Some t)), e'))"

definition build_update_request ::
  "'z item_lib_scheme \<Rightarrow> VaultKey \<Rightarrow> uuid \<Rightarrow> ItemContentKey \<Rightarrow> string \<Rightarrow> ItemContent \<Rightarrow> string \<Rightarrow> string list
    \<Rightarrow> bool \<Rightarrow> bool \<Rightarrow> bool \<Rightarrow> i32 \<Rightarrow> entropy \<Rightarrow> UpdateItemRequest resolver_result \<times> entropy" where
  "build_update_request X vault_key item_id content_key content_key_wrap_b64 content title tags
       sensitive favorite reprompt version e =
     (let iid = uuid_as_bytes X item_id;
          (title_ct, e) = encrypt_title X vault_key iid title e in
      case encrypt_item_with_content_key X content_key iid content e of (Inl er, e) \<Rightarrow> (Inl (Crypto er), e)
      | (Inr content_ct, e) \<Rightarrow>
      (case encrypt_optional_tags X vault_key iid tags e of (Inl er, e) \<Rightarrow> (Inl (Crypto er), e)
       | (Inr tags_ct, e) \<Rightarrow>
       let (metadata_ct, e) = encrypt_metadata_json X vault_key iid
             (metadata_text (item_kind_str content) favorite sensitive reprompt) e
       in (Inr \<lparr> rq_title_ciphertext = base64_encode X title_ct, rq_content_ciphertext = base64_encode X content_ct,
                 rq_tags_ciphertext = map_option (base64_encode X) tags_ct, rq_title_blind_index = [],
                 rq_content_key_wrap = content_key_wrap_b64, rq_metadata_ciphertext = base64_encode X metadata_ct,
                 rq_sensitive = sensitive, wrapping_key_version = Some version \<rparr>, e)))"

definition build_create_request ::
  "'z item_lib_scheme \<Rightarrow> VaultKey \<Rightarrow> uuid \<Rightarrow> ItemContent \<Rightarrow> string \<Rightarrow> string list \<Rightarrow> bool \<Rightarrow> bool \<Rightarrow> i32
    \<Rightarrow> entropy \<Rightarrow> CreateItemRequest resolver_result \<times> entropy" where
  "build_create_request X vault_key item_id content title tags favorite sensitive version e =
     (let iid = uuid_as_bytes X item_id;
          (content_key, e) = generate_item_content_key e;
          (title_ct, e) = encrypt_title X vault_key iid title e in
      case encrypt_item_with_content_key X content_key iid content e of (Inl er, e) \<Rightarrow> (Inl (Crypto er), e)
      | (Inr content_ct, e) \<Rightarrow>
      (case encrypt_optional_tags X vault_key iid tags e of (Inl er, e) \<Rightarrow> (Inl (Crypto er), e)
       | (Inr tags_ct, e) \<Rightarrow>
       let (ck_wrap, e) = wrap_item_content_key X vault_key iid content_key e;
           (metadata_ct, e) = encrypt_metadata_json X vault_key iid
             (metadata_text (item_kind_str content) favorite sensitive False) e
       in (Inr \<lparr> rq_title_ciphertext = base64_encode X title_ct, rq_content_ciphertext = base64_encode X content_ct,
                 rq_tags_ciphertext = map_option (base64_encode X) tags_ct, rq_title_blind_index = [],
                 rq_content_key_wrap = base64_encode X ck_wrap, rq_metadata_ciphertext = base64_encode X metadata_ct,
                 rq_sensitive = sensitive, wrapping_key_version = Some version, rq_item_id = item_id \<rparr>, e)))"

text \<open>The derived serializers into a JSON value, whose map keeps its keys in order; \<open>None\<close> fields
  are skipped.\<close>

definition json_i32 :: "i32 \<Rightarrow> json" where
  "json_i32 n = JNumber (if 0 \<le>s n then PosInt (scast n) else NegInt (scast n))"

definition update_entries :: "'z UpdateItemRequest_scheme \<Rightarrow> (string \<times> json) list" where
  "update_entries r =
     [(''content_ciphertext'', JString (rq_content_ciphertext r)), (''content_key_wrap'', JString (rq_content_key_wrap r))]"

definition update_tail :: "'z UpdateItemRequest_scheme \<Rightarrow> (string \<times> json) list" where
  "update_tail r =
     [(''metadata_ciphertext'', JString (rq_metadata_ciphertext r)), (''sensitive'', JBool (rq_sensitive r))]
     @ (case rq_tags_ciphertext r of Some t \<Rightarrow> [(''tags_ciphertext'', JString t)] | None \<Rightarrow> [])
     @ [(''title_blind_index'', JString (rq_title_blind_index r)), (''title_ciphertext'', JString (rq_title_ciphertext r))]
     @ (case wrapping_key_version r of Some n \<Rightarrow> [(''wrapping_key_version'', json_i32 n)] | None \<Rightarrow> [])"

definition update_to_value :: "UpdateItemRequest \<Rightarrow> json" where
  "update_to_value r = JObject (update_entries r @ update_tail r)"

definition create_to_value :: "'z crypto_lib_scheme \<Rightarrow> CreateItemRequest \<Rightarrow> json" where
  "create_to_value X r =
     JObject (update_entries r @ [(''item_id'', JString (uuid_to_string X (rq_item_id r)))] @ update_tail r)"

section \<open>Operations\<close>

definition items_path :: "'z crypto_lib_scheme \<Rightarrow> uuid \<Rightarrow> string" where
  "items_path X vault_id = ''/vaults/'' @ uuid_to_string X vault_id @ ''/items''"

definition item_path :: "'z crypto_lib_scheme \<Rightarrow> uuid \<Rightarrow> uuid \<Rightarrow> string" where
  "item_path X vault_id item_id = items_path X vault_id @ ''/'' @ uuid_to_string X item_id"

text \<open>Running a builder on the world's entropy.\<close>

definition op_build :: "(entropy \<Rightarrow> 'a resolver_result \<times> entropy) \<Rightarrow> 'a op" where
  "op_build f = (\<lambda>w. case f (rng w) of (r, e) \<Rightarrow> (r, w\<lparr> rng := e \<rparr>))"

definition create_item ::
  "'z vault_lib_scheme \<Rightarrow> server \<Rightarrow> VaultClient \<Rightarrow> uuid \<Rightarrow> VaultKey \<Rightarrow> ItemContent \<Rightarrow> string \<Rightarrow> string list
    \<Rightarrow> bool \<Rightarrow> i32 \<Rightarrow> uuid op" where
  "create_item X S self vault_id vault_key content title tags sensitive version =
     op_then op_uuid (\<lambda>item_id.
     op_then (op_build (build_create_request X vault_key item_id content title tags False sensitive version)) (\<lambda>req.
     op_then (call X S self Post (items_path X vault_id) (Some (create_to_value X req))) (\<lambda>_.
       op_return item_id)))"

fun rotating_error :: "ResolverError \<Rightarrow> ResolverError" where
  "rotating_error (ServerError status body) = (if status = 423 then Rotating else ServerError status body)"
| "rotating_error other = other"

definition create_item_with_id ::
  "'z vault_lib_scheme \<Rightarrow> server \<Rightarrow> VaultClient \<Rightarrow> uuid \<Rightarrow> uuid \<Rightarrow> VaultKey \<Rightarrow> ItemContent \<Rightarrow> string \<Rightarrow> string list
    \<Rightarrow> bool \<Rightarrow> bool \<Rightarrow> i32 \<Rightarrow> ItemRevision op" where
  "create_item_with_id X S self vault_id item_id vault_key content title tags favorite sensitive version =
     op_then (op_build (build_create_request X vault_key item_id content title tags favorite sensitive version)) (\<lambda>req.
     op_then (op_map_err rotating_error
       (call X S self Post (items_path X vault_id) (Some (create_to_value X req)))) (\<lambda>value.
       op_lift (written_updated_at X vault_id item_id value)))"

definition list_vaults :: "'z vault_lib_scheme \<Rightarrow> server \<Rightarrow> VaultClient \<Rightarrow> DecryptedVault list op" where
  "list_vaults X S self =
     op_then (op_lift (key_source_kem_private X (vc_key_source self))) (\<lambda>kem.
     op_then (call X S self Get ''/sync'' None) (\<lambda>v.
     op_then (op_lift (ok_or (Malformed ''sync'') (sync_response X v))) (\<lambda>sync.
       op_lift (collect_results
         (\<lambda>record. and_then (decrypt_vault_record X kem record) (\<lambda>vault.
            Inr (vault\<lparr> dv_access := caller_access (memberships sync) (vc_caller_identity_id self) (vr_vault_id record) \<rparr>)))
         (filter (\<lambda>r. vr_wrapped_vault_key r \<noteq> None) (sync_vaults sync))))))"

definition decrypt_summary ::
  "'z vault_lib_scheme \<Rightarrow> uuid \<Rightarrow> VaultKey \<Rightarrow> ItemListState \<Rightarrow> ItemSummary \<Rightarrow> DecryptedItemSummary resolver_result" where
  "decrypt_summary X vault_id vault_key st s =
     (if is_vault_id s \<noteq> vault_id then Inl ResponseMismatch
      else and_then (item_trashed_at X (is_trashed_at s)) (\<lambda>trashed_at.
        if (st = Trashed) \<noteq> (trashed_at \<noteq> None) then Inl (Malformed ''item summary lifecycle'')
        else and_then (b64_decode X (is_title_ciphertext s) ''title_ciphertext'') (\<lambda>title_ct.
             and_then (map_err Crypto (decrypt_title X vault_key (uuid_as_bytes X (is_item_id s)) title_ct)) (\<lambda>title.
               Inr \<lparr> ds_item_id = is_item_id s, ds_title = title, ds_updated_at = is_updated_at s,
                     ds_trashed_at = trashed_at \<rparr>))))"

definition list_items_in_state ::
  "'z vault_lib_scheme \<Rightarrow> server \<Rightarrow> VaultClient \<Rightarrow> uuid \<Rightarrow> VaultKey \<Rightarrow> ItemListState \<Rightarrow> DecryptedItemSummary list op" where
  "list_items_in_state X S self vault_id vault_key st =
     op_then (call X S self Get
       (case st of Active \<Rightarrow> items_path X vault_id | Trashed \<Rightarrow> items_path X vault_id @ ''?state=trashed'') None) (\<lambda>v.
     op_then (op_lift (ok_or (Malformed ''item summaries'') (item_summaries_from_value X v))) (\<lambda>summaries.
       op_lift (collect_results (decrypt_summary X vault_id vault_key st) summaries)))"

definition list_items ::
  "'z vault_lib_scheme \<Rightarrow> server \<Rightarrow> VaultClient \<Rightarrow> uuid \<Rightarrow> VaultKey \<Rightarrow> DecryptedItemSummary list op" where
  "list_items X S self vault_id vault_key = list_items_in_state X S self vault_id vault_key Active"

definition get_item ::
  "'z vault_lib_scheme \<Rightarrow> server \<Rightarrow> VaultClient \<Rightarrow> uuid \<Rightarrow> uuid \<Rightarrow> VaultKey \<Rightarrow> DecryptedItem op" where
  "get_item X S self vault_id item_id vault_key =
     op_then (call X S self Get (item_path X vault_id item_id) None) (\<lambda>v.
     op_then (op_lift (ok_or (Malformed ''item record'') (item_record_from_value X v))) (\<lambda>rec.
       op_lift (decrypt_item_record X vault_key vault_id item_id rec)))"

definition copy_item ::
  "'z vault_lib_scheme \<Rightarrow> server \<Rightarrow> VaultClient \<Rightarrow> uuid \<Rightarrow> uuid \<Rightarrow> VaultKey \<Rightarrow> uuid \<Rightarrow> VaultKey \<Rightarrow> i32 \<Rightarrow> uuid op" where
  "copy_item X S self source_vault_id item_id source_vault_key target_vault_id target_vault_key target_key_version =
     op_then (get_item X S self source_vault_id item_id source_vault_key) (\<lambda>item.
       create_item X S self target_vault_id target_vault_key (di_content item) (di_title item) (di_tags item)
         (di_sensitive item) target_key_version)"

definition trash_item ::
  "'z vault_lib_scheme \<Rightarrow> server \<Rightarrow> VaultClient \<Rightarrow> uuid \<Rightarrow> uuid \<Rightarrow> ItemRevision option \<Rightarrow> TrashResult op" where
  "trash_item X S self vault_id item_id if_match_updated_at =
     op_then (op_map_err item_write_error
       (call_with_options X S self Post (item_path X vault_id item_id @ ''/trash'') None if_match_updated_at MAX_GATEWAY_BODY))
       (\<lambda>response. op_lift (ok_or (Malformed ''trash outcome'') (trash_from_value X response)))"

definition move_item ::
  "'z vault_lib_scheme \<Rightarrow> server \<Rightarrow> VaultClient \<Rightarrow> uuid \<Rightarrow> uuid \<Rightarrow> VaultKey \<Rightarrow> uuid \<Rightarrow> VaultKey \<Rightarrow> i32 \<Rightarrow> uuid op" where
  "move_item X S self source_vault_id item_id source_vault_key target_vault_id target_vault_key target_key_version =
     op_then (copy_item X S self source_vault_id item_id source_vault_key target_vault_id target_vault_key target_key_version)
       (\<lambda>new_item_id. op_then (trash_item X S self source_vault_id item_id None) (\<lambda>_. op_return new_item_id))"

fun update_error :: "ResolverError \<Rightarrow> ResolverError" where
  "update_error (ServerError status body) =
     (if status = 409 then KeyVersion else item_write_error (ServerError status body))"
| "update_error other = item_write_error other"

definition update_item ::
  "'z vault_lib_scheme \<Rightarrow> server \<Rightarrow> VaultClient \<Rightarrow> uuid \<Rightarrow> uuid \<Rightarrow> VaultKey \<Rightarrow> ItemContent \<Rightarrow> string \<Rightarrow> string list
    \<Rightarrow> bool option \<Rightarrow> bool \<Rightarrow> i32 \<Rightarrow> ItemRevision option \<Rightarrow> ItemRevision op" where
  "update_item X S self vault_id item_id vault_key content title tags favorite sensitive version if_match_updated_at =
     op_then (call X S self Get (item_path X vault_id item_id) None) (\<lambda>v.
     op_then (op_lift (ok_or (Malformed ''item'') (item_record_from_value X v))) (\<lambda>rec.
     op_then (op_lift (ensure_record_matches vault_id item_id rec)) (\<lambda>_.
     op_then (op_lift (b64_decode X (ir_content_key_wrap rec) ''content_key_wrap'')) (\<lambda>wrap_bytes.
     op_then (op_lift (map_err Crypto (unwrap_item_content_key X vault_key (uuid_as_bytes X item_id) wrap_bytes))) (\<lambda>content_key.
     op_then (op_lift (b64_decode X (ir_metadata_ciphertext rec) ''metadata_ciphertext'')) (\<lambda>metadata_ct_bytes.
     op_then (op_lift (map_err Crypto (decrypt_metadata_json X vault_key (uuid_as_bytes X item_id) metadata_ct_bytes))) (\<lambda>existing_metadata.
     let (stored_favorite, reprompt) = metadata_flags X existing_metadata in
     op_then (op_build (build_update_request X vault_key item_id content_key (ir_content_key_wrap rec) content title tags
       sensitive (case favorite of Some b \<Rightarrow> b | None \<Rightarrow> stored_favorite) reprompt version)) (\<lambda>req.
     op_then (op_map_err update_error
       (call_with_options X S self Patch (item_path X vault_id item_id) (Some (update_to_value req))
         if_match_updated_at MAX_GATEWAY_BODY)) (\<lambda>value.
       op_lift (written_updated_at X vault_id item_id value))))))))))"

definition delete_item :: "'z vault_lib_scheme \<Rightarrow> server \<Rightarrow> VaultClient \<Rightarrow> uuid \<Rightarrow> uuid \<Rightarrow> unit op" where
  "delete_item X S self vault_id item_id =
     op_then (call X S self Delete (item_path X vault_id item_id) None) (\<lambda>_. op_return ())"

definition restore_item :: "'z vault_lib_scheme \<Rightarrow> server \<Rightarrow> VaultClient \<Rightarrow> uuid \<Rightarrow> uuid \<Rightarrow> unit op" where
  "restore_item X S self vault_id item_id =
     op_then (call X S self Post (item_path X vault_id item_id @ ''/restore'') None) (\<lambda>_. op_return ())"

definition get_approval_status :: "'z vault_lib_scheme \<Rightarrow> server \<Rightarrow> VaultClient \<Rightarrow> uuid \<Rightarrow> ApprovalStatus op" where
  "get_approval_status X S self approval_id =
     op_then (call X S self Get (''/approvals/'' @ uuid_to_string X approval_id) None) (\<lambda>v.
       op_lift (ok_or (Malformed ''approval record'') (approval_status_from_value X v)))"

end
