(* ===== verification/Vault_Items.thy ===== *)
theory Vault_Items
  imports Vault_Client
begin

text \<open>
  The properties of the vault client's item operations: what is written can be read back, a move
  never loses an item, an update keeps what it must, for every behaviour of the service.
\<close>

section \<open>What is written can be read\<close>

text \<open>A request body carries an item if every ciphertext in it opens to its part of the item, and a
  record stores a request if the service kept the fields it was sent.\<close>

definition carries_tags :: "'z item_lib_scheme \<Rightarrow> VaultKey \<Rightarrow> bytes \<Rightarrow> string list \<Rightarrow> string option \<Rightarrow> bool" where
  "carries_tags X vk iid tags ct \<longleftrightarrow>
     (case ct of None \<Rightarrow> tags = []
      | Some s \<Rightarrow> \<exists>b. base64_decode X s = Some b \<and> decrypt_tags X vk iid b = Inr tags)"

definition carries ::
  "'z item_lib_scheme \<Rightarrow> VaultKey \<Rightarrow> ItemContentKey \<Rightarrow> bytes \<Rightarrow> ItemContent \<Rightarrow> string \<Rightarrow> string list \<Rightarrow> bool \<Rightarrow> string
    \<Rightarrow> 'y UpdateItemRequest_scheme \<Rightarrow> bool" where
  "carries X vk ck iid content title tags sensitive metadata req \<longleftrightarrow>
     (\<exists>b. base64_decode X (rq_content_key_wrap req) = Some b \<and> unwrap_item_content_key X vk iid b = Inr ck)
   \<and> (\<exists>b. base64_decode X (rq_content_ciphertext req) = Some b \<and> decrypt_item_with_content_key X ck iid b = Inr content)
   \<and> (\<exists>b. base64_decode X (rq_title_ciphertext req) = Some b \<and> decrypt_title X vk iid b = Inr title)
   \<and> (\<exists>b. base64_decode X (rq_metadata_ciphertext req) = Some b \<and> decrypt_metadata_json X vk iid b = Inr metadata)
   \<and> carries_tags X vk iid tags (rq_tags_ciphertext req)
   \<and> rq_sensitive req = sensitive"

definition stores :: "uuid \<Rightarrow> uuid \<Rightarrow> 'y UpdateItemRequest_scheme \<Rightarrow> ItemRecord \<Rightarrow> bool" where
  "stores vault_id item_id req rec \<longleftrightarrow>
     ir_vault_id rec = vault_id \<and> ir_item_id rec = item_id
   \<and> ir_title_ciphertext rec = rq_title_ciphertext req \<and> ir_content_ciphertext rec = rq_content_ciphertext req
   \<and> ir_tags_ciphertext rec = rq_tags_ciphertext req \<and> ir_content_key_wrap rec = rq_content_key_wrap req
   \<and> ir_metadata_ciphertext rec = rq_metadata_ciphertext req \<and> ir_sensitive rec = rq_sensitive req"

lemma is_ascii_append [simp]: "is_ascii (s @ t) \<longleftrightarrow> is_ascii s \<and> is_ascii t"
  by (auto simp: is_ascii_def)

lemma item_kind_ascii: "is_ascii (item_kind_str content)"
  by (cases content) (simp_all add: is_ascii_def)

lemma str_ok_metadata_text: "is_ascii kind \<Longrightarrow> str_ok (metadata_text kind f s r)"
  by (rule str_ok_ascii) (auto simp: metadata_text_def quoted_def bool_text_def is_ascii_def)

lemma encrypt_optional_tags_carries:
  assumes "aead_laws X" and "base64_laws X" and "item_json_laws X"
    and "encrypt_optional_tags X vk iid tags e = (Inr ct, e')"
  shows "carries_tags X vk iid tags (map_option (base64_encode X) ct)"
proof (cases "tags = []")
  case False
  then obtain b where "encrypt_tags X vk iid tags e = (Inr b, e')" and "ct = Some b"
    using assms(4) by (auto simp: encrypt_optional_tags_def and_then_eq_Inr split: prod.splits)
  with tags_round_trip [OF assms(1,3) this(1)] show ?thesis
    by (simp add: carries_tags_def base64_round_trip [OF assms(2)])
qed (use assms(4) in \<open>simp add: encrypt_optional_tags_def carries_tags_def\<close>)

lemma open_parts:
  assumes "aead_laws X"
  shows "encrypt_title X vk iid title e = (b, e') \<Longrightarrow> str_ok title \<Longrightarrow> decrypt_title X vk iid b = Inr title"
    and "encrypt_metadata_json X vk iid m e = (b, e') \<Longrightarrow> str_ok m \<Longrightarrow> decrypt_metadata_json X vk iid b = Inr m"
    and "wrap_item_content_key X vk iid ck e = (b, e') \<Longrightarrow> unwrap_item_content_key X vk iid b = Inr ck"
  using title_slot.open_seal [OF assms, of title vk iid e] metadata_slot.open_seal [OF assms, of m vk iid e]
    item_key_slot.open_seal [OF assms TrueI, of vk iid ck e]
  by auto

lemma build_update_request_carries:
  assumes laws: "aead_laws X" "base64_laws X" "item_json_laws X" and "str_ok title"
    and wrap: "base64_decode X wrap = Some b" "unwrap_item_content_key X vk (uuid_as_bytes X item_id) b = Inr ck"
    and built: "build_update_request X vk item_id ck wrap content title tags sensitive favorite reprompt version e = (Inr req, e')"
  shows "carries X vk ck (uuid_as_bytes X item_id) content title tags sensitive
      (metadata_text (item_kind_str content) favorite sensitive reprompt) req
    \<and> rq_content_key_wrap req = wrap \<and> wrapping_key_version req = Some version"
  using built wrap
  by (auto simp: build_update_request_def carries_def Let_def \<open>str_ok title\<close> str_ok_metadata_text item_kind_ascii
      base64_round_trip [OF laws(2)]
      dest!: item_body_round_trip [OF laws(1,3)] encrypt_optional_tags_carries [OF laws] open_parts [OF laws(1)]
      split: prod.splits sum.splits)

lemma build_create_request_carries:
  assumes laws: "aead_laws X" "base64_laws X" "item_json_laws X" and "str_ok title"
    and built: "build_create_request X vk item_id content title tags favorite sensitive version e = (Inr req, e')"
  shows "\<exists>ck. carries X vk ck (uuid_as_bytes X item_id) content title tags sensitive
      (metadata_text (item_kind_str content) favorite sensitive False) req
    \<and> rq_item_id req = item_id \<and> wrapping_key_version req = Some version"
  using built
  by (auto simp: build_create_request_def carries_def Let_def \<open>str_ok title\<close> str_ok_metadata_text item_kind_ascii
      base64_round_trip [OF laws(2)]
      dest!: item_body_round_trip [OF laws(1,3)] encrypt_optional_tags_carries [OF laws] open_parts [OF laws(1)]
      split: prod.splits sum.splits)

lemma decrypt_stored:
  assumes "carries X vk ck (uuid_as_bytes X item_id) content title tags sensitive metadata req"
    and "stores vault_id item_id req rec" and "item_trashed_at X (ir_trashed_at rec) = Inr t"
  shows "decrypt_item_record X vk vault_id item_id rec = Inr
      \<lparr> di_item_id = item_id, di_title = title, di_tags = tags, di_sensitive = sensitive, di_content = content,
        di_metadata_json = metadata, di_updated_at = ir_updated_at rec, di_trashed_at = t \<rparr>"
  using assms
  by (auto simp: decrypt_item_record_def carries_def carries_tags_def stores_def ensure_record_matches_def
      b64_decode_def Let_def split: option.splits)

section \<open>Runs of operations\<close>

lemma op_thenE:
  assumes "op_then m f w = (r, w')"
  obtains e where "m w = (Inl e, w')" "r = Inl e" | x w1 where "m w = (Inr x, w1)" "f x w1 = (r, w')"
  using assms by (auto simp: op_then_def split: prod.splits sum.splits)

lemma op_lift_eq: "op_lift a w = (r, w') \<longleftrightarrow> a = r \<and> w' = w"
  by (auto simp: op_lift_def)

lemma op_lift_then: "op_lift (and_then a f) = op_then (op_lift a) (\<lambda>x. op_lift (f x))"
  by (cases a) (simp_all add: op_then_def op_lift_def)

lemma op_return_eq: "op_return x w = (r, w') \<longleftrightarrow> r = Inr x \<and> w' = w"
  by (auto simp: op_return_def op_lift_def)

lemma op_map_err_eq: "op_map_err g m w = (r, w') \<longleftrightarrow> (\<exists>a. m w = (a, w') \<and> map_err g a = r)"
  by (auto simp: op_map_err_def split: prod.splits)

text \<open>The service accepted the last request of a history.\<close>

definition accepted :: "'z gateway_lib_scheme \<Rightarrow> server \<Rightarrow> gateway_request list \<Rightarrow> json \<Rightarrow> bool" where
  "accepted X S history t \<longleftrightarrow> (\<exists>resp. S history = Inr resp \<and> read_answer X MAX_GATEWAY_BODY resp = Inr t)"

lemma call_Inr:
  assumes "call X S self method path body w = (Inr t, w')"
  shows "w' = w\<lparr> sent := sent w @ [request_of self method path body None] \<rparr> \<and> accepted X S (sent w') t"
  using call_sent [OF assms] assms
  by (auto simp: call_def call_with_options_eq accepted_def Let_def and_then_eq_Inr map_err_eq_Inr)

lemma op_build_eq: "op_build f w = (r, w') \<longleftrightarrow> (\<exists>e. f (rng w) = (r, e) \<and> w' = w\<lparr> rng := e \<rparr>)"
  by (auto simp: op_build_def split: prod.splits)

lemma get_item_sent:
  assumes "get_item X S self vault_id item_id vk w = (r, w')"
  shows "w' = w\<lparr> sent := sent w @ [request_of self Get (item_path X vault_id item_id) None None] \<rparr>"
  using assms unfolding get_item_def
  by (auto elim!: op_thenE simp: op_lift_eq dest!: call_sent)

lemma get_item_Inr:
  assumes "get_item X S self vault_id item_id vk w = (Inr item, w')"
  shows "\<exists>v rec. accepted X S (sent w') v \<and> item_record_from_value X v = Some rec
      \<and> decrypt_item_record X vk vault_id item_id rec = Inr item"
  using assms unfolding get_item_def
  by (auto elim!: op_thenE simp: op_lift_eq ok_or_eq_Inr dest!: call_Inr)

lemma create_item_run:
  assumes "create_item X S self vault_id vk content title tags sensitive version w = (r, w')"
  shows "sent w' = sent w \<and> (\<exists>er. r = Inl er)
    \<or> (\<exists>item_id req e. build_create_request X vk item_id content title tags False sensitive version (rng w) = (Inr req, e)
        \<and> sent w' = sent w @ [request_of self Post (items_path X vault_id) (Some (create_to_value X req)) None]
        \<and> (\<forall>new. r = Inr new \<longrightarrow> new = item_id \<and> (\<exists>t. accepted X S (sent w') t)))"
proof -
  let ?id = "shd (fresh_uuids w)"
  from assms have "op_then (op_build (build_create_request X vk ?id content title tags False sensitive version))
      (\<lambda>req. op_then (call X S self Post (items_path X vault_id) (Some (create_to_value X req))) (\<lambda>_. op_return ?id))
      (w\<lparr> fresh_uuids := stl (fresh_uuids w) \<rparr>) = (r, w')"
    by (simp add: create_item_def op_then_Inr op_basic)
  then show ?thesis
  proof (rule op_thenE)
    fix req w2
    assume b: "op_build (build_create_request X vk ?id content title tags False sensitive version)
        (w\<lparr> fresh_uuids := stl (fresh_uuids w) \<rparr>) = (Inr req, w2)"
      and c: "op_then (call X S self Post (items_path X vault_id) (Some (create_to_value X req))) (\<lambda>_. op_return ?id) w2 = (r, w')"
    from b obtain e where e: "build_create_request X vk ?id content title tags False sensitive version (rng w) = (Inr req, e)"
      and w2: "sent w2 = sent w" by (auto simp: op_build_eq)
    have "sent w' = sent w2 @ [request_of self Post (items_path X vault_id) (Some (create_to_value X req)) None]
        \<and> (\<forall>new. r = Inr new \<longrightarrow> new = ?id \<and> (\<exists>t. accepted X S (sent w') t))"
      using c
    proof (rule op_thenE)
      fix t w3
      assume "call X S self Post (items_path X vault_id) (Some (create_to_value X req)) w2 = (Inr t, w3)"
        and "op_return ?id w3 = (r, w')"
      with call_Inr [OF this(1)] show ?thesis by (auto simp: op_return_eq)
    qed (auto dest!: call_sent)
    with e w2 show ?thesis by metis
  qed (auto simp: op_build_eq)
qed

lemma trash_item_sent:
  assumes "trash_item X S self vault_id item_id if_match w = (r, w')"
  shows "w' = w\<lparr> sent := sent w @ [request_of self Post (item_path X vault_id item_id @ ''/trash'') None if_match] \<rparr>"
  using assms unfolding trash_item_def
  by (auto elim!: op_thenE simp: op_map_err_eq op_lift_eq dest!: call_with_options_sent)

lemma decrypted_title_ok:
  assumes "aead_laws X" and "decrypt_item_record X vk vault_id item_id rec = Inr item"
  shows "str_ok (di_title item)"
  using assms(2) title_slot.open_exact [OF assms(1)]
  by (auto simp: decrypt_item_record_def Let_def result_simps)

text \<open>The answer to the last request of a history.\<close>

definition answer :: "'z gateway_lib_scheme \<Rightarrow> server \<Rightarrow> gateway_request list \<Rightarrow> json resolver_result" where
  "answer X S history = and_then (map_err transport (S history)) (read_answer X MAX_GATEWAY_BODY)"

lemma answer_eq_Inr: "answer X S history = Inr t \<longleftrightarrow> accepted X S history t"
  by (auto simp: answer_def accepted_def result_simps)

lemma answer_refused:
  assumes "S history = Inr resp" and "\<not> is_success (resp_status resp)" and "resp_status resp \<noteq> 403"
  shows "\<exists>body. answer X S history = Inl (ServerError (resp_status resp) body)"
  using assms by (auto simp: answer_def read_answer_def Let_def)

lemma call_with_options_run:
  "call_with_options X S self method path body if_match MAX_GATEWAY_BODY w = (r, w') \<longleftrightarrow>
     answer X S (sent w @ [request_of self method path body if_match]) = r
   \<and> w' = w\<lparr> sent := sent w @ [request_of self method path body if_match] \<rparr>"
  by (auto simp: call_with_options_eq answer_def Let_def)

text \<open>The stored state an update starts from.\<close>

definition update_base :: "'z vault_lib_scheme \<Rightarrow> VaultKey \<Rightarrow> uuid \<Rightarrow> uuid \<Rightarrow> ItemRecord \<Rightarrow> ItemContentKey \<Rightarrow> string \<Rightarrow> bool" where
  "update_base X vk vault_id item_id rec ck metadata \<longleftrightarrow>
     ir_item_id rec = item_id \<and> ir_vault_id rec = vault_id
   \<and> (\<exists>b. base64_decode X (ir_content_key_wrap rec) = Some b
        \<and> unwrap_item_content_key X vk (uuid_as_bytes X item_id) b = Inr ck)
   \<and> (\<exists>b. base64_decode X (ir_metadata_ciphertext rec) = Some b
        \<and> decrypt_metadata_json X vk (uuid_as_bytes X item_id) b = Inr metadata)"

lemma update_item_run:
  assumes "update_item X S self vault_id item_id vk content title tags favorite sensitive version if_match w = (r, w')"
  defines "get \<equiv> request_of self Get (item_path X vault_id item_id) None None"
  shows "sent w' = sent w @ [get] \<and> \<not> is_ok r
    \<or> (\<exists>v rec ck metadata req e e'. accepted X S (sent w @ [get]) v \<and> item_record_from_value X v = Some rec
        \<and> update_base X vk vault_id item_id rec ck metadata
        \<and> build_update_request X vk item_id ck (ir_content_key_wrap rec) content title tags sensitive
            (case favorite of Some b \<Rightarrow> b | None \<Rightarrow> fst (metadata_flags X metadata)) (snd (metadata_flags X metadata))
            version e = (Inr req, e')
        \<and> sent w' = sent w @ [get, request_of self Patch (item_path X vault_id item_id) (Some (update_to_value req)) if_match]
        \<and> r = and_then (map_err update_error (answer X S (sent w'))) (written_updated_at X vault_id item_id))"
proof -
  let ?w = "w\<lparr> sent := sent w @ [get] \<rparr>" and ?path = "item_path X vault_id item_id"
  let ?build = "\<lambda>rec ck metadata. build_update_request X vk item_id ck (ir_content_key_wrap rec) content title tags sensitive
      (case favorite of Some b \<Rightarrow> b | None \<Rightarrow> fst (metadata_flags X metadata)) (snd (metadata_flags X metadata)) version"
  let ?patch = "\<lambda>req. request_of self Patch ?path (Some (update_to_value req)) if_match"
  consider "w' = ?w" "\<not> is_ok r"
    | v rec ck metadata where "accepted X S (sent w @ [get]) v" "item_record_from_value X v = Some rec"
        "update_base X vk vault_id item_id rec ck metadata"
        "op_then (op_build (?build rec ck metadata)) (\<lambda>req.
           op_then (op_map_err update_error (call_with_options X S self Patch ?path (Some (update_to_value req)) if_match MAX_GATEWAY_BODY))
             (\<lambda>value. op_lift (written_updated_at X vault_id item_id value))) ?w = (r, w')"
    using assms(1) unfolding update_item_def call_def update_base_def b64_decode_def get_def
    by (elim op_thenE)
      (simp_all add: op_lift_eq call_with_options_run result_simps split_beta Let_def ensure_record_matches_def
        answer_eq_Inr [symmetric] split: if_splits)
  then show ?thesis
  proof cases
    case 2
    from 2(4) show ?thesis
    proof (rule op_thenE)
      fix req w1
      assume "op_build (?build rec ck metadata) ?w = (Inr req, w1)"
        and "op_then (op_map_err update_error (call_with_options X S self Patch ?path (Some (update_to_value req)) if_match MAX_GATEWAY_BODY))
             (\<lambda>value. op_lift (written_updated_at X vault_id item_id value)) w1 = (r, w')"
      then have "\<exists>e. ?build rec ck metadata (rng w) = (Inr req, e)" and "sent w' = sent w @ [get, ?patch req]"
          and "r = and_then (map_err update_error (answer X S (sent w'))) (written_updated_at X vault_id item_id)"
        by (auto elim!: op_thenE simp: op_build_eq op_map_err_eq call_with_options_run op_lift_eq)
      with 2(1-3) show ?thesis by blast
    qed (auto simp: op_build_eq)
  qed simp
qed

section \<open>Properties\<close>

text \<open>Items are read back as they were written.  If the service keeps the ciphertexts of a create
  request, reading the record returns the title, tags, content and sensitivity that were written,
  with metadata that names the item kind and the flags.  The same holds of an update, which in
  addition keeps the stored wrap of the item's content key and names the vault key version.\<close>

theorem stored_item_reads_back:
  assumes "aead_laws X" and "base64_laws X" and "item_json_laws X" and "str_ok title"
    and "item_trashed_at X (ir_trashed_at rec) = Inr t"
  shows "(build_create_request X vk item_id content title tags favorite sensitive version e = (Inr req, e')
        \<and> stores vault_id item_id req rec \<longrightarrow>
      decrypt_item_record X vk vault_id item_id rec = Inr
        \<lparr> di_item_id = item_id, di_title = title, di_tags = tags, di_sensitive = sensitive, di_content = content,
          di_metadata_json = metadata_text (item_kind_str content) favorite sensitive False,
          di_updated_at = ir_updated_at rec, di_trashed_at = t \<rparr>)
    \<and> (base64_decode X wrap = Some b \<and> unwrap_item_content_key X vk (uuid_as_bytes X item_id) b = Inr ck
        \<and> build_update_request X vk item_id ck wrap content title tags sensitive favorite reprompt version e = (Inr req', e')
        \<and> stores vault_id item_id req' rec \<longrightarrow>
      rq_content_key_wrap req' = wrap \<and> wrapping_key_version req' = Some version \<and>
      decrypt_item_record X vk vault_id item_id rec = Inr
        \<lparr> di_item_id = item_id, di_title = title, di_tags = tags, di_sensitive = sensitive, di_content = content,
          di_metadata_json = metadata_text (item_kind_str content) favorite sensitive reprompt,
          di_updated_at = ir_updated_at rec, di_trashed_at = t \<rparr>)"
  using build_create_request_carries [OF assms(1-4)] build_update_request_carries [OF assms(1-4)]
    decrypt_stored [where req = req, OF _ _ assms(5)] decrypt_stored [where req = req', OF _ _ assms(5)]
  by metis

text \<open>The two requests of a copy: the read returned a record that decrypts to an item, and the create
  carried that item under the target vault's key and was accepted.\<close>

definition copy_accepted ::
  "'z vault_lib_scheme \<Rightarrow> server \<Rightarrow> VaultClient \<Rightarrow> uuid \<Rightarrow> uuid \<Rightarrow> VaultKey \<Rightarrow> uuid \<Rightarrow> VaultKey
    \<Rightarrow> gateway_request list \<Rightarrow> gateway_request \<Rightarrow> gateway_request \<Rightarrow> bool" where
  "copy_accepted X S self source_vault item_id source_key target_vault target_key history get create \<longleftrightarrow>
     (\<exists>v rec item req ck t.
        get = request_of self Get (item_path X source_vault item_id) None None
      \<and> accepted X S (history @ [get]) v \<and> item_record_from_value X v = Some rec
      \<and> decrypt_item_record X source_key source_vault item_id rec = Inr item
      \<and> create = request_of self Post (items_path X target_vault) (Some (create_to_value X req)) None
      \<and> carries X target_key ck (uuid_as_bytes X (rq_item_id req)) (di_content item) (di_title item) (di_tags item)
          (di_sensitive item) (metadata_text (item_kind_str (di_content item)) False (di_sensitive item) False) req
      \<and> accepted X S (history @ [get, create]) t)"

lemma copy_item_Inr:
  assumes "aead_laws X" and "base64_laws X" and "item_json_laws X"
    and "copy_item X S self source_vault item_id source_key target_vault target_key version w = (Inr new, w')"
  shows "\<exists>get create. sent w' = sent w @ [get, create] \<and> gw_method get = Get \<and> gw_method create = Post
    \<and> copy_accepted X S self source_vault item_id source_key target_vault target_key (sent w) get create"
proof -
  from assms(4) obtain item w1 where g: "get_item X S self source_vault item_id source_key w = (Inr item, w1)"
      and k: "create_item X S self target_vault target_key (di_content item) (di_title item) (di_tags item) (di_sensitive item) version w1 = (Inr new, w')"
    unfolding copy_item_def by (auto elim!: op_thenE)
  let ?get = "request_of self Get (item_path X source_vault item_id) None None"
  have w1: "sent w1 = sent w @ [?get]" by (simp add: get_item_sent [OF g])
  obtain v rec where read: "accepted X S (sent w @ [?get]) v" "item_record_from_value X v = Some rec"
      "decrypt_item_record X source_key source_vault item_id rec = Inr item"
    using get_item_Inr [OF g] w1 by auto
  obtain req e t where built: "build_create_request X target_key new (di_content item) (di_title item) (di_tags item) False (di_sensitive item) version (rng w1) = (Inr req, e)"
      and w': "sent w' = sent w1 @ [request_of self Post (items_path X target_vault) (Some (create_to_value X req)) None]"
      and ok: "accepted X S (sent w') t"
    using create_item_run [OF k] by auto
  obtain ck where "carries X target_key ck (uuid_as_bytes X (rq_item_id req)) (di_content item) (di_title item) (di_tags item) (di_sensitive item)
      (metadata_text (item_kind_str (di_content item)) False (di_sensitive item) False) req"
    using build_create_request_carries [OF assms(1-3) decrypted_title_ok [OF assms(1) read(3)] built] by blast
  with read ok w' w1 show ?thesis
    unfolding copy_accepted_def by (fastforce simp: request_of_def)
qed

lemma copy_item_Inl:
  assumes "copy_item X S self source_vault item_id source_key target_vault target_key version w = (Inl er, w')"
  shows "\<exists>requests. sent w' = sent w @ requests \<and> map gw_method requests \<in> {[Get], [Get, Post]}"
  using assms unfolding copy_item_def
proof (rule op_thenE)
  fix item w1
  assume "get_item X S self source_vault item_id source_key w = (Inr item, w1)"
    and "create_item X S self target_vault target_key (di_content item) (di_title item) (di_tags item) (di_sensitive item) version w1 = (Inl er, w')"
  from create_item_run [OF this(2)] get_item_sent [OF this(1)] show ?thesis by (auto simp: request_of_def)
qed (auto dest!: get_item_sent simp: request_of_def)

text \<open>C12. Moving an item never loses it.  Whatever the service answers, a move sends at most a read of
  the source, a create in the target vault and a trash of the source, in this order and nothing
  else (in particular no permanent deletion).  The trash request is sent only if the item that was
  read decrypted, the create request carried that item's content, title, tags and sensitivity under
  the target vault's key, and the service accepted the create.  A successful move sent all three.\<close>

theorem move_item_never_loses:
  assumes "aead_laws X" and "base64_laws X" and "item_json_laws X"
    and "move_item X S self source_vault item_id source_key target_vault target_key version w = (r, w')"
  shows "\<exists>requests. sent w' = sent w @ requests
    \<and> map gw_method requests \<in> {[Get], [Get, Post], [Get, Post, Post]}
    \<and> (is_ok r \<longrightarrow> length requests = 3)
    \<and> (length requests = 3 \<longrightarrow>
        copy_accepted X S self source_vault item_id source_key target_vault target_key (sent w) (requests ! 0) (requests ! 1)
      \<and> requests ! 2 = request_of self Post (item_path X source_vault item_id @ ''/trash'') None None)"
  using assms(4) unfolding move_item_def
proof (rule op_thenE)
  fix er
  assume "copy_item X S self source_vault item_id source_key target_vault target_key version w = (Inl er, w')" and "r = Inl er"
  with copy_item_Inl [OF this(1)] show ?thesis by auto
next
  fix new w2
  assume c: "copy_item X S self source_vault item_id source_key target_vault target_key version w = (Inr new, w2)"
    and t: "op_then (trash_item X S self source_vault item_id None) (\<lambda>_. op_return new) w2 = (r, w')"
  let ?trash = "request_of self Post (item_path X source_vault item_id @ ''/trash'') None None"
  from t have "sent w' = sent w2 @ [?trash]"
    by (auto elim!: op_thenE dest!: trash_item_sent simp: op_return_eq)
  moreover have "gw_method ?trash = Post" by (simp add: request_of_def)
  moreover obtain get create where "sent w2 = sent w @ [get, create]" "gw_method get = Get" "gw_method create = Post"
      "copy_accepted X S self source_vault item_id source_key target_vault target_key (sent w) get create"
    using copy_item_Inr [OF assms(1-3) c] by blast
  ultimately show ?thesis by (intro exI [of _ "[get, create, ?trash]"]) simp
qed


text \<open>C13. Updating an item.  An update reads the record first and sends nothing more unless that record
  belongs to the requested vault and item and its content key and metadata open under the vault
  key.  Then it sends exactly one patch, conditional on the given revision, which re-encrypts the
  new content under the item's existing content key, keeps the stored key wrap, the stored
  \<open>reprompt\<close> flag and, unless a new value is given, the stored \<open>favorite\<close> flag.  Conflicting key
  versions, stale revisions and a running rotation are reported as such, and success returns the
  revision of the written record only if the service answers for the same item.\<close>

theorem update_item_contract:
  assumes "aead_laws X" and "base64_laws X" and "item_json_laws X" and "str_ok title"
    and "update_item X S self vault_id item_id vk content title tags favorite sensitive version if_match w = (r, w')"
  shows "sent w' = sent w @ [request_of self Get (item_path X vault_id item_id) None None] \<and> \<not> is_ok r
    \<or> (\<exists>v rec ck metadata req.
         accepted X S (sent w @ [request_of self Get (item_path X vault_id item_id) None None]) v
       \<and> item_record_from_value X v = Some rec \<and> update_base X vk vault_id item_id rec ck metadata
       \<and> sent w' = sent w @ [request_of self Get (item_path X vault_id item_id) None None,
           request_of self Patch (item_path X vault_id item_id) (Some (update_to_value req)) if_match]
       \<and> carries X vk ck (uuid_as_bytes X item_id) content title tags sensitive
           (metadata_text (item_kind_str content)
             (case favorite of Some b \<Rightarrow> b | None \<Rightarrow> fst (metadata_flags X metadata)) sensitive
             (snd (metadata_flags X metadata))) req
       \<and> rq_content_key_wrap req = ir_content_key_wrap rec \<and> wrapping_key_version req = Some version
       \<and> (\<forall>resp. S (sent w') = Inr resp \<longrightarrow>
            (resp_status resp = 409 \<longrightarrow> r = Inl KeyVersion) \<and> (resp_status resp = 412 \<longrightarrow> r = Inl Stale)
          \<and> (resp_status resp = 423 \<longrightarrow> r = Inl Rotating))
       \<and> (\<forall>revision. r = Inr revision \<longrightarrow>
            (\<exists>t written. accepted X S (sent w') t \<and> item_record_from_value X t = Some written
               \<and> ir_item_id written = item_id \<and> ir_vault_id written = vault_id \<and> revision = ir_updated_at written)))"
proof -
  have refused: "(resp_status resp = 409 \<longrightarrow> r = Inl KeyVersion) \<and> (resp_status resp = 412 \<longrightarrow> r = Inl Stale)
      \<and> (resp_status resp = 423 \<longrightarrow> r = Inl Rotating)"
    if "r = and_then (map_err update_error (answer X S (sent w'))) (written_updated_at X vault_id item_id)"
      and "S (sent w') = Inr resp" for resp
    using answer_refused [of S "sent w'" resp X] that by (auto simp: is_success_def)
  have written: "\<exists>t written. accepted X S (sent w') t \<and> item_record_from_value X t = Some written
      \<and> ir_item_id written = item_id \<and> ir_vault_id written = vault_id \<and> revision = ir_updated_at written"
    if "r = and_then (map_err update_error (answer X S (sent w'))) (written_updated_at X vault_id item_id)" and "r = Inr revision" for revision
    using that(1) [symmetric] unfolding that(2)
    by (auto simp: result_simps answer_eq_Inr written_updated_at_def ensure_record_matches_def split: if_splits)
  show ?thesis
    using update_item_run [OF assms(5)]
  proof (elim disjE exE conjE)
    fix v rec ck metadata req e e'
    let ?fav = "case favorite of Some b \<Rightarrow> b | None \<Rightarrow> fst (metadata_flags X metadata)"
    assume base: "update_base X vk vault_id item_id rec ck metadata"
      and built: "build_update_request X vk item_id ck (ir_content_key_wrap rec) content title tags sensitive ?fav
        (snd (metadata_flags X metadata)) version e = (Inr req, e')"
      and rest: "accepted X S (sent w @ [request_of self Get (item_path X vault_id item_id) None None]) v"
        "item_record_from_value X v = Some rec"
        "sent w' = sent w @ [request_of self Get (item_path X vault_id item_id) None None,
           request_of self Patch (item_path X vault_id item_id) (Some (update_to_value req)) if_match]"
      and r: "r = and_then (map_err update_error (answer X S (sent w'))) (written_updated_at X vault_id item_id)"
    from base obtain b where "base64_decode X (ir_content_key_wrap rec) = Some b"
        "unwrap_item_content_key X vk (uuid_as_bytes X item_id) b = Inr ck"
      by (auto simp: update_base_def)
    from build_update_request_carries [OF assms(1-4) this built] show ?thesis
      using rest base refused [OF r] written [OF r] by blast
  qed simp
qed

section \<open>Witnesses\<close>

text \<open>A service that answers every request with status 200 and a value that reads as \<open>rec\<close>; JSON knows
  one content.\<close>

definition toy_vault_lib :: "ItemRecord \<Rightarrow> vault_lib" where
  "toy_vault_lib rec =
     crypto_lib.extend toy_lib
       (item_lib_ext (\<lambda>c. if c = Login sample_login then Some [] else None) (\<lambda>_. Some (Login sample_login)) (\<lambda>_. None) (\<lambda>_. None)
       (error_lib_ext (\<lambda>_. None)
       (http_lib_ext (\<lambda>_. None) (\<lambda>_. None) (\<lambda>_ _. Inl \<lparr> is_timeout = True, is_connect = False \<rparr>)
       (resolver_lib_ext (\<lambda>_. True) (\<lambda>_. []) (\<lambda>_. []) (\<lambda>_. None) (\<lambda>_. None)
       (revision_lib_ext (\<lambda>_. Some (Timestamp 0))
       (gateway_lib_ext (\<lambda>_. Some metered_envelope) (\<lambda>_. [])
       (vault_lib_ext (\<lambda>_. None) (\<lambda>_. None) (\<lambda>_. None) (\<lambda>_. None) (\<lambda>_. None) (\<lambda>_. None) (\<lambda>_. Some rec)
          (\<lambda>_. Some \<lparr> trash_outcome = OTrashed, trash_updated_at = ItemRevision [] \<rparr>) (\<lambda>_. None) ())))))))"

lemma toy_vault_laws [simp]:
  "aead_laws (toy_vault_lib rec)" "base64_laws (toy_vault_lib rec)" "uuid_laws (toy_vault_lib rec)" "item_json_laws (toy_vault_lib rec)"
  by (simp_all add: toy_vault_lib_def item_json_laws_def) (simp_all add: crypto_lib.defs)

lemma toy_vault_selectors [simp]:
  "content_to_json (toy_vault_lib rec) = (\<lambda>c. if c = Login sample_login then Some [] else None)"
  "item_record_from_value (toy_vault_lib rec) = (\<lambda>_. Some rec)"
  "trash_from_value (toy_vault_lib rec) = (\<lambda>_. Some \<lparr> trash_outcome = OTrashed, trash_updated_at = ItemRevision [] \<rparr>)"
  "json_from_slice (toy_vault_lib rec) = (\<lambda>_. Some metered_envelope)"
  by (simp_all add: toy_vault_lib_def crypto_lib.defs)

text \<open>The builders and decryptors do not look at the service's fields.\<close>

lemma toy_vault_crypto [simp]:
  "base64_encode (toy_vault_lib rec) = base64_encode toy_lib"
  "uuid_as_bytes (toy_vault_lib rec) = uuid_as_bytes toy_lib"
  "xchacha20_encrypt_with_aad (toy_vault_lib rec) = xchacha20_encrypt_with_aad toy_lib"
  by (simp_all add: toy_vault_lib_def fun_eq_iff xchacha20_encrypt_with_aad_def)

lemma toy_build_ok:
  "\<exists>req e'. build_create_request (toy_vault_lib rec) vk item_id (Login sample_login) title [] favorite sensitive version e = (Inr req, e')"
  "\<exists>req e'. build_update_request (toy_vault_lib rec) vk item_id ck wrap (Login sample_login) title [] sensitive favorite reprompt version e = (Inr req, e')"
  by (auto simp: build_create_request_def build_update_request_def Let_def encrypt_item_with_content_key_def
      encrypt_optional_tags_def split_beta apfst_def map_prod_def)

definition record_of :: "uuid \<Rightarrow> uuid \<Rightarrow> 'y UpdateItemRequest_scheme \<Rightarrow> ItemRecord" where
  "record_of vault_id item_id req =
     \<lparr> ir_item_id = item_id, ir_vault_id = vault_id, ir_title_ciphertext = rq_title_ciphertext req,
       ir_content_ciphertext = rq_content_ciphertext req, ir_tags_ciphertext = rq_tags_ciphertext req,
       ir_title_blind_index = rq_title_blind_index req, ir_content_key_wrap = rq_content_key_wrap req,
       ir_metadata_ciphertext = rq_metadata_ciphertext req, ir_sensitive = rq_sensitive req,
       ir_vault_key_version = wrapping_key_version req, ir_created_at = [], ir_updated_at = ItemRevision [],
       ir_archived_at = None, ir_trashed_at = None \<rparr>"

lemma stores_record_of [simp]: "stores vault_id item_id req (record_of vault_id item_id req)"
  by (simp add: stores_def record_of_def)

lemma record_of_times [simp]:
  "item_trashed_at X (ir_trashed_at (record_of v i req)) = Inr None" "ir_updated_at (record_of v i req) = ItemRevision []"
  by (simp_all add: item_trashed_at_def record_of_def)

abbreviation toy_vault_key :: VaultKey where "toy_vault_key \<equiv> arr32 (replicate 32 3)"

definition blank_record :: ItemRecord where
  "blank_record =
     \<lparr> ir_item_id = 2, ir_vault_id = 1, ir_title_ciphertext = [], ir_content_ciphertext = [], ir_tags_ciphertext = None,
       ir_title_blind_index = [], ir_content_key_wrap = [], ir_metadata_ciphertext = [], ir_sensitive = False,
       ir_vault_key_version = None, ir_created_at = [], ir_updated_at = ItemRevision [],
       ir_archived_at = None, ir_trashed_at = None \<rparr>"

definition toy_request :: CreateItemRequest where
  "toy_request = projr (fst (build_create_request (toy_vault_lib blank_record) toy_vault_key 2 (Login sample_login)
     ''mail'' [] True False 1 (sconst 1)))"

definition toy_record :: ItemRecord where "toy_record = record_of 1 2 toy_request"

lemma build_create_toy:
  "build_create_request (toy_vault_lib rec) = build_create_request (toy_vault_lib rec')"
proof -
  have tags: "tags_to_json (toy_vault_lib rec) = tags_to_json (toy_vault_lib rec')"
    by (simp add: toy_vault_lib_def crypto_lib.defs)
  have parts: "encrypt_title (toy_vault_lib rec) = encrypt_title (toy_vault_lib rec')"
    "encrypt_item_with_content_key (toy_vault_lib rec) = encrypt_item_with_content_key (toy_vault_lib rec')"
    "encrypt_optional_tags (toy_vault_lib rec) = encrypt_optional_tags (toy_vault_lib rec')"
    "wrap_item_content_key (toy_vault_lib rec) = wrap_item_content_key (toy_vault_lib rec')"
    "encrypt_metadata_json (toy_vault_lib rec) = encrypt_metadata_json (toy_vault_lib rec')"
    by (simp_all add: fun_eq_iff encrypt_title_def encrypt_item_with_content_key_def encrypt_optional_tags_def
        encrypt_tags_def tags wrap_item_content_key_def encrypt_metadata_json_def split: option.split)
  show ?thesis unfolding build_create_request_def parts toy_vault_crypto ..
qed

lemma toy_request_built:
  "\<exists>e'. build_create_request (toy_vault_lib rec) toy_vault_key 2 (Login sample_login) ''mail'' [] True False 1 (sconst 1) = (Inr toy_request, e')"
  using toy_build_ok(1) [of blank_record toy_vault_key 2 "''mail''" True False 1 "sconst 1"]
  by (auto simp: toy_request_def build_create_toy [of rec blank_record])

lemma toy_record_not_trashed: "item_trashed_at X (ir_trashed_at toy_record) = Inr None"
  by (simp add: toy_record_def)

lemma str_ok_mail: "str_ok ''mail''"
  by (rule str_ok_ascii) (simp add: is_ascii_def)

theorem stored_item_reads_back_witness:
  "\<exists>item. decrypt_item_record (toy_vault_lib toy_record) toy_vault_key 1 2 toy_record = Inr item
     \<and> di_title item = ''mail'' \<and> di_content item = Login sample_login \<and> di_tags item = []"
proof -
  obtain e' where "build_create_request (toy_vault_lib toy_record) toy_vault_key 2 (Login sample_login) ''mail'' [] True False 1 (sconst 1)
      = (Inr toy_request, e')"
    using toy_request_built by blast
  moreover have "stores 1 2 toy_request toy_record" by (simp add: toy_record_def)
  ultimately show ?thesis
    using stored_item_reads_back [OF toy_vault_laws(1,2,4) str_ok_mail toy_record_not_trashed, THEN conjunct1] by fastforce
qed

lemma toy_read_answer: "read_answer (toy_vault_lib rec) cap \<lparr> resp_status = 200, resp_chunks = [] \<rparr> = Inr (JString ''payload'')"
  by (simp add: read_answer_Inr is_success_def read_capped_def unwrap_metered_Inr metered_envelope_def)

lemma toy_call:
  "call_with_options (toy_vault_lib rec) (toy_server 200) self method path body if_match cap w
     = (Inr (JString ''payload''), w\<lparr> sent := sent w @ [request_of self method path body if_match] \<rparr>)"
  by (simp add: call_with_options_eq toy_server_def toy_read_answer Let_def)

lemma toy_item:
  "\<exists>item. decrypt_item_record (toy_vault_lib toy_record) toy_vault_key 1 2 toy_record = Inr item
     \<and> di_content item = Login sample_login \<and> di_tags item = []"
proof -
  obtain e' where b: "build_create_request (toy_vault_lib toy_record) toy_vault_key 2 (Login sample_login) ''mail'' [] True False 1 (sconst 1)
      = (Inr toy_request, e')"
    using toy_request_built by blast
  obtain ck where "carries (toy_vault_lib toy_record) toy_vault_key ck (uuid_as_bytes (toy_vault_lib toy_record) 2) (Login sample_login) ''mail'' [] False
      (metadata_text (item_kind_str (Login sample_login)) True False False) toy_request"
    using build_create_request_carries [OF _ _ _ str_ok_mail b] by auto
  from decrypt_stored [OF this stores_record_of [of 1], folded toy_record_def, OF toy_record_not_trashed] show ?thesis by simp
qed

lemma toy_move_ok:
  "\<exists>r w'. move_item (toy_vault_lib toy_record) (toy_server 200) toy_vault_client 1 2 toy_vault_key 5 toy_vault_key 1 toy_world = (Inr r, w')"
proof -
  obtain item where item: "decrypt_item_record (toy_vault_lib toy_record) toy_vault_key 1 2 toy_record = Inr item"
      "di_content item = Login sample_login" "di_tags item = []"
    using toy_item by blast
  obtain req e' where "build_create_request (toy_vault_lib toy_record) toy_vault_key 3 (Login sample_login) (di_title item) [] False (di_sensitive item) 1 (sconst 1) = (Inr req, e')"
    using toy_build_ok(1) by blast
  then show ?thesis
    by (simp add: move_item_def copy_item_def get_item_def create_item_def trash_item_def call_def op_then_def op_map_err_def
        toy_call op_basic op_build_def item toy_world_def)
qed

theorem move_item_never_loses_witness:
  "length (sent (snd (move_item (toy_vault_lib toy_record) (toy_server 200) toy_vault_client 1 2 toy_vault_key 5 toy_vault_key 1 toy_world))) = 3"
proof -
  obtain r w' where run: "move_item (toy_vault_lib toy_record) (toy_server 200) toy_vault_client 1 2 toy_vault_key 5 toy_vault_key 1 toy_world = (Inr r, w')"
    using toy_move_ok by blast
  with move_item_never_loses [OF toy_vault_laws(1,2,4) run] show ?thesis by (auto simp: toy_world_def)
qed

lemma toy_update_ok:
  "\<exists>r w'. update_item (toy_vault_lib toy_record) (toy_server 200) toy_vault_client 1 2 toy_vault_key (Login sample_login) ''mail'' [] None False 1 None toy_world = (Inr r, w')"
proof -
  let ?X = "toy_vault_lib toy_record"
  obtain item where item: "decrypt_item_record ?X toy_vault_key 1 2 toy_record = Inr item" using toy_item by blast
  then obtain b ck b' m where "base64_decode ?X (ir_content_key_wrap toy_record) = Some b"
      "unwrap_item_content_key ?X toy_vault_key (uuid_as_bytes ?X 2) b = Inr ck"
      "base64_decode ?X (ir_metadata_ciphertext toy_record) = Some b'"
      "decrypt_metadata_json ?X toy_vault_key (uuid_as_bytes ?X 2) b' = Inr m"
    by (auto simp: decrypt_item_record_def Let_def result_simps b64_decode_def)
  moreover obtain req e' where "build_update_request ?X toy_vault_key 2 ck (ir_content_key_wrap toy_record) (Login sample_login) ''mail'' [] False
      (fst (metadata_flags ?X m)) (snd (metadata_flags ?X m)) 1 (sconst 1) = (Inr req, e')"
    using toy_build_ok(2) by blast
  moreover have "ensure_record_matches 1 2 toy_record = Inr ()"
    by (simp add: ensure_record_matches_def toy_record_def record_of_def)
  ultimately show ?thesis
    by (simp add: update_item_def call_def op_then_def op_map_err_def toy_call op_basic op_build_def b64_decode_def
        toy_world_def split_beta written_updated_at_def Let_def)
qed

theorem update_item_contract_witness:
  "map gw_method (sent (snd (update_item (toy_vault_lib toy_record) (toy_server 200) toy_vault_client 1 2 toy_vault_key
     (Login sample_login) ''mail'' [] None False 1 None toy_world))) = [Get, Patch]"
proof -
  obtain r w' where run: "update_item (toy_vault_lib toy_record) (toy_server 200) toy_vault_client 1 2 toy_vault_key (Login sample_login) ''mail'' [] None False 1 None toy_world = (Inr r, w')"
    using toy_update_ok by blast
  with update_item_contract [OF toy_vault_laws(1,2,4) str_ok_mail run] show ?thesis
    by (auto simp: toy_world_def request_of_def)
qed

end
