(* ===== verification/Attachments.thy ===== *)
theory Attachments
  imports Vault_Items Vault_Crypto
begin

text \<open>
  \<open>vault/attachments.rs\<close>: upload, listing, download and guarded deletion of attachments.  Byte
  counts that come from memory are natural numbers; those that come from the service keep their
  width, since the code converts and adds them with overflow checks.
\<close>

section \<open>Limits\<close>

definition MAX_ENCRYPTED_BYTES :: nat where "MAX_ENCRYPTED_BYTES = 100 * 1024 * 1024"
definition MAX_ITEM_ENCRYPTED_BYTES :: nat where "MAX_ITEM_ENCRYPTED_BYTES = 500 * 1024 * 1024"
definition MAX_METADATA_BYTES :: nat where "MAX_METADATA_BYTES = 64 * 1024"
definition ENVELOPE_BYTES :: nat where "ENVELOPE_BYTES = 2 + 24 + 16"
definition MAX_ATTACHMENT_PLAINTEXT_BYTES :: nat where
  "MAX_ATTACHMENT_PLAINTEXT_BYTES = MAX_ENCRYPTED_BYTES - ENVELOPE_BYTES"

definition base64_len :: "nat \<Rightarrow> nat" where
  "base64_len n = (n + 2) div 3 * 4"

definition MAX_DOWNLOAD_RESPONSE_BYTES :: nat where
  "MAX_DOWNLOAD_RESPONSE_BYTES = base64_len MAX_ENCRYPTED_BYTES + 3 * base64_len MAX_METADATA_BYTES + 64 * 1024"

section \<open>Data\<close>

record AttachmentUpload =
  up_filename :: string
  up_content_type :: "string option"
  up_bytes :: bytes

record AttachmentSummary =
  as_attachment_id :: uuid
  as_item_id :: uuid
  as_filename :: string
  as_content_type :: "string option"
  as_size_bytes :: u64
  as_encrypted_size_bytes :: u64
  as_created_at :: ServiceTimestamp
  as_sha256 :: "byte32 option"

record DecryptedAttachment =
  da_summary :: AttachmentSummary
  da_bytes :: bytes

datatype AttachmentPutOutcome =
    PutCreated AttachmentSummary | PutAlreadyPresent | PutIdConflict | PutStale

datatype AttachmentDeleteOutcome =
    DeleteDone | DeleteAlreadyAbsent | DeleteMismatch | DeleteStale

record 'a AttachmentWrite =
  write_outcome :: 'a
  write_item_updated_at :: "ItemRevision option"

record AttachmentRecord =
  ar_attachment_id :: uuid
  ar_item_id :: uuid
  ar_filename_ciphertext :: string
  ar_content_type_ciphertext :: string
  ar_wrapped_content_key :: string
  ar_size_bytes :: i64
  ar_created_at :: string
  ar_digest_ciphertext :: "string option"

datatype ConditionalDeleteState = StateDeleted | StateAlreadyAbsent

record attachment_lib = vault_lib +
  attachments_from_value :: "json \<Rightarrow> AttachmentRecord list option"
  attachment_from_value :: "json \<Rightarrow> AttachmentRecord option"
  attachment_with_blob_from_value :: "json \<Rightarrow> (AttachmentRecord \<times> string) option"
  created_attachment_from_value :: "json \<Rightarrow> (AttachmentRecord \<times> string) option"
    \<comment> \<open>the record and \<open>item_updated_at\<close>\<close>
  deletion_from_value :: "json \<Rightarrow> (ConditionalDeleteState \<times> string) option"

section \<open>Reading\<close>

definition parse_item_updated_at :: "'z revision_lib_scheme \<Rightarrow> string \<Rightarrow> ItemRevision resolver_result" where
  "parse_item_updated_at X value = map_err (\<lambda>_. Malformed ''attachment item_updated_at'') (ItemRevision_new X value)"

definition bounded_decode :: "'z crypto_lib_scheme \<Rightarrow> string \<Rightarrow> nat \<Rightarrow> bytes resolver_result" where
  "bounded_decode X encoded limit =
     (if length encoded > base64_len limit then Inl (Malformed ''attachment size'')
      else and_then (b64_decode X encoded ''attachment encoding'') (\<lambda>decoded.
        if length decoded > limit then Inl (Malformed ''attachment size'') else Inr decoded))"

definition encrypted_size :: "i64 \<Rightarrow> u64 resolver_result" where
  "encrypted_size sz =
     (if sz <s 0 then Inl (Malformed ''attachment size'')
      else if unat sz < ENVELOPE_BYTES \<or> MAX_ENCRYPTED_BYTES < unat sz then Inl (Malformed ''attachment size'')
      else Inr sz)"

definition stored_digest ::
  "'z crypto_lib_scheme \<Rightarrow> AttachmentKey \<Rightarrow> bytes \<Rightarrow> bytes \<Rightarrow> string option \<Rightarrow> byte32 option" where
  "stored_digest X key item attachment_id digest =
     Option.bind digest (\<lambda>encoded. result_ok
       (and_then (bounded_decode X encoded MAX_METADATA_BYTES) (\<lambda>ciphertext.
          map_err Crypto (decrypt_digest X key item attachment_id ciphertext))))"

definition attachment_summary ::
  "'z revision_lib_scheme \<Rightarrow> VaultKey \<Rightarrow> uuid \<Rightarrow> AttachmentRecord \<Rightarrow> AttachmentSummary resolver_result" where
  "attachment_summary X vault_key item_id rec =
     (if ar_item_id rec \<noteq> item_id then Inl ResponseMismatch
      else let item = uuid_as_bytes X item_id; aid = uuid_as_bytes X (ar_attachment_id rec) in
      and_then (encrypted_size (ar_size_bytes rec)) (\<lambda>sz.
      and_then (bounded_decode X (ar_wrapped_content_key rec) MAX_METADATA_BYTES) (\<lambda>wrapped.
      and_then (map_err Crypto (unwrap_attachment_key X vault_key item aid wrapped)) (\<lambda>key.
      let digest = stored_digest X key item aid (ar_digest_ciphertext rec) in
      and_then (bounded_decode X (ar_filename_ciphertext rec) MAX_METADATA_BYTES) (\<lambda>fct.
      and_then (map_err Crypto (decrypt_filename X vault_key item aid fct)) (\<lambda>filename.
      and_then (bounded_decode X (ar_content_type_ciphertext rec) MAX_METADATA_BYTES) (\<lambda>cct.
      and_then (map_err Crypto (decrypt_content_type X vault_key item aid cct)) (\<lambda>content_type.
      and_then (map_err (\<lambda>_. Malformed ''attachment created_at'') (ServiceTimestamp_new X (ar_created_at rec))) (\<lambda>created_at.
        Inr \<lparr> as_attachment_id = ar_attachment_id rec, as_item_id = item_id, as_filename = filename,
              as_content_type = (if content_type \<noteq> [] then Some content_type else None),
              as_size_bytes = sz - word_of_nat ENVELOPE_BYTES, as_encrypted_size_bytes = sz,
              as_created_at = created_at, as_sha256 = digest \<rparr>)))))))))"

section \<open>Uploading\<close>

definition validate_upload :: "nat \<Rightarrow> nat \<Rightarrow> nat option \<Rightarrow> u64 \<Rightarrow> unit resolver_result" where
  "validate_upload n filename content_type tot =
     (if MAX_ATTACHMENT_PLAINTEXT_BYTES < n \<or> filename = 0 \<or> MAX_METADATA_BYTES - ENVELOPE_BYTES < filename
       \<or> (case content_type of None \<Rightarrow> False | Some sz \<Rightarrow> sz = 0 \<or> MAX_METADATA_BYTES - ENVELOPE_BYTES < sz)
       \<or> (case checked_add_u64 tot (word_of_nat n + word_of_nat ENVELOPE_BYTES) of
            None \<Rightarrow> True | Some after \<Rightarrow> MAX_ITEM_ENCRYPTED_BYTES < unat after)
      then Inl (InvalidInput ''attachment size'') else Inr ())"

record AttachmentRequest =
  aq_attachment_id :: uuid
  aq_blob :: string
  aq_filename_ciphertext :: string
  aq_content_type_ciphertext :: string
  aq_wrapped_content_key :: string
  aq_digest_ciphertext :: "string option"

definition attachment_request_value :: "'z crypto_lib_scheme \<Rightarrow> AttachmentRequest \<Rightarrow> json" where
  "attachment_request_value X request = JObject
     ([(''attachment_id'', JString (uuid_to_string X (aq_attachment_id request))), (''blob'', JString (aq_blob request)),
       (''content_type_ciphertext'', JString (aq_content_type_ciphertext request))]
      @ (case aq_digest_ciphertext request of Some digest \<Rightarrow> [(''digest_ciphertext'', JString digest)] | None \<Rightarrow> [])
      @ [(''filename_ciphertext'', JString (aq_filename_ciphertext request)),
         (''wrapped_content_key'', JString (aq_wrapped_content_key request))])"

record PendingAttachmentUpload =
  pu_request :: AttachmentRequest
  pu_key :: AttachmentKey
  pu_item_id :: uuid
  pu_bytes :: bytes

definition pending_encrypt ::
  "'z crypto_lib_scheme \<Rightarrow> PendingAttachmentUpload \<Rightarrow> entropy \<Rightarrow> AttachmentRequest \<times> entropy" where
  "pending_encrypt X self e =
     (let (encrypted, e) = encrypt_blob X (pu_key self) (uuid_as_bytes X (pu_item_id self))
            (uuid_as_bytes X (aq_attachment_id (pu_request self))) (pu_bytes self) e
      in ((pu_request self)\<lparr> aq_blob := base64_encode X encrypted \<rparr>, e))"

definition prepare_upload ::
  "'z crypto_lib_scheme \<Rightarrow> VaultKey \<Rightarrow> uuid \<Rightarrow> uuid \<Rightarrow> AttachmentUpload \<Rightarrow> byte32 option \<Rightarrow> entropy
    \<Rightarrow> PendingAttachmentUpload resolver_result \<times> entropy" where
  "prepare_upload X vault_key item_id attachment_id upload sha e =
     (case validate_upload (length (up_bytes upload)) (length (up_filename upload))
             (map_option length (up_content_type upload)) 0 of
        Inl er \<Rightarrow> (Inl er, e)
      | Inr _ \<Rightarrow>
          let item = uuid_as_bytes X item_id; aid = uuid_as_bytes X attachment_id;
              (key, e) = generate_attachment_key e;
              (fct, e) = encrypt_filename X vault_key item aid (up_filename upload) e;
              (cct, e) = encrypt_content_type X vault_key item aid
                (case up_content_type upload of Some t \<Rightarrow> t | None \<Rightarrow> []) e;
              (wrapped, e) = wrap_attachment_key X vault_key item aid key e;
              (digest, e) = (case sha of None \<Rightarrow> (None, e)
                | Some d \<Rightarrow> apfst (\<lambda>c. Some (base64_encode X c)) (encrypt_digest X key item aid d e))
          in (Inr \<lparr> pu_request = \<lparr> aq_attachment_id = attachment_id, aq_blob = [],
                      aq_filename_ciphertext = base64_encode X fct, aq_content_type_ciphertext = base64_encode X cct,
                      aq_wrapped_content_key = base64_encode X wrapped, aq_digest_ciphertext = digest \<rparr>,
                    pu_key = key, pu_item_id = item_id, pu_bytes = up_bytes upload \<rparr>, e))"

definition build_attachment_request ::
  "'z crypto_lib_scheme \<Rightarrow> VaultKey \<Rightarrow> uuid \<Rightarrow> uuid \<Rightarrow> AttachmentUpload \<Rightarrow> byte32 option \<Rightarrow> entropy
    \<Rightarrow> json resolver_result \<times> entropy" where
  "build_attachment_request X vault_key item_id attachment_id upload sha e =
     (case prepare_upload X vault_key item_id attachment_id upload sha e of
        (Inl er, e) \<Rightarrow> (Inl er, e)
      | (Inr pending, e) \<Rightarrow> let (request, e) = pending_encrypt X pending e
                          in (Inr (attachment_request_value X request), e))"

section \<open>Opening\<close>

definition decrypt_encrypted_blob ::
  "'z crypto_lib_scheme \<Rightarrow> AttachmentKey \<Rightarrow> uuid \<Rightarrow> uuid \<Rightarrow> bytes \<Rightarrow> nat \<Rightarrow> bytes resolver_result" where
  "decrypt_encrypted_blob X key item_id attachment_id blob limit =
     (if length blob \<noteq> limit then Inl (Malformed ''attachment blob size'')
      else and_then (map_err Crypto (decrypt_blob X key (uuid_as_bytes X item_id) (uuid_as_bytes X attachment_id) blob)) (\<lambda>bs.
        if length bs + ENVELOPE_BYTES \<noteq> limit then Inl (Malformed ''attachment plaintext size'') else Inr bs))"

definition attachments_decrypt_blob ::
  "'z crypto_lib_scheme \<Rightarrow> AttachmentKey \<Rightarrow> uuid \<Rightarrow> uuid \<Rightarrow> string \<Rightarrow> u64 \<Rightarrow> bytes resolver_result" where
  "attachments_decrypt_blob X key item_id attachment_id encoded sz =
     (if \<not> (ENVELOPE_BYTES \<le> unat sz \<and> unat sz \<le> MAX_ENCRYPTED_BYTES) then Inl (Malformed ''attachment blob size'')
      else and_then (bounded_decode X encoded (unat sz)) (\<lambda>blob.
        decrypt_encrypted_blob X key item_id attachment_id blob (unat sz)))"

section \<open>Client operations\<close>

definition attachments_path :: "'z crypto_lib_scheme \<Rightarrow> uuid \<Rightarrow> uuid \<Rightarrow> string" where
  "attachments_path X vault_id item_id = item_path X vault_id item_id @ ''/attachments''"

definition attachment_path :: "'z crypto_lib_scheme \<Rightarrow> uuid \<Rightarrow> uuid \<Rightarrow> uuid \<Rightarrow> string" where
  "attachment_path X vault_id item_id attachment_id =
     attachments_path X vault_id item_id @ ''/'' @ uuid_to_string X attachment_id"

text \<open>The closure mapped over the records, with the set of seen identifiers and the running total it
  captures; collecting into a \<open>Result\<close> stops at the first error.\<close>

fun collect_records ::
  "'z revision_lib_scheme \<Rightarrow> VaultKey \<Rightarrow> uuid \<Rightarrow> uuid set \<Rightarrow> u64 \<Rightarrow> AttachmentRecord list
    \<Rightarrow> (AttachmentRecord \<times> AttachmentSummary) list resolver_result" where
  "collect_records X vault_key item_id seen tot [] = Inr []"
| "collect_records X vault_key item_id seen tot (rec # recs) =
     (if ar_attachment_id rec \<in> seen then Inl ResponseMismatch
      else and_then (attachment_summary X vault_key item_id rec) (\<lambda>summary.
           and_then (ok_or (Malformed ''attachment total size'') (checked_add_u64 tot (as_encrypted_size_bytes summary))) (\<lambda>tot.
             if MAX_ITEM_ENCRYPTED_BYTES < unat tot then Inl (Malformed ''attachment total size'')
             else and_then (collect_records X vault_key item_id (insert (ar_attachment_id rec) seen) tot recs) (\<lambda>out.
               Inr ((rec, summary) # out)))))"

definition list_attachment_records ::
  "'z attachment_lib_scheme \<Rightarrow> server \<Rightarrow> VaultClient \<Rightarrow> uuid \<Rightarrow> uuid \<Rightarrow> VaultKey
    \<Rightarrow> (AttachmentRecord \<times> AttachmentSummary) list op" where
  "list_attachment_records X S self vault_id item_id vault_key =
     op_then (call X S self Get (attachments_path X vault_id item_id) None) (\<lambda>value.
     op_then (op_lift (ok_or (Malformed ''attachment list'') (attachments_from_value X value))) (\<lambda>records.
       op_lift (collect_records X vault_key item_id {} 0 records)))"

definition list_attachments ::
  "'z attachment_lib_scheme \<Rightarrow> server \<Rightarrow> VaultClient \<Rightarrow> uuid \<Rightarrow> uuid \<Rightarrow> VaultKey \<Rightarrow> AttachmentSummary list op" where
  "list_attachments X S self vault_id item_id vault_key =
     op_then (list_attachment_records X S self vault_id item_id vault_key) (\<lambda>listed. op_return (map snd listed))"

definition get_attachment ::
  "'z attachment_lib_scheme \<Rightarrow> server \<Rightarrow> VaultClient \<Rightarrow> uuid \<Rightarrow> uuid \<Rightarrow> uuid \<Rightarrow> VaultKey \<Rightarrow> DecryptedAttachment op" where
  "get_attachment X S self vault_id item_id attachment_id vault_key =
     op_then (call_with_options X S self Get (attachment_path X vault_id item_id attachment_id) None None
       MAX_DOWNLOAD_RESPONSE_BYTES) (\<lambda>value.
     op_then (op_lift (ok_or (Malformed ''attachment record'') (attachment_with_blob_from_value X value))) (\<lambda>(rec, blob).
     op_lift
       (if ar_attachment_id rec \<noteq> attachment_id then Inl ResponseMismatch
        else and_then (attachment_summary X vault_key item_id rec) (\<lambda>summary.
             and_then (bounded_decode X (ar_wrapped_content_key rec) MAX_METADATA_BYTES) (\<lambda>wrapped.
             and_then (map_err Crypto (unwrap_attachment_key X vault_key (uuid_as_bytes X item_id)
               (uuid_as_bytes X attachment_id) wrapped)) (\<lambda>key.
             let limit = unat (as_encrypted_size_bytes summary) in
             and_then (bounded_decode X blob limit) (\<lambda>encrypted.
             and_then (decrypt_encrypted_blob X key item_id attachment_id encrypted limit) (\<lambda>bs.
               Inr \<lparr> da_summary = summary, da_bytes = bs \<rparr>))))))))"

definition put_attachment ::
  "'z attachment_lib_scheme \<Rightarrow> server \<Rightarrow> VaultClient \<Rightarrow> uuid \<Rightarrow> uuid \<Rightarrow> VaultKey \<Rightarrow> AttachmentUpload
    \<Rightarrow> AttachmentSummary op" where
  "put_attachment X S self vault_id item_id vault_key upload =
     op_then op_uuid (\<lambda>attachment_id.
     op_then (op_build (build_attachment_request X vault_key item_id attachment_id upload None)) (\<lambda>body.
     op_then (op_map_err item_write_error
       (call X S self Post (attachments_path X vault_id item_id) (Some body))) (\<lambda>value.
     op_then (op_lift (ok_or (Malformed ''created attachment'') (attachment_from_value X value))) (\<lambda>rec.
     op_lift
       (if ar_attachment_id rec \<noteq> attachment_id then Inl ResponseMismatch
        else and_then (attachment_summary X vault_key item_id rec) (\<lambda>summary.
          if as_encrypted_size_bytes summary \<noteq> word_of_nat (length (up_bytes upload) + ENVELOPE_BYTES)
          then Inl (Malformed ''created attachment size'') else Inr summary))))))"

definition delete_attachment ::
  "'z attachment_lib_scheme \<Rightarrow> server \<Rightarrow> VaultClient \<Rightarrow> uuid \<Rightarrow> uuid \<Rightarrow> uuid \<Rightarrow> unit op" where
  "delete_attachment X S self vault_id item_id attachment_id =
     op_then (op_map_err item_write_error
       (call X S self Delete (attachment_path X vault_id item_id attachment_id) None)) (\<lambda>_. op_return ())"

text \<open>Observing the error of an operation, for the code that matches on a \<open>Result\<close>.\<close>

definition op_catch :: "'a op \<Rightarrow> (ResolverError \<Rightarrow> 'b op) \<Rightarrow> ('a \<Rightarrow> 'b op) \<Rightarrow> 'b op" where
  "op_catch m h f = (\<lambda>w. case m w of (Inl e, w') \<Rightarrow> h e w' | (Inr x, w') \<Rightarrow> f x w')"

fun is_server_status :: "u16 \<Rightarrow> ResolverError \<Rightarrow> bool" where
  "is_server_status status (ServerError got _) \<longleftrightarrow> got = status"
| "is_server_status status _ \<longleftrightarrow> False"

definition same_file :: "uuid \<Rightarrow> byte32 \<Rightarrow> string \<Rightarrow> u64 \<Rightarrow> AttachmentSummary \<Rightarrow> bool" where
  "same_file attachment_id sha filename sz listed \<longleftrightarrow>
     as_attachment_id listed = attachment_id \<and> as_sha256 listed = Some sha
   \<and> as_filename listed = filename \<and> as_size_bytes listed = sz"

definition duplicate_revision :: "'z revision_lib_scheme \<Rightarrow> ResolverError \<Rightarrow> ItemRevision resolver_result" where
  "duplicate_revision X error =
     and_then (ok_or (Malformed ''attachment duplicate response'')
       (coded_server_error X error 409 ''attachment_already_exists'')) (\<lambda>details.
     and_then (ok_or (Malformed ''attachment duplicate revision'')
       (Option.bind (json_get ''item_updated_at'' details) json_as_str)) (\<lambda>revision.
       parse_item_updated_at X revision))"

definition put_refused ::
  "'z attachment_lib_scheme \<Rightarrow> server \<Rightarrow> VaultClient \<Rightarrow> uuid \<Rightarrow> uuid \<Rightarrow> uuid \<Rightarrow> VaultKey \<Rightarrow> byte32 \<Rightarrow> string \<Rightarrow> u64
    \<Rightarrow> ResolverError \<Rightarrow> AttachmentPutOutcome AttachmentWrite op" where
  "put_refused X S self vault_id item_id attachment_id vault_key sha filename sz error =
     (if is_server_status 412 error
      then op_return \<lparr> write_outcome = PutStale, write_item_updated_at = None \<rparr>
      else if is_coded_server_error X error 409 ''attachment_already_exists''
      then op_then (list_attachments X S self vault_id item_id vault_key) (\<lambda>listed.
             if list_ex (same_file attachment_id sha filename sz) listed
             then op_then (op_lift (duplicate_revision X error)) (\<lambda>revision.
                    op_return \<lparr> write_outcome = PutAlreadyPresent, write_item_updated_at = Some revision \<rparr>)
             else op_return \<lparr> write_outcome = PutIdConflict, write_item_updated_at = None \<rparr>)
      else if is_coded_server_error X error 409 ''attachment_id_conflict''
      then op_return \<lparr> write_outcome = PutIdConflict, write_item_updated_at = None \<rparr>
      else op_lift (Inl (item_write_error error)))"

definition put_attachment_with_id ::
  "'z attachment_lib_scheme \<Rightarrow> server \<Rightarrow> VaultClient \<Rightarrow> uuid \<Rightarrow> uuid \<Rightarrow> uuid \<Rightarrow> VaultKey \<Rightarrow> AttachmentUpload \<Rightarrow> ItemRevision
    \<Rightarrow> AttachmentPutOutcome AttachmentWrite op" where
  "put_attachment_with_id X S self vault_id item_id attachment_id vault_key upload if_match_item_updated_at =
     (let sha = plaintext_digest X (up_bytes upload); sz = word_of_nat (length (up_bytes upload)) in
      op_then (op_build (build_attachment_request X vault_key item_id attachment_id upload (Some sha))) (\<lambda>body.
      op_catch (call_with_options X S self Post (attachments_path X vault_id item_id) (Some body)
          (Some if_match_item_updated_at) MAX_GATEWAY_BODY)
        (put_refused X S self vault_id item_id attachment_id vault_key sha (up_filename upload) sz)
        (\<lambda>value.
          op_then (op_lift (ok_or (Malformed ''created attachment'') (created_attachment_from_value X value))) (\<lambda>(rec, updated_at).
          op_lift
            (if ar_attachment_id rec \<noteq> attachment_id then Inl ResponseMismatch
             else and_then (attachment_summary X vault_key item_id rec) (\<lambda>summary.
               if as_encrypted_size_bytes summary \<noteq> sz + word_of_nat ENVELOPE_BYTES
               then Inl (Malformed ''created attachment size'')
               else if as_sha256 summary \<noteq> Some sha then Inl ResponseMismatch
               else and_then (parse_item_updated_at X updated_at) (\<lambda>revision.
                 Inr \<lparr> write_outcome = PutCreated summary, write_item_updated_at = Some revision \<rparr>)))))))"

text \<open>The digest ciphertext a guarded deletion sends.\<close>

definition deletion_guard ::
  "'z crypto_lib_scheme \<Rightarrow> uuid \<Rightarrow> uuid \<Rightarrow> byte32 \<Rightarrow> (AttachmentRecord \<times> AttachmentSummary) list \<Rightarrow> string op" where
  "deletion_guard X item_id attachment_id expected_sha256 listed =
     (case Option.bind (find (\<lambda>(rec, summary). ar_attachment_id rec = attachment_id
              \<and> as_sha256 summary = Some expected_sha256) listed) (\<lambda>(rec, _). ar_digest_ciphertext rec) of
        Some stored \<Rightarrow> op_return stored
      | None \<Rightarrow>
          op_then (op_random generate_attachment_key) (\<lambda>key.
          op_then (op_random (encrypt_digest X key (uuid_as_bytes X item_id) (uuid_as_bytes X attachment_id) expected_sha256)) (\<lambda>c.
            op_return (base64_encode X c))))"

definition conditional_delete_attachment ::
  "'z attachment_lib_scheme \<Rightarrow> server \<Rightarrow> VaultClient \<Rightarrow> uuid \<Rightarrow> uuid \<Rightarrow> uuid \<Rightarrow> VaultKey \<Rightarrow> byte32 \<Rightarrow> ItemRevision
    \<Rightarrow> AttachmentDeleteOutcome AttachmentWrite op" where
  "conditional_delete_attachment X S self vault_id item_id attachment_id vault_key expected_sha256 if_match_item_updated_at =
     op_then (list_attachment_records X S self vault_id item_id vault_key) (\<lambda>listed.
     op_then (deletion_guard X item_id attachment_id expected_sha256 listed) (\<lambda>expected_digest_ciphertext.
     op_catch (call_with_options X S self Post (attachment_path X vault_id item_id attachment_id @ ''/deletion'')
         (Some (JObject [(''expected_digest_ciphertext'', JString expected_digest_ciphertext)]))
         (Some if_match_item_updated_at) MAX_GATEWAY_BODY)
       (\<lambda>error.
         if is_server_status 412 error
         then op_return \<lparr> write_outcome = DeleteStale, write_item_updated_at = None \<rparr>
         else if is_coded_server_error X error 409 ''attachment_digest_mismatch''
         then op_return \<lparr> write_outcome = DeleteMismatch, write_item_updated_at = None \<rparr>
         else op_lift (Inl (item_write_error error)))
       (\<lambda>value.
         op_then (op_lift (ok_or (Malformed ''attachment deletion outcome'') (deletion_from_value X value))) (\<lambda>(st, updated_at).
         op_then (op_lift (parse_item_updated_at X updated_at)) (\<lambda>revision.
           op_return \<lparr> write_outcome = (case st of StateDeleted \<Rightarrow> DeleteDone | StateAlreadyAbsent \<Rightarrow> DeleteAlreadyAbsent),
                       write_item_updated_at = Some revision \<rparr>)))))"

end
