(* ===== verification/Attachment_Props.thy ===== *)
theory Attachment_Props
  imports Attachments
begin

text \<open>
  The properties of the attachment operations: the invariant of every listing the client accepts,
  the round trip of an upload, and the guards of conditional deletion.
\<close>

section \<open>Listings\<close>

lemma encrypted_size_Inr:
  "encrypted_size n = Inr m \<longleftrightarrow> m = n \<and> \<not> n <s 0 \<and> ENVELOPE_BYTES \<le> unat n \<and> unat n \<le> MAX_ENCRYPTED_BYTES"
  by (auto simp: encrypted_size_def)

lemma attachment_summary_sizes:
  assumes "attachment_summary X vk item_id rec = Inr s"
  shows "as_attachment_id s = ar_attachment_id rec" "as_item_id s = item_id" "ar_item_id rec = item_id"
    "as_encrypted_size_bytes s = ar_size_bytes rec"
    "ENVELOPE_BYTES \<le> unat (as_encrypted_size_bytes s)" "unat (as_encrypted_size_bytes s) \<le> MAX_ENCRYPTED_BYTES"
    "unat (as_size_bytes s) + ENVELOPE_BYTES = unat (as_encrypted_size_bytes s)"
proof -
  have env: "unat (word_of_nat ENVELOPE_BYTES :: u64) = ENVELOPE_BYTES" by (simp add: ENVELOPE_BYTES_def)
  from assms have s: "as_attachment_id s = ar_attachment_id rec \<and> as_item_id s = item_id \<and> ar_item_id rec = item_id
      \<and> as_encrypted_size_bytes s = ar_size_bytes rec \<and> encrypted_size (ar_size_bytes rec) = Inr (ar_size_bytes rec)
      \<and> as_size_bytes s = ar_size_bytes rec - word_of_nat ENVELOPE_BYTES"
    by (auto simp: attachment_summary_def Let_def result_simps encrypted_size_Inr split: if_splits)
  then show "as_attachment_id s = ar_attachment_id rec" "as_item_id s = item_id" "ar_item_id rec = item_id"
    "as_encrypted_size_bytes s = ar_size_bytes rec"
    "ENVELOPE_BYTES \<le> unat (as_encrypted_size_bytes s)" "unat (as_encrypted_size_bytes s) \<le> MAX_ENCRYPTED_BYTES"
    by (simp_all add: encrypted_size_Inr)
  then show "unat (as_size_bytes s) + ENVELOPE_BYTES = unat (as_encrypted_size_bytes s)"
    using s by (simp add: unat_sub word_le_nat_alt env)
qed

abbreviation enc_sizes :: "(AttachmentRecord \<times> AttachmentSummary) list \<Rightarrow> nat" where
  "enc_sizes out \<equiv> sum_list (map (\<lambda>p. unat (as_encrypted_size_bytes (snd p))) out)"

text \<open>The additions of the running total never overflow, so a list is accepted exactly when the
  unbounded total stays within the limit.\<close>

lemma collect_records_Inr:
  assumes "unat tot \<le> MAX_ITEM_ENCRYPTED_BYTES"
  shows "collect_records X vk item_id seen tot recs = Inr out \<longleftrightarrow>
     map fst out = recs \<and> list_all (\<lambda>p. attachment_summary X vk item_id (fst p) = Inr (snd p)) out
   \<and> distinct (map ar_attachment_id recs) \<and> seen \<inter> ar_attachment_id ` set recs = {}
   \<and> unat tot + enc_sizes out \<le> MAX_ITEM_ENCRYPTED_BYTES"
  using assms
proof (induction recs arbitrary: seen tot out)
  case (Cons rec recs)
  show ?case
  proof (cases "ar_attachment_id rec \<in> seen \<or> (\<forall>s. attachment_summary X vk item_id rec \<noteq> Inr s)")
    case True
    then show ?thesis by (auto simp: and_then_eq_Inr Cons_eq_map_conv)
  next
    case False
    then obtain s where s: "attachment_summary X vk item_id rec = Inr s" and new: "ar_attachment_id rec \<notin> seen" by blast
    let ?n = "as_encrypted_size_bytes s"
    have "unat tot + unat ?n < 2 ^ 64"
      using Cons.prems attachment_summary_sizes(6) [OF s] by (simp add: MAX_ITEM_ENCRYPTED_BYTES_def MAX_ENCRYPTED_BYTES_def)
    then have add: "checked_add_u64 tot ?n = Some (tot + ?n)" and sum: "unat (tot + ?n) = unat tot + unat ?n"
      by (simp_all add: checked_add_u64_def unat_add_u64)
    show ?thesis
    proof (cases "unat tot + unat ?n \<le> MAX_ITEM_ENCRYPTED_BYTES")
      case True
      with Cons.IH [of "tot + ?n" "insert (ar_attachment_id rec) seen"] s new add sum show ?thesis
        by (cases out) (auto simp: and_then_eq_Inr)
    next
      case le: False
      with s new add sum show ?thesis by (cases out) (auto simp: and_then_eq_Inr)
    qed
  qed
qed auto

lemma list_attachment_records_sent:
  assumes "list_attachment_records X S self vault_id item_id vk w = (r, w')"
  shows "w' = w\<lparr> sent := sent w @ [request_of self Get (attachments_path X vault_id item_id) None None] \<rparr>"
  using assms unfolding list_attachment_records_def
  by (auto elim!: op_thenE simp: op_lift_eq dest!: call_sent)

lemma list_attachment_records_Inr:
  assumes "list_attachment_records X S self vault_id item_id vk w = (Inr listed, w')"
  shows "\<exists>v. accepted X S (sent w') v \<and> attachments_from_value X v = Some (map fst listed)
    \<and> collect_records X vk item_id {} 0 (map fst listed) = Inr listed"
proof -
  obtain v recs where "accepted X S (sent w') v" "attachments_from_value X v = Some recs"
      "collect_records X vk item_id {} 0 recs = Inr listed"
    using assms unfolding list_attachment_records_def
    by (auto elim!: op_thenE simp: op_lift_eq ok_or_eq_Inr dest!: call_Inr)
  moreover then have "map fst listed = recs" by (simp add: collect_records_Inr)
  ultimately show ?thesis by blast
qed


section \<open>Uploads\<close>

lemma base64_len_mono: "n \<le> m \<Longrightarrow> base64_len n \<le> base64_len m"
  by (simp add: base64_len_def div_le_mono)

lemma base64_encode_length: "base64_laws X \<Longrightarrow> length (base64_encode X b) = base64_len (length b)"
  by (simp add: base64_length base64_len_def)

lemma bounded_decode_encode:
  "base64_laws X \<Longrightarrow> length b \<le> limit \<Longrightarrow> bounded_decode X (base64_encode X b) limit = Inr b"
  using base64_len_mono [of "length b" limit]
  by (simp add: bounded_decode_def base64_encode_length b64_decode_def base64_round_trip)

lemma validate_upload_Inr:
  "validate_upload n f c 0 = Inr () \<longleftrightarrow>
     n + 42 \<le> MAX_ENCRYPTED_BYTES \<and> 0 < f \<and> f + 42 \<le> MAX_METADATA_BYTES
   \<and> (\<forall>m. c = Some m \<longrightarrow> 0 < m \<and> m + 42 \<le> MAX_METADATA_BYTES)"
proof -
  have eq: "word_of_nat n + word_of_nat ENVELOPE_BYTES = (word_of_nat (n + 42) :: u64)"
    by (simp add: ENVELOPE_BYTES_def)
  have n: "unat (word_of_nat (n + 42) :: u64) = n + 42" if "n + 42 \<le> 104857600"
    using that by (simp only: unat_of_nat) simp
  have add: "checked_add_u64 0 x = Some x" for x
    using unsigned_less [of x, where ?'a = nat] by (simp add: checked_add_u64_def)
  show ?thesis
    unfolding validate_upload_def eq add
    using n by (auto simp: MAX_ATTACHMENT_PLAINTEXT_BYTES_def MAX_ITEM_ENCRYPTED_BYTES_def
        MAX_ENCRYPTED_BYTES_def ENVELOPE_BYTES_def MAX_METADATA_BYTES_def simp del: of_nat_add split: option.splits)
qed

text \<open>What a record must keep of an upload request.\<close>

definition keeps :: "AttachmentRequest \<Rightarrow> uuid \<Rightarrow> nat \<Rightarrow> AttachmentRecord \<Rightarrow> bool" where
  "keeps req item_id n rec \<longleftrightarrow>
     ar_attachment_id rec = aq_attachment_id req \<and> ar_item_id rec = item_id
   \<and> ar_filename_ciphertext rec = aq_filename_ciphertext req
   \<and> ar_content_type_ciphertext rec = aq_content_type_ciphertext req
   \<and> ar_wrapped_content_key rec = aq_wrapped_content_key req
   \<and> ar_digest_ciphertext rec = aq_digest_ciphertext req
   \<and> ar_size_bytes rec = word_of_nat (n + ENVELOPE_BYTES)"

lemma seal_facts:
  assumes "aead_laws X"
  shows "encrypt_filename X vk i a s e = (b, e') \<Longrightarrow> str_ok s \<Longrightarrow> decrypt_filename X vk i a b = Inr s \<and> length b = length s + 42"
    and "encrypt_content_type X vk i a s e = (b, e') \<Longrightarrow> str_ok s \<Longrightarrow> decrypt_content_type X vk i a b = Inr s \<and> length b = length s + 42"
    and "wrap_attachment_key X vk i a k e = (b, e') \<Longrightarrow> unwrap_attachment_key X vk i a b = Inr k \<and> length b = 74"
    and "encrypt_digest X k i a d e = (b, e') \<Longrightarrow> decrypt_digest X k i a b = Inr d \<and> length b = 74"
    and "encrypt_blob X k i a m e = (b, e') \<Longrightarrow> decrypt_blob X k i a b = Inr m \<and> length b = length m + 42"
  using attachment_filename_slot.open_seal [OF assms, of s vk "(i, a)" e] attachment_filename_slot.length_sealed [OF assms, of vk "(i, a)" s e]
    attachment_content_type_slot.open_seal [OF assms, of s vk "(i, a)" e] attachment_content_type_slot.length_sealed [OF assms, of vk "(i, a)" s e]
    attachment_key_slot.open_seal [OF assms TrueI, of vk "(i, a)" k e] attachment_key_slot.length_sealed [OF assms, of vk "(i, a)" k e]
    attachment_digest_slot.open_seal [OF assms TrueI, of k "(i, a)" d e] attachment_digest_slot.length_sealed [OF assms, of k "(i, a)" d e]
    attachment_blob_slot.open_seal [OF assms TrueI, of k "(i, a)" m e] attachment_blob_slot.length_sealed [OF assms, of k "(i, a)" m e]
  by auto

lemma prepared_upload_opens:
  assumes laws: "aead_laws X" "base64_laws X"
    and strs: "str_ok (up_filename upload)" "\<forall>t. up_content_type upload = Some t \<longrightarrow> str_ok t"
    and prep: "prepare_upload X vk item_id attachment_id upload sha e = (Inr pending, e1)"
    and enc: "pending_encrypt X pending e1 = (req, e2)"
  defines "i \<equiv> uuid_as_bytes X item_id" and "a \<equiv> uuid_as_bytes X attachment_id"
  shows "aq_attachment_id req = attachment_id"
    and "\<exists>b. bounded_decode X (aq_wrapped_content_key req) MAX_METADATA_BYTES = Inr b
          \<and> unwrap_attachment_key X vk i a b = Inr (pu_key pending)"
    and "\<exists>b. bounded_decode X (aq_filename_ciphertext req) MAX_METADATA_BYTES = Inr b
          \<and> decrypt_filename X vk i a b = Inr (up_filename upload)"
    and "\<exists>b. bounded_decode X (aq_content_type_ciphertext req) MAX_METADATA_BYTES = Inr b
          \<and> decrypt_content_type X vk i a b = Inr (case up_content_type upload of Some t \<Rightarrow> t | None \<Rightarrow> [])"
    and "stored_digest X (pu_key pending) i a (aq_digest_ciphertext req) = sha"
    and "\<exists>b. bounded_decode X (aq_blob req) (length (up_bytes upload) + 42) = Inr b
          \<and> length b = length (up_bytes upload) + 42 \<and> decrypt_blob X (pu_key pending) i a b = Inr (up_bytes upload)"
    and "length (up_bytes upload) + 42 \<le> MAX_ENCRYPTED_BYTES"
    and "up_content_type upload \<noteq> Some []"
    and "length (aq_blob req) + length (aq_filename_ciphertext req) + length (aq_content_type_ciphertext req)
          + length (aq_wrapped_content_key req) + 64 * 1024 \<le> MAX_DOWNLOAD_RESPONSE_BYTES"
proof -
  obtain key ek where k: "generate_attachment_key e = (key, ek)" by fastforce
  obtain fct ef where f: "encrypt_filename X vk i a (up_filename upload) ek = (fct, ef)" by fastforce
  obtain cct ec where c: "encrypt_content_type X vk i a (case up_content_type upload of Some t \<Rightarrow> t | None \<Rightarrow> []) ef = (cct, ec)" by fastforce
  obtain wrapped ew where w: "wrap_attachment_key X vk i a key ec = (wrapped, ew)" by fastforce
  have valid: "validate_upload (length (up_bytes upload)) (length (up_filename upload)) (map_option length (up_content_type upload)) 0 = Inr ()"
    using prep by (auto simp: prepare_upload_def split: sum.splits)
  have pending: "pu_request pending = \<lparr> aq_attachment_id = attachment_id, aq_blob = [],
        aq_filename_ciphertext = base64_encode X fct, aq_content_type_ciphertext = base64_encode X cct,
        aq_wrapped_content_key = base64_encode X wrapped,
        aq_digest_ciphertext = map_option (\<lambda>d. base64_encode X (fst (encrypt_digest X key i a d ew))) sha \<rparr>"
      "pu_key pending = key" "pu_item_id pending = item_id" "pu_bytes pending = up_bytes upload"
    using prep by (auto simp: prepare_upload_def valid k Let_def f [unfolded i_def a_def] c [unfolded i_def a_def]
        w [unfolded i_def a_def] i_def a_def split_beta apfst_def map_prod_def split: option.splits)
  obtain blob where b: "encrypt_blob X key i a (up_bytes upload) e1 = (blob, e2)" and "req = (pu_request pending)\<lparr> aq_blob := base64_encode X blob \<rparr>"
    using enc by (auto simp: pending_encrypt_def pending i_def a_def Let_def split: prod.splits)
  then have req: "aq_attachment_id req = attachment_id" "aq_filename_ciphertext req = base64_encode X fct"
      "aq_content_type_ciphertext req = base64_encode X cct" "aq_wrapped_content_key req = base64_encode X wrapped"
      "aq_blob req = base64_encode X blob" "pu_key pending = key"
    and d: "aq_digest_ciphertext req = map_option (\<lambda>d. base64_encode X (fst (encrypt_digest X key i a d ew))) sha"
    by (simp_all add: pending)
  have ct: "str_ok (case up_content_type upload of Some t \<Rightarrow> t | None \<Rightarrow> [])"
      "length (case up_content_type upload of Some t \<Rightarrow> t | None \<Rightarrow> []) + 42 \<le> MAX_METADATA_BYTES"
    using strs(2) valid by (auto simp: validate_upload_Inr MAX_METADATA_BYTES_def split: option.splits)
  note fs = seal_facts(1) [OF laws(1) f strs(1)] and cs = seal_facts(2) [OF laws(1) c ct(1)]
    and ws = seal_facts(3) [OF laws(1) w] and bs = seal_facts(5) [OF laws(1) b]
  have ks: "length fct \<le> MAX_METADATA_BYTES" "length cct \<le> MAX_METADATA_BYTES" "length wrapped \<le> MAX_METADATA_BYTES"
      "length blob \<le> MAX_ENCRYPTED_BYTES"
    using fs cs ws bs ct valid by (simp_all add: validate_upload_Inr MAX_METADATA_BYTES_def)
  show "aq_attachment_id req = attachment_id" by (rule req)
  show "\<exists>b. bounded_decode X (aq_wrapped_content_key req) MAX_METADATA_BYTES = Inr b
      \<and> unwrap_attachment_key X vk i a b = Inr (pu_key pending)"
    using ws ks by (simp add: req bounded_decode_encode [OF laws(2)])
  show "\<exists>b. bounded_decode X (aq_filename_ciphertext req) MAX_METADATA_BYTES = Inr b
      \<and> decrypt_filename X vk i a b = Inr (up_filename upload)"
    using fs ks by (simp add: req bounded_decode_encode [OF laws(2)])
  show "\<exists>b. bounded_decode X (aq_content_type_ciphertext req) MAX_METADATA_BYTES = Inr b
      \<and> decrypt_content_type X vk i a b = Inr (case up_content_type upload of Some t \<Rightarrow> t | None \<Rightarrow> [])"
    using cs ks by (simp add: req bounded_decode_encode [OF laws(2)])
  show "stored_digest X (pu_key pending) i a (aq_digest_ciphertext req) = sha"
  proof (cases sha)
    case (Some dg)
    have "decrypt_digest X key i a (fst (encrypt_digest X key i a dg ew)) = Inr dg \<and> length (fst (encrypt_digest X key i a dg ew)) = 74"
      by (rule seal_facts(4) [OF laws(1)]) (rule prod.collapse [symmetric])
    then show ?thesis
      by (simp add: Some d req stored_digest_def bounded_decode_encode [OF laws(2)] MAX_METADATA_BYTES_def)
  qed (simp add: d stored_digest_def)
  show "\<exists>b. bounded_decode X (aq_blob req) (length (up_bytes upload) + 42) = Inr b
      \<and> length b = length (up_bytes upload) + 42 \<and> decrypt_blob X (pu_key pending) i a b = Inr (up_bytes upload)"
    using bs by (simp add: req bounded_decode_encode [OF laws(2)])
  show "length (up_bytes upload) + 42 \<le> MAX_ENCRYPTED_BYTES" "up_content_type upload \<noteq> Some []"
    using valid by (auto simp: validate_upload_Inr)
  show "length (aq_blob req) + length (aq_filename_ciphertext req) + length (aq_content_type_ciphertext req)
      + length (aq_wrapped_content_key req) + 64 * 1024 \<le> MAX_DOWNLOAD_RESPONSE_BYTES"
    using ks [THEN base64_len_mono] unfolding req base64_encode_length [OF laws(2)] MAX_DOWNLOAD_RESPONSE_BYTES_def by linarith
qed

lemma unat_size: "n + 42 \<le> MAX_ENCRYPTED_BYTES \<Longrightarrow> unat (word_of_nat (n + ENVELOPE_BYTES) :: u64) = n + 42"
  by (simp only: unat_of_nat MAX_ENCRYPTED_BYTES_def ENVELOPE_BYTES_def) simp

lemma not_sless_zero_small:
  assumes "unat (x :: i64) < 2 ^ 63"
  shows "\<not> x <s 0"
proof -
  have "int (unat x) < int (2 ^ 63)" using assms by (simp only: of_nat_less_iff)
  then have "uint x < 2 ^ 63" by (simp only: uint_nat of_nat_power of_nat_numeral)
  moreover have "- (2 ^ 63) \<le> uint x" by (rule order_trans [OF _ uint_ge_0]) simp
  ultimately have "signed_take_bit 63 (uint x) = uint x" by (rule signed_take_bit_int_eq_self [rotated])
  then have "sint x = uint x" by (simp add: sint_uint)
  then show ?thesis by (simp add: word_sless_alt)
qed

lemma size_ok: "n + 42 \<le> MAX_ENCRYPTED_BYTES \<Longrightarrow> encrypted_size (word_of_nat (n + ENVELOPE_BYTES)) = Inr (word_of_nat (n + ENVELOPE_BYTES))"
proof -
  assume n: "n + 42 \<le> MAX_ENCRYPTED_BYTES"
  have "\<not> (word_of_nat (n + ENVELOPE_BYTES) :: i64) <s 0"
    using unat_size [OF n] n by (simp add: not_sless_zero_small MAX_ENCRYPTED_BYTES_def del: of_nat_add)
  then show ?thesis using unat_size [OF n] n by (simp add: encrypted_size_Inr ENVELOPE_BYTES_def)
qed

text \<open>C16. Attachments are downloaded as they were uploaded.  If an upload passes the size checks and the
  service keeps the ciphertexts of its request, the listing shows the file name, content type,
  plaintext size and digest that were uploaded, and the download returns the uploaded bytes.  The
  encoded fields of the download, with 64 KiB to spare, fit the cap on the response.\<close>

theorem attachment_upload_reads_back:
  assumes "aead_laws X" and "base64_laws X"
    and "str_ok (up_filename upload)" and "\<forall>t. up_content_type upload = Some t \<longrightarrow> str_ok t"
    and "prepare_upload X vk item_id attachment_id upload sha e = (Inr pending, e1)"
    and "pending_encrypt X pending e1 = (req, e2)"
    and "keeps req item_id (length (up_bytes upload)) rec" and "ServiceTimestamp_new X (ar_created_at rec) = Inr created"
    and "call_with_options X S self Get (attachment_path X vault_id item_id attachment_id) None None
      MAX_DOWNLOAD_RESPONSE_BYTES w = (Inr v, w')"
    and "attachment_with_blob_from_value X v = Some (rec, aq_blob req)"
  shows "\<exists>s. attachment_summary X vk item_id rec = Inr s
      \<and> as_attachment_id s = attachment_id \<and> as_filename s = up_filename upload
      \<and> as_content_type s = up_content_type upload \<and> unat (as_size_bytes s) = length (up_bytes upload)
      \<and> as_sha256 s = sha
      \<and> get_attachment X S self vault_id item_id attachment_id vk w = (Inr \<lparr> da_summary = s, da_bytes = up_bytes upload \<rparr>, w')
      \<and> length (aq_blob req) + length (ar_filename_ciphertext rec) + length (ar_content_type_ciphertext rec)
          + length (ar_wrapped_content_key rec) + 64 * 1024 \<le> MAX_DOWNLOAD_RESPONSE_BYTES"
proof -
  note opens = prepared_upload_opens [OF assms(1-6)]
  let ?n = "length (up_bytes upload)"
  have rec: "ar_attachment_id rec = attachment_id" "ar_item_id rec = item_id"
      "ar_filename_ciphertext rec = aq_filename_ciphertext req" "ar_content_type_ciphertext rec = aq_content_type_ciphertext req"
      "ar_wrapped_content_key rec = aq_wrapped_content_key req" "ar_digest_ciphertext rec = aq_digest_ciphertext req"
      "ar_size_bytes rec = word_of_nat (?n + ENVELOPE_BYTES)"
    using assms(7) opens(1) by (simp_all add: keeps_def)
  have ct: "(if (case up_content_type upload of Some t \<Rightarrow> t | None \<Rightarrow> []) \<noteq> [] then Some (case up_content_type upload of Some t \<Rightarrow> t | None \<Rightarrow> []) else None)
      = up_content_type upload"
    using opens(8) by (cases "up_content_type upload") auto
  obtain s where s: "attachment_summary X vk item_id rec = Inr s" "as_filename s = up_filename upload"
      "as_content_type s = up_content_type upload" "as_sha256 s = sha"
    using opens(2-5) assms(8)
    by (auto simp: attachment_summary_def rec Let_def size_ok [OF opens(7)] ct simp del: of_nat_add)
  note sizes = attachment_summary_sizes [OF s(1)]
  have enc: "unat (as_encrypted_size_bytes s) = ?n + 42"
    by (simp add: sizes(4) rec unat_size [OF opens(7)] del: of_nat_add)
  then have plain: "unat (as_size_bytes s) = ?n" using sizes(7) by (simp add: ENVELOPE_BYTES_def)
  have "get_attachment X S self vault_id item_id attachment_id vk w = (Inr \<lparr> da_summary = s, da_bytes = up_bytes upload \<rparr>, w')"
    using opens(2,6) by (auto simp: get_attachment_def op_then_def assms(9) op_basic assms(10) rec(1,5) s(1)
        Let_def enc decrypt_encrypted_blob_def ENVELOPE_BYTES_def)
  with s plain opens(9) sizes(1) show ?thesis by (auto simp: rec)
qed

section \<open>Guarded deletion\<close>

lemma attachment_summary_digest:
  assumes "attachment_summary X vk item_id rec = Inr s" and "as_sha256 s = Some d"
  shows "\<exists>digest key b. ar_digest_ciphertext rec = Some digest \<and> base64_decode X digest = Some b
    \<and> decrypt_digest X key (uuid_as_bytes X item_id) (uuid_as_bytes X (ar_attachment_id rec)) b = Inr d"
  using assms
  by (auto simp: attachment_summary_def Let_def result_simps stored_digest_def bind_eq_Some_conv result_ok_eq_Some
      bounded_decode_def b64_decode_def split: if_splits; blast)

definition fresh_guard :: "'z crypto_lib_scheme \<Rightarrow> uuid \<Rightarrow> uuid \<Rightarrow> byte32 \<Rightarrow> entropy \<Rightarrow> string" where
  "fresh_guard X item_id attachment_id sha e =
     (let (key, e) = generate_attachment_key e
      in base64_encode X (fst (encrypt_digest X key (uuid_as_bytes X item_id) (uuid_as_bytes X attachment_id) sha e)))"

lemma deletion_guard_run:
  assumes "deletion_guard X item_id attachment_id sha listed w = (r, w')"
    and "list_all (\<lambda>p. attachment_summary X vk item_id (fst p) = Inr (snd p)) listed"
  shows "sent w' = sent w \<and> (\<exists>guard. r = Inr guard \<and>
     ((\<exists>rec s. (rec, s) \<in> set listed \<and> ar_attachment_id rec = attachment_id \<and> as_sha256 s = Some sha
         \<and> ar_digest_ciphertext rec = Some guard)
      \<or> (\<forall>rec s. (rec, s) \<in> set listed \<and> ar_attachment_id rec = attachment_id \<longrightarrow> as_sha256 s \<noteq> Some sha)
         \<and> guard = fresh_guard X item_id attachment_id sha (rng w)))"
proof (cases "find (\<lambda>(rec, summary). ar_attachment_id rec = attachment_id \<and> as_sha256 summary = Some sha) listed")
  case None
  then have "r = Inr (fresh_guard X item_id attachment_id sha (rng w)) \<and> sent w' = sent w" using assms(1)
    by (auto simp: deletion_guard_def op_then_def op_basic fresh_guard_def Let_def split_beta)
  with None show ?thesis by (auto simp: find_None_iff)
next
  case (Some p)
  then have "p \<in> set listed" by (metis find_Some_iff nth_mem)
  with Some obtain rec s where p: "p = (rec, s)" "(rec, s) \<in> set listed" "ar_attachment_id rec = attachment_id" "as_sha256 s = Some sha"
    by (cases p) (auto simp: find_Some_iff)
  then have "attachment_summary X vk item_id rec = Inr s" using assms(2) by (auto simp: list_all_iff)
  from attachment_summary_digest [OF this p(4)] p Some assms(1) show ?thesis
    by (auto simp: deletion_guard_def op_basic)
qed

lemma op_catchE:
  assumes "op_catch m h f w = (r, w')"
  obtains e w1 where "m w = (Inl e, w1)" "h e w1 = (r, w')" | x w1 where "m w = (Inr x, w1)" "f x w1 = (r, w')"
  using assms by (auto simp: op_catch_def split: prod.splits sum.splits)

definition deletion_request ::
  "'z crypto_lib_scheme \<Rightarrow> VaultClient \<Rightarrow> uuid \<Rightarrow> uuid \<Rightarrow> uuid \<Rightarrow> string \<Rightarrow> ItemRevision \<Rightarrow> gateway_request" where
  "deletion_request X self vault_id item_id attachment_id guard revision =
     request_of self Post (attachment_path X vault_id item_id attachment_id @ ''/deletion'')
       (Some (JObject [(''expected_digest_ciphertext'', JString guard)])) (Some revision)"

text \<open>What the outcome of a guarded deletion says about the service's answer to it.\<close>

definition deletion_outcome ::
  "'z attachment_lib_scheme \<Rightarrow> json resolver_result \<Rightarrow> AttachmentDeleteOutcome AttachmentWrite \<Rightarrow> bool" where
  "deletion_outcome X reply result \<longleftrightarrow>
     (case reply of
        Inr t \<Rightarrow> \<exists>st u revision. deletion_from_value X t = Some (st, u) \<and> ItemRevision_new X u = Inr revision
          \<and> result = \<lparr> write_outcome = (case st of StateDeleted \<Rightarrow> DeleteDone | StateAlreadyAbsent \<Rightarrow> DeleteAlreadyAbsent),
                       write_item_updated_at = Some revision \<rparr>
      | Inl er \<Rightarrow> (\<exists>body. er = ServerError 412 body) \<and> result = \<lparr> write_outcome = DeleteStale, write_item_updated_at = None \<rparr>
          \<or> is_coded_server_error X er 409 ''attachment_digest_mismatch''
            \<and> result = \<lparr> write_outcome = DeleteMismatch, write_item_updated_at = None \<rparr>)"

lemma is_server_status_iff: "is_server_status n er \<longleftrightarrow> (\<exists>body. er = ServerError n body)"
  by (cases er) auto

text \<open>C14. Guarded deletion of an attachment.  Whatever the service answers, the operation sends a listing
  and then at most one deletion request, conditional on the item revision the caller named; it
  never uses the unconditional deletion route.  The digest it names is either the one stored with
  that attachment, which opened to the digest the caller expects, or, if no listed digest did, a
  seal under a fresh key.  The outcome is the service's answer to the deletion request: a
  deletion or absence with the revision the service returned, a stale revision on 412, a mismatch
  on the coded 409, and no outcome otherwise.\<close>

theorem conditional_delete_guarded:
  assumes "conditional_delete_attachment X S self vault_id item_id attachment_id vk sha revision w = (r, w')"
  shows "sent w' = sent w @ [request_of self Get (attachments_path X vault_id item_id) None None] \<and> \<not> is_ok r
    \<or> (\<exists>listed guard.
         fst (list_attachment_records X S self vault_id item_id vk w) = Inr listed
       \<and> sent w' = sent w @ [request_of self Get (attachments_path X vault_id item_id) None None,
           deletion_request X self vault_id item_id attachment_id guard revision]
       \<and> ((\<exists>rec s. (rec, s) \<in> set listed \<and> attachment_summary X vk item_id rec = Inr s
             \<and> ar_attachment_id rec = attachment_id \<and> as_sha256 s = Some sha \<and> ar_digest_ciphertext rec = Some guard)
          \<or> (\<forall>rec s. (rec, s) \<in> set listed \<and> ar_attachment_id rec = attachment_id \<longrightarrow> as_sha256 s \<noteq> Some sha)
            \<and> guard = fresh_guard X item_id attachment_id sha (rng w))
       \<and> (\<forall>result. r = Inr result \<longrightarrow> deletion_outcome X (answer X S (sent w')) result))"
  using assms unfolding conditional_delete_attachment_def
proof (rule op_thenE)
  fix listed w1
  let ?get = "request_of self Get (attachments_path X vault_id item_id) None None"
  assume l: "list_attachment_records X S self vault_id item_id vk w = (Inr listed, w1)"
    and rest: "op_then (deletion_guard X item_id attachment_id sha listed) (\<lambda>expected_digest_ciphertext.
     op_catch (call_with_options X S self Post (attachment_path X vault_id item_id attachment_id @ ''/deletion'')
         (Some (JObject [(''expected_digest_ciphertext'', JString expected_digest_ciphertext)])) (Some revision) MAX_GATEWAY_BODY)
       (\<lambda>error. if is_server_status 412 error then op_return \<lparr> write_outcome = DeleteStale, write_item_updated_at = None \<rparr>
         else if is_coded_server_error X error 409 ''attachment_digest_mismatch''
         then op_return \<lparr> write_outcome = DeleteMismatch, write_item_updated_at = None \<rparr>
         else op_lift (Inl (item_write_error error)))
       (\<lambda>value. op_then (op_lift (ok_or (Malformed ''attachment deletion outcome'') (deletion_from_value X value))) (\<lambda>(st, updated_at).
         op_then (op_lift (parse_item_updated_at X updated_at)) (\<lambda>revision.
           op_return \<lparr> write_outcome = (case st of StateDeleted \<Rightarrow> DeleteDone | StateAlreadyAbsent \<Rightarrow> DeleteAlreadyAbsent),
                       write_item_updated_at = Some revision \<rparr>)))) w1 = (r, w')"
  have w1: "w1 = w\<lparr> sent := sent w @ [?get] \<rparr>" by (rule list_attachment_records_sent [OF l])
  have ok: "list_all (\<lambda>p. attachment_summary X vk item_id (fst p) = Inr (snd p)) listed"
    using list_attachment_records_Inr [OF l] by (auto simp: collect_records_Inr)
  obtain guard w2 where g: "deletion_guard X item_id attachment_id sha listed w1 = (Inr guard, w2)" and w2: "sent w2 = sent w1"
    using deletion_guard_run [OF _ ok] by (metis surj_pair)
  have "sent w' = sent w @ [?get, deletion_request X self vault_id item_id attachment_id guard revision]"
    "\<forall>result. r = Inr result \<longrightarrow> deletion_outcome X (answer X S (sent w')) result"
    using rest unfolding op_then_Inr [where m = "deletion_guard X item_id attachment_id sha listed", OF g]
    by (auto elim!: op_catchE op_thenE simp: call_with_options_run op_return_eq op_lift_eq is_server_status_iff w2 w1
        deletion_request_def deletion_outcome_def ok_or_eq_Inr parse_item_updated_at_def map_err_eq_Inr
        split: if_splits sum.splits)
  with deletion_guard_run [OF g ok] l ok w1 show ?thesis
    by (intro disjI2 exI [of _ listed] exI [of _ guard]) (fastforce simp: list_all_iff)
qed (auto dest!: list_attachment_records_sent)

section \<open>Witnesses\<close>

definition toy_attachment_lib :: "AttachmentRecord \<Rightarrow> string \<Rightarrow> attachment_lib" where
  "toy_attachment_lib rec blob = vault_lib.extend (toy_vault_lib toy_record)
     (attachment_lib.fields (\<lambda>_. Some [rec]) (\<lambda>_. Some rec) (\<lambda>_. Some (rec, blob)) (\<lambda>_. Some (rec, []))
       (\<lambda>_. Some (StateDeleted, ''2026-01-02T03:04:05.678Z'')))"

lemma toy_attachment_selectors [simp]:
  "attachments_from_value (toy_attachment_lib rec blob) = (\<lambda>_. Some [rec])"
  "attachment_with_blob_from_value (toy_attachment_lib rec blob) = (\<lambda>_. Some (rec, blob))"
  "json_from_slice (toy_attachment_lib rec blob) = (\<lambda>_. Some metered_envelope)"
  "timestamp_parse (toy_attachment_lib rec blob) = (\<lambda>_. Some (Timestamp 0))"
  by (simp_all add: toy_attachment_lib_def vault_lib.defs attachment_lib.defs toy_vault_lib_def crypto_lib.defs)

lemma toy_attachment_crypto [simp]:
  "base64_encode (toy_attachment_lib rec blob) = base64_encode toy_lib"
  "uuid_as_bytes (toy_attachment_lib rec blob) = uuid_as_bytes toy_lib"
  "xchacha_encrypt_detached (toy_attachment_lib rec blob) = xchacha_encrypt_detached toy_lib"
  "xchacha_decrypt (toy_attachment_lib rec blob) = xchacha_decrypt toy_lib"
  "base64_decode (toy_attachment_lib rec blob) = base64_decode toy_lib"
  by (simp_all add: toy_attachment_lib_def vault_lib.defs toy_vault_lib_def)

lemma toy_attachment_encrypt [simp]: "xchacha20_encrypt_with_aad (toy_attachment_lib rec blob) = xchacha20_encrypt_with_aad toy_lib"
  by (simp add: fun_eq_iff xchacha20_encrypt_with_aad_def)

lemma toy_attachment_laws [simp]:
  "aead_laws (toy_attachment_lib rec blob)" "base64_laws (toy_attachment_lib rec blob)"
  using toy_aead_laws toy_base64_laws by (simp_all add: aead_laws_def base64_laws_def)

definition toy_upload :: AttachmentUpload where
  "toy_upload = \<lparr> up_filename = ''mail'', up_content_type = None, up_bytes = [1, 2, 3] \<rparr>"

abbreviation toy_digest :: byte32 where "toy_digest \<equiv> arr32 (replicate 32 6)"

definition toy_prepared :: "PendingAttachmentUpload resolver_result \<times> entropy" where
  "toy_prepared = prepare_upload toy_lib toy_vault_key 2 4 toy_upload (Some toy_digest) (sconst 1)"

definition toy_attachment_request :: AttachmentRequest where
  "toy_attachment_request = fst (pending_encrypt toy_lib (projr (fst toy_prepared)) (snd toy_prepared))"

definition toy_attachment_record :: AttachmentRecord where
  "toy_attachment_record = \<lparr> ar_attachment_id = 4, ar_item_id = 2,
     ar_filename_ciphertext = aq_filename_ciphertext toy_attachment_request,
     ar_content_type_ciphertext = aq_content_type_ciphertext toy_attachment_request,
     ar_wrapped_content_key = aq_wrapped_content_key toy_attachment_request, ar_size_bytes = 45,
     ar_created_at = ''2026-01-02T03:04:05.678Z'', ar_digest_ciphertext = aq_digest_ciphertext toy_attachment_request \<rparr>"

abbreviation toy_X :: attachment_lib where "toy_X \<equiv> toy_attachment_lib toy_attachment_record (aq_blob toy_attachment_request)"

lemma toy_prepare:
  "prepare_upload (toy_attachment_lib rec blob) = prepare_upload toy_lib"
  "pending_encrypt (toy_attachment_lib rec blob) = pending_encrypt toy_lib"
proof -
  have parts: "encrypt_filename (toy_attachment_lib rec blob) = encrypt_filename toy_lib"
    "encrypt_content_type (toy_attachment_lib rec blob) = encrypt_content_type toy_lib"
    "wrap_attachment_key (toy_attachment_lib rec blob) = wrap_attachment_key toy_lib"
    "encrypt_digest (toy_attachment_lib rec blob) = encrypt_digest toy_lib"
    "encrypt_blob (toy_attachment_lib rec blob) = encrypt_blob toy_lib"
    by (simp_all add: fun_eq_iff encrypt_filename_def encrypt_content_type_def wrap_attachment_key_def
        encrypt_digest_def encrypt_blob_def)
  show "prepare_upload (toy_attachment_lib rec blob) = prepare_upload toy_lib"
    "pending_encrypt (toy_attachment_lib rec blob) = pending_encrypt toy_lib"
    unfolding prepare_upload_def [abs_def] pending_encrypt_def [abs_def] parts toy_attachment_crypto by (rule refl)+
qed

lemma toy_prepared_ok: "toy_prepared = (Inr (projr (fst toy_prepared)), snd toy_prepared)"
proof -
  have "validate_upload (length (up_bytes toy_upload)) (length (up_filename toy_upload)) (map_option length (up_content_type toy_upload)) 0 = Inr ()"
    by (simp add: validate_upload_Inr toy_upload_def MAX_ENCRYPTED_BYTES_def MAX_METADATA_BYTES_def)
  then show ?thesis by (simp add: toy_prepared_def prepare_upload_def Let_def split_beta)
qed

lemma toy_created: "ServiceTimestamp_new toy_X (ar_created_at toy_attachment_record) = Inr (ServiceTimestamp ''2026-01-02T03:04:05.678Z'')"
  by (simp add: ServiceTimestamp_new_def toy_attachment_record_def valid_rfc3339_def valid_offset_def upt_19 is_ascii_digit_def)

lemma toy_attachment_call:
  "call_with_options toy_X (toy_server 200) self method path body if_match cap w
     = (Inr (JString ''payload''), w\<lparr> sent := sent w @ [request_of self method path body if_match] \<rparr>)"
  by (simp add: call_with_options_eq toy_server_def Let_def read_answer_Inr is_success_def read_capped_def
      unwrap_metered_Inr metered_envelope_def)

lemma toy_attachment_upload:
  shows "prepare_upload toy_X toy_vault_key 2 4 toy_upload (Some toy_digest) (sconst 1) = (Inr (projr (fst toy_prepared)), snd toy_prepared)"
    and "pending_encrypt toy_X (projr (fst toy_prepared)) (snd toy_prepared)
        = (toy_attachment_request, snd (pending_encrypt toy_lib (projr (fst toy_prepared)) (snd toy_prepared)))"
    and "str_ok (up_filename toy_upload)" and "\<forall>t. up_content_type toy_upload = Some t \<longrightarrow> str_ok t"
  using toy_prepared_ok by (simp_all add: toy_prepare toy_prepared_def [symmetric] toy_attachment_request_def)
    (simp_all add: toy_upload_def str_ok_mail)

lemma toy_keeps: "keeps toy_attachment_request 2 (length (up_bytes toy_upload)) toy_attachment_record"
proof -
  have "aq_attachment_id toy_attachment_request = 4"
    using prepared_upload_opens(1) [OF toy_attachment_laws toy_attachment_upload(3,4,1,2)] .
  then show ?thesis
    by (simp add: keeps_def toy_attachment_record_def toy_upload_def ENVELOPE_BYTES_def)
qed

theorem attachment_upload_reads_back_witness:
  "\<exists>s. get_attachment toy_X (toy_server 200) toy_vault_client 1 2 4 toy_vault_key toy_world
      = (Inr \<lparr> da_summary = s, da_bytes = [1, 2, 3] \<rparr>,
         toy_world\<lparr> sent := sent toy_world @ [request_of toy_vault_client Get (attachment_path toy_X 1 2 4) None None] \<rparr>)
     \<and> as_filename s = ''mail'' \<and> as_sha256 s = Some toy_digest"
proof -
  from attachment_upload_reads_back [OF toy_attachment_laws toy_attachment_upload(3,4,1,2) toy_keeps toy_created toy_attachment_call,
      where self = toy_vault_client and w = toy_world and vault_id = 1]
  obtain s where "get_attachment toy_X (toy_server 200) toy_vault_client 1 2 4 toy_vault_key toy_world
      = (Inr \<lparr> da_summary = s, da_bytes = up_bytes toy_upload \<rparr>,
         toy_world\<lparr> sent := sent toy_world @ [request_of toy_vault_client Get (attachment_path toy_X 1 2 4) None None] \<rparr>)"
    "as_filename s = up_filename toy_upload" "as_sha256 s = Some toy_digest"
    by auto
  then show ?thesis by (auto simp: toy_upload_def)
qed

lemma toy_summary: "\<exists>s. attachment_summary toy_X toy_vault_key 2 toy_attachment_record = Inr s"
proof -
  note opens = prepared_upload_opens [OF toy_attachment_laws toy_attachment_upload(3,4,1,2)]
  have "encrypted_size 45 = Inr 45"
    by (simp add: encrypted_size_Inr not_sless_zero_small ENVELOPE_BYTES_def MAX_ENCRYPTED_BYTES_def)
  with opens(2-5) toy_created show ?thesis
    by (auto simp: attachment_summary_def toy_attachment_record_def Let_def)
qed


theorem conditional_delete_guarded_witness:
  "list_all (\<lambda>q. gw_method q \<in> {Get, Post})
     (sent (snd (conditional_delete_attachment toy_X (toy_server 200) toy_vault_client 1 2 4 toy_vault_key toy_digest
        (ItemRevision ''2026-01-02T03:04:05.678Z'') toy_world)))"
proof -
  obtain r w' where run: "conditional_delete_attachment toy_X (toy_server 200) toy_vault_client 1 2 4 toy_vault_key toy_digest
        (ItemRevision ''2026-01-02T03:04:05.678Z'') toy_world = (r, w')"
    by fastforce
  from conditional_delete_guarded [OF run] show ?thesis
    unfolding run by (auto simp: toy_world_def request_of_def deletion_request_def)
qed

end
