(* ===== verification/Backup.thy ===== *)
theory Backup
  imports Item_Crypto Kdf
begin

text \<open>
  \<open>export.rs\<close>: the encrypted backup file.  The JSON encodings of the body and of the envelope are
  generated code and fields of \<open>backup_lib\<close>.
\<close>

record BackupItem =
  backup_title :: string
  backup_content :: ItemContent
  backup_tags :: "string list"
  backup_favorite :: bool
  source_vault :: "string option"

record BackupBody =
  backup_items :: "BackupItem list"
  exported_at :: string
  backup_metadata :: json

record BackupEnvelope =
  backup_format :: string
  backup_version :: u8
  backup_kdf :: KdfParams
  ciphertext_b64 :: string

record backup_lib = item_lib +
  body_to_json :: "BackupBody \<Rightarrow> bytes option"
  body_from_json :: "bytes \<Rightarrow> BackupBody option"
  envelope_to_text :: "BackupEnvelope \<Rightarrow> string option"
    \<comment> \<open>\<open>serde_json::to_string_pretty\<close>\<close>
  envelope_from_text :: "string \<Rightarrow> BackupEnvelope option"

definition backup_json_laws :: "'z backup_lib_scheme \<Rightarrow> bool" where
  "backup_json_laws X \<longleftrightarrow>
     (\<forall>b bs. body_to_json X b = Some bs \<longrightarrow> body_from_json X bs = Some b)
   \<and> (\<forall>v s. envelope_to_text X v = Some s \<longrightarrow> envelope_from_text X s = Some v)"

definition BACKUP_FORMAT :: string where "BACKUP_FORMAT = ''seren-secrets-backup''"
definition BACKUP_VERSION :: u8 where "BACKUP_VERSION = 1"
definition MAX_DECRYPT_MEMORY_KIB :: u32 where "MAX_DECRYPT_MEMORY_KIB = 1024 * 1024"
definition MAX_DECRYPT_TIME_COST :: u32 where "MAX_DECRYPT_TIME_COST = 32"
definition MAX_DECRYPT_PARALLELISM :: u32 where "MAX_DECRYPT_PARALLELISM = 64"
definition REQUIRED_KEY_LEN :: u32 where "REQUIRED_KEY_LEN = 32"
definition MAX_SALT_LEN :: nat where "MAX_SALT_LEN = 1024"
definition MAX_CIPHERTEXT_DECODED_BYTES :: nat where "MAX_CIPHERTEXT_DECODED_BYTES = 512 * 1024 * 1024"

section \<open>Operations\<close>

definition encrypt_backup ::
  "'z backup_lib_scheme \<Rightarrow> bytes \<Rightarrow> BackupBody \<Rightarrow> entropy \<Rightarrow> BackupEnvelope crypto_result \<times> entropy" where
  "encrypt_backup X phrase body e =
     (let (kdf, e) = default_params e in
      case derive_key X phrase kdf of Inl er \<Rightarrow> (Inl er, e)
      | Inr key_bytes \<Rightarrow>
      if length key_bytes \<noteq> 32 then (Inl (Export ''kdf produced wrong key length''), e)
      else case body_to_json X body of None \<Rightarrow> (Inl (Export ''body json''), e)
      | Some plaintext \<Rightarrow>
      let (ct, e) = xchacha20_encrypt X (arr32 key_bytes) plaintext e
      in (Inr \<lparr> backup_format = BACKUP_FORMAT, backup_version = BACKUP_VERSION, backup_kdf = kdf,
                ciphertext_b64 = base64_encode X ct \<rparr>, e))"

definition validate_decrypt_kdf :: "KdfParams \<Rightarrow> unit crypto_result" where
  "validate_decrypt_kdf kdf =
     (if output_len kdf \<noteq> REQUIRED_KEY_LEN then Inl (Import ''backup kdf output_len must be 32'')
      else if MAX_DECRYPT_MEMORY_KIB < memory_kib kdf then Inl (Import ''backup kdf memory_kib too large'')
      else if MAX_DECRYPT_TIME_COST < time_cost kdf then Inl (Import ''backup kdf time_cost too large'')
      else if parallelism kdf = 0 \<or> MAX_DECRYPT_PARALLELISM < parallelism kdf
      then Inl (Import ''backup kdf parallelism out of range'')
      else if MAX_SALT_LEN < length (salt kdf) then Inl (Import ''backup kdf salt too long'')
      else Inr ())"

definition decrypt_backup_inner ::
  "'z backup_lib_scheme \<Rightarrow> bytes \<Rightarrow> BackupEnvelope \<Rightarrow> nat \<Rightarrow> BackupBody crypto_result" where
  "decrypt_backup_inner X phrase env max_decoded_bytes =
     (if backup_format env \<noteq> BACKUP_FORMAT then Inl (Import ''backup format mismatch'')
      else if backup_version env \<noteq> BACKUP_VERSION then Inl (Import ''unsupported backup version'')
      else and_then (validate_decrypt_kdf (backup_kdf env)) (\<lambda>_.
        if max_decoded_bytes div 3 * 4 < length (ciphertext_b64 env)
        then Inl (Import ''backup ciphertext too large'')
        else and_then (ok_or (Import ''ciphertext base64'') (base64_decode X (ciphertext_b64 env))) (\<lambda>ct.
             and_then (derive_key X phrase (backup_kdf env)) (\<lambda>key_bytes.
               if length key_bytes \<noteq> 32 then Inl (Import ''kdf produced wrong key length'')
               else and_then (xchacha20_decrypt X (arr32 key_bytes) ct) (\<lambda>pt.
                 ok_or (Import ''body json'') (body_from_json X pt))))))"

definition decrypt_backup :: "'z backup_lib_scheme \<Rightarrow> bytes \<Rightarrow> BackupEnvelope \<Rightarrow> BackupBody crypto_result" where
  "decrypt_backup X phrase env = decrypt_backup_inner X phrase env MAX_CIPHERTEXT_DECODED_BYTES"

definition envelope_to_json :: "'z backup_lib_scheme \<Rightarrow> BackupEnvelope \<Rightarrow> string crypto_result" where
  "envelope_to_json X env = ok_or (Export ''envelope json'') (envelope_to_text X env)"

definition envelope_from_json :: "'z backup_lib_scheme \<Rightarrow> string \<Rightarrow> BackupEnvelope crypto_result" where
  "envelope_from_json X s = ok_or (Import ''envelope json'') (envelope_from_text X s)"

section \<open>Properties\<close>

lemma validate_decrypt_kdf_Inr:
  "validate_decrypt_kdf kdf = Inr () \<longleftrightarrow>
     unat (output_len kdf) = 32 \<and> unat (memory_kib kdf) \<le> 1024 * 1024 \<and> unat (time_cost kdf) \<le> 32
   \<and> 1 \<le> unat (parallelism kdf) \<and> unat (parallelism kdf) \<le> 64 \<and> length (salt kdf) \<le> 1024"
proof -
  have "output_len kdf = REQUIRED_KEY_LEN \<longleftrightarrow> unat (output_len kdf) = 32"
    by (simp add: word_unat_eq_iff REQUIRED_KEY_LEN_def)
  moreover have "1 \<le> unat (parallelism kdf) \<longleftrightarrow> parallelism kdf \<noteq> 0"
    by (simp add: Suc_le_eq unat_gt_0)
  ultimately show ?thesis
    by (auto simp: validate_decrypt_kdf_def word_less_nat_alt not_less MAX_DECRYPT_MEMORY_KIB_def MAX_DECRYPT_TIME_COST_def
        MAX_DECRYPT_PARALLELISM_def MAX_SALT_LEN_def)
qed

lemma decrypt_backup_Inr:
  "decrypt_backup X pw v = Inr body \<longleftrightarrow>
     backup_format v = BACKUP_FORMAT \<and> backup_version v = 1 \<and> validate_decrypt_kdf (backup_kdf v) = Inr ()
   \<and> length (ciphertext_b64 v) \<le> MAX_CIPHERTEXT_DECODED_BYTES div 3 * 4
   \<and> (\<exists>ct key pt. base64_decode X (ciphertext_b64 v) = Some ct \<and> derive_key X pw (backup_kdf v) = Inr key
        \<and> length key = 32 \<and> xchacha20_decrypt X (arr32 key) ct = Inr pt \<and> body_from_json X pt = Some body)"
  by (auto simp: decrypt_backup_def decrypt_backup_inner_def BACKUP_VERSION_def result_simps not_less split: if_splits)

lemma div3_fits: "(n + 2) div 3 * 4 \<le> k * 4 \<longleftrightarrow> n \<le> k * (3 :: nat)"
  by (simp only: mult_le_cancel2) presburger

lemma encrypt_backup_Inr:
  "encrypt_backup X pw body e = (Inr v, e') \<longleftrightarrow>
     (\<exists>key pt. derive_key X pw (fst (default_params e)) = Inr key \<and> length key = 32 \<and> body_to_json X body = Some pt
      \<and> e' = snd (xchacha20_encrypt X (arr32 key) pt (snd (default_params e)))
      \<and> v = \<lparr> backup_format = BACKUP_FORMAT, backup_version = BACKUP_VERSION, backup_kdf = fst (default_params e),
              ciphertext_b64 = base64_encode X (fst (xchacha20_encrypt X (arr32 key) pt (snd (default_params e)))) \<rparr>)"
  by (auto simp: encrypt_backup_def Let_def split_beta split: sum.splits option.splits)


definition toy_body :: BackupBody where
  "toy_body = \<lparr> backup_items = [], exported_at = ''now'', backup_metadata = JNull \<rparr>"

definition toy_backup_lib :: backup_lib where
  "toy_backup_lib = crypto_lib.extend toy_lib
     (item_lib_ext (\<lambda>_. None) (\<lambda>_. None) (\<lambda>_. None) (\<lambda>_. None)
     (backup_lib_ext (\<lambda>b. if b = toy_body then Some [] else None) (\<lambda>_. Some toy_body) (\<lambda>_. None) (\<lambda>_. None) ()))"

lemma toy_backup_laws:
  "aead_laws toy_backup_lib" "base64_laws toy_backup_lib" "argon2_laws toy_backup_lib" "backup_json_laws toy_backup_lib"
  "body_to_json toy_backup_lib toy_body = Some []"
  using toy_argon2_laws by (simp_all add: toy_backup_lib_def backup_json_laws_def argon2_laws_def) (simp_all add: crypto_lib.defs)


end
