(* ===== verification/Password_Generator.thy ===== *)
theory Password_Generator
  imports Prelude Rust_Str Wire "HOL-Library.Multiset"
begin

text \<open>
  \<open>password_generator.rs\<close>.  The rand crate's \<open>choose\<close>, \<open>shuffle\<close> and \<open>fill\<close> are the fields of
  \<open>rand_lib\<close>; what they document (an index in range, a permutation, the requested number of bytes)
  is \<open>rand_laws\<close>.  The embedded word list is an argument.  A panic (\<open>expect\<close> on an empty slice) is
  the value \<open>None\<close>.
\<close>

record rand_lib =
  choose_index :: "nat \<Rightarrow> entropy \<Rightarrow> nat \<times> entropy"
  shuffle :: "bytes \<Rightarrow> entropy \<Rightarrow> bytes \<times> entropy"
  fill :: "nat \<Rightarrow> entropy \<Rightarrow> bytes \<times> entropy"

definition rand_laws :: "rand_lib \<Rightarrow> bool" where
  "rand_laws R \<longleftrightarrow>
     (\<forall>n e. 0 < n \<longrightarrow> fst (choose_index R n e) < n)
   \<and> (\<forall>xs e. mset (fst (shuffle R xs e)) = mset xs)
   \<and> (\<forall>n e. length (fst (fill R n e)) = n)"

datatype PasswordRecipe =
    Random (recipe_length: u32) (recipe_upper: bool) (recipe_lower: bool) (recipe_digits: bool) (recipe_symbols: bool)
  | Passphrase (word_count: u32) (separator: nat) (capitalize_first: bool)
  | Hex (hex_length: u32)

definition UPPER :: bytes where "UPPER = as_bytes ''ABCDEFGHIJKLMNOPQRSTUVWXYZ''"
definition LOWER :: bytes where "LOWER = as_bytes ''abcdefghijklmnopqrstuvwxyz''"
definition DIGITS :: bytes where "DIGITS = as_bytes ''0123456789''"
definition SYMBOLS :: bytes where "SYMBOLS = as_bytes ''!@#$%^&*()-_=+[]{};:,.?/''"

section \<open>Random characters\<close>

definition choose_from :: "rand_lib \<Rightarrow> 'a list \<Rightarrow> entropy \<Rightarrow> 'a option \<times> entropy" where
  "choose_from R xs e =
     (if xs = [] then (None, e) else let (i, e) = choose_index R (length xs) e in (Some (xs ! i), e))"

definition pick :: "rand_lib \<Rightarrow> bytes \<Rightarrow> entropy \<Rightarrow> u8 option \<times> entropy" where
  "pick R alphabet e = choose_from R alphabet e"

fun pick_each :: "rand_lib \<Rightarrow> bytes list \<Rightarrow> entropy \<Rightarrow> bytes option \<times> entropy" where
  "pick_each R [] e = (Some [], e)"
| "pick_each R (cls # classes) e =
     (case pick R cls e of (None, e) \<Rightarrow> (None, e)
      | (Some c, e) \<Rightarrow> (case pick_each R classes e of (None, e) \<Rightarrow> (None, e) | (Some cs, e) \<Rightarrow> (Some (c # cs), e)))"

function fill_up :: "rand_lib \<Rightarrow> bytes \<Rightarrow> nat \<Rightarrow> bytes \<Rightarrow> entropy \<Rightarrow> bytes option \<times> entropy" where
  "fill_up R alphabet n chars e =
     (if length chars < n
      then (case pick R alphabet e of (None, e) \<Rightarrow> (None, e) | (Some c, e) \<Rightarrow> fill_up R alphabet n (chars @ [c]) e)
      else (Some chars, e))"
  by pat_completeness auto
termination
  by (relation "measure (\<lambda>(R, alphabet, n, chars, e). n - length chars)") auto

declare fill_up.simps [simp del]

definition classes_of :: "bool \<Rightarrow> bool \<Rightarrow> bool \<Rightarrow> bool \<Rightarrow> bytes list" where
  "classes_of upper lower digits symbols =
     (if upper then [UPPER] else []) @ (if lower then [LOWER] else [])
     @ (if digits then [DIGITS] else []) @ (if symbols then [SYMBOLS] else [])"

definition generate_random ::
  "rand_lib \<Rightarrow> nat \<Rightarrow> bool \<Rightarrow> bool \<Rightarrow> bool \<Rightarrow> bool \<Rightarrow> entropy \<Rightarrow> string crypto_result option \<times> entropy" where
  "generate_random R n upper lower digits symbols e =
     (if \<not> (8 \<le> n \<and> n \<le> 256) then (Some (Inl (InvalidPasswordRecipe ''random length must be 8..=256'')), e)
      else let required = classes_of upper lower digits symbols; alphabet = concat required in
        if alphabet = [] then (Some (Inl (InvalidPasswordRecipe ''at least one character class must be enabled'')), e)
        else if n < length required
        then (Some (Inl (InvalidPasswordRecipe ''length too short to include one of every required class'')), e)
        else (case pick_each R required e of (None, e) \<Rightarrow> (None, e)
          | (Some chars, e) \<Rightarrow> (case fill_up R alphabet n chars e of (None, e) \<Rightarrow> (None, e)
            | (Some chars, e) \<Rightarrow> let (chars, e) = shuffle R chars e in (map_option Inr (from_utf8 chars), e))))"

section \<open>Passphrases\<close>

text \<open>\<open>str::lines\<close>: split after line feeds, without a final empty line or trailing carriage returns.\<close>

definition str_lines :: "string \<Rightarrow> string list" where
  "str_lines s =
     (let ls = split_char ((=) CHR ''\<newline>'') s; ls = (if last ls = [] then butlast ls else ls)
      in map (\<lambda>l. if l \<noteq> [] \<and> last l = CHR 0x0D then butlast l else l) ls)"

definition wordlist :: "string \<Rightarrow> string list" where
  "wordlist eff_large_wordlist = filter (list_all is_ascii_lowercase) (str_lines eff_large_wordlist)"

definition capitalized :: "bool \<Rightarrow> string \<Rightarrow> string" where
  "capitalized capitalize word = (if capitalize then (case word of [] \<Rightarrow> [] | c # cs \<Rightarrow> ascii_upper c # cs) else word)"

fun push_words ::
  "rand_lib \<Rightarrow> string list \<Rightarrow> string \<Rightarrow> bool \<Rightarrow> nat \<Rightarrow> bool \<Rightarrow> string \<Rightarrow> entropy \<Rightarrow> string option \<times> entropy" where
  "push_words R ws sep capitalize 0 started out e = (Some out, e)"
| "push_words R ws sep capitalize (Suc n) started out e =
     (case choose_from R ws e of (None, e) \<Rightarrow> (None, e)
      | (Some word, e) \<Rightarrow>
          push_words R ws sep capitalize n True ((if started then out @ sep else out) @ capitalized capitalize word) e)"

definition generate_passphrase ::
  "rand_lib \<Rightarrow> string \<Rightarrow> nat \<Rightarrow> nat \<Rightarrow> bool \<Rightarrow> entropy \<Rightarrow> string crypto_result option \<times> entropy" where
  "generate_passphrase R eff_large_wordlist n sep capitalize e =
     (if \<not> (4 \<le> n \<and> n \<le> 16) then (Some (Inl (InvalidPasswordRecipe ''passphrase word count must be 4..=16'')), e)
      else apfst (map_option Inr)
        (push_words R (wordlist eff_large_wordlist) (string_of_scalars [sep]) capitalize n False [] e))"

section \<open>Hexadecimal\<close>

definition hex_char_of :: "nat \<Rightarrow> char" where
  "hex_char_of d = (if d < 10 then char_of (48 + d) else char_of (87 + d))"

text \<open>\<open>format!("{b:02x}")\<close>.\<close>

definition hex_byte :: "u8 \<Rightarrow> string" where
  "hex_byte b = [hex_char_of (unat b div 16), hex_char_of (unat b mod 16)]"

definition generate_hex :: "rand_lib \<Rightarrow> nat \<Rightarrow> entropy \<Rightarrow> string crypto_result option \<times> entropy" where
  "generate_hex R n e =
     (if n = 0 \<or> 512 < n \<or> n mod 2 \<noteq> 0
      then (Some (Inl (InvalidPasswordRecipe ''hex length must be even and in 1..=512'')), e)
      else let (bs, e) = fill R (n div 2) e in (Some (Inr (concat (map hex_byte bs))), e))"

definition generate :: "rand_lib \<Rightarrow> string \<Rightarrow> PasswordRecipe \<Rightarrow> entropy \<Rightarrow> string crypto_result option \<times> entropy" where
  "generate R eff_large_wordlist recipe e =
     (case recipe of
        Random n upper lower digits symbols \<Rightarrow> generate_random R (unat n) upper lower digits symbols e
      | Passphrase n sep capitalize \<Rightarrow> generate_passphrase R eff_large_wordlist (unat n) sep capitalize e
      | Hex n \<Rightarrow> generate_hex R (unat n) e)"

section \<open>Lemmas\<close>

lemma choose_Some:
  assumes "rand_laws R" and "xs \<noteq> []"
  shows "\<exists>x e'. choose_from R xs e = (Some x, e') \<and> x \<in> set xs"
  using assms by (auto simp: choose_from_def rand_laws_def Let_def split_beta)

lemma pick_each_Some:
  assumes "rand_laws R"
  shows "[] \<notin> set classes \<Longrightarrow> \<exists>cs e'. pick_each R classes e = (Some cs, e') \<and> list_all2 (\<lambda>c cls. c \<in> set cls) cs classes"
proof (induction classes arbitrary: e)
  case (Cons cls classes)
  then obtain c e1 where c: "choose_from R cls e = (Some c, e1)" "c \<in> set cls" using choose_Some [OF assms, of cls e] by auto
  from Cons obtain cs e2 where "pick_each R classes e1 = (Some cs, e2)" "list_all2 (\<lambda>c cls. c \<in> set cls) cs classes"
    by fastforce
  with c show ?case by (simp add: pick_def)
qed simp

lemma fill_up_Some:
  assumes "rand_laws R" and "alphabet \<noteq> []"
  shows "length chars \<le> n \<Longrightarrow> \<exists>more e'. fill_up R alphabet n chars e = (Some (chars @ more), e')
    \<and> length (chars @ more) = n \<and> set more \<subseteq> set alphabet"
proof (induction "n - length chars" arbitrary: chars e)
  case 0
  then show ?case by (subst fill_up.simps) auto
next
  case (Suc k)
  obtain c e1 where c: "choose_from R alphabet e = (Some c, e1)" "c \<in> set alphabet" using choose_Some [OF assms] by blast
  have "k = n - length (chars @ [c])" "length (chars @ [c]) \<le> n" using Suc.hyps(2) by auto
  from Suc.hyps(1) [OF this, of e1] obtain more e2 where
      "fill_up R alphabet n (chars @ [c]) e1 = (Some ((chars @ [c]) @ more), e2)" "length ((chars @ [c]) @ more) = n" "set more \<subseteq> set alphabet"
    by blast
  with c Suc.hyps(2) show ?case
    by (subst fill_up.simps) (auto simp: pick_def intro!: exI [of _ "c # more"])
qed

lemma from_utf8_ascii: "\<forall>b \<in> set bs. unat b < 128 \<Longrightarrow> from_utf8 bs = Some (of_bytes bs)"
  by (simp add: from_utf8_def, rule str_ok_ascii) (auto simp: is_ascii_def of_bytes_def)

lemma classes_ascii: "cls \<in> set (classes_of u l d s) \<Longrightarrow> c \<in> set cls \<Longrightarrow> unat c < 128"
  by (auto simp: classes_of_def UPPER_def LOWER_def DIGITS_def SYMBOLS_def as_bytes_def split: if_splits)

lemma classes_nonempty: "[] \<notin> set (classes_of u l d s)" "length (classes_of u l d s) \<le> 4"
    "concat (classes_of u l d s) = [] \<longleftrightarrow> \<not> (u \<or> l \<or> d \<or> s)"
  by (auto simp: classes_of_def UPPER_def LOWER_def DIGITS_def SYMBOLS_def as_bytes_def)

lemma generate_random_conforms:
  assumes "rand_laws R" and "8 \<le> n" and "n \<le> 256" and "u \<or> l \<or> d \<or> s"
  defines "classes \<equiv> classes_of u l d s"
  shows "\<exists>pw e'. generate_random R n u l d s e = (Some (Inr pw), e') \<and> length pw = n
    \<and> set (as_bytes pw) \<subseteq> set (concat classes) \<and> list_all (\<lambda>cls. set (as_bytes pw) \<inter> set cls \<noteq> {}) classes"
proof -
  have ne: "concat classes \<noteq> []" and short: "length classes \<le> n" and "[] \<notin> set classes"
    using classes_nonempty [of u l d s] assms by (auto simp: classes_def)
  then obtain cs e1 where cs: "pick_each R classes e = (Some cs, e1)" and cs2: "list_all2 (\<lambda>c cls. c \<in> set cls) cs classes"
    using pick_each_Some [OF assms(1)] by blast
  obtain more e2 where fill: "fill_up R (concat classes) n cs e1 = (Some (cs @ more), e2)" and len: "length (cs @ more) = n"
      and more: "set more \<subseteq> set (concat classes)"
    using fill_up_Some [OF assms(1) ne, of cs n e1] short list_all2_lengthD [OF cs2] by auto
  obtain bs e3 where sh: "shuffle R (cs @ more) e2 = (bs, e3)" by fastforce
  then have ms: "mset bs = mset (cs @ more)" using assms(1) unfolding rand_laws_def by (metis fst_conv)
  have set: "set bs = set cs \<union> set more" using mset_eq_setD [OF ms] by simp
  have "set cs \<subseteq> set (concat classes)" using cs2 by (fastforce simp: list_all2_conv_all_nth in_set_conv_nth)
  with more set have sub: "set bs \<subseteq> set (concat classes)" by auto
  then have u8: "from_utf8 bs = Some (of_bytes bs)"
    by (intro from_utf8_ascii) (auto simp: classes_def dest!: classes_ascii)
  have "set bs \<inter> set cls \<noteq> {}" if "cls \<in> set classes" for cls
    using that cs2 set by (fastforce simp: list_all2_conv_all_nth in_set_conv_nth)
  moreover have "length bs = n" using mset_eq_length [OF ms] len by simp
  moreover have "generate_random R n u l d s e = (Some (Inr (of_bytes bs)), e3)"
    using assms(2,3) ne short cs fill sh u8 by (simp add: generate_random_def classes_def [symmetric] Let_def)
  moreover have "length (of_bytes bs) = length bs" by (simp add: of_bytes_def)
  ultimately show ?thesis using sub by (auto simp: list_all_iff)
qed

lemma push_words_Some:
  assumes "rand_laws R" and "ws \<noteq> []"
  shows "\<exists>words e'. push_words R ws sep cap n started out e =
      (Some (out @ (if started then concat (map (\<lambda>w. sep @ capitalized cap w) words) else join sep (map (capitalized cap) words))), e')
    \<and> length words = n \<and> set words \<subseteq> set ws"
proof (induction n arbitrary: started out e)
  case (Suc n)
  obtain w e1 where w: "choose_from R ws e = (Some w, e1)" "w \<in> set ws" using choose_Some [OF assms] by blast
  have join: "join sep (map (capitalized cap) (w # words)) = capitalized cap w @ concat (map (\<lambda>w. sep @ capitalized cap w) words)" for words
    by (induction words arbitrary: w) auto
  from Suc [of True "(if started then out @ sep else out) @ capitalized cap w" e1] obtain words e2 where
    "push_words R ws sep cap n True ((if started then out @ sep else out) @ capitalized cap w) e1
      = (Some (((if started then out @ sep else out) @ capitalized cap w) @ concat (map (\<lambda>w. sep @ capitalized cap w) words)), e2)"
    "length words = n" "set words \<subseteq> set ws"
    by auto
  with w join [of words] show ?case by (intro exI [of _ "w # words"]) auto
qed simp

definition is_lower_hex :: "char \<Rightarrow> bool" where
  "is_lower_hex c \<longleftrightarrow> is_ascii_digit c \<or> 97 \<le> (of_char c :: nat) \<and> of_char c \<le> (102 :: nat)"

lemma hex_byte_digits: "c \<in> set (hex_byte b) \<Longrightarrow> is_lower_hex c"
proof -
  assume c: "c \<in> set (hex_byte b)"
  have "unat b < 256" using unsigned_less [of b, where ?'a = nat] by simp
  then have "unat b div 16 < 16" "unat b mod 16 < 16" by simp_all
  moreover have "is_lower_hex (hex_char_of d)" if "d < 16" for d
    using that by (auto simp: hex_char_of_def is_lower_hex_def is_ascii_digit_def of_char_of)
  ultimately show ?thesis using c by (auto simp: hex_byte_def)
qed

lemma length_hex_bytes: "length (concat (map hex_byte bs)) = 2 * length bs"
  by (induction bs) (simp_all add: hex_byte_def)

lemma generate_hex_conforms:
  assumes "rand_laws R"
  shows "\<exists>result e'. generate_hex R n e = (Some result, e') \<and>
    (if 0 < n \<and> n \<le> 512 \<and> even n
     then \<exists>pw. result = Inr pw \<and> length pw = n \<and> list_all is_lower_hex pw
     else \<exists>m. result = Inl (InvalidPasswordRecipe m))"
proof (cases "0 < n \<and> n \<le> 512 \<and> even n")
  case True
  obtain bs e' where bs: "fill R (n div 2) e = (bs, e')" by fastforce
  with assms have "length bs = n div 2" unfolding rand_laws_def by (metis fst_conv)
  with True have "length (concat (map hex_byte bs)) = n" by (simp add: length_hex_bytes)
  moreover have "list_all is_lower_hex (concat (map hex_byte bs))"
    using hex_byte_digits by (auto simp only: list_all_iff set_concat set_map)
  moreover have "generate_hex R n e = (Some (Inr (concat (map hex_byte bs))), e')"
    using True bs by (simp add: generate_hex_def even_iff_mod_2_eq_zero)
  ultimately show ?thesis using True by auto
next
  case False
  then show ?thesis by (auto simp: generate_hex_def even_iff_mod_2_eq_zero)
qed

section \<open>Properties\<close>

text \<open>C26. Generated passwords conform to their recipe.  Generation never panics.  A random recipe with a
  length from 8 to 256 and at least one class gives a password of exactly that length over the
  enabled classes with at least one character of each; a passphrase of 4 to 16 words is that many
  words of the list joined by the separator; a hexadecimal recipe with an even length from 2 to 512
  gives that many lower-case hexadecimal digits.  Every other recipe is refused as invalid.\<close>

theorem generated_password_conforms:
  assumes "rand_laws R" and "wordlist eff \<noteq> []"
  shows "\<exists>result e'. generate R eff recipe e = (Some result, e') \<and>
    (case recipe of
       Random n u l d s \<Rightarrow>
         if 8 \<le> unat n \<and> unat n \<le> 256 \<and> (u \<or> l \<or> d \<or> s)
         then \<exists>pw. result = Inr pw \<and> length pw = unat n \<and> set (as_bytes pw) \<subseteq> set (concat (classes_of u l d s))
              \<and> list_all (\<lambda>cls. set (as_bytes pw) \<inter> set cls \<noteq> {}) (classes_of u l d s)
         else \<exists>m. result = Inl (InvalidPasswordRecipe m)
     | Passphrase n sep cap \<Rightarrow>
         if 4 \<le> unat n \<and> unat n \<le> 16
         then \<exists>words. length words = unat n \<and> set words \<subseteq> set (wordlist eff)
              \<and> result = Inr (join (string_of_scalars [sep]) (map (capitalized cap) words))
         else \<exists>m. result = Inl (InvalidPasswordRecipe m)
     | Hex n \<Rightarrow>
         if 0 < unat n \<and> unat n \<le> 512 \<and> even (unat n)
         then \<exists>pw. result = Inr pw \<and> length pw = unat n \<and> list_all is_lower_hex pw
         else \<exists>m. result = Inl (InvalidPasswordRecipe m))"
proof (cases recipe)
  case (Random n u l d s)
  show ?thesis
  proof (cases "8 \<le> unat n \<and> unat n \<le> 256 \<and> (u \<or> l \<or> d \<or> s)")
    case True
    with generate_random_conforms [OF assms(1), of "unat n" u l d s e] obtain pw e' where
      "generate_random R (unat n) u l d s e = (Some (Inr pw), e')" "length pw = unat n"
      "set (as_bytes pw) \<subseteq> set (concat (classes_of u l d s))"
      "list_all (\<lambda>cls. set (as_bytes pw) \<inter> set cls \<noteq> {}) (classes_of u l d s)"
      by blast
    with True show ?thesis unfolding Random generate_def PasswordRecipe.case by auto
  next
    case False
    then have "\<exists>m. generate_random R (unat n) u l d s e = (Some (Inl (InvalidPasswordRecipe m)), e)"
      by (auto simp: generate_random_def Let_def classes_of_def)
    with False show ?thesis unfolding Random generate_def PasswordRecipe.case by auto
  qed
next
  case (Passphrase n sep cap)
  show ?thesis
    unfolding Passphrase generate_def PasswordRecipe.case generate_passphrase_def
    using push_words_Some [OF assms, of "string_of_scalars [sep]" cap "unat n" False "[]" e]
    by (cases "4 \<le> unat n \<and> unat n \<le> 16") auto
next
  case (Hex n)
  show ?thesis unfolding Hex generate_def PasswordRecipe.case by (rule generate_hex_conforms [OF assms(1)])
qed

definition toy_rand :: rand_lib where
  "toy_rand = \<lparr> choose_index = (\<lambda>n e. (unat (shd e) mod n, stl e)), shuffle = (\<lambda>xs e. (rev xs, e)), fill = fill_random \<rparr>"

lemma toy_rand_laws: "rand_laws toy_rand"
  by (simp add: rand_laws_def toy_rand_def)

theorem generated_password_conforms_witness:
  "\<exists>pw e'. generate toy_rand ''ab'' (Random 8 True True True True) (sconst 1) = (Some (Inr pw), e') \<and> length pw = 8"
proof -
  have "wordlist ''ab'' \<noteq> []" by (simp add: wordlist_def str_lines_def is_ascii_lowercase_def)
  from generated_password_conforms [OF toy_rand_laws this, of "Random 8 True True True True" "sconst 1"] show ?thesis by auto
qed

section \<open>Passphrases can be read back\<close>

definition ascii_letter :: "char \<Rightarrow> bool" where
  "ascii_letter c \<longleftrightarrow> is_ascii_lowercase c \<or> 65 \<le> (of_char c :: nat) \<and> of_char c \<le> (90 :: nat)"

lemma ascii_letter_upper: "is_ascii_lowercase c \<Longrightarrow> ascii_letter (ascii_upper c)"
proof -
  let ?c = "of_char c :: nat"
  assume "is_ascii_lowercase c"
  then have b: "97 \<le> ?c" "?c \<le> 122" by (simp_all add: is_ascii_lowercase_def)
  then have "(of_char (ascii_upper c) :: nat) = (?c - 32) mod 256"
    by (simp only: ascii_upper_def of_char_of) simp
  also have "\<dots> = ?c - 32" using b by (simp add: mod_less)
  finally show ?thesis using b by (simp only: ascii_letter_def) linarith
qed

lemma capitalized_letters: "list_all is_ascii_lowercase w \<Longrightarrow> list_all ascii_letter (capitalized cap w)"
proof -
  assume w: "list_all is_ascii_lowercase w"
  then have "list_all ascii_letter w" by (rule list.pred_mono_strong) (simp add: ascii_letter_def)
  with w show ?thesis by (cases w) (simp_all add: capitalized_def ascii_letter_upper)
qed

lemma ascii_upper_inj: "is_ascii_lowercase c \<Longrightarrow> is_ascii_lowercase d \<Longrightarrow> ascii_upper c = ascii_upper d \<longleftrightarrow> c = d"
proof -
  assume c: "is_ascii_lowercase c" and d: "is_ascii_lowercase d"
  have "c = d" if "ascii_upper c = ascii_upper d"
  proof -
    let ?c = "of_char c :: nat" and ?d = "of_char d :: nat"
    have b: "97 \<le> ?c" "?c \<le> 122" "97 \<le> ?d" "?d \<le> 122" using c d by (simp_all add: is_ascii_lowercase_def)
    from that have "(of_char (char_of (?c - 32)) :: nat) = of_char (char_of (?d - 32))"
      using b by (simp only: ascii_upper_def) simp
    then have "(?c - 32) mod 256 = (?d - 32) mod 256" by (simp only: of_char_of)
    moreover have "(?c - 32) mod 256 = ?c - 32" "(?d - 32) mod 256 = ?d - 32" using b by (simp_all add: mod_less)
    ultimately have "?c = ?d" using b by linarith
    then show ?thesis by (simp only: of_char_eq_iff)
  qed
  then show ?thesis by blast
qed

lemma capitalized_inj:
  "list_all is_ascii_lowercase w \<Longrightarrow> list_all is_ascii_lowercase v \<Longrightarrow> capitalized cap w = capitalized cap v \<longleftrightarrow> w = v"
  by (cases w; cases v) (auto simp: capitalized_def ascii_upper_inj)

lemma join_letters_inj:
  assumes "sep \<noteq> []" and "\<not> ascii_letter (hd sep)"
  shows "list_all (list_all ascii_letter) ws \<Longrightarrow> list_all (list_all ascii_letter) vs \<Longrightarrow> ws \<noteq> [] \<Longrightarrow> vs \<noteq> []
    \<Longrightarrow> join sep ws = join sep vs \<Longrightarrow> ws = vs"
proof (induction ws arbitrary: vs)
  case (Cons w ws)
  obtain v vs' where vs: "vs = v # vs'" using Cons.prems by (cases vs) auto
  have tw: "takeWhile ascii_letter (join sep (x # xs)) = x" if "list_all ascii_letter x" for x xs
    using that assms by (cases xs; cases sep) (auto simp: takeWhile_append list_all_iff)
  have wv: "w = v" using tw [of w ws] tw [of v vs'] Cons.prems unfolding vs by simp
  show ?case
  proof (cases "ws = [] \<or> vs' = []")
    case True
    with Cons.prems assms(1) wv vs show ?thesis by (cases ws; cases vs') auto
  next
    case False
    then have "join sep ws = join sep vs'" using Cons.prems wv vs by (cases ws; cases vs') auto
    with False Cons.IH [of vs'] Cons.prems wv vs show ?thesis by simp
  qed
qed simp

lemma separator_head:
  assumes "is_scalar sep"
  shows "string_of_scalars [sep] \<noteq> []" and "ascii_letter (hd (string_of_scalars [sep])) \<longleftrightarrow> sep < 128 \<and> ascii_letter (char_of sep)"
proof -
  have "string_of_scalars [sep] = map char_of (utf8_encode sep)" by (simp add: string_of_scalars_def)
  moreover have "utf8_encode sep \<noteq> []" and "hd (utf8_encode sep) < 256"
    and "hd (utf8_encode sep) = sep \<or> 128 \<le> hd (utf8_encode sep) \<and> 128 \<le> sep"
    using assms by (auto simp: utf8_encode_def is_scalar_def)
  ultimately show "string_of_scalars [sep] \<noteq> []"
    and "ascii_letter (hd (string_of_scalars [sep])) \<longleftrightarrow> sep < 128 \<and> ascii_letter (char_of sep)"
    by (auto simp: hd_map ascii_letter_def is_ascii_lowercase_def of_char_of)
qed

text \<open>A passphrase determines its words: unless the separator is an ASCII letter, two different
  sequences of words of the list never spell the same passphrase.\<close>

theorem passphrase_unambiguous:
  assumes "is_scalar sep" and "\<not> (sep < 128 \<and> ascii_letter (char_of sep))"
    and "set ws \<subseteq> set (wordlist eff)" and "set vs \<subseteq> set (wordlist eff)" and "ws \<noteq> []" and "vs \<noteq> []"
  shows "join (string_of_scalars [sep]) (map (capitalized cap) ws) = join (string_of_scalars [sep]) (map (capitalized cap) vs)
    \<longleftrightarrow> ws = vs"
proof -
  have low: "list_all is_ascii_lowercase w" if "w \<in> set (wordlist eff)" for w
    using that by (simp add: wordlist_def)
  then have "list_all (list_all ascii_letter) (map (capitalized cap) us)" if "set us \<subseteq> set (wordlist eff)" for us
    using that by (auto simp: list_all_iff [of "list_all ascii_letter"] intro!: capitalized_letters)
  then have "map (capitalized cap) ws = map (capitalized cap) vs"
    if "join (string_of_scalars [sep]) (map (capitalized cap) ws) = join (string_of_scalars [sep]) (map (capitalized cap) vs)"
    using separator_head [OF assms(1)] assms that by (intro join_letters_inj [of "string_of_scalars [sep]"]) auto
  moreover have "inj_on (capitalized cap) (set ws \<union> set vs)"
    using low assms(3,4) by (intro inj_onI) (auto simp: capitalized_inj subset_iff)
  ultimately show ?thesis by (metis inj_on_map_eq_map)
qed

theorem passphrase_unambiguous_witness:
  "join (string_of_scalars [45]) (map (capitalized True) [''ab'', ''ab'']) \<noteq> join (string_of_scalars [45]) (map (capitalized True) [''ab''])"
proof -
  have w: "wordlist ''ab'' = [''ab'']" by (simp add: wordlist_def str_lines_def is_ascii_lowercase_def)
  have "is_scalar 45" by (simp add: is_scalar_def)
  moreover have "\<not> ascii_letter (char_of (45 :: nat))" by (simp add: ascii_letter_def is_ascii_lowercase_def of_char_of)
  ultimately show ?thesis
    using passphrase_unambiguous [of 45 "[''ab'', ''ab'']" "''ab''" "[''ab'']" True] w by simp
qed

end
