(* ===== verification/Sidecar.thy ===== *)
theory Sidecar
  imports Resolver Vault_Crypto
begin

text \<open>
  \<open>bin/seren_secrets_sidecar.rs\<close>: startup from the environment, the guard and the resolve handler,
  and the layers around them.  Parameters of \<open>sidecar_lib\<close> stand for serde's reading of the
  identities, the http crate's header text, axum's routing and body extraction (with the body
  limit), and serde's response text.  The concurrent behaviour of the layers is a step relation.
\<close>

section \<open>State and messages\<close>

record IdentityConfig =
  idc_deployment_id :: uuid
  idc_organization_id :: uuid
  idc_user_id :: uuid
  idc_identity_id :: uuid
  signing_private_key_b64 :: string
  kem_private_key_b64 :: string

record DeploymentEntry =
  entry_organization_id :: uuid
  entry_user_id :: uuid
  entry_identity_id :: uuid
  entry_resolver :: SerenSecretsResolver

record AppState =
  sidecar_token :: string
  deployments :: "uuid \<rightharpoonup> DeploymentEntry"

record SidecarResolveRequest =
  srq_uri :: string
  srq_deployment_id :: uuid
  srq_organization_id :: uuid
  srq_user_id :: uuid
  srq_correlation_id :: "uuid option"

record SidecarResolveResponse =
  srs_plaintext :: string
  srs_field_name :: string
  srs_source :: string

record sidecar_request =
  sr_headers :: "(string \<times> bytes) list"
    \<comment> \<open>lower-case names\<close>
  sr_method :: string
  sr_path :: string
  sr_body :: bytes

datatype sidecar_response =
    SecretResponse bytes
  | ErrorResponse (status_code: u16) (error_text: string) (approval_request_id: "uuid option")
  | Rejection u16

datatype startup_error =
    MissingEnv string | EmptyEnv string | NotBoolean string | TokenTooShort | BadBind string | RemoteBind
  | BadIdentities | BadIdentityKey uuid string | BadResolver uuid ResolverError

record sidecar_lib = resolver_lib +
  identities_from_json :: "string \<Rightarrow> IdentityConfig list option"
  header_to_str :: "bytes \<Rightarrow> string option"
  extract_json :: "sidecar_request \<Rightarrow> u16 + SidecarResolveRequest"
    \<comment> \<open>routing, the body limit and the \<open>Json\<close> extractor\<close>
  response_to_json :: "SidecarResolveResponse \<Rightarrow> bytes option"

definition header_laws :: "'z sidecar_lib_scheme \<Rightarrow> bool" where
  "header_laws X \<longleftrightarrow> (\<forall>v s. header_to_str X v = Some s \<longrightarrow> as_bytes s = v)"

definition MIN_SIDECAR_TOKEN_LEN :: nat where "MIN_SIDECAR_TOKEN_LEN = 32"
definition MAX_CONCURRENT_RESOLVES :: nat where "MAX_CONCURRENT_RESOLVES = 64"

section \<open>Startup\<close>

definition load_deployment ::
  "'z sidecar_lib_scheme \<Rightarrow> string \<Rightarrow> string \<Rightarrow> IdentityConfig \<Rightarrow> startup_error + DeploymentEntry" where
  "load_deployment X base_url bearer config =
     (let iid = idc_identity_id config in
      and_then (ok_or (BadIdentityKey iid ''signing_private_key_b64 must be base64'')
        (base64_decode X (signing_private_key_b64 config))) (\<lambda>signing_bytes.
      and_then (ok_or (BadIdentityKey iid ''kem_private_key_b64 must be base64'')
        (base64_decode X (kem_private_key_b64 config))) (\<lambda>kem_bytes.
      and_then (map_err (\<lambda>_. BadIdentityKey iid ''signing_private_key_b64 is not a valid Ed25519 private key'')
        (IdentitySigningPrivateKey_from_slice signing_bytes)) (\<lambda>signing_private.
      and_then (map_err (\<lambda>_. BadIdentityKey iid ''kem_private_key_b64 is not a valid X25519 private key'')
        (IdentityKemPrivateKey_from_slice kem_bytes)) (\<lambda>kem_private.
      and_then (map_err (BadResolver iid) (resolver_new X
        \<lparr> config_base_url = base_url, config_bearer_token = bearer, config_caller_identity_id = iid,
          config_signing_keypair = IdentitySigningKeypair_from_private X signing_private,
          config_kem_keypair = IdentityKemKeypair_from_private X kem_private, config_network = HostEnvironment \<rparr>)) (\<lambda>resolver.
        Inr \<lparr> entry_organization_id = idc_organization_id config, entry_user_id = idc_user_id config,
              entry_identity_id = iid, entry_resolver = resolver \<rparr>))))))"

fun insert_deployments ::
  "'z sidecar_lib_scheme \<Rightarrow> string \<Rightarrow> string \<Rightarrow> IdentityConfig list \<Rightarrow> (uuid \<rightharpoonup> DeploymentEntry)
    \<Rightarrow> startup_error + (uuid \<rightharpoonup> DeploymentEntry)" where
  "insert_deployments X base_url bearer [] m = Inr m"
| "insert_deployments X base_url bearer (config # configs) m =
     and_then (load_deployment X base_url bearer config) (\<lambda>entry.
       insert_deployments X base_url bearer configs (m(idc_deployment_id config \<mapsto> entry)))"

definition load_deployments ::
  "'z sidecar_lib_scheme \<Rightarrow> string \<Rightarrow> string \<Rightarrow> string \<Rightarrow> startup_error + (uuid \<rightharpoonup> DeploymentEntry)" where
  "load_deployments X identities_json base_url bearer =
     and_then (ok_or BadIdentities (identities_from_json X identities_json)) (\<lambda>configs.
       insert_deployments X base_url bearer configs Map.empty)"

text \<open>The environment: a variable is absent, not Unicode, or a string.\<close>

datatype env_value = NotPresent | NotUnicode | Present string

type_synonym environment = "string \<Rightarrow> env_value"

definition required_env :: "environment \<Rightarrow> string \<Rightarrow> startup_error + string" where
  "required_env env name =
     (case env name of
        Present value \<Rightarrow> if trim_str value = [] then Inl (EmptyEnv name) else Inr value
      | _ \<Rightarrow> Inl (MissingEnv name))"

definition validate_sidecar_token :: "string \<Rightarrow> startup_error + unit" where
  "validate_sidecar_token token = (if length token < MIN_SIDECAR_TOKEN_LEN then Inl TokenTooShort else Inr ())"

definition bool_env :: "environment \<Rightarrow> string \<Rightarrow> startup_error + bool" where
  "bool_env env name =
     (case env name of
        NotPresent \<Rightarrow> Inr False
      | NotUnicode \<Rightarrow> Inl (MissingEnv name)
      | Present value \<Rightarrow>
          let v = to_ascii_lowercase (trim_str value) in
          if v \<in> {[], ''0'', ''false'', ''no'', ''off''} then Inr False
          else if v \<in> {''1'', ''true'', ''yes'', ''on''} then Inr True
          else Inl (NotBoolean name))"

text \<open>\<open>SocketAddr::from_str\<close> of the standard library.\<close>

definition read_port :: "string \<Rightarrow> (nat \<times> string) option" where
  "read_port s = Option.bind (read_given_char CHR '':'' s) (\<lambda>r. read_number 10 (length r) True 65535 r)"

definition read_scope_id :: "string \<Rightarrow> string" where
  "read_scope_id s = (case Option.bind (read_given_char CHR ''%'' s) (\<lambda>r. read_number 10 (length r) True 4294967295 r) of
     Some (_, r) \<Rightarrow> r | None \<Rightarrow> s)"

definition parse_socket_addr :: "string \<Rightarrow> (IpAddr \<times> nat) option" where
  "parse_socket_addr s =
     (case (case Option.bind (read_ipv4_addr s) (\<lambda>(a, r). map_option (apfst (\<lambda>p. (V4 a, p))) (read_port r)) of
              Some res \<Rightarrow> Some res
            | None \<Rightarrow>
                Option.bind (read_given_char CHR ''['' s) (\<lambda>r.
                Option.bind (read_ipv6_addr r) (\<lambda>(g, r).
                Option.bind (read_given_char CHR '']'' (read_scope_id r)) (\<lambda>r.
                  map_option (apfst (\<lambda>p. (V6 g, p))) (read_port r))))) of
        Some (addr, []) \<Rightarrow> Some addr
      | _ \<Rightarrow> None)"

definition validate_sidecar_bind :: "IpAddr \<times> nat \<Rightarrow> bool \<Rightarrow> startup_error + unit" where
  "validate_sidecar_bind bind allow_remote_bind =
     (if allow_remote_bind \<or> is_loopback (fst bind) then Inr () else Inl RemoteBind)"

definition sidecar_bind_from_env :: "environment \<Rightarrow> startup_error + IpAddr \<times> nat" where
  "sidecar_bind_from_env env =
     (let s = (case env ''SEREN_SECRETS_SIDECAR_BIND'' of Present s \<Rightarrow> s | _ \<Rightarrow> ''127.0.0.1:8787'') in
      and_then (ok_or (BadBind s) (parse_socket_addr s)) (\<lambda>bind.
      and_then (bool_env env ''SEREN_SECRETS_SIDECAR_ALLOW_REMOTE_BIND'') (\<lambda>allow.
      and_then (validate_sidecar_bind bind allow) (\<lambda>_. Inr bind))))"

definition sidecar_start :: "'z sidecar_lib_scheme \<Rightarrow> environment \<Rightarrow> startup_error + (IpAddr \<times> nat) \<times> AppState" where
  "sidecar_start X env =
     and_then (sidecar_bind_from_env env) (\<lambda>bind.
     and_then (required_env env ''SEREN_SECRETS_SIDECAR_TOKEN'') (\<lambda>token.
     and_then (validate_sidecar_token token) (\<lambda>_.
     and_then (required_env env ''SEREN_SECRETS_BASE_URL'') (\<lambda>base_url.
     and_then (required_env env ''SEREN_SECRETS_BEARER_TOKEN'') (\<lambda>bearer.
     and_then (required_env env ''SEREN_SECRETS_IDENTITIES_JSON'') (\<lambda>identities_json.
     and_then (load_deployments X identities_json base_url bearer) (\<lambda>m.
       Inr (bind, \<lparr> sidecar_token = token, deployments = m \<rparr>))))))))"

section \<open>Handling a request\<close>

definition err :: "u16 \<Rightarrow> string \<Rightarrow> sidecar_response" where
  "err status message = ErrorResponse status message None"

definition approval_err :: "uuid \<Rightarrow> sidecar_response" where
  "approval_err rid = ErrorResponse 403 ''approval required'' (Some rid)"

definition host_is_loopback :: "string \<Rightarrow> bool" where
  "host_is_loopback host =
     (case (case strip_prefix ''['' host of
              Some rest \<Rightarrow> map_option fst (split_once CHR '']'' rest)
            | None \<Rightarrow> Some (case rsplit_once CHR '':'' host of Some (h, _) \<Rightarrow> h | None \<Rightarrow> host)) of
        None \<Rightarrow> False
      | Some name \<Rightarrow>
          if eq_ignore_ascii_case name ''localhost'' then True
          else case parse_ip_addr name of Some ip \<Rightarrow> is_loopback ip | None \<Rightarrow> False)"

definition local_request_ok :: "'z sidecar_lib_scheme \<Rightarrow> (string \<times> bytes) list \<Rightarrow> bool" where
  "local_request_ok X hs =
     (if map_of hs ''origin'' \<noteq> None then False
      else case Option.bind (map_of hs ''host'') (header_to_str X) of
             Some host \<Rightarrow> host_is_loopback host | None \<Rightarrow> False)"

definition authorize :: "'z sidecar_lib_scheme \<Rightarrow> AppState \<Rightarrow> (string \<times> bytes) list \<Rightarrow> sidecar_response + unit" where
  "authorize X st hs =
     (case map_of hs ''authorization'' of
        None \<Rightarrow> Inl (err 401 ''missing authorization'')
      | Some value \<Rightarrow>
          (case header_to_str X value of
             None \<Rightarrow> Inl (err 401 ''invalid authorization'')
           | Some text \<Rightarrow>
               let value = as_bytes text; expected_prefix = as_bytes ''Bearer '' in
               if length value = length expected_prefix + length (sidecar_token st)
                  \<and> take (length expected_prefix) value = expected_prefix
                  \<and> drop (length expected_prefix) value = as_bytes (sidecar_token st)
               then Inr () else Inl (err 401 ''invalid authorization'')))"

definition guard :: "'z sidecar_lib_scheme \<Rightarrow> AppState \<Rightarrow> sidecar_request \<Rightarrow> sidecar_response + unit" where
  "guard X st request =
     (if \<not> local_request_ok X (sr_headers request) then Inl (err 403 ''request must originate locally'')
      else authorize X st (sr_headers request))"

definition status_from_u16 :: "u16 \<Rightarrow> u16" where
  "status_from_u16 n = (if 100 \<le> n \<and> n \<le> 999 then n else 502)"

fun map_resolver_error :: "ResolverError \<Rightarrow> sidecar_response" where
  "map_resolver_error (InvalidUri _) = err 400 ''bad secret reference''"
| "map_resolver_error (InvalidInput _) = err 400 ''bad secret reference''"
| "map_resolver_error (Malformed _) = err 400 ''bad secret reference''"
| "map_resolver_error (Crypto _) = err 400 ''bad secret reference''"
| "map_resolver_error (ApprovalRequired rid) = approval_err rid"
| "map_resolver_error (ServerError status _) =
     err (status_from_u16 status) ''upstream secrets service rejected secret reference''"
| "map_resolver_error (Transport _) = err 502 ''upstream secrets service unavailable''"
| "map_resolver_error (UnsupportedScheme _) = err 400 ''unsupported secret reference''"
| "map_resolver_error (NotImplemented _) = err 400 ''unsupported secret reference''"
| "map_resolver_error (UnknownField _) = err 400 ''unsupported secret reference''"
| "map_resolver_error ResponseMismatch = err 502 ''upstream secrets service returned a mismatched record''"
| "map_resolver_error Stale = err 412 ''item changed''"
| "map_resolver_error Rotating = err 423 ''vault rotation in progress''"
| "map_resolver_error KeyVersion = err 409 ''vault key version changed''"

text \<open>The capacity hint only sizes a buffer.\<close>

definition zeroizing_json_response :: "'z sidecar_lib_scheme \<Rightarrow> SidecarResolveResponse \<Rightarrow> sidecar_response" where
  "zeroizing_json_response X value =
     (case response_to_json X value of None \<Rightarrow> err 500 ''serialization error'' | Some bs \<Rightarrow> SecretResponse bs)"

definition sidecar_resolve ::
  "'z sidecar_lib_scheme \<Rightarrow> AppState \<Rightarrow> SidecarResolveRequest \<Rightarrow> timestamp \<Rightarrow> uuid \<Rightarrow> sidecar_response" where
  "sidecar_resolve X st body now u =
     (case deployments st (srq_deployment_id body) of
        None \<Rightarrow> err 404 ''deployment identity not configured''
      | Some deployment \<Rightarrow>
          if entry_organization_id deployment \<noteq> srq_organization_id body \<or> entry_user_id deployment \<noteq> srq_user_id body
          then err 403 ''deployment identity mismatch''
          else let ctx = for_agent (entry_identity_id deployment) (srq_organization_id body) (srq_user_id body);
                   ctx = (case srq_correlation_id body of Some c \<Rightarrow> with_correlation_id ctx c | None \<Rightarrow> ctx)
               in case resolve X (entry_resolver deployment) (srq_uri body) ctx now u of
                    Inl e \<Rightarrow> map_resolver_error e
                  | Inr secret \<Rightarrow> zeroizing_json_response X
                      \<lparr> srs_plaintext = secret_plaintext secret, srs_field_name = field_name secret,
                        srs_source = ''seren-secrets'' \<rparr>)"

text \<open>The handler behind the guard, with axum's routing and extraction.\<close>

definition sidecar_inner :: "'z sidecar_lib_scheme \<Rightarrow> AppState \<Rightarrow> sidecar_request \<Rightarrow> timestamp \<Rightarrow> uuid \<Rightarrow> sidecar_response" where
  "sidecar_inner X st request now u =
     (case extract_json X request of Inl status \<Rightarrow> Rejection status | Inr body \<Rightarrow> sidecar_resolve X st body now u)"

definition sidecar_handle :: "'z sidecar_lib_scheme \<Rightarrow> AppState \<Rightarrow> sidecar_request \<Rightarrow> timestamp \<Rightarrow> uuid \<Rightarrow> sidecar_response" where
  "sidecar_handle X st request now u =
     (case guard X st request of Inl response \<Rightarrow> response | Inr _ \<Rightarrow> sidecar_inner X st request now u)"

section \<open>The running service\<close>

text \<open>
  Requests are numbered in the order they arrive.  The guard is the outermost layer, so a request it
  refuses is answered at once; an admitted one waits until one of the permits of the concurrency
  layer is free, runs, and is answered with what the handler returns at some time and with some
  nonce.  The permits are given in order, the handlers finish in any order.
\<close>

record service =
  arrivals :: "sidecar_request list"
  waiting :: "(nat \<times> sidecar_request) list"
  running :: "(nat \<times> sidecar_request) list"
  answered :: "(nat \<times> sidecar_request \<times> sidecar_response) list"

definition idle :: service where
  "idle = \<lparr> arrivals = [], waiting = [], running = [], answered = [] \<rparr>"

inductive service_step :: "'z sidecar_lib_scheme \<Rightarrow> AppState \<Rightarrow> service \<Rightarrow> service \<Rightarrow> bool" for X st where
  refuse: "guard X st q = Inl response \<Longrightarrow>
    service_step X st s (s\<lparr> arrivals := arrivals s @ [q], answered := answered s @ [(length (arrivals s), q, response)] \<rparr>)"
| admit: "guard X st q = Inr () \<Longrightarrow>
    service_step X st s (s\<lparr> arrivals := arrivals s @ [q], waiting := waiting s @ [(length (arrivals s), q)] \<rparr>)"
| begin_one: "waiting s = p # ps \<Longrightarrow> length (running s) < MAX_CONCURRENT_RESOLVES \<Longrightarrow>
    service_step X st s (s\<lparr> waiting := ps, running := running s @ [p] \<rparr>)"
| finish: "running s = before @ (n, q) # after \<Longrightarrow>
    service_step X st s (s\<lparr> running := before @ after,
      answered := answered s @ [(n, q, sidecar_inner X st q now u)] \<rparr>)"

inductive service_run :: "'z sidecar_lib_scheme \<Rightarrow> AppState \<Rightarrow> service \<Rightarrow> service \<Rightarrow> bool" for X st where
  run_refl: "service_run X st s s"
| run_step: "service_run X st s t \<Longrightarrow> service_step X st t v \<Longrightarrow> service_run X st s v"

inductive_cases service_stepE: "service_step X st s t"

section \<open>Lemmas\<close>

lemma header_text: "header_laws X \<Longrightarrow> header_to_str X v = Some s \<Longrightarrow> v = as_bytes s"
  by (simp add: header_laws_def)

lemma authorize_Inr:
  "header_laws X \<Longrightarrow> authorize X st hs = Inr () \<longleftrightarrow>
     (\<exists>v. map_of hs ''authorization'' = Some v \<and> header_to_str X v \<noteq> None \<and> v = as_bytes (''Bearer '' @ sidecar_token st))"
proof -
  assume laws: "header_laws X"
  have "length v = length p + length t \<and> take (length p) v = p \<and> drop (length p) v = t \<longleftrightarrow> v = p @ t" for v p t :: bytes
    by (metis append_eq_conv_conj append_take_drop_id length_append)
  note gen = this
  have eq: "length v = length (as_bytes ''Bearer '') + length (sidecar_token st) \<and> take (length (as_bytes ''Bearer '')) v = as_bytes ''Bearer ''
      \<and> drop (length (as_bytes ''Bearer '')) v = as_bytes (sidecar_token st) \<longleftrightarrow> v = as_bytes (''Bearer '' @ sidecar_token st)" for v
    using gen [of v "as_bytes ''Bearer ''" "as_bytes (sidecar_token st)"]
    by (simp only: length_as_bytes as_bytes_simps(3))
  from laws show ?thesis
    unfolding authorize_def Let_def eq using header_text [of X] by (auto split: option.splits if_splits)
qed

lemma local_request_okD:
  assumes "header_laws X" and "local_request_ok X hs"
  shows "map_of hs ''origin'' = None \<and> (\<exists>host. map_of hs ''host'' = Some (as_bytes host) \<and> host_is_loopback host)"
proof -
  from assms(2) obtain v host where "map_of hs ''origin'' = None" "map_of hs ''host'' = Some v"
      "header_to_str X v = Some host" "host_is_loopback host"
    by (auto simp: local_request_ok_def bind_eq_Some_conv split: option.splits if_splits)
  with header_text [OF assms(1)] show ?thesis by blast
qed

lemma guard_Inr:
  "guard X st q = Inr () \<longleftrightarrow> local_request_ok X (sr_headers q) \<and> authorize X st (sr_headers q) = Inr ()"
  by (simp add: guard_def)

lemma authorize_range:
  "authorize X st hs \<in> {Inr (), Inl (err 401 ''missing authorization''), Inl (err 401 ''invalid authorization'')}"
proof -
  have range: "(if c then a else x) \<in> {a, y, x}" for c and a x y :: "sidecar_response + unit" by simp
  show ?thesis
    unfolding authorize_def Let_def
    by (cases "map_of hs ''authorization''", simp only: option.case insertI1 insertI2)
      (simp only: option.case insertI1 insertI2 range split: option.split, simp)
qed

lemma guard_refusal:
  assumes "guard X st q = Inl r"
  shows "r = err 403 ''request must originate locally'' \<or> r = err 401 ''missing authorization'' \<or> r = err 401 ''invalid authorization''"
proof (cases "local_request_ok X (sr_headers q)")
  case True
  then have "authorize X st (sr_headers q) = Inl r" using assms by (simp add: guard_def)
  with authorize_range [of X st "sr_headers q"] show ?thesis by (metis insertE singletonD sum.inject(1) sum.distinct(1))
qed (use assms in \<open>simp add: guard_def\<close>)

definition request_context :: "DeploymentEntry \<Rightarrow> SidecarResolveRequest \<Rightarrow> ResolutionContext" where
  "request_context d body =
     \<lparr> agent_identity_id = Some (entry_identity_id d), ctx_organization_id = srq_organization_id body,
       ctx_user_id = srq_user_id body, correlation_id = srq_correlation_id body \<rparr>"

lemma sidecar_resolve_cases:
  "sidecar_resolve X st body now u =
     (case deployments st (srq_deployment_id body) of
        None \<Rightarrow> err 404 ''deployment identity not configured''
      | Some d \<Rightarrow>
          if entry_organization_id d \<noteq> srq_organization_id body \<or> entry_user_id d \<noteq> srq_user_id body
          then err 403 ''deployment identity mismatch''
          else case resolve X (entry_resolver d) (srq_uri body) (request_context d body) now u of
                 Inl e \<Rightarrow> map_resolver_error e
               | Inr secret \<Rightarrow> zeroizing_json_response X
                   \<lparr> srs_plaintext = secret_plaintext secret, srs_field_name = field_name secret, srs_source = ''seren-secrets'' \<rparr>)"
proof -
  have "(case srq_correlation_id body of Some c \<Rightarrow> with_correlation_id (for_agent a g v) c | None \<Rightarrow> for_agent a g v)
      = \<lparr> agent_identity_id = Some a, ctx_organization_id = g, ctx_user_id = v, correlation_id = srq_correlation_id body \<rparr>" for a g v
    by (cases "srq_correlation_id body") (simp_all add: for_agent_def with_correlation_id_def)
  then show ?thesis by (cases "deployments st (srq_deployment_id body)") (simp_all add: sidecar_resolve_def request_context_def Let_def)
qed

lemma map_resolver_error_not_secret: "map_resolver_error e \<noteq> SecretResponse bs" "map_resolver_error e \<noteq> Rejection n"
  by (cases e; simp add: err_def approval_err_def)+

section \<open>Properties\<close>


definition sidecar_messages :: "string list" where
  "sidecar_messages =
     [''request must originate locally'', ''missing authorization'', ''invalid authorization'',
      ''deployment identity not configured'', ''deployment identity mismatch'', ''bad secret reference'',
      ''approval required'', ''upstream secrets service rejected secret reference'',
      ''upstream secrets service unavailable'', ''unsupported secret reference'',
      ''upstream secrets service returned a mismatched record'', ''item changed'', ''vault rotation in progress'',
      ''vault key version changed'', ''serialization error'']"

lemma map_resolver_error_redacted:
  "map_resolver_error e = ErrorResponse status m a \<Longrightarrow>
     m \<in> set sidecar_messages \<and> 100 \<le> status \<and> status \<le> 999
   \<and> (\<forall>rid. a = Some rid \<longrightarrow> e = ApprovalRequired rid \<and> status = 403 \<and> m = ''approval required'')"
  by (cases e) (auto simp: err_def approval_err_def sidecar_messages_def status_from_u16_def split: if_splits)

text \<open>C28. Error answers of the sidecar are redacted: the text is always one of fifteen fixed messages,
  never upstream or item text; the status is a valid HTTP status; and an approval id is given only
  with status 403 when the resolver reported that approval is required.\<close>

theorem sidecar_errors_redacted:
  assumes "sidecar_handle X st q now u = ErrorResponse status m a"
  shows "m \<in> set sidecar_messages \<and> 100 \<le> status \<and> status \<le> 999
    \<and> (\<forall>rid. a = Some rid \<longrightarrow> status = 403 \<and> m = ''approval required''
         \<and> (\<exists>d body ctx. extract_json X q = Inr body \<and> deployments st (srq_deployment_id body) = Some d
              \<and> resolve X (entry_resolver d) (srq_uri body) ctx now u = Inl (ApprovalRequired rid)))"
proof (cases "guard X st q")
  case (Inl r)
  then show ?thesis using assms guard_refusal [OF Inl]
    by (auto simp: sidecar_handle_def err_def sidecar_messages_def)
next
  case (Inr v)
  with assms obtain body where body: "extract_json X q = Inr body" and r: "sidecar_resolve X st body now u = ErrorResponse status m a"
    by (auto simp: sidecar_handle_def sidecar_inner_def split: sum.splits)
  consider "deployments st (srq_deployment_id body) = None"
    | d where "deployments st (srq_deployment_id body) = Some d" "sidecar_resolve X st body now u = err 403 ''deployment identity mismatch''"
    | d secret where "deployments st (srq_deployment_id body) = Some d" "sidecar_resolve X st body now u = zeroizing_json_response X secret"
    | d e where "deployments st (srq_deployment_id body) = Some d" "resolve X (entry_resolver d) (srq_uri body) (request_context d body) now u = Inl e"
        "sidecar_resolve X st body now u = map_resolver_error e"
    by (fastforce simp: sidecar_resolve_cases split: option.splits sum.splits if_splits)
  then show ?thesis
  proof cases
    case 4
    then show ?thesis using map_resolver_error_redacted [of e status m a] r body by auto
  qed (use r in \<open>auto simp: sidecar_resolve_cases err_def sidecar_messages_def zeroizing_json_response_def split: option.splits\<close>)
qed

section \<open>Startup is checked\<close>

lemma insert_deployments_Inr:
  "insert_deployments X base_url bearer configs m = Inr m' \<Longrightarrow>
     m' i = (case filter (\<lambda>c. idc_deployment_id c = i) configs of
               [] \<Rightarrow> m i
             | cs \<Rightarrow> result_ok (load_deployment X base_url bearer (last cs)))"
proof (induction configs arbitrary: m)
  case (Cons c cs)
  then obtain d where d: "load_deployment X base_url bearer c = Inr d"
      and rest: "insert_deployments X base_url bearer cs (m(idc_deployment_id c \<mapsto> d)) = Inr m'"
    by (auto simp: and_then_eq_Inr)
  from Cons.IH [OF rest] d show ?case by (auto split: list.splits)
qed simp

lemma load_deployment_Inr:
  assumes "load_deployment X base_url bearer c = Inr d"
  shows "entry_organization_id d = idc_organization_id c \<and> entry_user_id d = idc_user_id c \<and> entry_identity_id d = idc_identity_id c
    \<and> resolver_caller_identity_id (entry_resolver d) = idc_identity_id c
    \<and> resolver_bearer_token (entry_resolver d) = bearer
    \<and> validate_base_url X base_url = Inr ()
    \<and> base64_decode X (signing_private_key_b64 c) = Some (bytes32 (signing_private (resolver_signing_keypair (entry_resolver d))))
    \<and> base64_decode X (kem_private_key_b64 c) = Some (bytes32 (kem_private (resolver_kem_keypair (entry_resolver d))))"
  using assms
  by (auto simp: load_deployment_def Let_def result_simps resolver_new_def resolver_with_request_timeout_def network_client_def
      IdentitySigningPrivateKey_from_slice_def IdentityKemPrivateKey_from_slice_def key_from_slice_iff
      IdentitySigningKeypair_from_private_def IdentityKemKeypair_from_private_def split: if_splits)


text \<open>The entry a deployment id has after startup: the last configuration given for it.\<close>

definition configured_entry ::
  "'z sidecar_lib_scheme \<Rightarrow> string \<Rightarrow> string \<Rightarrow> IdentityConfig list \<Rightarrow> uuid \<Rightarrow> DeploymentEntry option" where
  "configured_entry X base_url bearer configs i =
     (case filter (\<lambda>c. idc_deployment_id c = i) configs of
        [] \<Rightarrow> None | cs \<Rightarrow> result_ok (load_deployment X base_url bearer (last cs)))"

lemma insert_deployments_dom:
  "insert_deployments X base_url bearer configs m = Inr m' \<Longrightarrow> dom m' = dom m \<union> idc_deployment_id ` set configs"
proof (induction configs arbitrary: m)
  case (Cons c cs)
  then obtain d where rest: "insert_deployments X base_url bearer cs (m(idc_deployment_id c \<mapsto> d)) = Inr m'"
    by (auto simp: and_then_eq_Inr)
  from Cons.IH [OF rest] show ?case by auto
qed simp

lemma load_deployments_Inr:
  assumes "load_deployments X json base_url bearer = Inr m"
  obtains configs where "identities_from_json X json = Some configs" "dom m = idc_deployment_id ` set configs"
    "\<And>i. m i = configured_entry X base_url bearer configs i"
proof -
  from assms obtain configs where c: "identities_from_json X json = Some configs"
      and m: "insert_deployments X base_url bearer configs Map.empty = Inr m"
    by (auto simp: load_deployments_def result_simps)
  from insert_deployments_Inr [OF m] have "m i = configured_entry X base_url bearer configs i" for i
    by (simp add: configured_entry_def)
  with c insert_deployments_dom [OF m] show thesis by (intro that) auto
qed

lemma required_env_Inr: "required_env env n = Inr v \<longleftrightarrow> env n = Present v \<and> trim_str v \<noteq> []"
  by (cases "env n") (auto simp: required_env_def)

lemma configured_entry_Some:
  assumes "configured_entry X base_url bearer configs i = Some d"
  shows "\<exists>cs c. filter (\<lambda>c. idc_deployment_id c = i) configs = cs @ [c] \<and> load_deployment X base_url bearer c = Inr d"
proof -
  let ?cs = "filter (\<lambda>c. idc_deployment_id c = i) configs"
  from assms have ne: "?cs \<noteq> []" and d: "load_deployment X base_url bearer (last ?cs) = Inr d"
    by (auto simp: configured_entry_def result_ok_def split: list.splits sum.splits)
  from append_butlast_last_id [OF ne] d show ?thesis by metis
qed

text \<open>C27. The sidecar starts only in a safe configuration: its token has at least 32 bytes; it binds
  a loopback address unless remote binding is allowed explicitly; the upstream URL passed the
  resolver's check for every deployment; exactly the configured deployments are served, each with exactly the identity,
  the owner and the private keys of the last configuration entry that names it.\<close>

theorem sidecar_start_checked:
  assumes "sidecar_start X env = Inr (bind, st)"
  shows "32 \<le> length (sidecar_token st) \<and> env ''SEREN_SECRETS_SIDECAR_TOKEN'' = Present (sidecar_token st)
    \<and> (is_loopback (fst bind) \<or> bool_env env ''SEREN_SECRETS_SIDECAR_ALLOW_REMOTE_BIND'' = Inr True)
    \<and> (\<exists>base_url bearer json configs.
         env ''SEREN_SECRETS_BASE_URL'' = Present base_url \<and> env ''SEREN_SECRETS_BEARER_TOKEN'' = Present bearer
       \<and> env ''SEREN_SECRETS_IDENTITIES_JSON'' = Present json \<and> identities_from_json X json = Some configs
       \<and> dom (deployments st) = idc_deployment_id ` set configs
       \<and> (\<forall>i d. deployments st i = Some d \<longrightarrow> (\<exists>cs c. filter (\<lambda>c. idc_deployment_id c = i) configs = cs @ [c]
            \<and> entry_organization_id d = idc_organization_id c \<and> entry_user_id d = idc_user_id c
            \<and> entry_identity_id d = idc_identity_id c
            \<and> resolver_caller_identity_id (entry_resolver d) = idc_identity_id c
            \<and> resolver_bearer_token (entry_resolver d) = bearer
            \<and> validate_base_url X base_url = Inr ()
            \<and> base64_decode X (signing_private_key_b64 c) = Some (bytes32 (signing_private (resolver_signing_keypair (entry_resolver d))))
            \<and> base64_decode X (kem_private_key_b64 c) = Some (bytes32 (kem_private (resolver_kem_keypair (entry_resolver d)))))))"
proof -
  from assms obtain token base_url bearer json m where
      bind: "sidecar_bind_from_env env = Inr bind" and token: "required_env env ''SEREN_SECRETS_SIDECAR_TOKEN'' = Inr token"
      and long: "validate_sidecar_token token = Inr ()"
      and base: "required_env env ''SEREN_SECRETS_BASE_URL'' = Inr base_url"
      and bearer: "required_env env ''SEREN_SECRETS_BEARER_TOKEN'' = Inr bearer"
      and json: "required_env env ''SEREN_SECRETS_IDENTITIES_JSON'' = Inr json"
      and m: "load_deployments X json base_url bearer = Inr m"
      and st: "st = \<lparr> sidecar_token = token, deployments = m \<rparr>"
    unfolding sidecar_start_def by (auto simp only: and_then_eq_Inr sum.inject prod.inject)
  from bind have loop: "is_loopback (fst bind) \<or> bool_env env ''SEREN_SECRETS_SIDECAR_ALLOW_REMOTE_BIND'' = Inr True"
    unfolding sidecar_bind_from_env_def Let_def
    by (auto simp: validate_sidecar_bind_def and_then_eq_Inr split: if_splits)
  from load_deployments_Inr [OF m] obtain configs where configs: "identities_from_json X json = Some configs"
      and served: "dom m = idc_deployment_id ` set configs"
      and entries: "\<And>i. m i = configured_entry X base_url bearer configs i" by blast
  have entry: "\<exists>cs c. filter (\<lambda>c. idc_deployment_id c = i) configs = cs @ [c] \<and> load_deployment X base_url bearer c = Inr d"
    if "m i = Some d" for i d
    using configured_entry_Some [of X base_url bearer configs i d] that entries by auto
  have env: "env ''SEREN_SECRETS_SIDECAR_TOKEN'' = Present token" "env ''SEREN_SECRETS_BASE_URL'' = Present base_url"
      "env ''SEREN_SECRETS_BEARER_TOKEN'' = Present bearer" "env ''SEREN_SECRETS_IDENTITIES_JSON'' = Present json"
    using token base bearer json by (simp_all add: required_env_Inr)
  have "32 \<le> length token" using long by (simp add: validate_sidecar_token_def MIN_SIDECAR_TOKEN_LEN_def split: if_splits)
  then show ?thesis
    unfolding st using env configs loop served
    by (auto dest!: entry dest: load_deployment_Inr intro!: exI [of _ base_url])
qed


section \<open>The service under concurrent requests\<close>

text \<open>The invariant: the permits bound the running handlers, only guarded requests wait or run, every
  answer is the handler's, and every request that arrived is in exactly one of the three places.\<close>

definition service_inv :: "'z sidecar_lib_scheme \<Rightarrow> AppState \<Rightarrow> service \<Rightarrow> bool" where
  "service_inv X st s \<longleftrightarrow>
     length (running s) \<le> MAX_CONCURRENT_RESOLVES
   \<and> (\<forall>p \<in> set (waiting s @ running s). guard X st (snd p) = Inr ())
   \<and> (\<forall>a \<in> set (answered s). \<exists>now u. snd (snd a) = sidecar_handle X st (fst (snd a)) now u)
   \<and> mset (waiting s) + mset (running s) + mset (map (\<lambda>(n, q, r). (n, q)) (answered s))
       = mset (enumerate 0 (arrivals s))"

lemma service_inv_idle: "service_inv X st idle"
  by (simp add: service_inv_def idle_def)

lemma enumerate_snoc: "enumerate k (xs @ [x]) = enumerate k xs @ [(k + length xs, x)]"
  by (simp add: enumerate_append_eq)

lemma service_inv_step:
  assumes "service_step X st s t" and "service_inv X st s"
  shows "service_inv X st t"
  using assms(1)
proof cases
  case (finish before n q after now u)
  then have "guard X st q = Inr ()" using assms(2) by (simp add: service_inv_def)
  then have "sidecar_inner X st q now u = sidecar_handle X st q now u" by (simp add: sidecar_handle_def)
  with finish assms(2) show ?thesis by (auto simp: service_inv_def)
qed (use assms(2) in \<open>auto simp: service_inv_def sidecar_handle_def enumerate_snoc\<close>)

lemma service_inv_run:
  "service_run X st s t \<Longrightarrow> service_inv X st s \<Longrightarrow> service_inv X st t"
  by (induction rule: service_run.induct) (auto intro: service_inv_step)

text \<open>Work left: each request takes one step to start and one to finish.\<close>

definition work_left :: "service \<Rightarrow> nat" where
  "work_left s = 2 * length (waiting s) + length (running s)"

lemma work_left_decreases:
  "service_step X st s t \<Longrightarrow> arrivals t = arrivals s \<Longrightarrow> work_left t < work_left s"
  by (erule service_stepE) (auto simp: work_left_def)

lemma service_not_stuck:
  assumes "0 < work_left s"
  shows "\<exists>t. service_step X st s t \<and> arrivals t = arrivals s"
proof (cases "running s")
  case Nil
  with assms obtain p ps where "waiting s = p # ps" by (cases "waiting s") (auto simp: work_left_def)
  from begin_one [OF this, of X st] Nil show ?thesis by (auto simp: MAX_CONCURRENT_RESOLVES_def)
next
  case (Cons p ps)
  then obtain n q where "running s = [] @ (n, q) # ps" by (cases p) auto
  from finish [OF this, of X st] show ?thesis by fastforce
qed



text \<open>A schedule that lets the service run without new arrivals, until no work is left.\<close>

definition drains :: "'z sidecar_lib_scheme \<Rightarrow> AppState \<Rightarrow> (nat \<Rightarrow> service) \<Rightarrow> bool" where
  "drains X st f \<longleftrightarrow>
     (\<forall>i. if work_left (f i) = 0 then f (Suc i) = f i
          else service_step X st (f i) (f (Suc i)) \<and> arrivals (f (Suc i)) = arrivals (f i))"

lemma drains_bound:
  assumes "drains X st f" and "service_inv X st (f 0)"
  shows "work_left (f i) \<le> work_left (f 0) - i \<and> arrivals (f i) = arrivals (f 0) \<and> service_inv X st (f i)"
proof (induction i)
  case (Suc i)
  show ?case
  proof (cases "work_left (f i) = 0")
    case True
    then have "f (Suc i) = f i" using assms(1) by (simp add: drains_def)
    then show ?thesis using Suc True by simp
  next
    case False
    then have step: "service_step X st (f i) (f (Suc i))" and same: "arrivals (f (Suc i)) = arrivals (f i)"
      using assms(1) by (simp_all add: drains_def)
    from work_left_decreases [OF step same] Suc have "work_left (f (Suc i)) \<le> work_left (f 0) - Suc i" by linarith
    with service_inv_step [OF step] same Suc show ?thesis by simp
  qed
qed (use assms in simp)

lemma drains_exists: "\<exists>f. f 0 = s \<and> drains X st f"
proof -
  let ?P = "\<lambda>s t. if work_left s = 0 then t = s else service_step X st s t \<and> arrivals t = arrivals s"
  define f where "f = rec_nat s (\<lambda>_ s. SOME t. ?P s t)"
  have "\<exists>t. ?P s t" for s by (cases "work_left s = 0") (use service_not_stuck [of s X st] in auto)
  then have "?P (f i) (f (Suc i))" for i unfolding f_def nat.rec by (rule someI_ex)
  then have "drains X st f" unfolding drains_def by blast
  moreover have "f 0 = s" by (simp add: f_def)
  ultimately show ?thesis by blast
qed


text \<open>Whatever follows the bracketed loopback address of a \<open>Host\<close> is ignored.\<close>

lemma read_loopback_v6:
  assumes "r = [] \<or> r = CHR '']'' # q"
  shows "read_ipv6_addr (''::1'' @ r) = Some ([0, 0, 0, 0, 0, 0, 0, 1], r)"
proof -
  have none: "read_number 10 3 False 255 (CHR '':'' # t) = None" "read_number 16 4 True 65535 (CHR '':'' # t) = None" for t
    by (simp_all add: read_number_def digit_value_def is_ascii_digit_def Let_def)
  have one: "read_number 10 3 False 255 (CHR ''1'' # r) = Some (1, r)" "read_number 16 4 True 65535 (CHR ''1'' # r) = Some (1, r)"
    using assms by (auto simp: read_number_def digit_value_def is_ascii_digit_def Let_def)
  have stop: "read_given_char CHR ''.'' r = None" "read_given_char CHR '':'' r = None"
    using assms by (auto simp: read_given_char_def)
  have v4: "read_ipv4_addr (CHR '':'' # t) = None" "read_ipv4_addr (CHR ''1'' # r) = None" for t
    using read_octets.simps(2) [of 0 3 "CHR '':'' # t"] read_octets.simps(2) [of 0 3 "CHR ''1'' # r"] read_octets.simps(2) [of 1 2 r]
    by (simp_all add: read_ipv4_addr_def read_separator_def none one stop)
  have "read_groups 0 8 (''::1'' @ r) = ([], False, ''::1'' @ r)" "read_groups 0 7 (CHR ''1'' # r) = ([1], False, r)"
    using read_groups.simps(2) [of 0 7 "''::1'' @ r"] read_groups.simps(2) [of 0 6 "CHR ''1'' # r"] read_groups.simps(2) [of 1 5 r]
    by (simp_all add: read_separator_def none one stop v4)
  then show ?thesis
    by (simp add: read_ipv6_addr_def read_given_char_def eval_nat_numeral(2,3))
qed

lemma read_ipv4_addr_none:
  assumes "\<not> is_ascii_digit c"
  shows "read_ipv4_addr (c # s) = None"
proof -
  have "digit_value 10 c = None" using assms by (auto simp: digit_value_def Let_def)
  then have "read_number 10 3 False 255 (c # s) = None" by (simp add: read_number_def)
  then show ?thesis
    using read_octets.simps(2) [of 0 3 "c # s"] by (simp add: read_ipv4_addr_def read_separator_def)
qed

lemma parse_loopback_v6: "parse_ip_addr ''::1'' = Some (V6 [0, 0, 0, 0, 0, 0, 0, 1])"
  using read_loopback_v6 [of "[]"] read_ipv4_addr_none [of "CHR '':''" "'':1''"]
  by (simp add: parse_ip_addr_def is_ascii_digit_def)

lemma parse_loopback_socket: "parse_socket_addr ''[::1]:1'' = Some (V6 [0, 0, 0, 0, 0, 0, 0, 1], 1)"
proof -
  have "read_port '':1'' = Some (1, [])" "read_scope_id '']:1'' = '']:1''"
    by (simp_all add: read_port_def read_scope_id_def read_given_char_def read_number_def digit_value_def is_ascii_digit_def)
  then show ?thesis
    using read_loopback_v6 [of "'']:1''"] read_ipv4_addr_none [of "CHR ''[''" "''::1]:1''"]
    by (simp add: parse_socket_addr_def is_ascii_digit_def read_given_char_def)
qed

lemma host_is_loopback_bracket: "host_is_loopback (''[::1]'' @ s)"
proof -
  note ip = parse_loopback_v6
  have cut: "strip_prefix ''['' (''[::1]'' @ s) = Some (''::1]'' @ s)" "split_once CHR '']'' (''::1]'' @ s) = Some (''::1'', s)"
    by (simp_all add: strip_prefix_def)
  have "\<not> eq_ignore_ascii_case ''::1'' ''localhost''" by code_simp
  then show ?thesis
    unfolding host_is_loopback_def cut option.case option.map fst_conv ip by simp
qed


section \<open>A concrete service\<close>

definition toy_resolve_request :: SidecarResolveRequest where
  "toy_resolve_request = \<lparr> srq_uri = sample_reference, srq_deployment_id = 7, srq_organization_id = 1, srq_user_id = 2,
     srq_correlation_id = None \<rparr>"

definition toy_config :: IdentityConfig where
  "toy_config = \<lparr> idc_deployment_id = 7, idc_organization_id = 1, idc_user_id = 2, idc_identity_id = 3,
     signing_private_key_b64 = base64_encode toy_lib (replicate 32 5), kem_private_key_b64 = base64_encode toy_lib (replicate 32 9) \<rparr>"

definition toy_sidecar_lib :: sidecar_lib where
  "toy_sidecar_lib = sample_service_lib (sidecar_lib_ext (\<lambda>_. Some [toy_config]) (\<lambda>v. Some (of_bytes v))
     (\<lambda>_. Inr toy_resolve_request) (\<lambda>r. Some (as_bytes (srs_plaintext r))) ())"

definition toy_state :: AppState where
  "toy_state = \<lparr> sidecar_token = replicate 32 CHR ''t'', deployments = [7 \<mapsto>
     \<lparr> entry_organization_id = 1, entry_user_id = 2, entry_identity_id = 3, entry_resolver = sample_resolver \<rparr>] \<rparr>"

definition toy_host :: bytes where
  "toy_host = as_bytes ''[::1]:8787''"

lemma toy_host_loopback [simp]: "host_is_loopback (of_bytes toy_host)"
  using host_is_loopback_bracket [of "'':8787''"] unfolding toy_host_def of_bytes_as_bytes by simp

definition toy_call :: sidecar_request where
  "toy_call = \<lparr> sr_headers = [(''host'', toy_host), (''authorization'', as_bytes (''Bearer '' @ replicate 32 CHR ''t''))],
     sr_method = ''POST'', sr_path = ''/resolve'', sr_body = [] \<rparr>"

lemma toy_sidecar_selectors [simp]:
  "identities_from_json toy_sidecar_lib = (\<lambda>_. Some [toy_config])" "header_to_str toy_sidecar_lib = (\<lambda>v. Some (of_bytes v))"
  "extract_json toy_sidecar_lib = (\<lambda>_. Inr toy_resolve_request)"
  "response_to_json toy_sidecar_lib = (\<lambda>r. Some (as_bytes (srs_plaintext r)))"
  by (simp_all add: toy_sidecar_lib_def toy_resolver_lib_def) (simp_all add: crypto_lib.defs)

lemma toy_header_laws: "header_laws toy_sidecar_lib"
  by (simp add: header_laws_def)

lemma toy_call_guarded: "guard toy_sidecar_lib toy_state toy_call = Inr ()"
proof -
  have "local_request_ok toy_sidecar_lib (sr_headers toy_call)"
    by (simp add: local_request_ok_def toy_call_def)
  moreover have "authorize toy_sidecar_lib toy_state (sr_headers toy_call) = Inr ()"
    unfolding authorize_Inr [OF toy_header_laws] by (simp add: toy_call_def toy_state_def)
  ultimately show ?thesis by (simp add: guard_Inr)
qed

lemma toy_call_answer:
  "sidecar_handle toy_sidecar_lib toy_state toy_call (Timestamp 0) 5 = SecretResponse (as_bytes ''hunter2'')"
proof -
  have "resolve toy_sidecar_lib sample_resolver sample_reference ctx (Timestamp 0) 5 =
      Inr \<lparr> secret_plaintext = ''hunter2'', field_name = ''password'', secret_source = SerenSecrets \<rparr>" for ctx
    unfolding toy_sidecar_lib_def by (rule sample_resolved)
  moreover have "sidecar_handle toy_sidecar_lib toy_state toy_call now u = sidecar_inner toy_sidecar_lib toy_state toy_call now u" for now u
    by (simp add: sidecar_handle_def toy_call_guarded)
  ultimately show ?thesis
    by (simp add: sidecar_inner_def sidecar_resolve_cases toy_resolve_request_def
        toy_state_def zeroizing_json_response_def)
qed


theorem sidecar_errors_redacted_witness:
  "''missing authorization'' \<in> set sidecar_messages"
proof -
  let ?q = "toy_call\<lparr> sr_headers := [(''host'', toy_host)] \<rparr>"
  have "sidecar_handle toy_sidecar_lib toy_state ?q (Timestamp 0) 5 = ErrorResponse 401 ''missing authorization'' None"
    by (simp add: sidecar_handle_def guard_def local_request_ok_def authorize_def err_def)
  from sidecar_errors_redacted [OF this] show ?thesis by blast
qed

lemma toy_run:
  "service_run toy_sidecar_lib toy_state idle
     (idle\<lparr> arrivals := [toy_call], waiting := [(0, toy_call)] \<rparr>)"
  using run_step [OF run_refl admit [OF toy_call_guarded, of idle]] by (simp add: idle_def)



definition toy_env :: environment where
  "toy_env n =
     (if n = ''SEREN_SECRETS_SIDECAR_TOKEN'' then Present (replicate 32 CHR ''t'')
      else if n = ''SEREN_SECRETS_SIDECAR_BIND'' then Present ''[::1]:1''
      else if n \<in> {''SEREN_SECRETS_BASE_URL'', ''SEREN_SECRETS_BEARER_TOKEN'', ''SEREN_SECRETS_IDENTITIES_JSON''} then Present ''x''
      else NotPresent)"

lemma toy_base_url: "validate_base_url toy_sidecar_lib b = Inr ()" "client_build toy_sidecar_lib c = None"
  by (simp_all add: toy_sidecar_lib_def validate_base_url_def)

lemma toy_config_loads: "\<exists>d. load_deployment toy_sidecar_lib b t toy_config = Inr d"
proof -
  have decode: "base64_decode toy_sidecar_lib (base64_encode toy_lib k) = Some k" for k
    using base64_lawsD(1) [OF toy_resolver_laws(4)] toy_resolver_crypto(1) unfolding toy_sidecar_lib_def by metis
  have slice: "\<exists>k. key_from_slice w (replicate 32 x) = Inr k" for w x
    using bytes32_arr32 [of "replicate 32 x"] by (metis key_from_slice_iff length_replicate)
  obtain sk kk where "IdentitySigningPrivateKey_from_slice (replicate 32 5) = Inr sk"
      "IdentityKemPrivateKey_from_slice (replicate 32 9) = Inr kk"
    unfolding from_slice_defs using slice by meson
  then show ?thesis
    by (simp add: load_deployment_def Let_def toy_config_def decode resolver_new_def resolver_with_request_timeout_def
        network_client_def toy_base_url)
qed

lemma toy_start:
  "\<exists>st. sidecar_start toy_sidecar_lib toy_env = Inr ((V6 [0, 0, 0, 0, 0, 0, 0, 1], 1), st)"
proof -
  have env: "toy_env ''SEREN_SECRETS_SIDECAR_TOKEN'' = Present (replicate 32 CHR ''t'')"
      "toy_env ''SEREN_SECRETS_SIDECAR_BIND'' = Present ''[::1]:1''" "toy_env ''SEREN_SECRETS_BASE_URL'' = Present ''x''"
      "toy_env ''SEREN_SECRETS_BEARER_TOKEN'' = Present ''x''" "toy_env ''SEREN_SECRETS_IDENTITIES_JSON'' = Present ''x''"
      "toy_env ''SEREN_SECRETS_SIDECAR_ALLOW_REMOTE_BIND'' = NotPresent"
    by (simp_all add: toy_env_def)
  have trim: "trim_str ''x'' \<noteq> []" "trim_str (replicate 32 CHR ''t'') \<noteq> []" by code_simp+
  obtain d where d: "load_deployment toy_sidecar_lib ''x'' ''x'' toy_config = Inr d" using toy_config_loads by blast
  have "sidecar_bind_from_env toy_env = Inr (V6 [0, 0, 0, 0, 0, 0, 0, 1], 1)"
    by (simp add: sidecar_bind_from_env_def env parse_loopback_socket bool_env_def validate_sidecar_bind_def)
  then show ?thesis
    by (simp add: sidecar_start_def required_env_def env trim validate_sidecar_token_def MIN_SIDECAR_TOKEN_LEN_def
        load_deployments_def d)
qed

theorem sidecar_start_checked_witness:
  "\<exists>st. sidecar_start toy_sidecar_lib toy_env = Inr ((V6 [0, 0, 0, 0, 0, 0, 0, 1], 1), st)
     \<and> 32 \<le> length (sidecar_token st) \<and> dom (deployments st) = {7}"
proof -
  obtain st where st: "sidecar_start toy_sidecar_lib toy_env = Inr ((V6 [0, 0, 0, 0, 0, 0, 0, 1], 1), st)" using toy_start by blast
  with sidecar_start_checked [OF st] show ?thesis by (auto simp: toy_config_def)
qed

end
