(* ===== verification/Toy_Json.thy ===== *)
theory Toy_Json
  imports Json
begin

text \<open>
  A concrete text for JSON values, used only to show that the law on serde's texts can hold: every
  part says where it ends, so no text is the beginning of another.
\<close>

definition toy_word :: "u64 \<Rightarrow> bytes" where
  "toy_word n = replicate (unat n) 1 @ [0]"

definition toy_string :: "string \<Rightarrow> bytes" where
  "toy_string s = concat (map (\<lambda>c. [1, of_char c]) s) @ [0]"

fun toy_number :: "json_number \<Rightarrow> bytes" where
  "toy_number (PosInt n) = 0 # toy_word n"
| "toy_number (NegInt n) = 1 # toy_word (ucast n)"
| "toy_number (Float n) = 2 # toy_word n"

fun toy_json_text :: "json \<Rightarrow> bytes" where
  "toy_json_text JNull = [0]"
| "toy_json_text (JBool b) = [1, if b then 1 else 0]"
| "toy_json_text (JNumber n) = 2 # toy_number n"
| "toy_json_text (JString s) = 3 # toy_string s"
| "toy_json_text (JArray vs) = 4 # concat (map (\<lambda>v. 1 # toy_json_text v) vs) @ [0]"
| "toy_json_text (JObject m) = 5 # concat (map (\<lambda>kv. 1 # toy_string (fst kv) @ toy_json_text (snd kv)) m) @ [0]"

text \<open>A code whose words say where they end.\<close>

definition ends_itself :: "('a \<Rightarrow> bytes) \<Rightarrow> 'a \<Rightarrow> bool" where
  "ends_itself enc x \<longleftrightarrow> (\<forall>y r s. enc x @ r = enc y @ s \<longrightarrow> x = y \<and> r = s)"

lemma ends_itselfI: "(\<And>y r s. enc x @ r = enc y @ s \<Longrightarrow> x = y \<and> r = s) \<Longrightarrow> ends_itself enc x"
  by (simp add: ends_itself_def)

lemma ends_itselfD: "ends_itself enc x \<Longrightarrow> enc x @ r = enc y @ s \<Longrightarrow> x = y \<and> r = s"
  by (simp add: ends_itself_def)

lemma ends_itself_list:
  assumes "\<And>x. x \<in> set xs \<Longrightarrow> ends_itself enc x"
  shows "ends_itself (\<lambda>xs. concat (map (\<lambda>x. 1 # enc x) xs) @ [0]) xs"
  using assms
proof (induction xs)
  case Nil
  show ?case
  proof (rule ends_itselfI)
    fix y r s assume "(concat (map (\<lambda>x. 1 # enc x) []) @ [0]) @ r = (concat (map (\<lambda>x. 1 # enc x) y) @ [0]) @ s"
    then show "[] = y \<and> r = s" by (cases y) auto
  qed
next
  case (Cons x xs)
  then have ih: "ends_itself (\<lambda>xs. concat (map (\<lambda>x. 1 # enc x) xs) @ [0]) xs" and x: "ends_itself enc x" by auto
  show ?case
  proof (rule ends_itselfI)
    fix y r s assume eq: "(concat (map (\<lambda>x. 1 # enc x) (x # xs)) @ [0]) @ r = (concat (map (\<lambda>x. 1 # enc x) y) @ [0]) @ s"
    then obtain z zs where y: "y = z # zs" by (cases y) auto
    from eq have "enc x @ (concat (map (\<lambda>x. 1 # enc x) xs) @ [0]) @ r = enc z @ (concat (map (\<lambda>x. 1 # enc x) zs) @ [0]) @ s"
      by (simp add: y)
    from ends_itselfD [OF x this] show "x # xs = y \<and> r = s" using ends_itselfD [OF ih, of r zs s] by (simp add: y)
  qed
qed

lemma toy_string_ends: "ends_itself toy_string s"
proof -
  have "ends_itself (\<lambda>c. [of_char c]) c" for c :: char
    by (auto simp: ends_itself_def)
  from ends_itself_list [of s, OF this] show ?thesis unfolding toy_string_def by simp
qed

lemma replicate_zero_eq: "replicate m (1 :: u8) @ 0 # r = replicate n 1 @ 0 # s \<Longrightarrow> m = n \<and> r = s"
proof (induction m arbitrary: n)
  case 0
  then show ?case by (cases n) simp_all
next
  case (Suc m)
  then show ?case by (cases n) simp_all
qed

lemma toy_word_ends: "ends_itself toy_word n"
proof (rule ends_itselfI)
  fix m r s assume "toy_word n @ r = toy_word m @ s"
  then have "unat n = unat m \<and> r = s" unfolding toy_word_def by (intro replicate_zero_eq) simp
  then show "n = m \<and> r = s" by (simp add: word_unat_eq_iff)
qed

lemma toy_number_ends: "ends_itself toy_number n"
proof (rule ends_itselfI)
  fix m r s assume "toy_number n @ r = toy_number m @ s"
  then show "n = m \<and> r = s"
    by (cases n; cases m) (auto dest: ends_itselfD [OF toy_word_ends])
qed

lemma toy_json_text_ends: "ends_itself toy_json_text v"
proof (induction v)
  case (JArray vs)
  note l = ends_itselfD [OF ends_itself_list [of vs toy_json_text, OF JArray]]
  show ?case
  proof (rule ends_itselfI)
    fix y r s assume "toy_json_text (JArray vs) @ r = toy_json_text y @ s"
    then show "JArray vs = y \<and> r = s" using l [of r _ s] by (cases y) auto
  qed
next
  case (JObject m)
  have "ends_itself (\<lambda>kv. toy_string (fst kv) @ toy_json_text (snd kv)) kv" if "kv \<in> set m" for kv
  proof -
    have "ends_itself toy_json_text (snd kv)" using JObject [of kv "snd kv"] that by (cases kv) auto
    then show ?thesis unfolding ends_itself_def
      by (metis append.assoc ends_itselfD toy_string_ends prod.collapse ends_itself_def)
  qed
  note l = ends_itselfD [OF ends_itself_list [of m "\<lambda>kv. toy_string (fst kv) @ toy_json_text (snd kv)", OF this]]
  show ?case
  proof (rule ends_itselfI)
    fix y r s assume "toy_json_text (JObject m) @ r = toy_json_text y @ s"
    then show "JObject m = y \<and> r = s" using l [of r _ s] by (cases y) auto
  qed
next
  case (JNumber n)
  show ?case
  proof (rule ends_itselfI)
    fix y r s assume "toy_json_text (JNumber n) @ r = toy_json_text y @ s"
    then show "JNumber n = y \<and> r = s" by (cases y) (auto dest: ends_itselfD [OF toy_number_ends])
  qed
next
  case (JString t)
  show ?case
  proof (rule ends_itselfI)
    fix y r s assume "toy_json_text (JString t) @ r = toy_json_text y @ s"
    then show "JString t = y \<and> r = s" by (cases y) (auto dest: ends_itselfD [OF toy_string_ends])
  qed
next
  case JNull
  show ?case
  proof (rule ends_itselfI)
    fix y r s assume "toy_json_text JNull @ r = toy_json_text y @ s"
    then show "JNull = y \<and> r = s" by (cases y) auto
  qed
next
  case (JBool b)
  show ?case
  proof (rule ends_itselfI)
    fix y r s assume "toy_json_text (JBool b) @ r = toy_json_text y @ s"
    then show "JBool b = y \<and> r = s" by (cases y) (auto split: if_splits)
  qed
qed

lemma toy_json_text_inj: "toy_json_text v = toy_json_text v' \<longleftrightarrow> v = v'"
  using ends_itselfD [OF toy_json_text_ends, of v "[]" v' "[]"] by auto

end
