(* ===== verification/Vault_Admin.thy ===== *)
theory Vault_Admin
  imports Vault_Items Canonical Toy_Json
begin

text \<open>
  The administrative half of \<open>vault.rs\<close>: creating, granting, listing and revoking agent
  identities, and the bootstrap of a master-password key source.  These functions build a bare
  HTTP client and go through \<open>gateway_get\<close>, \<open>gateway_post\<close> and \<open>gateway_delete\<close>.  The wall clock is an
  argument; the text serde gives a JSON value is a field of \<open>admin_lib\<close>.
\<close>

section \<open>Wire records\<close>

record AgentVaultGrantInfo =
  agi_vault_id :: uuid
  agi_access_level :: string
  agi_granted_at :: timestamp

record AgentInfo =
  ai_identity_id :: uuid
  ai_display_name :: string
  ai_created_at :: timestamp
  ai_granted_vaults :: "AgentVaultGrantInfo list"

record AgentIdentityWire =
  aiw_identity_id :: uuid
  aiw_display_name :: string
  aiw_created_at :: string

record AgentVaultGrantWire =
  agw_vault_id :: uuid
  agw_access_level :: string
  agw_granted_at :: string

record AgentSummaryWire =
  asw_identity :: AgentIdentityWire
  asw_granted_vaults :: "AgentVaultGrantWire list"

record admin_lib = vault_lib +
  json_to_vec :: "json \<Rightarrow> bytes"
  agent_list_from_value :: "json \<Rightarrow> AgentSummaryWire list option"

text \<open>Different JSON values have different texts.\<close>

definition json_text_laws :: "'z admin_lib_scheme \<Rightarrow> bool" where
  "json_text_laws X \<longleftrightarrow> (\<forall>v v'. json_ok v \<and> json_ok v' \<and> json_to_vec X v = json_to_vec X v' \<longrightarrow> v = v')"

section \<open>Creating an agent\<close>

definition json_i64 :: "i64 \<Rightarrow> json" where
  "json_i64 n = JNumber (if 0 \<le>s n then PosInt (ucast n) else NegInt n)"

definition json_option_string :: "string option \<Rightarrow> json" where
  "json_option_string s = (case s of None \<Rightarrow> JNull | Some t \<Rightarrow> JString t)"

text \<open>The object that is signed, in the key order of the map.\<close>

definition create_agent_value ::
  "'z crypto_lib_scheme \<Rightarrow> string \<Rightarrow> IdentityKemPublicKey \<Rightarrow> IdentitySigningPublicKey \<Rightarrow> json \<Rightarrow> string option \<Rightarrow> i64
    \<Rightarrow> string \<Rightarrow> json" where
  "create_agent_value X display_name kem_pub signing_pub key_provenance kms_key_id issued nonce_text =
     JObject [(''display_name'', JString display_name), (''issued_at'', json_i64 issued),
       (''kem_public_key'', JString (base64_encode X (bytes32 kem_pub))), (''key_provenance'', key_provenance),
       (''kms_key_id'', json_option_string kms_key_id), (''nonce'', JString nonce_text),
       (''signing_public_key'', JString (base64_encode X (bytes32 signing_pub)))]"

definition canonical_create_agent_bytes ::
  "'z admin_lib_scheme \<Rightarrow> string \<Rightarrow> IdentityKemPublicKey \<Rightarrow> IdentitySigningPublicKey \<Rightarrow> json \<Rightarrow> string option \<Rightarrow> i64
    \<Rightarrow> string \<Rightarrow> bytes" where
  "canonical_create_agent_bytes X display_name kem_pub signing_pub key_provenance kms_key_id issued nonce_text =
     json_to_vec X (create_agent_value X display_name kem_pub signing_pub key_provenance kms_key_id issued nonce_text)"

definition bare_client :: "'z http_lib_scheme \<Rightarrow> http_client resolver_result" where
  "bare_client X =
     (let builder = client_builder REQUEST_TIMEOUT
      in case client_build X builder of None \<Rightarrow> Inr builder | Some e \<Rightarrow> Inl (transport e))"

text \<open>\<open>clock\<close>: the seconds since the epoch, or nothing when the clock is before it.\<close>

definition issued_at_of :: "u64 option \<Rightarrow> i64" where
  "issued_at_of clock = (case clock of Some d \<Rightarrow> ucast d | None \<Rightarrow> 0)"

definition create_agent_body ::
  "'z crypto_lib_scheme \<Rightarrow> string \<Rightarrow> IdentityKemPublicKey \<Rightarrow> IdentitySigningPublicKey \<Rightarrow> json \<Rightarrow> i64 \<Rightarrow> string \<Rightarrow> bytes \<Rightarrow> json" where
  "create_agent_body X display_name agent_kem_public agent_signing_public key_provenance issued nonce_text sig =
     JObject [(''display_name'', JString display_name), (''issued_at'', json_i64 issued),
       (''kem_public_key'', JString (base64_encode X (bytes32 agent_kem_public))), (''key_provenance'', key_provenance),
       (''kms_key_id'', JNull), (''nonce'', JString nonce_text), (''signature'', JString (base64_encode X sig)),
       (''signing_public_key'', JString (base64_encode X (bytes32 agent_signing_public)))]"

definition create_agent_identity ::
  "'z admin_lib_scheme \<Rightarrow> server \<Rightarrow> string \<Rightarrow> string \<Rightarrow> IdentitySigningPrivateKey \<Rightarrow> string \<Rightarrow> IdentityKemPublicKey
    \<Rightarrow> IdentitySigningPublicKey \<Rightarrow> json \<Rightarrow> u64 option \<Rightarrow> uuid op" where
  "create_agent_identity X S base_url bearer owner_signing_private display_name agent_kem_public agent_signing_public
       key_provenance clock =
     op_then (op_lift (bare_client X)) (\<lambda>http.
     let bu = trim_end_char CHR ''/'' base_url; issued = issued_at_of clock in
     op_then op_uuid (\<lambda>u.
     let nonce_text = uuid_to_string X u;
         canonical = canonical_create_agent_bytes X display_name agent_kem_public agent_signing_public key_provenance None
           issued nonce_text;
         sig = sign X owner_signing_private canonical;
         body = create_agent_body X display_name agent_kem_public agent_signing_public key_provenance issued nonce_text sig in
     op_then (gateway_post X S http bu bearer ''/identities/agents'' body) (\<lambda>v.
       op_lift (ok_or (Malformed ''identity_id in create-agent response'')
         (Option.bind (Option.bind (json_get ''identity_id'' v) json_as_str) (uuid_parse X))))))"

section \<open>Granting membership\<close>

definition membership_path :: "'z crypto_lib_scheme \<Rightarrow> uuid \<Rightarrow> string" where
  "membership_path X vault_id = ''/vaults/'' @ uuid_to_string X vault_id @ ''/memberships''"

definition grant_body :: "'z crypto_lib_scheme \<Rightarrow> uuid \<Rightarrow> bytes \<Rightarrow> string \<Rightarrow> bytes \<Rightarrow> json" where
  "grant_body X grantee_id wrapped access_level signature =
     JObject [(''access_level'', JString access_level), (''granted_signature'', JString (base64_encode X signature)),
       (''identity_id'', JString (uuid_to_string X grantee_id)),
       (''wrapped_vault_key'', JString (base64_encode X wrapped))]"

definition grant_membership ::
  "'z admin_lib_scheme \<Rightarrow> server \<Rightarrow> string \<Rightarrow> string \<Rightarrow> IdentitySigningPrivateKey \<Rightarrow> uuid \<Rightarrow> uuid \<Rightarrow> VaultKey
    \<Rightarrow> IdentityKemPublicKey \<Rightarrow> string \<Rightarrow> unit op" where
  "grant_membership X S base_url bearer granter_signing_private vault_id grantee_id vault_key agent_kem_public access_level =
     op_then (op_lift (bare_client X)) (\<lambda>http.
     let bu = trim_end_char CHR ''/'' base_url in
     op_then (op_random (wrap_vault_key_for_identity X vault_key agent_kem_public)) (\<lambda>wrapped.
     op_then (op_lift (ok_or (InvalidInput ''access_level must be read, write, or admin'') (access_level_byte access_level)))
     (\<lambda>access_byte.
     let signature = sign_membership_grant X granter_signing_private (uuid_as_bytes X vault_id)
           (uuid_as_bytes X grantee_id) access_byte wrapped in
     op_then (gateway_post X S http bu bearer (membership_path X vault_id)
       (grant_body X grantee_id wrapped access_level signature)) (\<lambda>_. op_return ()))))"

section \<open>Listing and revoking\<close>

definition grant_try_from :: "'z admin_lib_scheme \<Rightarrow> AgentVaultGrantWire \<Rightarrow> AgentVaultGrantInfo resolver_result" where
  "grant_try_from X g =
     and_then (ok_or (Malformed ''grant granted_at'') (timestamp_parse X (agw_granted_at g))) (\<lambda>t.
       Inr \<lparr> agi_vault_id = agw_vault_id g, agi_access_level = agw_access_level g, agi_granted_at = t \<rparr>)"

definition agent_try_from :: "'z admin_lib_scheme \<Rightarrow> AgentSummaryWire \<Rightarrow> AgentInfo resolver_result" where
  "agent_try_from X wire =
     and_then (ok_or (Malformed ''agent created_at'') (timestamp_parse X (aiw_created_at (asw_identity wire)))) (\<lambda>created_at.
     and_then (collect_results (grant_try_from X) (asw_granted_vaults wire)) (\<lambda>granted_vaults.
       Inr \<lparr> ai_identity_id = aiw_identity_id (asw_identity wire), ai_display_name = aiw_display_name (asw_identity wire),
             ai_created_at = created_at, ai_granted_vaults = granted_vaults \<rparr>))"

definition list_agents :: "'z admin_lib_scheme \<Rightarrow> server \<Rightarrow> string \<Rightarrow> string \<Rightarrow> AgentInfo list op" where
  "list_agents X S base_url bearer =
     op_then (op_lift (bare_client X)) (\<lambda>http.
     op_then (gateway_get X S http (trim_end_char CHR ''/'' base_url) bearer ''/identities/agents'') (\<lambda>v.
       op_lift (and_then (ok_or (Malformed ''agent list'') (agent_list_from_value X v))
         (collect_results (agent_try_from X)))))"

definition revoke_membership :: "'z admin_lib_scheme \<Rightarrow> server \<Rightarrow> string \<Rightarrow> string \<Rightarrow> uuid \<Rightarrow> uuid \<Rightarrow> unit op" where
  "revoke_membership X S base_url bearer vault_id identity_id =
     op_then (op_lift (bare_client X)) (\<lambda>http.
     op_then (gateway_delete X S http (trim_end_char CHR ''/'' base_url) bearer
       (membership_path X vault_id @ ''/'' @ uuid_to_string X identity_id)) (\<lambda>_. op_return ()))"

definition revoke_agent_identity :: "'z admin_lib_scheme \<Rightarrow> server \<Rightarrow> string \<Rightarrow> string \<Rightarrow> uuid \<Rightarrow> unit op" where
  "revoke_agent_identity X S base_url bearer identity_id =
     op_then (op_lift (bare_client X)) (\<lambda>http.
     op_then (gateway_post X S http (trim_end_char CHR ''/'' base_url) bearer
       (''/identities/'' @ uuid_to_string X identity_id @ ''/revoke'') (JObject [])) (\<lambda>_. op_return ()))"

section \<open>Bootstrap\<close>

definition fetch_master_password_key_source ::
  "'z admin_lib_scheme \<Rightarrow> server \<Rightarrow> string \<Rightarrow> string \<Rightarrow> bytes \<Rightarrow> VaultKeySource op" where
  "fetch_master_password_key_source X S base_url bearer master_password =
     op_then (op_lift (bare_client X)) (\<lambda>http.
     let bu = trim_end_char CHR ''/'' base_url in
     op_then (gateway_get X S http bu bearer ''/account/secrets'') (\<lambda>secrets_v.
     op_then (gateway_get X S http bu bearer ''/identities/me'') (\<lambda>identity_v.
     op_then (op_lift (ok_or (Malformed ''account secrets'') (account_secrets_from_value X secrets_v))) (\<lambda>stored.
     op_then (op_lift (ok_or (Malformed ''identity'') (identity_from_value X identity_v))) (\<lambda>ident.
     op_then (op_lift (assemble_account_secrets X stored ident)) (\<lambda>account_secrets.
       op_return (MasterPassword account_secrets master_password)))))))"

section \<open>Lemmas\<close>

definition bare_request :: "http_client \<Rightarrow> string \<Rightarrow> string \<Rightarrow> http_method \<Rightarrow> string \<Rightarrow> json option \<Rightarrow> gateway_request" where
  "bare_request http base_url bearer method path body =
     \<lparr> gw_client = http, gw_method = method, gw_url = trim_end_char CHR ''/'' base_url @ path, gw_bearer = bearer,
       gw_if_match = None, gw_body = body \<rparr>"

text \<open>One exchange: nothing is sent when the base URL is refused, and otherwise one request.\<close>

lemma gateway_exchange_cases:
  assumes "gateway_exchange X S http (trim_end_char CHR ''/'' base_url) bearer method path body w = (r, w')"
  obtains (refused) e where "r = Inl e" "w' = w" "validate_base_url X (trim_end_char CHR ''/'' base_url) = Inl e"
    | (one_sent) "validate_base_url X (trim_end_char CHR ''/'' base_url) = Inr ()"
        "w' = w\<lparr> sent := sent w @ [bare_request http base_url bearer method path body] \<rparr>"
        "and_then (map_err transport (S (sent w'))) (read_gateway_answer X) = r"
proof (cases "validate_base_url X (trim_end_char CHR ''/'' base_url)")
  case (Inl e)
  with assms show thesis by (intro refused) (simp_all add: gateway_exchange_def op_then_def op_lift_def)
next
  case (Inr u)
  let ?w = "w\<lparr> sent := sent w @ [bare_request http base_url bearer method path body] \<rparr>"
  from Inr assms have "r = and_then (map_err transport (S (sent ?w))) (read_gateway_answer X) \<and> w' = ?w"
    by (cases "S (sent ?w)")
      (auto simp: gateway_exchange_def op_then_def op_lift_def op_send_def bare_request_def)
  with Inr show thesis by (intro one_sent) simp_all
qed

lemma op_then_random: "op_then (op_random draw) f w = f (fst (draw (rng w))) (w\<lparr> rng := snd (draw (rng w)) \<rparr>)"
  by (simp add: op_then_def op_random_def split_beta)

lemma op_then_lift_Inl: "op_then (op_lift (Inl e)) f = op_lift (Inl e)"
  by (simp add: op_then_def op_lift_def)

lemma op_then_uuid: "op_then op_uuid f w = f (shd (fresh_uuids w)) (w\<lparr> fresh_uuids := stl (fresh_uuids w) \<rparr>)"
  by (simp add: op_then_def op_uuid_def)

lemmas exchange_defs = gateway_get_def gateway_post_def gateway_delete_def


lemma bare_client_Inr: "bare_client X = Inr http \<longleftrightarrow> client_build X (client_builder REQUEST_TIMEOUT) = None \<and> http = client_builder REQUEST_TIMEOUT"
  by (auto simp: bare_client_def Let_def split: option.splits)

text \<open>A post and what follows a good answer to it.\<close>

lemma post_then_cases:
  assumes "op_then (gateway_post X S http (trim_end_char CHR ''/'' base_url) bearer path body) f w = (r, w')"
    and "\<And>v w1 r w2. f v w1 = (r, w2) \<Longrightarrow> w2 = w1"
  shows "(\<exists>e. r = Inl e \<and> w' = w)
    \<or> w' = w\<lparr> sent := sent w @ [bare_request http base_url bearer Post path (Some body)] \<rparr>
      \<and> (\<forall>x. r = Inr x \<longrightarrow> (\<exists>resp v. S (sent w') = Inr resp \<and> read_gateway_answer X resp = Inr v \<and> f v w' = (Inr x, w')))"
  using assms(1)
proof (rule op_thenE)
  fix e
  assume "gateway_post X S http (trim_end_char CHR ''/'' base_url) bearer path body w = (Inl e, w')" "r = Inl e"
  then show ?thesis unfolding exchange_defs by (auto elim: gateway_exchange_cases)
next
  fix v w1
  assume p: "gateway_post X S http (trim_end_char CHR ''/'' base_url) bearer path body w = (Inr v, w1)" and f: "f v w1 = (r, w')"
  from assms(2) [OF f] have w1: "w1 = w'" by simp
  from p have "w1 = w\<lparr> sent := sent w @ [bare_request http base_url bearer Post path (Some body)] \<rparr>"
      "\<exists>resp. S (sent w1) = Inr resp \<and> read_gateway_answer X resp = Inr v"
    unfolding exchange_defs by (auto elim!: gateway_exchange_cases simp: and_then_eq_Inr map_err_eq_Inr)
  then show ?thesis using f unfolding w1 by auto
qed

section \<open>Properties\<close>

text \<open>C20. A grant is sound: a level other than read, write or admin is refused before anything is sent; at
  most one request leaves, the post to the vault's memberships; the wrapped key in its body opens, with
  the agent's private key, to the vault's key, and the signature in it verifies under the granter's
  public key for exactly this vault, this agent, this level and this wrapped key; and success is
  reported only when the service accepted that request.\<close>

theorem grant_membership_sound:
  assumes "kem_laws X" and "ed25519_laws X" and "base64_laws X"
    and "grant_membership X S base_url bearer granter vault_id agent_id vault_key (x25519_public X agent_private) level w = (r, w')"
  shows "(access_level_byte level = None \<and> client_build X (client_builder REQUEST_TIMEOUT) = None
            \<longrightarrow> r = Inl (InvalidInput ''access_level must be read, write, or admin''))
    \<and> (sent w' = sent w \<and> r \<noteq> Inr ()
       \<or> (\<exists>b body wrapped signature wrapped_text signature_text.
            access_level_byte level = Some b
          \<and> sent w' = sent w @ [\<lparr> gw_client = client_builder REQUEST_TIMEOUT, gw_method = Post,
              gw_url = trim_end_char CHR ''/'' base_url @ ''/vaults/'' @ uuid_to_string X vault_id @ ''/memberships'',
              gw_bearer = bearer, gw_if_match = None, gw_body = Some body \<rparr>]
          \<and> json_get ''identity_id'' body = Some (JString (uuid_to_string X agent_id))
          \<and> json_get ''access_level'' body = Some (JString level)
          \<and> json_get ''wrapped_vault_key'' body = Some (JString wrapped_text) \<and> base64_decode X wrapped_text = Some wrapped
          \<and> json_get ''granted_signature'' body = Some (JString signature_text) \<and> base64_decode X signature_text = Some signature
          \<and> unwrap_vault_key X agent_private wrapped = Inr vault_key
          \<and> verify_membership_grant X (ed25519_public X granter) (uuid_as_bytes X vault_id) (uuid_as_bytes X agent_id) b wrapped
              signature = Inr ()
          \<and> (r = Inr () \<longrightarrow> (\<exists>resp v. S (sent w') = Inr resp \<and> read_gateway_answer X resp = Inr v))))"
proof (cases "bare_client X")
  case (Inl e)
  with assms(4) show ?thesis
    by (auto simp: grant_membership_def op_then_def op_lift_def bare_client_def Let_def split: option.splits)
next
  case (Inr http)
  then have http: "http = client_builder REQUEST_TIMEOUT" by (simp add: bare_client_Inr)
  obtain wrapped e where wrap: "wrap_vault_key_for_identity X vault_key (x25519_public X agent_private) (rng w) = (wrapped, e)"
    by (cases "wrap_vault_key_for_identity X vault_key (x25519_public X agent_private) (rng w)")
  have opens: "unwrap_vault_key X agent_private wrapped = Inr vault_key"
    using unwrap_wrap_vault_key [OF assms(1), of agent_private vault_key "rng w"] wrap by simp
  note run = assms(4) [unfolded grant_membership_def Inr op_then_lift Let_def]
  show ?thesis
  proof (cases "access_level_byte level")
    case None
    with run show ?thesis by (auto simp: op_then_random op_then_lift_Inl op_lift_eq)
  next
    case (Some b)
    define sg where "sg = sign_membership_grant X granter (uuid_as_bytes X vault_id) (uuid_as_bytes X agent_id) b wrapped"
    have verified: "verify_membership_grant X (ed25519_public X granter) (uuid_as_bytes X vault_id) (uuid_as_bytes X agent_id) b wrapped sg = Inr ()"
      unfolding sg_def verify_membership_grant_def sign_membership_grant_def by (rule verify_sign [OF assms(2)])
    let ?w = "w\<lparr> rng := e \<rparr>"
    from run have "op_then (gateway_post X S http (trim_end_char CHR ''/'' base_url) bearer (membership_path X vault_id)
        (grant_body X agent_id wrapped level sg)) (\<lambda>_. op_return ()) ?w = (r, w')"
      by (simp add: op_then_random wrap Some op_then_lift sg_def)
    from post_then_cases [OF this] have "(\<exists>e. r = Inl e \<and> w' = ?w)
        \<or> w' = ?w\<lparr> sent := sent w @ [bare_request http base_url bearer Post (membership_path X vault_id) (Some (grant_body X agent_id wrapped level sg))] \<rparr>
          \<and> (r = Inr () \<longrightarrow> (\<exists>resp v. S (sent w') = Inr resp \<and> read_gateway_answer X resp = Inr v))"
      by (auto simp: op_return_eq)
    then show ?thesis
    proof
      assume sent: "w' = ?w\<lparr> sent := sent w @ [bare_request http base_url bearer Post (membership_path X vault_id) (Some (grant_body X agent_id wrapped level sg))] \<rparr>
          \<and> (r = Inr () \<longrightarrow> (\<exists>resp v. S (sent w') = Inr resp \<and> read_gateway_answer X resp = Inr v))"
      show ?thesis
        by (intro conjI disjI2 exI [of _ b] exI [of _ "grant_body X agent_id wrapped level sg"] exI [of _ wrapped] exI [of _ sg]
            exI [of _ "base64_encode X wrapped"] exI [of _ "base64_encode X sg"])
          (use sent Some opens verified in \<open>auto simp: bare_request_def http membership_path_def grant_body_def base64_round_trip [OF assms(3)]\<close>)
    qed (use Some in auto)
  qed
qed


lemma json_i64_inj: "json_i64 n = json_i64 m \<longleftrightarrow> n = m"
  by (auto simp: json_i64_def)

lemma json_option_string_inj: "json_option_string a = json_option_string b \<longleftrightarrow> a = b"
  by (auto simp: json_option_string_def split: option.splits)

lemma base64_encode_inj: "base64_laws X \<Longrightarrow> base64_encode X a = base64_encode X b \<longleftrightarrow> a = b"
  by (metis base64_round_trip option.inject)

lemma create_agent_value_inj:
  assumes "base64_laws X"
  shows "create_agent_value X n k s p m i u = create_agent_value X n' k' s' p' m' i' u'
     \<longleftrightarrow> (n, k, s, p, m, i, u) = (n', k', s', p', m', i', u')"
  by (auto simp: create_agent_value_def json_i64_inj json_option_string_inj base64_encode_inj [OF assms] bytes32_inject)

lemma create_agent_value_ok: "json_ok (create_agent_value X n k s p m i u) \<longleftrightarrow> json_ok p"
  by (auto simp: create_agent_value_def json_i64_def json_option_string_def split: option.splits)

text \<open>C23. Creating an agent posts at most one request, whose body carries a signature of the owner over
  the text of the body's other fields, with a nonce taken fresh for this call; success means that the
  service accepted the post and returned the identity.  The signed text determines everything in it:
  the name, both public keys, the provenance, the key id, the time and the nonce.\<close>

theorem agent_creation_signed:
  assumes "ed25519_laws X" and "base64_laws X" and "json_text_laws X" and "json_ok provenance"
    and "create_agent_identity X S base_url bearer owner name kem signing provenance clock w = (r, w')"
  shows "(sent w' = sent w \<and> (\<forall>i. r \<noteq> Inr i)
       \<or> (\<exists>entries signature signature_text.
            sent w' = sent w @ [\<lparr> gw_client = client_builder REQUEST_TIMEOUT, gw_method = Post,
              gw_url = trim_end_char CHR ''/'' base_url @ ''/identities/agents'', gw_bearer = bearer, gw_if_match = None,
              gw_body = Some (JObject entries) \<rparr>]
          \<and> map_of entries ''signature'' = Some (JString signature_text) \<and> base64_decode X signature_text = Some signature
          \<and> verify X (ed25519_public X owner) (json_to_vec X (JObject (filter (\<lambda>kv. fst kv \<noteq> ''signature'') entries))) signature = Inr ()
          \<and> JObject (filter (\<lambda>kv. fst kv \<noteq> ''signature'') entries)
              = create_agent_value X name kem signing provenance None (issued_at_of clock) (uuid_to_string X (shd (fresh_uuids w)))
          \<and> fresh_uuids w' = stl (fresh_uuids w)
          \<and> (\<forall>i. r = Inr i \<longrightarrow> (\<exists>resp v t. S (sent w') = Inr resp \<and> read_gateway_answer X resp = Inr v
                \<and> json_get ''identity_id'' v = Some (JString t) \<and> uuid_parse X t = Some i))))
    \<and> (\<forall>n k s p m i u. json_ok p
         \<and> canonical_create_agent_bytes X n k s p m i u = canonical_create_agent_bytes X name kem signing provenance m' i' u'
         \<longrightarrow> (n, k, s, p, m, i, u) = (name, kem, signing, provenance, m', i', u'))"
    (is "?posted \<and> ?exact")
proof
  show ?exact
    using assms(3,4) unfolding json_text_laws_def canonical_create_agent_bytes_def
    by (metis create_agent_value_ok create_agent_value_inj [OF assms(2)])
  show ?posted
  proof (cases "bare_client X")
    case (Inl e)
    with assms(5) show ?thesis by (auto simp: create_agent_identity_def op_then_lift_Inl op_lift_eq)
  next
    case (Inr http)
    then have http: "http = client_builder REQUEST_TIMEOUT" by (simp add: bare_client_Inr)
    define u where "u = uuid_to_string X (shd (fresh_uuids w))"
    define signed where "signed = create_agent_value X name kem signing provenance None (issued_at_of clock) u"
    define sg where "sg = sign X owner (json_to_vec X signed)"
    obtain entries where body: "create_agent_body X name kem signing provenance (issued_at_of clock) u sg = JObject entries"
        "map_of entries ''signature'' = Some (JString (base64_encode X sg))"
        "JObject (filter (\<lambda>kv. fst kv \<noteq> ''signature'') entries) = signed"
      by (simp add: create_agent_body_def signed_def create_agent_value_def json_option_string_def)
    have verified: "verify X (ed25519_public X owner) (json_to_vec X signed) sg = Inr ()"
      unfolding sg_def by (rule verify_sign [OF assms(1)])
    let ?w = "w\<lparr> fresh_uuids := stl (fresh_uuids w) \<rparr>"
    from assms(5) have "op_then (gateway_post X S http (trim_end_char CHR ''/'' base_url) bearer ''/identities/agents'' (JObject entries))
        (\<lambda>v. op_lift (ok_or (Malformed ''identity_id in create-agent response'')
         (Option.bind (Option.bind (json_get ''identity_id'' v) json_as_str) (uuid_parse X)))) ?w = (r, w')"
      unfolding create_agent_identity_def Inr op_then_lift Let_def op_then_uuid canonical_create_agent_bytes_def
        u_def [symmetric] signed_def [symmetric] sg_def [symmetric] body .
    from post_then_cases [OF this] have "(\<exists>e. r = Inl e \<and> w' = ?w)
        \<or> w' = ?w\<lparr> sent := sent w @ [bare_request http base_url bearer Post ''/identities/agents'' (Some (JObject entries))] \<rparr>
          \<and> (\<forall>i. r = Inr i \<longrightarrow> (\<exists>resp v t. S (sent w') = Inr resp \<and> read_gateway_answer X resp = Inr v
                \<and> json_get ''identity_id'' v = Some (JString t) \<and> uuid_parse X t = Some i))"
      by (fastforce simp: op_lift_eq ok_or_eq_Inr bind_eq_Some_conv elim!: json_as_str.elims)
    then show ?thesis
    proof
      assume s: "w' = ?w\<lparr> sent := sent w @ [bare_request http base_url bearer Post ''/identities/agents'' (Some (JObject entries))] \<rparr>
          \<and> (\<forall>i. r = Inr i \<longrightarrow> (\<exists>resp v t. S (sent w') = Inr resp \<and> read_gateway_answer X resp = Inr v
                \<and> json_get ''identity_id'' v = Some (JString t) \<and> uuid_parse X t = Some i))"
      show ?thesis
        by (rule disjI2, intro exI [of _ entries] exI [of _ sg] exI [of _ "base64_encode X sg"])
          (use s body(2,3) verified in \<open>auto simp: bare_request_def http base64_round_trip [OF assms(2)] signed_def u_def\<close>)
    qed auto
  qed
qed

section \<open>Bootstrap of a master-password account\<close>

lemma op_then_assoc: "op_then (op_then m f) g = op_then m (\<lambda>x. op_then (f x) g)"
  by (auto simp: op_then_def fun_eq_iff split: prod.splits sum.splits)

text \<open>The part of the bootstrap before the password.\<close>

definition bootstrap_secrets :: "'z admin_lib_scheme \<Rightarrow> server \<Rightarrow> string \<Rightarrow> string \<Rightarrow> AccountSecrets op" where
  "bootstrap_secrets X S base_url bearer =
     op_then (op_lift (bare_client X)) (\<lambda>http.
     op_then (gateway_get X S http (trim_end_char CHR ''/'' base_url) bearer ''/account/secrets'') (\<lambda>secrets_v.
     op_then (gateway_get X S http (trim_end_char CHR ''/'' base_url) bearer ''/identities/me'') (\<lambda>identity_v.
       op_lift (and_then (ok_or (Malformed ''account secrets'') (account_secrets_from_value X secrets_v)) (\<lambda>stored.
         and_then (ok_or (Malformed ''identity'') (identity_from_value X identity_v)) (assemble_account_secrets X stored))))))"

lemma fetch_factors:
  "fetch_master_password_key_source X S base_url bearer pw =
     op_then (bootstrap_secrets X S base_url bearer) (\<lambda>s. op_return (MasterPassword s pw))"
  by (simp add: fetch_master_password_key_source_def bootstrap_secrets_def op_then_assoc op_lift_then Let_def)

lemma op_then_return: "op_then m (\<lambda>x. op_return (f x)) w = (and_then (fst (m w)) (\<lambda>x. Inr (f x)), snd (m w))"
  by (auto simp: op_then_def op_return_def op_lift_def split: prod.splits sum.splits)

lemma get_then_cases:
  assumes "op_then (gateway_get X S http (trim_end_char CHR ''/'' base_url) bearer path) f w = (r, w')"
  shows "w' = w \<or> w' = w\<lparr> sent := sent w @ [bare_request http base_url bearer Get path None] \<rparr>
    \<or> (\<exists>v. f v (w\<lparr> sent := sent w @ [bare_request http base_url bearer Get path None] \<rparr>) = (r, w'))"
  using assms unfolding exchange_defs by (auto elim!: op_thenE gateway_exchange_cases)

lemma bootstrap_sent:
  assumes "bootstrap_secrets X S base_url bearer w = (r, w')"
  shows "\<exists>k. sent w' = sent w @ take k
      [bare_request (client_builder REQUEST_TIMEOUT) base_url bearer Get ''/account/secrets'' None,
       bare_request (client_builder REQUEST_TIMEOUT) base_url bearer Get ''/identities/me'' None]"
proof (cases "bare_client X")
  case (Inl e)
  with assms have "sent w' = sent w @ take 0 []" by (simp add: bootstrap_secrets_def op_then_lift_Inl op_lift_eq)
  then show ?thesis by (metis take_0)
next
  case (Inr http)
  let ?a = "bare_request http base_url bearer Get ''/account/secrets'' None"
  let ?b = "bare_request http base_url bearer Get ''/identities/me'' None"
  from assms [unfolded bootstrap_secrets_def Inr op_then_lift]
  have "sent w' = sent w @ take 0 [?a, ?b] \<or> sent w' = sent w @ take 1 [?a, ?b] \<or> sent w' = sent w @ take 2 [?a, ?b]"
    by (auto simp: op_lift_eq dest!: get_then_cases)
  moreover have "http = client_builder REQUEST_TIMEOUT" using Inr by (simp add: bare_client_Inr)
  ultimately show ?thesis by blast
qed

text \<open>C21. The master password stays on the device: the bootstrap sends at most the two requests for the
  stored secrets and the identity, without a body, and neither they nor what the bootstrap makes of
  the answers depends on the password.\<close>

theorem bootstrap_password_stays:
  "\<exists>r w' k. (\<forall>pw. fetch_master_password_key_source X S base_url bearer pw w = (and_then r (\<lambda>s. Inr (MasterPassword s pw)), w'))
    \<and> sent w' = sent w @ take k
        [\<lparr> gw_client = client_builder REQUEST_TIMEOUT, gw_method = Get,
           gw_url = trim_end_char CHR ''/'' base_url @ ''/account/secrets'', gw_bearer = bearer, gw_if_match = None, gw_body = None \<rparr>,
         \<lparr> gw_client = client_builder REQUEST_TIMEOUT, gw_method = Get,
           gw_url = trim_end_char CHR ''/'' base_url @ ''/identities/me'', gw_bearer = bearer, gw_if_match = None, gw_body = None \<rparr>]"
proof -
  obtain r w' where b: "bootstrap_secrets X S base_url bearer w = (r, w')" by fastforce
  then show ?thesis
    using bootstrap_sent [OF b] unfolding fetch_factors op_then_return b fst_conv snd_conv bare_request_def by blast
qed


text \<open>The records in which the service keeps an account.\<close>

definition keeps_account :: "'z vault_lib_scheme \<Rightarrow> AccountSecrets \<Rightarrow> AccountSecretsRecord \<Rightarrow> IdentityRecord \<Rightarrow> bool" where
  "keeps_account X stored rec ident \<longleftrightarrow>
     kdf_params_from_value X (asr_kdf_params rec) = Some (kdf_params stored)
   \<and> kdf_params_from_value X (asr_recovery_kdf_params rec) = Some (recovery_kdf_params stored)
   \<and> asr_account_key_wrap rec = base64_encode X (account_key_wrap stored)
   \<and> asr_account_kem_private_wrap rec = base64_encode X (account_kem_private_wrap stored)
   \<and> asr_account_signing_private_wrap rec = base64_encode X (account_signing_private_wrap stored)
   \<and> asr_recovery_key_wrap rec = base64_encode X (recovery_key_wrap stored)
   \<and> idr_kem_public_key ident = base64_encode X (bytes32 (kem_public_key stored))
   \<and> idr_signing_public_key ident = base64_encode X (bytes32 (signing_public_key stored))"

lemma assemble_kept:
  assumes "base64_laws X" and "keeps_account X stored rec ident"
  shows "assemble_account_secrets X rec ident = Inr stored"
proof -
  have slice: "IdentityKemPublicKey_from_slice (bytes32 k) = Inr k" "IdentitySigningPublicKey_from_slice (bytes32 k) = Inr k" for k
    by (simp_all add: from_slice_defs key_from_slice_iff)
  from assms(2) show ?thesis
    by (simp add: keeps_account_def assemble_account_secrets_def b64_decode_def base64_round_trip [OF assms(1)] slice)
qed

lemma get_then_accepted:
  assumes "validate_base_url X (trim_end_char CHR ''/'' base_url) = Inr ()"
    and "S (sent w @ [bare_request http base_url bearer Get path None]) = Inr resp" and "read_gateway_answer X resp = Inr v"
  shows "op_then (gateway_get X S http (trim_end_char CHR ''/'' base_url) bearer path) f w
    = f v (w\<lparr> sent := sent w @ [bare_request http base_url bearer Get path None] \<rparr>)"
  using assms by (simp add: exchange_defs gateway_exchange_def op_then_lift op_then_def op_send_eq op_lift_def bare_request_def)

lemma post_then_accepted:
  assumes "validate_base_url X (trim_end_char CHR ''/'' base_url) = Inr ()"
    and "S (sent w @ [bare_request http base_url bearer Post path (Some body)]) = Inr resp" and "read_gateway_answer X resp = Inr v"
  shows "op_then (gateway_post X S http (trim_end_char CHR ''/'' base_url) bearer path body) f w
    = f v (w\<lparr> sent := sent w @ [bare_request http base_url bearer Post path (Some body)] \<rparr>)"
  using assms by (simp add: exchange_defs gateway_exchange_def op_then_lift op_then_def op_send_eq op_lift_def bare_request_def)

text \<open>C22. Bootstrapping works end to end: against a service that returns the records of an account, the
  bootstrap yields a key source that holds exactly that account, and with a master password that
  unlocks the account the source gives the account's private key.\<close>

theorem bootstrap_opens_account:
  assumes "base64_laws X" and "client_build X (client_builder REQUEST_TIMEOUT) = None"
    and "validate_base_url X (trim_end_char CHR ''/'' base_url) = Inr ()"
    and "keeps_account X stored rec ident" and "unlock_account X pw stored = Inr u"
    and "secrets_call = \<lparr> gw_client = client_builder REQUEST_TIMEOUT, gw_method = Get,
           gw_url = trim_end_char CHR ''/'' base_url @ ''/account/secrets'', gw_bearer = bearer, gw_if_match = None, gw_body = None \<rparr>"
    and "identity_call = \<lparr> gw_client = client_builder REQUEST_TIMEOUT, gw_method = Get,
           gw_url = trim_end_char CHR ''/'' base_url @ ''/identities/me'', gw_bearer = bearer, gw_if_match = None, gw_body = None \<rparr>"
    and "S (sent w @ [secrets_call]) = Inr resp1" and "read_gateway_answer X resp1 = Inr v1"
    and "account_secrets_from_value X v1 = Some rec"
    and "S (sent w @ [secrets_call, identity_call]) = Inr resp2" and "read_gateway_answer X resp2 = Inr v2"
    and "identity_from_value X v2 = Some ident"
  shows "\<exists>w'. fetch_master_password_key_source X S base_url bearer pw w = (Inr (MasterPassword stored pw), w')
      \<and> sent w' = sent w @ [secrets_call, identity_call]
      \<and> key_source_kem_private X (MasterPassword stored pw) = Inr (unlocked_kem_private u)"
proof -
  let ?http = "client_builder REQUEST_TIMEOUT"
  have bare: "bare_client X = Inr ?http" using assms(2) by (simp add: bare_client_Inr)
  have calls: "secrets_call = bare_request ?http base_url bearer Get ''/account/secrets'' None"
      "identity_call = bare_request ?http base_url bearer Get ''/identities/me'' None"
    using assms(6,7) by (simp_all add: bare_request_def)
  let ?w = "w\<lparr> sent := sent w @ [secrets_call] \<rparr>"
  have first: "op_then (gateway_get X S ?http (trim_end_char CHR ''/'' base_url) bearer ''/account/secrets'') f w = f v1 ?w" for f
    unfolding calls by (rule get_then_accepted [OF assms(3) _ assms(9)]) (use assms(8) calls in simp)
  have second: "op_then (gateway_get X S ?http (trim_end_char CHR ''/'' base_url) bearer ''/identities/me'') f ?w
      = f v2 (w\<lparr> sent := sent w @ [secrets_call, identity_call] \<rparr>)" for f
    using get_then_accepted [OF assms(3) _ assms(12), of S ?w ?http bearer "''/identities/me''"] assms(11) calls by simp
  have "bootstrap_secrets X S base_url bearer w = (Inr stored, w\<lparr> sent := sent w @ [secrets_call, identity_call] \<rparr>)"
    unfolding bootstrap_secrets_def bare op_then_lift first second
    using assms(10,13) assemble_kept [OF assms(1,4)] by (simp add: op_lift_eq)
  then show ?thesis
    unfolding fetch_factors op_then_return using assms(5) by simp
qed


section \<open>Witnesses\<close>

text \<open>A gateway that answers every request with the JSON value \<open>v\<close>, which reads as the given records.\<close>

definition toy_admin_lib :: "json \<Rightarrow> KdfParams \<Rightarrow> KdfParams \<Rightarrow> AccountSecretsRecord \<Rightarrow> IdentityRecord \<Rightarrow> admin_lib" where
  "toy_admin_lib v p rp rec ident =
     crypto_lib.extend toy_lib
       (item_lib_ext (\<lambda>_. None) (\<lambda>_. None) (\<lambda>_. None) (\<lambda>_. None)
       (error_lib_ext (\<lambda>_. None)
       (http_lib_ext (\<lambda>_. Some (sample_url\<lparr> url_scheme := ''https'' \<rparr>)) (\<lambda>_. None)
         (\<lambda>_ _. Inl \<lparr> is_timeout = True, is_connect = False \<rparr>)
       (resolver_lib_ext (\<lambda>_. True) (\<lambda>_. []) (\<lambda>_. []) (\<lambda>_. None) (\<lambda>_. None)
       (revision_lib_ext (\<lambda>_. Some (Timestamp 0))
       (gateway_lib_ext (\<lambda>_. Some (JObject [(''data'', v)])) (\<lambda>_. [])
       (vault_lib_ext (\<lambda>j. Some (if j = JNull then p else rp)) (\<lambda>_. Some rec) (\<lambda>_. Some ident)
          (\<lambda>_. None) (\<lambda>_. None) (\<lambda>_. None) (\<lambda>_. None) (\<lambda>_. None) (\<lambda>_. None)
       (admin_lib_ext toy_json_text (\<lambda>_. None) ()))))))))"

lemma toy_admin_selectors [simp]:
  "url_parse (toy_admin_lib v p rp rec ident) = (\<lambda>_. Some (sample_url\<lparr> url_scheme := ''https'' \<rparr>))"
  "client_build (toy_admin_lib v p rp rec ident) = (\<lambda>_. None)"
  "json_from_slice (toy_admin_lib v p rp rec ident) = (\<lambda>_. Some (JObject [(''data'', v)]))"
  "kdf_params_from_value (toy_admin_lib v p rp rec ident) = (\<lambda>j. Some (if j = JNull then p else rp))"
  "account_secrets_from_value (toy_admin_lib v p rp rec ident) = (\<lambda>_. Some rec)"
  "identity_from_value (toy_admin_lib v p rp rec ident) = (\<lambda>_. Some ident)"
  "json_to_vec (toy_admin_lib v p rp rec ident) = toy_json_text"
  "uuid_to_string (toy_admin_lib v p rp rec ident) = uuid_to_string toy_lib"
  "uuid_parse (toy_admin_lib v p rp rec ident) = uuid_parse toy_lib"
  "base64_encode (toy_admin_lib v p rp rec ident) = base64_encode toy_lib"
  "xchacha_decrypt (toy_admin_lib v p rp rec ident) = xchacha_decrypt toy_lib"
  "argon2_params_ok (toy_admin_lib v p rp rec ident) = argon2_params_ok toy_lib"
  "argon2id (toy_admin_lib v p rp rec ident) = argon2id toy_lib"
  "x25519_public (toy_admin_lib v p rp rec ident) = x25519_public toy_lib"
  "ed25519_public (toy_admin_lib v p rp rec ident) = ed25519_public toy_lib"
  by (simp_all add: toy_admin_lib_def) (simp_all add: crypto_lib.defs)

lemma toy_admin_laws [simp]:
  "kem_laws (toy_admin_lib v p rp rec ident)" "ed25519_laws (toy_admin_lib v p rp rec ident)" "base64_laws (toy_admin_lib v p rp rec ident)"
  unfolding toy_admin_lib_def by simp_all

lemma toy_admin_json_laws [simp]: "json_text_laws (toy_admin_lib v p rp rec ident)"
  by (simp add: json_text_laws_def toy_json_text_inj)

lemma toy_admin_unlock: "unlock_account (toy_admin_lib v p rp rec ident) pw s = unlock_account toy_lib pw s"
proof -
  let ?X = "toy_admin_lib v p rp rec ident"
  have "xchacha20_decrypt_with_aad ?X = xchacha20_decrypt_with_aad toy_lib" "derive_master_key ?X = derive_master_key toy_lib"
      "IdentityKemKeypair_from_private ?X = IdentityKemKeypair_from_private toy_lib"
      "IdentitySigningKeypair_from_private ?X = IdentitySigningKeypair_from_private toy_lib"
    by (simp_all add: fun_eq_iff xchacha20_decrypt_with_aad_def derive_master_key_def derive_key_def
        IdentityKemKeypair_from_private_def IdentitySigningKeypair_from_private_def cong: if_cong)
  then show ?thesis by (simp add: unlock_account_def unwrap_account_key_def cong: if_cong)
qed

lemma toy_admin_url: "validate_base_url (toy_admin_lib v p rp rec ident) b = Inr ()"
  by (simp add: validate_base_url_def)

lemma toy_admin_answer:
  "json_get ''status'' v = None \<Longrightarrow> json_get ''body'' v = None \<Longrightarrow> json_get ''data'' v = None \<Longrightarrow>
     read_gateway_answer (toy_admin_lib v p rp rec ident) \<lparr> resp_status = 200, resp_chunks = [] \<rparr> = Inr v"
  by (simp add: read_gateway_answer_def is_success_def read_capped_def unwrap_metered_def)

abbreviation toy_agent_lib :: admin_lib where
  "toy_agent_lib \<equiv> toy_admin_lib (JObject [(''identity_id'', JString (uuid_to_string toy_lib 9))]) sample_params sample_params
     \<lparr> asr_kdf_params = JNull, asr_recovery_kdf_params = JNull, asr_account_key_wrap = [], asr_account_kem_private_wrap = [],
       asr_account_signing_private_wrap = [], asr_recovery_key_wrap = [] \<rparr>
     \<lparr> idr_kem_public_key = [], idr_signing_public_key = [] \<rparr>"

lemma toy_post:
  "op_then (gateway_post toy_agent_lib (toy_server 200) http (trim_end_char CHR ''/'' base_url) bearer path body) f w
    = f (JObject [(''identity_id'', JString (uuid_to_string toy_lib 9))])
        (w\<lparr> sent := sent w @ [bare_request http base_url bearer Post path (Some body)] \<rparr>)"
  by (rule post_then_accepted [OF toy_admin_url _ toy_admin_answer]) (simp_all add: toy_server_def)

theorem grant_membership_sound_witness:
  "\<exists>w'. grant_membership toy_agent_lib (toy_server 200) ''https://gateway'' ''token'' (arr32 (replicate 32 5)) 1 2 toy_vault_key
          (x25519_public toy_agent_lib (arr32 (replicate 32 9))) ''read'' toy_world = (Inr (), w')
     \<and> length (sent w') = 1
     \<and> (\<exists>wrapped. unwrap_vault_key toy_agent_lib (arr32 (replicate 32 9)) wrapped = Inr toy_vault_key)"
proof -
  have "access_level_byte ''read'' = Some ACCESS_LEVEL_READ" by (simp add: access_level_byte_def)
  moreover have "bare_client toy_agent_lib = Inr (client_builder REQUEST_TIMEOUT)" by (simp add: bare_client_Inr)
  ultimately obtain w' where run: "grant_membership toy_agent_lib (toy_server 200) ''https://gateway'' ''token'' (arr32 (replicate 32 5)) 1 2
      toy_vault_key (x25519_public toy_agent_lib (arr32 (replicate 32 9))) ''read'' toy_world = (Inr (), w')"
    by (simp add: grant_membership_def op_then_lift op_then_random Let_def toy_post op_return_eq)
  from grant_membership_sound [OF toy_admin_laws run] have "length (sent w') = 1"
      "\<exists>wrapped. unwrap_vault_key toy_agent_lib (arr32 (replicate 32 9)) wrapped = Inr toy_vault_key"
    by (auto simp: toy_world_def)
  with run show ?thesis by blast
qed

theorem agent_creation_signed_witness:
  "\<exists>w'. create_agent_identity toy_agent_lib (toy_server 200) ''https://gateway'' ''token'' (arr32 (replicate 32 5)) ''bot''
          (arr32 (replicate 32 7)) (arr32 (replicate 32 8)) JNull (Some 1) toy_world = (Inr 9, w') \<and> length (sent w') = 1"
proof -
  have "bare_client toy_agent_lib = Inr (client_builder REQUEST_TIMEOUT)" by (simp add: bare_client_Inr)
  moreover have "uuid_parse toy_lib (uuid_to_string toy_lib 9) = Some 9" using toy_uuid_laws by (simp add: uuid_laws_def)
  ultimately obtain w' where run: "create_agent_identity toy_agent_lib (toy_server 200) ''https://gateway'' ''token'' (arr32 (replicate 32 5))
      ''bot'' (arr32 (replicate 32 7)) (arr32 (replicate 32 8)) JNull (Some 1) toy_world = (Inr 9, w')"
    by (simp add: create_agent_identity_def op_then_lift op_then_uuid Let_def toy_post op_lift_eq)
  from agent_creation_signed [OF toy_admin_laws(2,3) toy_admin_json_laws _ run, THEN conjunct1] have "length (sent w') = 1"
    by (auto simp: toy_world_def)
  with run show ?thesis by blast
qed

theorem bootstrap_opens_account_witness:
  "\<exists>X stored private w'.
     fetch_master_password_key_source (X :: admin_lib) (toy_server 200) ''https://gateway'' ''token'' [1, 2, 3] toy_world
       = (Inr (MasterPassword stored [1, 2, 3]), w')
     \<and> length (sent w') = 2 \<and> key_source_kem_private X (MasterPassword stored [1, 2, 3]) = Inr private"
proof -
  obtain s rk u where s: "unlock_account toy_lib [1, 2, 3] s = Inr u" by (rule sample_account)
  define rec where "rec = \<lparr> asr_kdf_params = JNull, asr_recovery_kdf_params = JBool True,
    asr_account_key_wrap = base64_encode toy_lib (account_key_wrap s),
    asr_account_kem_private_wrap = base64_encode toy_lib (account_kem_private_wrap s),
    asr_account_signing_private_wrap = base64_encode toy_lib (account_signing_private_wrap s),
    asr_recovery_key_wrap = base64_encode toy_lib (recovery_key_wrap s) \<rparr>"
  define ident where "ident = \<lparr> idr_kem_public_key = base64_encode toy_lib (bytes32 (kem_public_key s)),
    idr_signing_public_key = base64_encode toy_lib (bytes32 (signing_public_key s)) \<rparr>"
  let ?X = "toy_admin_lib JNull (kdf_params s) (recovery_kdf_params s) rec ident"
  have "keeps_account ?X s rec ident" by (simp add: keeps_account_def rec_def ident_def)
  moreover have "unlock_account ?X [1, 2, 3] s = Inr u" using s by (simp add: toy_admin_unlock)
  ultimately have "\<exists>w'. fetch_master_password_key_source ?X (toy_server 200) ''https://gateway'' ''token'' [1, 2, 3] toy_world
       = (Inr (MasterPassword s [1, 2, 3]), w') \<and> length (sent w') = 2
     \<and> key_source_kem_private ?X (MasterPassword s [1, 2, 3]) = Inr (unlocked_kem_private u)"
    using bootstrap_opens_account [OF toy_admin_laws(3) _ toy_admin_url _ _ refl refl, of JNull "kdf_params s" "recovery_kdf_params s"
        rec ident s rec ident "[1, 2, 3]" u "toy_server 200" toy_world] toy_admin_answer [of JNull]
    by (fastforce simp: toy_server_def toy_world_def)
  then show ?thesis by blast
qed

end
