(* ===== verification/Vault_Refinement.thy ===== *)
theory Vault_Refinement
  imports Vault_Items
begin

text \<open>
  The vault client against a service that keeps its records: an abstract specification of an item
  store with optimistic concurrency, and the proof that the client, the encryption and such a
  service together implement it.  The specification knows titles, contents, flags and revisions
  and nothing of keys, ciphertexts, requests or JSON.
\<close>

section \<open>The abstract store\<close>

record aitem =
  a_title :: string
  a_tags :: "string list"
  a_content :: ItemContent
  a_sensitive :: bool
  a_metadata :: string
  a_trashed :: bool
  a_revision :: ItemRevision

type_synonym astore = "uuid \<rightharpoonup> aitem"

datatype client_call =
    CallCreate ItemContent string "string list" bool
  | CallGet uuid
  | CallUpdate uuid ItemContent string "string list" "bool option" bool "ItemRevision option"
  | CallTrash uuid "ItemRevision option"

datatype outcome =
    Created uuid
  | Got aitem
  | Updated ItemRevision
  | TrashedItem TrashResult
  | Refused ResolverError

text \<open>Serde can write the content and the tags.\<close>

definition storable :: "'z item_lib_scheme \<Rightarrow> ItemContent \<Rightarrow> string list \<Rightarrow> bool" where
  "storable X content tags \<longleftrightarrow> content_to_json X content \<noteq> None \<and> (tags = [] \<or> tags_to_json X tags \<noteq> None)"

text \<open>A condition on the revision holds when there is none or it names the current revision.\<close>

definition current :: "ItemRevision option \<Rightarrow> ItemRevision \<Rightarrow> bool" where
  "current if_match rv \<longleftrightarrow> if_match = None \<or> if_match = Some rv"

definition updated_item ::
  "'z error_lib_scheme \<Rightarrow> aitem \<Rightarrow> ItemContent \<Rightarrow> string \<Rightarrow> string list \<Rightarrow> bool option \<Rightarrow> bool \<Rightarrow> ItemRevision \<Rightarrow> aitem" where
  "updated_item X a content title tags favorite sensitive rv =
     (let flags = metadata_flags X (a_metadata a) in
      \<lparr> a_title = title, a_tags = tags, a_content = content, a_sensitive = sensitive,
        a_metadata = metadata_text (item_kind_str content) (case favorite of Some b \<Rightarrow> b | None \<Rightarrow> fst flags) sensitive (snd flags),
        a_trashed = a_trashed a, a_revision = rv \<rparr>)"

inductive spec_step :: "'z vault_lib_scheme \<Rightarrow> client_call \<Rightarrow> astore \<Rightarrow> outcome \<Rightarrow> astore \<Rightarrow> bool" for X where
  spec_create: "storable X content tags \<Longrightarrow> m i = None \<Longrightarrow>
    spec_step X (CallCreate content title tags sensitive) m (Created i)
      (m(i \<mapsto> \<lparr> a_title = title, a_tags = tags, a_content = content, a_sensitive = sensitive,
                a_metadata = metadata_text (item_kind_str content) False sensitive False, a_trashed = False, a_revision = rv \<rparr>))"
| spec_create_unstorable: "\<not> storable X content tags \<Longrightarrow>
    spec_step X (CallCreate content title tags sensitive) m (Refused (Crypto e)) m"
| spec_get: "m i = Some a \<Longrightarrow> spec_step X (CallGet i) m (Got a) m"
| spec_get_missing: "m i = None \<Longrightarrow> spec_step X (CallGet i) m (Refused (ServerError 404 body)) m"
| spec_update: "m i = Some a \<Longrightarrow> storable X content tags \<Longrightarrow> current if_match (a_revision a) \<Longrightarrow>
    spec_step X (CallUpdate i content title tags favorite sensitive if_match) m (Updated rv)
      (m(i \<mapsto> updated_item X a content title tags favorite sensitive rv))"
| spec_update_stale: "m i = Some a \<Longrightarrow> storable X content tags \<Longrightarrow> \<not> current if_match (a_revision a) \<Longrightarrow>
    spec_step X (CallUpdate i content title tags favorite sensitive if_match) m (Refused Stale) m"
| spec_update_unstorable: "m i = Some a \<Longrightarrow> \<not> storable X content tags \<Longrightarrow>
    spec_step X (CallUpdate i content title tags favorite sensitive if_match) m (Refused (Crypto e)) m"
| spec_update_missing: "m i = None \<Longrightarrow>
    spec_step X (CallUpdate i content title tags favorite sensitive if_match) m (Refused (ServerError 404 body)) m"
| spec_trash: "m i = Some a \<Longrightarrow> \<not> a_trashed a \<Longrightarrow> current if_match (a_revision a) \<Longrightarrow>
    spec_step X (CallTrash i if_match) m (TrashedItem \<lparr> trash_outcome = OTrashed, trash_updated_at = rv \<rparr>)
      (m(i \<mapsto> a\<lparr> a_trashed := True, a_revision := rv \<rparr>))"
| spec_trash_again: "m i = Some a \<Longrightarrow> a_trashed a \<Longrightarrow> current if_match (a_revision a) \<Longrightarrow>
    spec_step X (CallTrash i if_match) m (TrashedItem \<lparr> trash_outcome = OAlreadyTrashed, trash_updated_at = a_revision a \<rparr>) m"
| spec_trash_stale: "m i = Some a \<Longrightarrow> \<not> current if_match (a_revision a) \<Longrightarrow>
    spec_step X (CallTrash i if_match) m (Refused Stale) m"
| spec_trash_missing: "m i = None \<Longrightarrow> spec_step X (CallTrash i if_match) m (Refused (ServerError 404 body)) m"

inductive spec_run :: "'z vault_lib_scheme \<Rightarrow> client_call list \<Rightarrow> astore \<Rightarrow> outcome list \<Rightarrow> astore \<Rightarrow> bool" for X where
  spec_nil: "spec_run X [] m [] m"
| spec_cons: "spec_step X op1 m out m1 \<Longrightarrow> spec_run X calls m1 outs m2 \<Longrightarrow> spec_run X (op1 # calls) m (out # outs) m2"

section \<open>A service that keeps its records\<close>

type_synonym store = "uuid \<rightharpoonup> ItemRecord"

text \<open>How such a service may answer a request about the vault \<open>v\<close>.\<close>

inductive serve ::
  "'z vault_lib_scheme \<Rightarrow> VaultClient \<Rightarrow> uuid \<Rightarrow> store \<Rightarrow> gateway_request \<Rightarrow> json resolver_result \<Rightarrow> store \<Rightarrow> bool"
  for X self v where
  serve_create: "st (rq_item_id req) = None \<Longrightarrow> stores v (rq_item_id req) req rec \<Longrightarrow> ir_trashed_at rec = None \<Longrightarrow>
    serve X self v st (request_of self Post (items_path X v) (Some (create_to_value X req)) None) (Inr val) (st(rq_item_id req \<mapsto> rec))"
| serve_read: "st i = Some rec \<Longrightarrow> item_record_from_value X val = Some rec \<Longrightarrow>
    serve X self v st (request_of self Get (item_path X v i) None None) (Inr val) st"
| serve_read_missing: "st i = None \<Longrightarrow>
    serve X self v st (request_of self Get (item_path X v i) None None) (Inl (ServerError 404 body)) st"
| serve_update: "st i = Some rec \<Longrightarrow> current if_match (ir_updated_at rec) \<Longrightarrow> stores v i req rec' \<Longrightarrow>
    ir_trashed_at rec' = ir_trashed_at rec \<Longrightarrow> item_record_from_value X val = Some rec' \<Longrightarrow>
    serve X self v st (request_of self Patch (item_path X v i) (Some (update_to_value req)) if_match) (Inr val) (st(i \<mapsto> rec'))"
| serve_update_stale: "st i = Some rec \<Longrightarrow> \<not> current if_match (ir_updated_at rec) \<Longrightarrow>
    serve X self v st (request_of self Patch (item_path X v i) (Some (update_to_value req)) if_match) (Inl (ServerError 412 body)) st"
| serve_trash: "st i = Some rec \<Longrightarrow> ir_trashed_at rec = None \<Longrightarrow> current if_match (ir_updated_at rec) \<Longrightarrow>
    ServiceTimestamp_new X t = Inr ts \<Longrightarrow>
    trash_from_value X val = Some \<lparr> trash_outcome = OTrashed, trash_updated_at = rv \<rparr> \<Longrightarrow>
    serve X self v st (request_of self Post (item_path X v i @ ''/trash'') None if_match) (Inr val)
      (st(i \<mapsto> rec\<lparr> ir_trashed_at := Some t, ir_updated_at := rv \<rparr>))"
| serve_trash_again: "st i = Some rec \<Longrightarrow> ir_trashed_at rec \<noteq> None \<Longrightarrow> current if_match (ir_updated_at rec) \<Longrightarrow>
    trash_from_value X val = Some \<lparr> trash_outcome = OAlreadyTrashed, trash_updated_at = ir_updated_at rec \<rparr> \<Longrightarrow>
    serve X self v st (request_of self Post (item_path X v i @ ''/trash'') None if_match) (Inr val) st"
| serve_trash_stale: "st i = Some rec \<Longrightarrow> \<not> current if_match (ir_updated_at rec) \<Longrightarrow>
    serve X self v st (request_of self Post (item_path X v i @ ''/trash'') None if_match) (Inl (ServerError 412 body)) st"
| serve_trash_missing: "st i = None \<Longrightarrow>
    serve X self v st (request_of self Post (item_path X v i @ ''/trash'') None if_match) (Inl (ServerError 404 body)) st"

text \<open>The requests \<open>qs\<close>, sent after the history \<open>h\<close>, were all answered that way.\<close>

inductive served ::
  "'z vault_lib_scheme \<Rightarrow> server \<Rightarrow> VaultClient \<Rightarrow> uuid \<Rightarrow> gateway_request list \<Rightarrow> store \<Rightarrow> gateway_request list \<Rightarrow> store \<Rightarrow> bool"
  for X S self v where
  served_nil: "served X S self v h st [] st"
| served_cons: "serve X self v st q (answer X S (h @ [q])) st1 \<Longrightarrow> served X S self v (h @ [q]) st1 qs st2 \<Longrightarrow>
    served X S self v h st (q # qs) st2"

inductive_simps served_simps: "served X S self v h st [] st'" "served X S self v h st (q # qs) st'"

section \<open>The client's calls\<close>

definition outcome_of :: "('a \<Rightarrow> outcome) \<Rightarrow> 'a resolver_result \<times> world \<Rightarrow> outcome \<times> world" where
  "outcome_of f res = (case res of (Inr x, w) \<Rightarrow> (f x, w) | (Inl e, w) \<Rightarrow> (Refused e, w))"

definition item_view :: "DecryptedItem \<Rightarrow> aitem" where
  "item_view d = \<lparr> a_title = di_title d, a_tags = di_tags d, a_content = di_content d, a_sensitive = di_sensitive d,
     a_metadata = di_metadata_json d, a_trashed = (di_trashed_at d \<noteq> None), a_revision = di_updated_at d \<rparr>"

fun perform ::
  "'z vault_lib_scheme \<Rightarrow> server \<Rightarrow> VaultClient \<Rightarrow> uuid \<Rightarrow> VaultKey \<Rightarrow> i32 \<Rightarrow> client_call \<Rightarrow> world \<Rightarrow> outcome \<times> world" where
  "perform X S self v vk version (CallCreate content title tags sensitive) w =
     outcome_of Created (create_item X S self v vk content title tags sensitive version w)"
| "perform X S self v vk version (CallGet i) w = outcome_of (\<lambda>d. Got (item_view d)) (get_item X S self v i vk w)"
| "perform X S self v vk version (CallUpdate i content title tags favorite sensitive if_match) w =
     outcome_of Updated (update_item X S self v i vk content title tags favorite sensitive version if_match w)"
| "perform X S self v vk version (CallTrash i if_match) w = outcome_of TrashedItem (trash_item X S self v i if_match w)"

fun perform_all ::
  "'z vault_lib_scheme \<Rightarrow> server \<Rightarrow> VaultClient \<Rightarrow> uuid \<Rightarrow> VaultKey \<Rightarrow> i32 \<Rightarrow> client_call list \<Rightarrow> world \<Rightarrow> outcome list \<times> world" where
  "perform_all X S self v vk version [] w = ([], w)"
| "perform_all X S self v vk version (op1 # calls) w =
     (let (out, w) = perform X S self v vk version op1 w; (outs, w) = perform_all X S self v vk version calls w
      in (out # outs, w))"

text \<open>Titles are Rust strings.\<close>

fun title_ok :: "client_call \<Rightarrow> bool" where
  "title_ok (CallCreate content title tags sensitive) = str_ok title"
| "title_ok (CallUpdate i content title tags favorite sensitive if_match) = str_ok title"
| "title_ok _ = True"

section \<open>The abstraction\<close>

definition items_of :: "'z vault_lib_scheme \<Rightarrow> VaultKey \<Rightarrow> uuid \<Rightarrow> store \<Rightarrow> astore" where
  "items_of X vk v st = (\<lambda>i. Option.bind (st i) (\<lambda>rec. map_option item_view (result_ok (decrypt_item_record X vk v i rec))))"

definition readable :: "'z vault_lib_scheme \<Rightarrow> VaultKey \<Rightarrow> uuid \<Rightarrow> store \<Rightarrow> bool" where
  "readable X vk v st \<longleftrightarrow> (\<forall>i rec. st i = Some rec \<longrightarrow> is_ok (decrypt_item_record X vk v i rec))"


section \<open>Requests are told apart\<close>

lemma request_of_eq:
  "request_of self m p b i = request_of self m' p' b' i' \<longleftrightarrow> m = m' \<and> p = p' \<and> b = b' \<and> i = i'"
proof -
  have "map_option weak_etag i = map_option weak_etag i' \<longleftrightarrow> i = i'"
    by (cases i; cases i') (auto simp: weak_etag_def ItemRevision.expand)
  then show ?thesis by (auto simp: request_of_def)
qed

lemma item_path_inj: "uuid_laws X \<Longrightarrow> item_path X v i = item_path X v j \<longleftrightarrow> i = j"
  by (simp add: item_path_def uuid_string_inj)

lemma update_tail_inj:
  assumes "update_tail r = update_tail r'"
  shows "rq_metadata_ciphertext r = rq_metadata_ciphertext r' \<and> rq_sensitive r = rq_sensitive r'
    \<and> rq_tags_ciphertext r = rq_tags_ciphertext r' \<and> rq_title_blind_index r = rq_title_blind_index r'
    \<and> rq_title_ciphertext r = rq_title_ciphertext r'"
  using assms by (auto simp: update_tail_def split: option.splits)

text \<open>What the request stores is a function of its value.\<close>

lemma update_value_stores:
  "update_to_value r = update_to_value r' \<Longrightarrow> stores v i r rec \<longleftrightarrow> stores v i r' rec"
  by (auto simp: update_to_value_def update_entries_def stores_def dest: update_tail_inj)

lemma create_value_stores:
  assumes "uuid_laws X" and "create_to_value X r = create_to_value X r'"
  shows "rq_item_id r = rq_item_id r' \<and> (stores v i r rec \<longleftrightarrow> stores v i r' rec)"
  using assms by (auto simp: create_to_value_def update_entries_def stores_def uuid_string_inj dest: update_tail_inj)


section \<open>What the answers say\<close>

lemma serve_get:
  assumes "uuid_laws X" and "serve X self v st (request_of self Get (item_path X v i) None None) r st'"
  obtains (found) rec val where "st' = st" "r = Inr val" "st i = Some rec" "item_record_from_value X val = Some rec"
    | (missing) body where "st' = st" "r = Inl (ServerError 404 body)" "st i = None"
  using assms(2) by (cases rule: serve.cases) (auto simp: request_of_eq item_path_inj [OF assms(1)])

lemma serve_post:
  assumes "uuid_laws X" and "serve X self v st (request_of self Post (items_path X v) (Some (create_to_value X req)) None) r st'"
  obtains rec val where "r = Inr val" "st (rq_item_id req) = None" "stores v (rq_item_id req) req rec" "ir_trashed_at rec = None"
    "st' = st(rq_item_id req \<mapsto> rec)"
  using assms(2)
proof (cases rule: serve.cases)
  case (serve_create req' rec val)
  then have "create_to_value X req = create_to_value X req'" by (simp add: request_of_eq)
  from create_value_stores [OF assms(1) this] serve_create show thesis by (intro that) auto
qed (auto simp: request_of_eq)

lemma serve_patch:
  assumes "uuid_laws X" and "serve X self v st (request_of self Patch (item_path X v i) (Some (update_to_value req)) im) r st'"
  obtains (accepted) rec rec' val where "r = Inr val" "st i = Some rec" "current im (ir_updated_at rec)" "stores v i req rec'"
      "ir_trashed_at rec' = ir_trashed_at rec" "item_record_from_value X val = Some rec'" "st' = st(i \<mapsto> rec')"
    | (stale) rec body where "r = Inl (ServerError 412 body)" "st i = Some rec" "\<not> current im (ir_updated_at rec)" "st' = st"
  using assms(2)
proof (cases rule: serve.cases)
  case (serve_update j rec if_match req' rec' val)
  then have "update_to_value req = update_to_value req'" "i = j" "im = if_match"
    by (simp_all add: request_of_eq item_path_inj [OF assms(1)])
  with serve_update update_value_stores [OF this(1)] show thesis by (intro accepted) auto
qed (auto simp: request_of_eq item_path_inj [OF assms(1)] intro: stale)

lemma serve_trash_cases:
  assumes "uuid_laws X" and "serve X self v st (request_of self Post (item_path X v i @ ''/trash'') None im) r st'"
  obtains (trashed) rec t ts val rv where "r = Inr val" "st i = Some rec" "ir_trashed_at rec = None" "current im (ir_updated_at rec)"
      "ServiceTimestamp_new X t = Inr ts" "trash_from_value X val = Some \<lparr> trash_outcome = OTrashed, trash_updated_at = rv \<rparr>"
      "st' = st(i \<mapsto> rec\<lparr> ir_trashed_at := Some t, ir_updated_at := rv \<rparr>)"
    | (again) rec val where "r = Inr val" "st i = Some rec" "ir_trashed_at rec \<noteq> None" "current im (ir_updated_at rec)"
      "trash_from_value X val = Some \<lparr> trash_outcome = OAlreadyTrashed, trash_updated_at = ir_updated_at rec \<rparr>" "st' = st"
    | (stale) rec body where "r = Inl (ServerError 412 body)" "st i = Some rec" "\<not> current im (ir_updated_at rec)" "st' = st"
    | (missing) body where "r = Inl (ServerError 404 body)" "st i = None" "st' = st"
  using assms(2) by (cases rule: serve.cases) (auto simp: request_of_eq item_path_inj [OF assms(1)])

section \<open>What the operations do\<close>

lemma call_then:
  "op_then (call X S self m p b) f w =
     (let q = request_of self m p b None; w1 = w\<lparr> sent := sent w @ [q] \<rparr> in
      case answer X S (sent w @ [q]) of Inl e \<Rightarrow> (Inl e, w1) | Inr x \<Rightarrow> f x w1)"
  by (cases "S (sent w @ [request_of self m p b None])")
    (auto simp: op_then_def call_def call_with_options_eq answer_def Let_def split: sum.splits)

lemma conditional_call_then:
  "op_then (op_map_err g (call_with_options X S self m p b im MAX_GATEWAY_BODY)) f w =
     (let q = request_of self m p b im; w1 = w\<lparr> sent := sent w @ [q] \<rparr> in
      case answer X S (sent w @ [q]) of Inl e \<Rightarrow> (Inl (g e), w1) | Inr x \<Rightarrow> f x w1)"
  by (cases "S (sent w @ [request_of self m p b im])")
    (auto simp: op_then_def op_map_err_def call_with_options_eq answer_def Let_def split: sum.splits)

lemma get_item_eval:
  "get_item X S self v i vk w =
     (let q = request_of self Get (item_path X v i) None None in
      (and_then (answer X S (sent w @ [q])) (\<lambda>val.
         and_then (ok_or (Malformed ''item record'') (item_record_from_value X val)) (decrypt_item_record X vk v i)),
       w\<lparr> sent := sent w @ [q] \<rparr>))"
  by (auto simp: get_item_def op_lift_then [symmetric] call_then Let_def op_basic(1) split: sum.splits)

lemma trash_item_eval:
  "trash_item X S self v i im w =
     (let q = request_of self Post (item_path X v i @ ''/trash'') None im in
      (and_then (map_err item_write_error (answer X S (sent w @ [q]))) (\<lambda>val.
         ok_or (Malformed ''trash outcome'') (trash_from_value X val)),
       w\<lparr> sent := sent w @ [q] \<rparr>))"
  by (auto simp: trash_item_def conditional_call_then Let_def op_lift_def split: sum.splits)

lemma storable_tags:
  "\<exists>r e'. encrypt_optional_tags X vk iid tags e = (r, e') \<and> (is_ok r \<longleftrightarrow> tags = [] \<or> tags_to_json X tags \<noteq> None)"
  by (cases "tags_to_json X tags")
    (auto simp: encrypt_optional_tags_def encrypt_tags_def is_ok_def apfst_def map_prod_def split_beta and_then_def split: sum.splits)

lemma storable_content:
  "\<exists>r e'. encrypt_item_with_content_key X ck iid content e = (r, e') \<and> (is_ok r \<longleftrightarrow> content_to_json X content \<noteq> None)"
  by (cases "content_to_json X content")
    (auto simp: encrypt_item_with_content_key_def is_ok_def apfst_def map_prod_def split_beta)


lemma build_create_storable:
  "\<exists>r e'. build_create_request X vk i content title tags favorite sensitive version e = (r, e')
     \<and> (if storable X content tags then is_ok r else \<exists>er. r = Inl (Crypto er))"
proof -
  let ?ck = "fst (generate_item_content_key e)" and ?iid = "uuid_as_bytes X i"
  obtain r1 e1 where c: "encrypt_item_with_content_key X ?ck ?iid content
      (snd (encrypt_title X vk ?iid title (snd (generate_item_content_key e)))) = (r1, e1)"
      "is_ok r1 \<longleftrightarrow> content_to_json X content \<noteq> None" using storable_content by blast
  obtain r2 e2 where t: "encrypt_optional_tags X vk ?iid tags e1 = (r2, e2)" "is_ok r2 \<longleftrightarrow> tags = [] \<or> tags_to_json X tags \<noteq> None"
    using storable_tags by blast
  show ?thesis
    using c(2) t(2) by (cases r1; cases r2)
      (auto simp: build_create_request_def Let_def split_beta c(1) t(1) is_ok_def storable_def)
qed

lemma build_update_storable:
  "\<exists>r e'. build_update_request X vk i ck wrap content title tags sensitive favorite reprompt version e = (r, e')
     \<and> (if storable X content tags then is_ok r else \<exists>er. r = Inl (Crypto er))"
proof -
  let ?iid = "uuid_as_bytes X i"
  obtain r1 e1 where c: "encrypt_item_with_content_key X ck ?iid content (snd (encrypt_title X vk ?iid title e)) = (r1, e1)"
      "is_ok r1 \<longleftrightarrow> content_to_json X content \<noteq> None" using storable_content by blast
  obtain r2 e2 where t: "encrypt_optional_tags X vk ?iid tags e1 = (r2, e2)" "is_ok r2 \<longleftrightarrow> tags = [] \<or> tags_to_json X tags \<noteq> None"
    using storable_tags by blast
  show ?thesis
    using c(2) t(2) by (cases r1; cases r2)
      (auto simp: build_update_request_def Let_def split_beta c(1) t(1) is_ok_def storable_def)
qed

lemma op_then_build: "op_then (op_build b) f w = (case b (rng w) of (Inl er, e) \<Rightarrow> (Inl er, w\<lparr> rng := e \<rparr>) | (Inr x, e) \<Rightarrow> f x (w\<lparr> rng := e \<rparr>))"
  by (auto simp: op_then_def op_build_def split: prod.splits sum.splits)

lemma create_item_eval:
  fixes w :: world
  defines "i \<equiv> shd (fresh_uuids w)" and "w1 \<equiv> w\<lparr> fresh_uuids := stl (fresh_uuids w) \<rparr>"
  shows "create_item X S self v vk content title tags sensitive version w =
     (case build_create_request X vk i content title tags False sensitive version (rng w) of
        (Inl er, e) \<Rightarrow> (Inl er, w1\<lparr> rng := e \<rparr>)
      | (Inr req, e) \<Rightarrow>
          let q = request_of self Post (items_path X v) (Some (create_to_value X req)) None in
          (and_then (answer X S (sent w @ [q])) (\<lambda>_. Inr i), w1\<lparr> rng := e, sent := sent w @ [q] \<rparr>))"
proof -
  have "create_item X S self v vk content title tags sensitive version w =
      op_then (op_build (build_create_request X vk i content title tags False sensitive version)) (\<lambda>req.
        op_then (call X S self Post (items_path X v) (Some (create_to_value X req))) (\<lambda>_. op_return i)) w1"
    by (simp add: create_item_def op_then_Inr op_basic i_def w1_def)
  then show ?thesis
    by (auto simp: op_then_build call_then Let_def op_return_def op_lift_def w1_def split: prod.splits sum.splits)
qed

lemma update_item_found:
  assumes get_def: "get = request_of self Get (item_path X v i) None None" and "answer X S (sent w @ [get]) = Inr val" and "item_record_from_value X val = Some rec"
    and "update_base X vk v i rec ck metadata"
  shows "update_item X S self v i vk content title tags favorite sensitive version im w =
     (case build_update_request X vk i ck (ir_content_key_wrap rec) content title tags sensitive
             (case favorite of Some b \<Rightarrow> b | None \<Rightarrow> fst (metadata_flags X metadata)) (snd (metadata_flags X metadata)) version (rng w) of
        (Inl er, e) \<Rightarrow> (Inl er, w\<lparr> sent := sent w @ [get], rng := e \<rparr>)
      | (Inr req, e) \<Rightarrow>
          let q = request_of self Patch (item_path X v i) (Some (update_to_value req)) im in
          (and_then (map_err update_error (answer X S (sent w @ [get, q]))) (written_updated_at X v i),
           w\<lparr> rng := e, sent := sent w @ [get, q] \<rparr>))"
proof -
  from assms(4) obtain b1 b2 where "ir_item_id rec = i" "ir_vault_id rec = v" "base64_decode X (ir_content_key_wrap rec) = Some b1"
      "unwrap_item_content_key X vk (uuid_as_bytes X i) b1 = Inr ck" "base64_decode X (ir_metadata_ciphertext rec) = Some b2"
      "decrypt_metadata_json X vk (uuid_as_bytes X i) b2 = Inr metadata"
    by (auto simp: update_base_def)
  moreover obtain f1 f2 where "metadata_flags X metadata = (f1, f2)" by fastforce
  ultimately show ?thesis
    using assms(2,3)
    by (cases favorite) (auto simp: update_item_def call_then Let_def get_def [symmetric] op_then_lift ensure_record_matches_def b64_decode_def
        op_then_build conditional_call_then op_basic(1) split: prod.splits sum.splits)
qed

lemma update_item_missing:
  assumes get_def: "get = request_of self Get (item_path X v i) None None" and "answer X S (sent w @ [get]) = Inl er"
  shows "update_item X S self v i vk content title tags favorite sensitive version im w = (Inl er, w\<lparr> sent := sent w @ [get] \<rparr>)"
  using assms(2) by (simp add: update_item_def call_then get_def [symmetric])


section \<open>One call\<close>

lemma items_of_found:
  assumes "readable X vk v st" and "st i = Some rec"
  shows "\<exists>d. decrypt_item_record X vk v i rec = Inr d \<and> items_of X vk v st i = Some (item_view d)"
proof -
  from assms obtain d where "decrypt_item_record X vk v i rec = Inr d" unfolding readable_def is_ok_conv by blast
  with assms(2) show ?thesis by (simp add: items_of_def)
qed

lemma items_of_missing: "st i = None \<Longrightarrow> items_of X vk v st i = None"
  by (simp add: items_of_def)

lemma items_of_put:
  assumes "readable X vk v st" and "decrypt_item_record X vk v i rec = Inr d"
  shows "items_of X vk v (st(i \<mapsto> rec)) = (items_of X vk v st)(i \<mapsto> item_view d)" and "readable X vk v (st(i \<mapsto> rec))"
  using assms by (auto simp: items_of_def readable_def is_ok_conv)

lemma decrypted_times:
  assumes "decrypt_item_record X vk v i rec = Inr d"
  shows "di_updated_at d = ir_updated_at rec" and "di_trashed_at d = None \<longleftrightarrow> ir_trashed_at rec = None"
    and "item_trashed_at X (ir_trashed_at rec) = Inr (di_trashed_at d)"
  using assms by (auto simp: decrypt_item_record_def Let_def result_simps item_trashed_at_def split: option.splits)

lemma decrypted_update_base:
  assumes "decrypt_item_record X vk v i rec = Inr d"
  shows "\<exists>ck. update_base X vk v i rec ck (di_metadata_json d)"
  using assms
  by (auto simp: decrypt_item_record_def Let_def result_simps update_base_def ensure_record_matches_def b64_decode_def split: if_splits)

lemma served_one:
  "served X S self v h st qs st' \<Longrightarrow> h @ qs = h @ [q] \<Longrightarrow> serve X self v st q (answer X S (h @ [q])) st'"
  by (auto simp: served_simps)

lemma sim_get:
  assumes "uuid_laws X" and "readable X vk v st" and "served X S self v (sent w) st qs st'" and "sent w' = sent w @ qs"
    and "perform X S self v vk version (CallGet i) w = (out, w')"
  shows "spec_step X (CallGet i) (items_of X vk v st) out (items_of X vk v st') \<and> readable X vk v st'"
proof -
  let ?q = "request_of self Get (item_path X v i) None None"
  from assms(5) have w': "sent w' = sent w @ [?q]"
    by (auto simp: get_item_eval outcome_of_def Let_def split: sum.splits)
  have "serve X self v st ?q (answer X S (sent w @ [?q])) st'" using served_one [OF assms(3)] w' assms(4) by simp
  with assms(1) show ?thesis
  proof (cases rule: serve_get)
    case (found rec val)
    from items_of_found [OF assms(2) found(3)] obtain d where "decrypt_item_record X vk v i rec = Inr d"
      "items_of X vk v st i = Some (item_view d)" by blast
    with found assms(2,5) show ?thesis by (auto simp: get_item_eval outcome_of_def Let_def intro: spec_get)
  next
    case (missing body)
    with assms(2,5) show ?thesis by (auto simp: get_item_eval outcome_of_def Let_def items_of_missing intro: spec_get_missing)
  qed
qed

lemma sim_trash:
  assumes "uuid_laws X" and "readable X vk v st" and "served X S self v (sent w) st qs st'" and "sent w' = sent w @ qs"
    and "perform X S self v vk version (CallTrash i im) w = (out, w')"
  shows "spec_step X (CallTrash i im) (items_of X vk v st) out (items_of X vk v st') \<and> readable X vk v st'"
proof -
  let ?q = "request_of self Post (item_path X v i @ ''/trash'') None im"
  from assms(5) have w': "sent w' = sent w @ [?q]" and out: "out = fst (outcome_of TrashedItem
      (and_then (map_err item_write_error (answer X S (sent w @ [?q]))) (\<lambda>val. ok_or (Malformed ''trash outcome'') (trash_from_value X val)), w))"
    by (auto simp: trash_item_eval outcome_of_def Let_def split: sum.splits)
  have "serve X self v st ?q (answer X S (sent w @ [?q])) st'" using served_one [OF assms(3)] w' assms(4) by simp
  with assms(1) show ?thesis
  proof (cases rule: serve_trash_cases)
    case (trashed rec t ts val rv)
    from items_of_found [OF assms(2) trashed(2)] obtain d where d: "decrypt_item_record X vk v i rec = Inr d"
      "items_of X vk v st i = Some (item_view d)" by blast
    let ?rec = "rec\<lparr> ir_trashed_at := Some t, ir_updated_at := rv \<rparr>" and ?d = "d\<lparr> di_trashed_at := Some ts, di_updated_at := rv \<rparr>"
    have d': "decrypt_item_record X vk v i ?rec = Inr ?d"
      using d(1) trashed(5) by (auto simp: decrypt_item_record_def Let_def result_simps item_trashed_at_def ensure_record_matches_def)
    have "item_view ?d = (item_view d)\<lparr> a_trashed := True, a_revision := rv \<rparr>" by (simp add: item_view_def)
    with items_of_put [OF assms(2) d'] d trashed decrypted_times [OF d(1)] show ?thesis
      using spec_trash [of "items_of X vk v st" i "item_view d" im X rv] by (simp add: out outcome_of_def item_view_def)
  next
    case (again rec val)
    from items_of_found [OF assms(2) again(2)] obtain d where d: "decrypt_item_record X vk v i rec = Inr d"
      "items_of X vk v st i = Some (item_view d)" by blast
    with again decrypted_times [OF d(1)] assms(2) show ?thesis
      using spec_trash_again [of "items_of X vk v st" i "item_view d" im X] by (simp add: out outcome_of_def item_view_def)
  next
    case (stale rec body)
    from items_of_found [OF assms(2) stale(2)] obtain d where d: "decrypt_item_record X vk v i rec = Inr d"
      "items_of X vk v st i = Some (item_view d)" by blast
    with stale decrypted_times [OF d(1)] assms(2) show ?thesis
      using spec_trash_stale [of "items_of X vk v st" i "item_view d" im X] by (simp add: out outcome_of_def item_view_def)
  next
    case (missing body)
    with assms(2) show ?thesis
      using spec_trash_missing [of "items_of X vk v st" i X im body] by (simp add: out outcome_of_def items_of_missing)
  qed
qed


lemma sim_create:
  assumes laws: "aead_laws X" "base64_laws X" "item_json_laws X" "uuid_laws X" and "str_ok title"
    and "readable X vk v st" and "served X S self v (sent w) st qs st'" and "sent w' = sent w @ qs"
    and "perform X S self v vk version (CallCreate content title tags sensitive) w = (out, w')"
  shows "spec_step X (CallCreate content title tags sensitive) (items_of X vk v st) out (items_of X vk v st') \<and> readable X vk v st'"
proof -
  let ?i = "shd (fresh_uuids w)"
  obtain r e where b: "build_create_request X vk ?i content title tags False sensitive version (rng w) = (r, e)"
      and ok: "if storable X content tags then is_ok r else \<exists>er. r = Inl (Crypto er)"
    using build_create_storable by blast
  show ?thesis
  proof (cases "storable X content tags")
    case False
    with ok b assms(8,9) have "out \<in> Refused ` range Crypto" "qs = []" by (auto simp: create_item_eval outcome_of_def)
    with False assms(6,7) show ?thesis by (auto simp: served_simps intro: spec_create_unstorable)
  next
    case True
    with ok obtain req where r: "r = Inr req" by (auto simp: is_ok_conv)
    let ?q = "request_of self Post (items_path X v) (Some (create_to_value X req)) None"
    obtain ck where c: "carries X vk ck (uuid_as_bytes X ?i) content title tags sensitive
        (metadata_text (item_kind_str content) False sensitive False) req" and id: "rq_item_id req = ?i"
      using build_create_request_carries [OF laws(1-3) assms(5) b [unfolded r]] by blast
    from assms(9) have w': "sent w' = sent w @ [?q]"
        and out: "out = fst (outcome_of Created (and_then (answer X S (sent w @ [?q])) (\<lambda>_. Inr ?i), w))"
      by (auto simp: create_item_eval b r outcome_of_def Let_def split: sum.splits)
    have "serve X self v st ?q (answer X S (sent w @ [?q])) st'" using served_one [OF assms(7)] w' assms(8) by simp
    from serve_post [OF laws(4) this] obtain rec val where s: "answer X S (sent w @ [?q]) = Inr val" "st ?i = None"
        "stores v ?i req rec" "ir_trashed_at rec = None" "st' = st(?i \<mapsto> rec)" unfolding id by blast
    have "item_trashed_at X (ir_trashed_at rec) = Inr None" using s(4) by (simp add: item_trashed_at_def)
    from decrypt_stored [OF c s(3) this] items_of_put [OF assms(6)] s True show ?thesis
      using spec_create [OF True, of "items_of X vk v st" ?i title sensitive "ir_updated_at rec"]
      by (simp add: out outcome_of_def item_view_def items_of_missing)
  qed
qed

text \<open>The conditional write of an update, once the stored record has been read.\<close>

lemma sim_patch:
  assumes laws: "aead_laws X" "base64_laws X" "item_json_laws X" "uuid_laws X" and "str_ok title"
    and "readable X vk v st" and "st i = Some rec" and d: "decrypt_item_record X vk v i rec = Inr d"
    and base: "update_base X vk v i rec ck (di_metadata_json d)" and True: "storable X content tags"
    and fav: "fav = (case favorite of Some b \<Rightarrow> b | None \<Rightarrow> fst (metadata_flags X (di_metadata_json d)))"
    and rep: "rep = snd (metadata_flags X (di_metadata_json d))"
    and built: "build_update_request X vk i ck (ir_content_key_wrap rec) content title tags sensitive fav rep version e0 = (Inr req, e)"
    and served: "serve X self v st (request_of self Patch (item_path X v i) (Some (update_to_value req)) im) ans st'"
    and out: "out = fst (outcome_of Updated (and_then (map_err update_error ans) (written_updated_at X v i), w))"
  shows "spec_step X (CallUpdate i content title tags favorite sensitive im) (items_of X vk v st) out (items_of X vk v st') \<and> readable X vk v st'"
proof -
  have item: "items_of X vk v st i = Some (item_view d)" using items_of_found [OF assms(6,7)] d by simp
  note times = decrypted_times [OF d]
  from laws(4) served show ?thesis
  proof (cases rule: serve_patch)
    case (stale rec' body)
    with out item assms(6,7) True times show ?thesis
      using spec_update_stale [of "items_of X vk v st" i "item_view d" X content tags im title favorite sensitive]
      by (simp add: outcome_of_def item_view_def)
  next
    case (accepted rec0 rec' val)
    from base obtain wb where "base64_decode X (ir_content_key_wrap rec) = Some wb" "unwrap_item_content_key X vk (uuid_as_bytes X i) wb = Inr ck"
      by (auto simp: update_base_def)
    from build_update_request_carries [OF laws(1-3) assms(5) this built]
    have c: "carries X vk ck (uuid_as_bytes X i) content title tags sensitive (metadata_text (item_kind_str content) fav sensitive rep) req"
      by blast
    have "item_trashed_at X (ir_trashed_at rec') = Inr (di_trashed_at d)" using accepted(2,5) assms(7) times(3) by simp
    note d' = decrypt_stored [OF c accepted(4) this]
    have "and_then (map_err update_error ans) (written_updated_at X v i) = Inr (ir_updated_at rec')"
      using accepted(1,4,6) by (simp add: written_updated_at_def ensure_record_matches_def stores_def)
    with out items_of_put [OF assms(6) d'] item accepted assms(7) True times show ?thesis
      using spec_update [of "items_of X vk v st" i "item_view d" X content tags im title favorite sensitive "ir_updated_at rec'"]
      by (simp add: outcome_of_def item_view_def updated_item_def fav rep Let_def)
  qed
qed

lemma sim_update:
  assumes laws: "aead_laws X" "base64_laws X" "item_json_laws X" "uuid_laws X" and "str_ok title"
    and "readable X vk v st" and "served X S self v (sent w) st qs st'" and "sent w' = sent w @ qs"
    and "perform X S self v vk version (CallUpdate i content title tags favorite sensitive im) w = (out, w')"
  shows "spec_step X (CallUpdate i content title tags favorite sensitive im) (items_of X vk v st) out (items_of X vk v st') \<and> readable X vk v st'"
proof -
  define get where "get = request_of self Get (item_path X v i) None None"
  obtain r where run: "update_item X S self v i vk content title tags favorite sensitive version im w = (r, w')"
      and out: "out = fst (outcome_of Updated (r, w'))"
    using assms(9) by (auto simp: outcome_of_def split: prod.splits sum.splits)
  from update_item_run [OF run] assms(8) obtain rest where "qs = get # rest" by (auto simp: get_def)
  with assms(7) obtain st1 where s1: "serve X self v st get (answer X S (sent w @ [get])) st1"
      and s2: "served X S self v (sent w @ [get]) st1 rest st'" by (auto simp: served_simps)
  from laws(4) s1 [unfolded get_def] show ?thesis
  proof (cases rule: serve_get)
    case (missing body)
    from update_item_missing [OF get_def] missing(2) run have "r = Inl (ServerError 404 body)" "sent w' = sent w @ [get]"
      by (auto simp: get_def)
    with missing s2 \<open>qs = get # rest\<close> assms(6,8) show ?thesis
      by (auto simp: out outcome_of_def served_simps items_of_missing intro: spec_update_missing)
  next
    case (found rec val)
    from items_of_found [OF assms(6) found(3)] obtain d where d: "decrypt_item_record X vk v i rec = Inr d"
      "items_of X vk v st i = Some (item_view d)" by blast
    obtain ck where base: "update_base X vk v i rec ck (di_metadata_json d)" using decrypted_update_base [OF d(1)] by blast
    define fav where "fav = (case favorite of Some b \<Rightarrow> b | None \<Rightarrow> fst (metadata_flags X (di_metadata_json d)))"
    define rep where "rep = snd (metadata_flags X (di_metadata_json d))"
    obtain br e where b: "build_update_request X vk i ck (ir_content_key_wrap rec) content title tags sensitive fav rep version (rng w) = (br, e)"
      and ok: "if storable X content tags then is_ok br else \<exists>er. br = Inl (Crypto er)" using build_update_storable by blast
    note eval = update_item_found [OF get_def found(2) [folded get_def] found(4) base, of content title tags favorite sensitive version im,
        folded fav_def rep_def, unfolded b run]
    show ?thesis
    proof (cases "storable X content tags")
      case False
      with ok eval \<open>qs = get # rest\<close> assms(8) s2 found(1) d assms(6) show ?thesis
        by (auto simp: out outcome_of_def served_simps intro: spec_update_unstorable)
    next
      case True
      with ok obtain req where br: "br = Inr req" by (auto simp: is_ok_conv)
      let ?q = "request_of self Patch (item_path X v i) (Some (update_to_value req)) im"
      from eval [unfolded br] have r: "r = and_then (map_err update_error (answer X S (sent w @ [get, ?q]))) (written_updated_at X v i)"
          and w': "sent w' = sent w @ [get, ?q]" by (simp_all add: Let_def)
      with \<open>qs = get # rest\<close> assms(8) s2 found(1) have "serve X self v st ?q (answer X S (sent w @ [get, ?q])) st'"
        by (auto simp: served_simps)
      from sim_patch [OF laws assms(5,6) found(3) d(1) base True fav_def rep_def b [unfolded br] this out [unfolded r]] show ?thesis .
    qed
  qed
qed


section \<open>Sequences of calls\<close>

lemma perform_extends:
  assumes "perform X S self v vk version c w = (out, w')"
  shows "\<exists>qs. sent w' = sent w @ qs"
proof (cases c)
  case (CallUpdate i content title tags favorite sensitive im)
  with assms obtain r where "update_item X S self v i vk content title tags favorite sensitive version im w = (r, w')"
    by (auto simp: outcome_of_def split: prod.splits sum.splits)
  from update_item_run [OF this] show ?thesis by auto
next
  case (CallCreate content title tags sensitive)
  with assms show ?thesis by (auto simp: outcome_of_def create_item_eval Let_def split: prod.splits sum.splits)
qed (use assms in \<open>auto simp: outcome_of_def get_item_eval trash_item_eval Let_def split: prod.splits sum.splits\<close>)

lemma perform_all_extends:
  "perform_all X S self v vk version cs w = (outs, w') \<Longrightarrow> \<exists>qs. sent w' = sent w @ qs"
proof (induction cs arbitrary: w outs)
  case (Cons c cs)
  obtain out w1 where p: "perform X S self v vk version c w = (out, w1)" by fastforce
  obtain outs' where "perform_all X S self v vk version cs w1 = (outs', w')"
    using Cons.prems p by (auto split: prod.splits)
  from Cons.IH [OF this] perform_extends [OF p] show ?case by auto
qed simp

lemma served_appendD:
  "served X S self v h st (qs1 @ qs2) st' \<Longrightarrow> \<exists>st1. served X S self v h st qs1 st1 \<and> served X S self v (h @ qs1) st1 qs2 st'"
proof (induction qs1 arbitrary: h st)
  case Nil
  then show ?case by (auto simp: served_simps)
next
  case (Cons q qs1)
  then obtain st1 where "serve X self v st q (answer X S (h @ [q])) st1" "served X S self v (h @ [q]) st1 (qs1 @ qs2) st'"
    by (auto simp: served_simps)
  with Cons.IH [OF this(2)] show ?case by (auto simp: served_simps)
qed

lemma sim_step:
  assumes "aead_laws X" and "base64_laws X" and "item_json_laws X" and "uuid_laws X" and "title_ok c"
    and "readable X vk v st" and "served X S self v (sent w) st qs st'" and "sent w' = sent w @ qs"
    and "perform X S self v vk version c w = (out, w')"
  shows "spec_step X c (items_of X vk v st) out (items_of X vk v st') \<and> readable X vk v st'"
proof (cases c)
  case (CallCreate content title tags sensitive)
  with assms show ?thesis using sim_create [OF assms(1-4)] by simp
next
  case (CallUpdate i content title tags favorite sensitive im)
  with assms show ?thesis using sim_update [OF assms(1-4)] by simp
next
  case (CallGet i)
  with assms show ?thesis using sim_get [OF assms(4,6-8)] by simp
next
  case (CallTrash i im)
  with assms show ?thesis using sim_trash [OF assms(4,6-8)] by simp
qed

text \<open>C5. The encrypted vault refines a plain item store: for every sequence of creates, reads,
  conditional updates and trashes by the client, against a service that keeps the records it is sent
  and answers from them, the results are those the abstract store allows for the same calls, and what
  the final records decrypt to is the abstract store after them.  In particular a read returns what
  was last written, an update keeps the flags it was not given, and a call with an outdated revision
  changes nothing and is reported as stale.\<close>

theorem vault_refines_item_store:
  assumes "aead_laws X" and "base64_laws X" and "item_json_laws X" and "uuid_laws X" and "list_all title_ok cs"
    and "readable X vk v st" and "perform_all X S self v vk version cs w = (outs, w')"
    and "sent w' = sent w @ qs" and "served X S self v (sent w) st qs st'"
  shows "spec_run X cs (items_of X vk v st) outs (items_of X vk v st') \<and> readable X vk v st'"
  using assms(5-9)
proof (induction cs arbitrary: w outs st qs)
  case Nil
  then show ?case by (auto simp: served_simps intro: spec_nil)
next
  case (Cons c cs)
  obtain out w1 where p: "perform X S self v vk version c w = (out, w1)" by fastforce
  obtain outs' where rest: "perform_all X S self v vk version cs w1 = (outs', w')" and outs: "outs = out # outs'"
    using Cons.prems(3) p by (auto split: prod.splits)
  obtain qs1 where w1: "sent w1 = sent w @ qs1" using perform_extends [OF p] by blast
  obtain qs2 where w': "sent w' = sent w1 @ qs2" using perform_all_extends [OF rest] by blast
  with w1 Cons.prems(4,5) obtain st1 where s1: "served X S self v (sent w) st qs1 st1" and s2: "served X S self v (sent w1) st1 qs2 st'"
    using served_appendD [of X S self v "sent w" st qs1 qs2 st'] by auto
  have "spec_step X c (items_of X vk v st) out (items_of X vk v st1) \<and> readable X vk v st1"
    using sim_step [OF assms(1-4) _ Cons.prems(2) s1 w1 p] Cons.prems(1) by simp
  with Cons.IH [OF _ _ rest w' s2] Cons.prems(1) show ?case by (auto simp: outs intro: spec_cons)
qed


section \<open>A concrete run\<close>

inductive_simps spec_run_simps: "spec_run X [] m outs m'" "spec_run X (c # cs) m outs m'"
inductive_simps spec_get_simps: "spec_step X (CallGet i) m out m'"
inductive_simps spec_create_simps: "spec_step X (CallCreate content title tags sensitive) m out m'"

definition first_request :: CreateItemRequest where
  "first_request = projr (fst (build_create_request (toy_vault_lib blank_record) toy_vault_key 3 (Login sample_login)
     ''mail'' [] False False 1 (sconst 1)))"

definition first_record :: ItemRecord where "first_record = record_of 1 3 first_request"

lemma first_request_built:
  "\<exists>e'. build_create_request (toy_vault_lib rec) toy_vault_key 3 (Login sample_login) ''mail'' [] False False 1 (sconst 1) = (Inr first_request, e')"
  using toy_build_ok(1) [of blank_record toy_vault_key 3 "''mail''" False False 1 "sconst 1"]
  by (auto simp: first_request_def build_create_toy [of rec blank_record])

lemma toy_answer: "answer (toy_vault_lib rec) (toy_server 200) h = Inr (JString ''payload'')"
  by (simp add: answer_def toy_server_def toy_read_answer)

theorem vault_refines_item_store_witness:
  "\<exists>a w'. perform_all (toy_vault_lib first_record) (toy_server 200) toy_vault_client 1 toy_vault_key 1
        [CallCreate (Login sample_login) ''mail'' [] False, CallGet 3] toy_world = ([Created 3, Got a], w')
     \<and> a_title a = ''mail'' \<and> a_content a = Login sample_login"
proof -
  let ?X = "toy_vault_lib first_record" and ?cs = "[CallCreate (Login sample_login) ''mail'' [] False, CallGet 3]"
  let ?post = "request_of toy_vault_client Post (items_path ?X 1) (Some (create_to_value ?X first_request)) None"
  let ?get = "request_of toy_vault_client Get (item_path ?X 1 3) None None"
  obtain e where b: "build_create_request ?X toy_vault_key 3 (Login sample_login) ''mail'' [] False False 1 (sconst 1) = (Inr first_request, e)"
    using first_request_built by blast
  obtain ck where c: "carries ?X toy_vault_key ck (uuid_as_bytes ?X 3) (Login sample_login) ''mail'' [] False
      (metadata_text (item_kind_str (Login sample_login)) False False False) first_request" and id: "rq_item_id first_request = 3"
    using build_create_request_carries [OF toy_vault_laws(1,2,4) str_ok_mail b] by blast
  have stored: "stores 1 3 first_request first_record" "ir_trashed_at first_record = None"
    by (simp add: first_record_def) (simp add: first_record_def record_of_def)
  then have t: "item_trashed_at ?X (ir_trashed_at first_record) = Inr None" by (simp add: item_trashed_at_def)
  obtain d where d: "decrypt_item_record ?X toy_vault_key 1 3 first_record = Inr d" using decrypt_stored [OF c stored(1) t] by blast
  obtain w' where run: "perform_all ?X (toy_server 200) toy_vault_client 1 toy_vault_key 1 ?cs toy_world = ([Created 3, Got (item_view d)], w')"
      and w': "sent w' = sent toy_world @ [?post, ?get]"
    by (simp add: create_item_eval get_item_eval outcome_of_def Let_def toy_world_def b toy_answer d)
  have "served ?X (toy_server 200) toy_vault_client 1 (sent toy_world) Map.empty [?post, ?get] [3 \<mapsto> first_record]"
    using serve_create [of Map.empty first_request 1 first_record ?X toy_vault_client "JString ''payload''"]
      serve_read [of "[3 \<mapsto> first_record]" 3 first_record ?X "JString ''payload''" toy_vault_client 1]
    by (simp add: served_simps toy_answer id stored toy_world_def) blast
  with run w' have "spec_run ?X ?cs (items_of ?X toy_vault_key 1 Map.empty) [Created 3, Got (item_view d)]
      (items_of ?X toy_vault_key 1 [3 \<mapsto> first_record])"
    by (intro vault_refines_item_store [THEN conjunct1]) (simp_all add: readable_def str_ok_mail)
  moreover have "a_title a = ''mail'' \<and> a_content a = Login sample_login" if "spec_run ?X ?cs m [Created 3, Got a] m'" for m m' a
    using that by (auto simp: spec_run_simps spec_get_simps spec_create_simps)
  ultimately show ?thesis using run by blast
qed

end
