(* ===== verification/Delegation.thy ===== *)
theory Delegation
  imports Canonical "HOL-Library.Product_Lexorder" "HOL-Library.Option_ord"
begin

text \<open>
  \<open>protocol/agent_delegation_policy.rs\<close>: the contribution a participant signs when several
  principals delegate to an agent.  Validation, the canonical order of the lists, the
  duplicate checks and the payload are modelled; the final step, serde\_json on a struct with
  derived serialization, is a parameter.  A \<open>Uuid\<close> is compared by its bytes, which is the order
  of its numeric value.
\<close>

definition AGENT_DELEGATION_CONTRIBUTION_DOMAIN :: string where
  "AGENT_DELEGATION_CONTRIBUTION_DOMAIN = ''seren-secrets/agent-delegation-policy-contribution''"

definition MAX_MAPPINGS :: nat where "MAX_MAPPINGS = 1024"
definition MAX_VAULT_GRANTS :: nat where "MAX_VAULT_GRANTS = 1024"
definition MAX_OPAQUE_WRAP_BYTES :: nat where "MAX_OPAQUE_WRAP_BYTES = 4096"
definition MAX_SIGNATURE_BYTES :: nat where "MAX_SIGNATURE_BYTES = 4096"
definition MAX_TEXT_BYTES :: nat where "MAX_TEXT_BYTES = 4096"
definition MAX_PROVISIONED_VAULTS :: nat where "MAX_PROVISIONED_VAULTS = 50"

section \<open>Data\<close>

datatype AgentDelegationDecision = Approve | Decline

datatype AgentDelegationScopeKind = SecretFields | VaultAccess

datatype AgentDelegationTargetKind = Existing | Bootstrap

datatype AgentDelegationAccessLevel = Read | Write | Admin

text \<open>The derived \<open>Ord\<close>: the order of declaration.\<close>

fun level_rank :: "AgentDelegationAccessLevel \<Rightarrow> nat" where
  "level_rank Read = 0" | "level_rank Write = 1" | "level_rank Admin = 2"

lemma level_rank_inj [simp]: "level_rank a = level_rank b \<longleftrightarrow> a = b"
  by (cases a; cases b) simp_all

instantiation AgentDelegationAccessLevel :: linorder
begin

definition less_eq_AgentDelegationAccessLevel :: "AgentDelegationAccessLevel \<Rightarrow> AgentDelegationAccessLevel \<Rightarrow> bool" where
  "less_eq_AgentDelegationAccessLevel a b \<longleftrightarrow> level_rank a \<le> level_rank b"

definition less_AgentDelegationAccessLevel :: "AgentDelegationAccessLevel \<Rightarrow> AgentDelegationAccessLevel \<Rightarrow> bool" where
  "less_AgentDelegationAccessLevel a b \<longleftrightarrow> level_rank a < level_rank b"

instance
  by standard
    (auto simp: less_eq_AgentDelegationAccessLevel_def less_AgentDelegationAccessLevel_def
      dest: order_antisym)

end

record AgentDelegationFieldMapping =
  environment_name :: string
  field_group :: "string option"
  mapping_vault_id :: uuid
  mapping_item_id :: uuid
  mapping_field :: string
  item_key_wrap :: bytes

record AgentDelegationVaultGrant =
  grant_vault_id :: uuid
  access_level :: AgentDelegationAccessLevel
  wrapped_vault_key :: bytes
  granted_signature :: bytes

record VaultProvisioningBinding =
  binding_keys :: "string list"
  vault_count :: u16
  payload_digest :: string

datatype VaultProvisioningGrantLifetime = UntilRevoked

record ProvisionedVault =
  vault_key_name :: string
  provisioned_vault_id :: uuid
  adopted :: bool

record AgentDelegationVaultProvisioning =
  binding :: VaultProvisioningBinding
  grant_lifetime :: VaultProvisioningGrantLifetime
  provisioned_vaults :: "ProvisionedVault list"

record AgentDelegationContribution =
  contrib_request_id :: uuid
  result_id :: uuid
  destination_organization_id :: uuid
  scope_kind :: AgentDelegationScopeKind
  deployment_id :: "uuid option"
  deployment_revision_id :: "uuid option"
  agent_identity_id :: uuid
  agent_target_kind :: AgentDelegationTargetKind
  agent_kem_fingerprint :: bytes
  agent_signing_fingerprint :: bytes
  allowed_access_levels :: "AgentDelegationAccessLevel list"
  request_nonce :: string
  expires_at_unix_seconds :: i64
  participant_id :: uuid
  role :: string
  stage :: u16
  actor_organization_id :: uuid
  actor_user_id :: uuid
  actor_identity_id :: uuid
  contribution_id :: uuid
  decision :: AgentDelegationDecision
  mappings :: "AgentDelegationFieldMapping list"
  vault_grants :: "AgentDelegationVaultGrant list"
  vault_provisioning :: "AgentDelegationVaultProvisioning option"

text \<open>\<open>CanonicalContribution\<close>: the domain, the two fingerprints in base64, and the rest of the
  (sorted) contribution.\<close>

type_synonym CanonicalContribution = "string \<times> string \<times> string \<times> AgentDelegationContribution"

record delegation_lib = crypto_lib +
  contribution_to_json :: "CanonicalContribution \<Rightarrow> bytes option"

section \<open>Validation\<close>

definition validate_text :: "string \<Rightarrow> string \<Rightarrow> unit crypto_result" where
  "validate_text v message =
     (if v = [] \<or> length v > MAX_TEXT_BYTES then Inl (Canonicalization message) else Inr ())"

definition VaultProvisioningBinding_validate :: "VaultProvisioningBinding \<Rightarrow> unit crypto_result" where
  "VaultProvisioningBinding_validate b =
     (if binding_keys b = []
        \<or> length (binding_keys b) > MAX_PROVISIONED_VAULTS
        \<or> length (binding_keys b) \<noteq> unat (vault_count b)
        \<or> list_ex (\<lambda>key. trim_is_empty key \<or> length key > MAX_TEXT_BYTES) (binding_keys b)
        \<or> card (set (binding_keys b)) \<noteq> length (binding_keys b)
        \<or> length (payload_digest b) \<noteq> 64
        \<or> \<not> list_all (\<lambda>c. is_ascii_digit c \<or> 97 \<le> (of_char c :: nat) \<and> of_char c \<le> (102 :: nat))
             (payload_digest b)
      then Inl (Canonicalization ''invalid vault provisioning binding'') else Inr ())"

definition validate_vault_provisioning ::
  "AgentDelegationContribution \<Rightarrow> AgentDelegationVaultProvisioning \<Rightarrow> unit crypto_result" where
  "validate_vault_provisioning c p =
     and_then (VaultProvisioningBinding_validate (binding p)) (\<lambda>_.
     if deployment_id c = None \<or> deployment_revision_id c = None \<or> agent_target_kind c \<noteq> Existing
       \<or> allowed_access_levels c \<noteq> [Write] \<or> mappings c \<noteq> []
     then Inl (Canonicalization ''invalid vault provisioning scope'')
     else if decision c = Decline then
       (if provisioned_vaults p \<noteq> [] \<or> vault_grants c \<noteq> []
        then Inl (Canonicalization ''declined vault provisioning has grants'') else Inr ())
     else let expected_keys = set (binding_keys (binding p));
              mapped_keys = set (map vault_key_name (provisioned_vaults p));
              mapped_vaults = set (map provisioned_vault_id (provisioned_vaults p));
              granted_vaults = set (map grant_vault_id (vault_grants c))
          in if expected_keys \<noteq> mapped_keys
               \<or> length (provisioned_vaults p) \<noteq> card expected_keys
               \<or> card mapped_vaults \<noteq> card expected_keys
               \<or> length (vault_grants c) \<noteq> card expected_keys
               \<or> mapped_vaults \<noteq> granted_vaults
               \<or> list_ex (\<lambda>g. access_level g \<noteq> Write) (vault_grants c)
             then Inl (Canonicalization ''vault provisioning map must match grants'') else Inr ())"

text \<open>A \<open>for\<close> loop whose body may return early with an error.\<close>

definition for_each :: "('a \<Rightarrow> unit crypto_result) \<Rightarrow> 'a list \<Rightarrow> unit crypto_result" where
  "for_each f xs = and_then (collect_results f xs) (\<lambda>_. Inr ())"

definition validate_mapping :: "AgentDelegationFieldMapping \<Rightarrow> unit crypto_result" where
  "validate_mapping m =
     and_then (validate_text (environment_name m) ''invalid environment name'') (\<lambda>_.
     and_then (case field_group m of None \<Rightarrow> Inr () | Some g \<Rightarrow> validate_text g ''invalid field group'') (\<lambda>_.
     and_then (validate_text (mapping_field m) ''invalid mapping field'') (\<lambda>_.
     if item_key_wrap m = [] \<or> length (item_key_wrap m) > MAX_OPAQUE_WRAP_BYTES
     then Inl (Canonicalization ''invalid delegation item key wrap'') else Inr ())))"

definition validate_grant ::
  "AgentDelegationAccessLevel list \<Rightarrow> AgentDelegationVaultGrant \<Rightarrow> unit crypto_result" where
  "validate_grant levels g =
     (if access_level g \<notin> set levels
      then Inl (Canonicalization ''vault grant access exceeds delegation scope'')
      else if wrapped_vault_key g = [] \<or> length (wrapped_vault_key g) > MAX_OPAQUE_WRAP_BYTES
      then Inl (Canonicalization ''invalid delegation vault key wrap'')
      else if granted_signature g = [] \<or> length (granted_signature g) > MAX_SIGNATURE_BYTES
      then Inl (Canonicalization ''invalid delegation vault grant signature'')
      else Inr ())"

definition validate_scope :: "AgentDelegationContribution \<Rightarrow> unit crypto_result" where
  "validate_scope c =
     (case scope_kind c of
        SecretFields \<Rightarrow>
          if vault_provisioning c \<noteq> None \<or> deployment_id c = None \<or> deployment_revision_id c = None
            \<or> agent_target_kind c \<noteq> Existing \<or> allowed_access_levels c \<noteq> [Read]
          then Inl (Canonicalization ''invalid secret-field delegation scope'') else Inr ()
      | VaultAccess \<Rightarrow>
          (case vault_provisioning c of
             Some p \<Rightarrow> validate_vault_provisioning c p
           | None \<Rightarrow>
               if deployment_id c \<noteq> None \<or> deployment_revision_id c \<noteq> None \<or> allowed_access_levels c = []
               then Inl (Canonicalization ''invalid vault-access delegation scope'') else Inr ()))"

definition validate_contribution :: "AgentDelegationContribution \<Rightarrow> unit crypto_result" where
  "validate_contribution c =
     (if length (agent_kem_fingerprint c) \<noteq> 32
      then Inl (Canonicalization ''agent KEM fingerprint must be 32 bytes'')
      else if length (agent_signing_fingerprint c) \<noteq> 32
      then Inl (Canonicalization ''agent signing fingerprint must be 32 bytes'')
      else and_then (validate_scope c) (\<lambda>_.
        if sint (expires_at_unix_seconds c) < 0
        then Inl (Canonicalization ''delegation expiry must be non-negative'')
        else and_then (validate_text (request_nonce c) ''invalid request nonce'') (\<lambda>_.
        and_then (validate_text (role c) ''invalid participant role'') (\<lambda>_.
        if length (mappings c) > MAX_MAPPINGS
        then Inl (Canonicalization ''delegation mappings exceed max length'')
        else if length (vault_grants c) > MAX_VAULT_GRANTS
        then Inl (Canonicalization ''delegation vault grants exceed max length'')
        else and_then (for_each validate_mapping (mappings c)) (\<lambda>_.
             for_each (validate_grant (allowed_access_levels c)) (vault_grants c))))))"

section \<open>The payload\<close>

definition mapping_key ::
  "AgentDelegationFieldMapping \<Rightarrow> string \<times> string option \<times> uuid \<times> uuid \<times> string" where
  "mapping_key m = (environment_name m, field_group m, mapping_vault_id m, mapping_item_id m, mapping_field m)"

text \<open>\<open>xs.windows(2).any(|pair| f(pair[0]) == f(pair[1]))\<close>.\<close>

fun adjacent_equal :: "('a \<Rightarrow> 'b) \<Rightarrow> 'a list \<Rightarrow> bool" where
  "adjacent_equal f (x # y # r) \<longleftrightarrow> f x = f y \<or> adjacent_equal f (y # r)"
| "adjacent_equal f _ \<longleftrightarrow> False"

definition sort_provisioning :: "AgentDelegationVaultProvisioning \<Rightarrow> AgentDelegationVaultProvisioning" where
  "sort_provisioning p =
     p\<lparr> binding := (binding p)\<lparr> binding_keys := sort (binding_keys (binding p)) \<rparr>,
        provisioned_vaults := sort_key vault_key_name (provisioned_vaults p) \<rparr>"

definition sort_contribution :: "AgentDelegationContribution \<Rightarrow> AgentDelegationContribution" where
  "sort_contribution c =
     c\<lparr> mappings := sort_key mapping_key (mappings c),
        vault_grants := sort_key (\<lambda>g. (grant_vault_id g, access_level g)) (vault_grants c),
        allowed_access_levels := sort (allowed_access_levels c),
        vault_provisioning := map_option sort_provisioning (vault_provisioning c) \<rparr>"

definition agent_delegation_contribution_payload ::
  "'z delegation_lib_scheme \<Rightarrow> AgentDelegationContribution \<Rightarrow> bytes crypto_result" where
  "agent_delegation_contribution_payload X contribution =
     and_then (validate_contribution contribution) (\<lambda>_.
     let c = sort_contribution contribution in
     if adjacent_equal (\<lambda>l. l) (allowed_access_levels c)
     then Inl (Canonicalization ''duplicate delegation access level'')
     else if adjacent_equal environment_name (mappings c)
     then Inl (Canonicalization ''duplicate delegation environment mapping'')
     else if adjacent_equal grant_vault_id (vault_grants c)
     then Inl (Canonicalization ''duplicate delegation vault grant'')
     else ok_or (Canonicalization ''contribution JSON encode failed'')
       (contribution_to_json X
          (AGENT_DELEGATION_CONTRIBUTION_DOMAIN, base64_encode X (agent_kem_fingerprint c),
           base64_encode X (agent_signing_fingerprint c), c)))"

definition sign_agent_delegation_contribution ::
  "'z delegation_lib_scheme \<Rightarrow> IdentitySigningPrivateKey \<Rightarrow> AgentDelegationContribution \<Rightarrow> bytes crypto_result" where
  "sign_agent_delegation_contribution X signing_private_key contribution =
     and_then (agent_delegation_contribution_payload X contribution) (\<lambda>payload.
       Inr (sign X signing_private_key payload))"

section \<open>Sorting and duplicates\<close>

lemma for_each_ok [result_simps]: "for_each f xs = Inr () \<longleftrightarrow> (\<forall>x \<in> set xs. f x = Inr ())"
  using collect_results_ok [of f xs]
  by (auto simp: for_each_def and_then_eq_Inr is_ok_conv)

lemma adjacent_equal_sorted:
  "sorted (map f xs) \<Longrightarrow> adjacent_equal f xs \<longleftrightarrow> \<not> distinct (map f xs)"
proof (induction f xs rule: adjacent_equal.induct)
  case (1 f x y r)
  then show ?case by (auto simp: order.antisym)
qed auto

lemma sorted_first_component:
  fixes f :: "'a \<Rightarrow> 'b :: linorder" and g :: "'a \<Rightarrow> 'c :: linorder"
  assumes "sorted (map g xs)" and "\<And>x y. g x \<le> g y \<Longrightarrow> f x \<le> f y"
  shows "sorted (map f xs)"
  using assms by (auto simp: sorted_map elim!: sorted_wrt_mono_rel [rotated])

lemma distinct_map_sort: "distinct (map f (sort_key g xs)) \<longleftrightarrow> distinct (map f xs)"
  by (rule mset_eq_imp_distinct_iff) simp

lemma duplicates_found:
  fixes f :: "'a \<Rightarrow> 'b :: linorder" and g :: "'a \<Rightarrow> 'c :: linorder"
  assumes "\<And>x y. g x \<le> g y \<Longrightarrow> f x \<le> f y"
  shows "adjacent_equal f (sort_key g xs) \<longleftrightarrow> \<not> distinct (map f xs)"
proof -
  have "sorted (map f (sort_key g xs))" by (rule sorted_first_component [OF sorted_sort_key assms])
  then show ?thesis by (simp add: adjacent_equal_sorted distinct_map_sort)
qed

lemma mapping_key_mono: "mapping_key x \<le> mapping_key y \<Longrightarrow> environment_name x \<le> environment_name y"
  by (auto simp: mapping_key_def)

lemma payload_iff:
  "agent_delegation_contribution_payload X c = Inr b \<longleftrightarrow>
     validate_contribution c = Inr ()
     \<and> distinct (allowed_access_levels c) \<and> distinct (map environment_name (mappings c))
     \<and> distinct (map grant_vault_id (vault_grants c))
     \<and> contribution_to_json X
         (AGENT_DELEGATION_CONTRIBUTION_DOMAIN, base64_encode X (agent_kem_fingerprint c),
          base64_encode X (agent_signing_fingerprint c), sort_contribution c) = Some b"
proof -
  have "adjacent_equal (\<lambda>l. l) (sort (allowed_access_levels c)) \<longleftrightarrow> \<not> distinct (allowed_access_levels c)"
    using duplicates_found [of "\<lambda>x. x" "\<lambda>l. l" "allowed_access_levels c"] by simp
  moreover have "adjacent_equal environment_name (sort_key mapping_key (mappings c))
      \<longleftrightarrow> \<not> distinct (map environment_name (mappings c))"
    by (rule duplicates_found) (rule mapping_key_mono)
  moreover have "adjacent_equal grant_vault_id (sort_key (\<lambda>g. (grant_vault_id g, access_level g)) (vault_grants c))
      \<longleftrightarrow> \<not> distinct (map grant_vault_id (vault_grants c))"
    by (rule duplicates_found) auto
  ultimately show ?thesis
    by (simp add: agent_delegation_contribution_payload_def and_then_eq_Inr Let_def ok_or_eq_Inr
        sort_contribution_def if_Inl_eq_Inr)
qed

section \<open>Provisioning\<close>

lemma provisioning_approved:
  assumes "validate_vault_provisioning c p = Inr ()" and "decision c = Approve"
  shows "distinct (binding_keys (binding p)) \<and> distinct (map vault_key_name (provisioned_vaults p))
    \<and> distinct (map provisioned_vault_id (provisioned_vaults p)) \<and> distinct (map grant_vault_id (vault_grants c))
    \<and> set (map vault_key_name (provisioned_vaults p)) = set (binding_keys (binding p))
    \<and> set (map grant_vault_id (vault_grants c)) = set (map provisioned_vault_id (provisioned_vaults p))
    \<and> (\<forall>g \<in> set (vault_grants c). access_level g = Write)"
proof -
  let ?k = "binding_keys (binding p)" and ?pv = "provisioned_vaults p" and ?vg = "vault_grants c"
  have k: "card (set ?k) = length ?k"
    using assms(1) by (auto simp: validate_vault_provisioning_def VaultProvisioningBinding_validate_def
        and_then_eq_Inr split: if_splits)
  have v: "set ?k = set (map vault_key_name ?pv)" "length ?pv = card (set ?k)"
      "card (set (map provisioned_vault_id ?pv)) = card (set ?k)" "length ?vg = card (set ?k)"
      "set (map provisioned_vault_id ?pv) = set (map grant_vault_id ?vg)"
      "\<forall>g \<in> set ?vg. access_level g = Write"
    using assms by (auto simp: validate_vault_provisioning_def and_then_eq_Inr Let_def list_ex_iff split: if_splits)
  have "card (set (map vault_key_name ?pv)) = length (map vault_key_name ?pv)" using v(1,2) by simp
  moreover have "card (set (map provisioned_vault_id ?pv)) = length (map provisioned_vault_id ?pv)"
    using v(2,3) by simp
  moreover have "card (set (map grant_vault_id ?vg)) = length (map grant_vault_id ?vg)"
    using v(3,4,5) by simp
  ultimately show ?thesis using k v by (auto intro!: card_distinct)
qed

lemma provisioning_keys_distinct:
  "validate_vault_provisioning c p = Inr () \<Longrightarrow> distinct (map vault_key_name (provisioned_vaults p))"
  by (cases "decision c")
    (auto simp: provisioning_approved, auto simp: validate_vault_provisioning_def and_then_eq_Inr split: if_splits)

section \<open>Order does not matter\<close>

text \<open>Two contributions that differ only in the order of their lists.\<close>

definition reordered_provisioning ::
  "AgentDelegationVaultProvisioning \<Rightarrow> AgentDelegationVaultProvisioning \<Rightarrow> bool" where
  "reordered_provisioning p q \<longleftrightarrow>
     mset (binding_keys (binding p)) = mset (binding_keys (binding q))
     \<and> mset (provisioned_vaults p) = mset (provisioned_vaults q)
     \<and> q = p\<lparr> binding := (binding p)\<lparr> binding_keys := binding_keys (binding q) \<rparr>,
              provisioned_vaults := provisioned_vaults q \<rparr>"

definition reordered :: "AgentDelegationContribution \<Rightarrow> AgentDelegationContribution \<Rightarrow> bool" where
  "reordered c d \<longleftrightarrow>
     mset (mappings c) = mset (mappings d) \<and> mset (vault_grants c) = mset (vault_grants d)
     \<and> mset (allowed_access_levels c) = mset (allowed_access_levels d)
     \<and> rel_option reordered_provisioning (vault_provisioning c) (vault_provisioning d)
     \<and> d = c\<lparr> mappings := mappings d, vault_grants := vault_grants d,
              allowed_access_levels := allowed_access_levels d, vault_provisioning := vault_provisioning d \<rparr>"

lemma reorderedE:
  assumes "reordered c d"
  obtains ms gs ls vp where "d = c\<lparr> mappings := ms, vault_grants := gs, allowed_access_levels := ls,
      vault_provisioning := vp \<rparr>" and "mset (mappings c) = mset ms" and "mset (vault_grants c) = mset gs"
    and "mset (allowed_access_levels c) = mset ls"
    and "rel_option reordered_provisioning (vault_provisioning c) vp"
  using assms unfolding reordered_def by metis

lemma reordered_provisioningE:
  assumes "reordered_provisioning p q"
  obtains ks pv where "q = p\<lparr> binding := (binding p)\<lparr> binding_keys := ks \<rparr>, provisioned_vaults := pv \<rparr>"
    and "mset (binding_keys (binding p)) = mset ks" and "mset (provisioned_vaults p) = mset pv"
  using assms unfolding reordered_provisioning_def by metis

lemma mset_singleton_list: "mset xs = mset ys \<Longrightarrow> xs = [a] \<longleftrightarrow> ys = [a]"
  by (metis mset_single_iff mset_single_iff_right)

lemma mset_Nil_list: "mset xs = mset ys \<Longrightarrow> xs = [] \<longleftrightarrow> ys = []"
  by (metis mset_zero_iff mset_zero_iff_right)

lemmas mset_facts = mset_eq_setD mset_eq_length mset_singleton_list mset_Nil_list

lemma binding_validate_reordered:
  assumes "mset (binding_keys b) = mset ks"
  shows "VaultProvisioningBinding_validate (b\<lparr> binding_keys := ks \<rparr>) = VaultProvisioningBinding_validate b"
  using mset_eq_setD [OF assms] mset_eq_length [OF assms] mset_Nil_list [OF assms]
  by (auto simp: VaultProvisioningBinding_validate_def list_ex_iff)

lemma provisioning_validate_reordered:
  assumes "reordered_provisioning p q" and "mset (mappings c) = mset ms" and "mset (vault_grants c) = mset gs"
    and "mset (allowed_access_levels c) = mset ls"
  shows "validate_vault_provisioning (c\<lparr> mappings := ms, vault_grants := gs, allowed_access_levels := ls,
      vault_provisioning := vp \<rparr>) q = validate_vault_provisioning c p"
proof -
  obtain ks pv where q: "q = p\<lparr> binding := (binding p)\<lparr> binding_keys := ks \<rparr>, provisioned_vaults := pv \<rparr>"
    and ks: "mset (binding_keys (binding p)) = mset ks" and pv: "mset (provisioned_vaults p) = mset pv"
    using assms(1) by (rule reordered_provisioningE)
  have "set pv = set (provisioned_vaults p)" "set ks = set (binding_keys (binding p))" "set gs = set (vault_grants c)"
      "length pv = length (provisioned_vaults p)" "length gs = length (vault_grants c)"
      "pv = [] \<longleftrightarrow> provisioned_vaults p = []" "gs = [] \<longleftrightarrow> vault_grants c = []" "ms = [] \<longleftrightarrow> mappings c = []"
      "ls = [Write] \<longleftrightarrow> allowed_access_levels c = [Write]"
    using ks pv assms(2-4) by (auto dest: mset_eq_setD mset_eq_length mset_Nil_list mset_singleton_list)
  then show ?thesis
    by (simp add: validate_vault_provisioning_def q binding_validate_reordered [OF ks] list_ex_iff)
qed

lemma scope_validate_reordered:
  assumes "reordered c d"
  shows "validate_scope d = validate_scope c"
proof -
  obtain ms gs ls vp where d: "d = c\<lparr> mappings := ms, vault_grants := gs, allowed_access_levels := ls,
      vault_provisioning := vp \<rparr>" and m: "mset (mappings c) = mset ms" "mset (vault_grants c) = mset gs"
      "mset (allowed_access_levels c) = mset ls"
      and vp: "rel_option reordered_provisioning (vault_provisioning c) vp"
    using assms by (rule reorderedE)
  have ls: "ls = [Read] \<longleftrightarrow> allowed_access_levels c = [Read]" "ls = [] \<longleftrightarrow> allowed_access_levels c = []"
    using m(3) by (auto dest: mset_Nil_list mset_singleton_list)
  show ?thesis
  proof (cases "vault_provisioning c")
    case None
    with vp have "vp = None" by simp
    with None ls show ?thesis by (cases "scope_kind c") (auto simp: validate_scope_def d)
  next
    case (Some p)
    with vp obtain q where "vp = Some q" "reordered_provisioning p q" by (cases vp) auto
    then show ?thesis
      using provisioning_validate_reordered [OF \<open>reordered_provisioning p q\<close> m, of vp] Some
      by (cases "scope_kind c") (simp_all add: validate_scope_def d)
  qed
qed

lemma validate_reordered:
  assumes "reordered c d" and "validate_contribution c = Inr ()"
  shows "validate_contribution d = Inr ()"
proof -
  obtain ms gs ls vp where d: "d = c\<lparr> mappings := ms, vault_grants := gs, allowed_access_levels := ls,
      vault_provisioning := vp \<rparr>" and m: "mset (mappings c) = mset ms" "mset (vault_grants c) = mset gs"
      "mset (allowed_access_levels c) = mset ls"
    using assms(1) by (rule reorderedE)
  have "set ms = set (mappings c)" "length ms = length (mappings c)" "set gs = set (vault_grants c)"
      "length gs = length (vault_grants c)" "set ls = set (allowed_access_levels c)"
    using m by (auto dest: mset_eq_setD mset_eq_length)
  with assms(2) scope_validate_reordered [OF assms(1)] show ?thesis
    by (auto simp: validate_contribution_def d and_then_eq_Inr for_each_ok validate_grant_def split: if_splits)
qed

lemma inj_on_refine: "distinct (map f xs) \<Longrightarrow> (\<And>x y. g x = g y \<Longrightarrow> f x = f y) \<Longrightarrow> inj_on g (set xs)"
  unfolding distinct_map inj_on_def by blast

lemma sort_reordered:
  assumes "reordered c d" and "validate_contribution c = Inr ()"
    and "distinct (map environment_name (mappings c))" and "distinct (map grant_vault_id (vault_grants c))"
  shows "sort_contribution d = sort_contribution c"
proof -
  obtain ms gs ls vp where d: "d = c\<lparr> mappings := ms, vault_grants := gs, allowed_access_levels := ls,
      vault_provisioning := vp \<rparr>" and m: "mset (mappings c) = mset ms" "mset (vault_grants c) = mset gs"
      "mset (allowed_access_levels c) = mset ls"
      and vp: "rel_option reordered_provisioning (vault_provisioning c) vp"
    using assms(1) by (rule reorderedE)
  have "sort_key mapping_key (mappings c) = sort_key mapping_key ms"
    by (rule sort_key_eq_sort_key [OF m(1)], rule inj_on_refine [OF assms(3)]) (simp add: mapping_key_def)
  moreover have "sort_key (\<lambda>g. (grant_vault_id g, access_level g)) (vault_grants c)
      = sort_key (\<lambda>g. (grant_vault_id g, access_level g)) gs"
    by (rule sort_key_eq_sort_key [OF m(2)], rule inj_on_refine [OF assms(4)]) simp
  moreover have "sort (allowed_access_levels c) = sort ls"
    by (rule sort_key_eq_sort_key [OF m(3)]) simp
  moreover have "map_option sort_provisioning vp = map_option sort_provisioning (vault_provisioning c)"
  proof (cases "vault_provisioning c")
    case None
    with vp show ?thesis by simp
  next
    case (Some p)
    with vp obtain q where q: "vp = Some q" "reordered_provisioning p q" by (cases vp) auto
    obtain ks pv where q': "q = p\<lparr> binding := (binding p)\<lparr> binding_keys := ks \<rparr>, provisioned_vaults := pv \<rparr>"
      and ks: "mset (binding_keys (binding p)) = mset ks" and pv: "mset (provisioned_vaults p) = mset pv"
      using q(2) by (rule reordered_provisioningE)
    have "validate_vault_provisioning c p = Inr ()"
      using assms(2) Some
      by (auto simp: validate_contribution_def validate_scope_def and_then_eq_Inr
          split: if_splits AgentDelegationScopeKind.splits)
    from provisioning_keys_distinct [OF this]
    have "sort_key vault_key_name (provisioned_vaults p) = sort_key vault_key_name pv"
      by (intro sort_key_eq_sort_key [OF pv]) (simp add: distinct_map)
    moreover have "sort (binding_keys (binding p)) = sort ks"
      by (rule sort_key_eq_sort_key [OF ks]) simp
    ultimately show ?thesis using Some q(1) by (simp add: sort_provisioning_def q')
  qed
  ultimately show ?thesis by (simp add: sort_contribution_def d)
qed

section \<open>Properties\<close>

text \<open>C10. The signed payload does not depend on the order of the lists in the contribution: if a
  contribution is accepted, every reordering of its mappings, grants, access levels,
  provisioning keys and provisioned vaults is accepted with the same bytes.\<close>

theorem delegation_payload_order_free:
  assumes "reordered c d" and "agent_delegation_contribution_payload X c = Inr b"
  shows "agent_delegation_contribution_payload X d = Inr b"
proof -
  from assms(2) have ok: "validate_contribution c = Inr ()"
      "distinct (map environment_name (mappings c))" "distinct (map grant_vault_id (vault_grants c))"
    by (simp_all add: payload_iff)
  have m: "mset (mappings c) = mset (mappings d)" "mset (vault_grants c) = mset (vault_grants d)"
      "mset (allowed_access_levels c) = mset (allowed_access_levels d)"
    using assms(1) by (simp_all add: reordered_def)
  have "agent_kem_fingerprint d = agent_kem_fingerprint c" "agent_signing_fingerprint d = agent_signing_fingerprint c"
    by (rule reorderedE [OF assms(1)], simp)+
  moreover have "distinct (map environment_name (mappings d)) \<longleftrightarrow> distinct (map environment_name (mappings c))"
    "distinct (map grant_vault_id (vault_grants d)) \<longleftrightarrow> distinct (map grant_vault_id (vault_grants c))"
    "distinct (allowed_access_levels d) \<longleftrightarrow> distinct (allowed_access_levels c)"
    using m by (auto intro!: mset_eq_imp_distinct_iff)
  ultimately show ?thesis
    using assms(2) validate_reordered [OF assms(1) ok(1)] sort_reordered [OF assms(1) ok]
    by (simp add: payload_iff)
qed

text \<open>C11. What an accepted contribution guarantees: no environment name, vault or access level
  twice; every granted level is one of the allowed ones; secret-field scopes carry exactly read
  access; and an approved provisioning maps the promised keys one to one onto vaults that are
  granted, with write access, and no other vault is.\<close>

theorem delegation_payload_sound:
  assumes "agent_delegation_contribution_payload X c = Inr b"
  shows "distinct (map environment_name (mappings c)) \<and> distinct (map grant_vault_id (vault_grants c))
     \<and> distinct (allowed_access_levels c)
     \<and> (\<forall>g \<in> set (vault_grants c). access_level g \<in> set (allowed_access_levels c))
     \<and> (scope_kind c = SecretFields \<longrightarrow> allowed_access_levels c = [Read] \<and> vault_provisioning c = None)
     \<and> (\<forall>p. vault_provisioning c = Some p \<and> decision c = Approve \<longrightarrow>
          distinct (map vault_key_name (provisioned_vaults p))
          \<and> distinct (map provisioned_vault_id (provisioned_vaults p))
          \<and> set (map vault_key_name (provisioned_vaults p)) = set (binding_keys (binding p))
          \<and> set (map grant_vault_id (vault_grants c)) = set (map provisioned_vault_id (provisioned_vaults p))
          \<and> (\<forall>g \<in> set (vault_grants c). access_level g = Write))"
proof -
  from assms have ok: "validate_contribution c = Inr ()"
      and d: "distinct (map environment_name (mappings c))" "distinct (map grant_vault_id (vault_grants c))"
        "distinct (allowed_access_levels c)"
    by (simp_all add: payload_iff)
  from ok have scope: "validate_scope c = Inr ()"
      and grants: "\<forall>g \<in> set (vault_grants c). validate_grant (allowed_access_levels c) g = Inr ()"
    by (auto simp: validate_contribution_def and_then_eq_Inr for_each_ok split: if_splits)
  have levels: "\<forall>g \<in> set (vault_grants c). access_level g \<in> set (allowed_access_levels c)"
    using grants by (auto simp: validate_grant_def split: if_splits)
  have secret: "scope_kind c = SecretFields \<longrightarrow> allowed_access_levels c = [Read] \<and> vault_provisioning c = None"
    using scope by (auto simp: validate_scope_def split: if_splits)
  have "validate_vault_provisioning c p = Inr ()" if "vault_provisioning c = Some p" for p
    using scope that by (cases "scope_kind c") (auto simp: validate_scope_def)
  then have "\<forall>p. vault_provisioning c = Some p \<and> decision c = Approve \<longrightarrow>
      distinct (map vault_key_name (provisioned_vaults p)) \<and> distinct (map provisioned_vault_id (provisioned_vaults p))
      \<and> set (map vault_key_name (provisioned_vaults p)) = set (binding_keys (binding p))
      \<and> set (map grant_vault_id (vault_grants c)) = set (map provisioned_vault_id (provisioned_vaults p))
      \<and> (\<forall>g \<in> set (vault_grants c). access_level g = Write)"
    using provisioning_approved by blast
  with d levels secret show ?thesis by blast
qed

definition delegation_toy_lib :: delegation_lib where
  "delegation_toy_lib = crypto_lib.extend toy_lib
     (delegation_lib.fields (\<lambda>(d, _). Some (as_bytes d)))"

definition sample_contribution :: AgentDelegationContribution where
  "sample_contribution =
    \<lparr> contrib_request_id = 1, result_id = 2, destination_organization_id = 3, scope_kind = VaultAccess,
      deployment_id = None, deployment_revision_id = None, agent_identity_id = 4, agent_target_kind = Bootstrap,
      agent_kem_fingerprint = replicate 32 1, agent_signing_fingerprint = replicate 32 2,
      allowed_access_levels = [Write, Read], request_nonce = ''n'', expires_at_unix_seconds = 9,
      participant_id = 5, role = ''owner'', stage = 1, actor_organization_id = 6, actor_user_id = 7,
      actor_identity_id = 8, contribution_id = 9, decision = Approve, mappings = [],
      vault_grants =
        [\<lparr> grant_vault_id = 2, access_level = Read, wrapped_vault_key = [1], granted_signature = [1] \<rparr>,
         \<lparr> grant_vault_id = 1, access_level = Write, wrapped_vault_key = [1], granted_signature = [1] \<rparr>],
      vault_provisioning = None \<rparr>"

lemma sample_contribution_payload:
  "agent_delegation_contribution_payload delegation_toy_lib sample_contribution
     = Inr (as_bytes AGENT_DELEGATION_CONTRIBUTION_DOMAIN)"
  by (simp add: payload_iff validate_contribution_def sample_contribution_def validate_scope_def
      validate_text_def for_each_def validate_grant_def MAX_TEXT_BYTES_def MAX_MAPPINGS_def MAX_VAULT_GRANTS_def
      MAX_OPAQUE_WRAP_BYTES_def MAX_SIGNATURE_BYTES_def delegation_toy_lib_def crypto_lib.defs delegation_lib.defs)

theorem delegation_payload_order_free_witness:
  "agent_delegation_contribution_payload delegation_toy_lib
     (sample_contribution\<lparr> vault_grants := rev (vault_grants sample_contribution),
        allowed_access_levels := [Read, Write] \<rparr>)
     = Inr (as_bytes AGENT_DELEGATION_CONTRIBUTION_DOMAIN)"
  by (rule delegation_payload_order_free [OF _ sample_contribution_payload])
    (simp add: reordered_def sample_contribution_def)

theorem delegation_payload_sound_witness:
  "distinct (map grant_vault_id (vault_grants sample_contribution))
   \<and> access_level (hd (vault_grants sample_contribution)) \<in> set (allowed_access_levels sample_contribution)"
  using delegation_payload_sound [OF sample_contribution_payload] by (simp add: sample_contribution_def)

end
