(* ===== verification/Wasm.thy ===== *)
theory Wasm
  imports Vault_Admin Delegation Backup
begin

text \<open>
  The bindings of \<open>crates/seren-secrets-crypto-wasm/src/lib.rs\<close>, through which a browser uses the
  crypto crate.  Byte buffers arrive with any length and JSON as text, so every binding checks
  lengths and parses before it calls the crate; an error is the text of the \<open>JsError\<close> that is
  thrown.  Key handles are opaque to the caller and are the key they hold here.  Names that the
  crypto crate or the resolver already uses have the prefix \<open>wasm\<close>.  The texts serde reads and
  writes, jiff's parser and \<open>Uuid::from_bytes\<close> are fields of \<open>wasm_lib\<close>.
\<close>

section \<open>The interface and errors\<close>

type_synonym js_error = string
type_synonym 'a js_result = "js_error + 'a"

type_synonym WasmAccountKey = AccountKey
type_synonym WasmKemPrivateKey = IdentityKemPrivateKey
type_synonym WasmSigningPrivateKey = IdentitySigningPrivateKey
type_synonym WasmRecoveryKey = RecoveryKey
type_synonym WasmVaultKey = VaultKey
type_synonym WasmItemContentKey = ItemContentKey
type_synonym WasmKdfParams = KdfParams
type_synonym WasmKemKeypair = IdentityKemKeypair
type_synonym WasmSigningKeypair = IdentitySigningKeypair

record wasm_lib = item_lib +
  secrets_to_string :: "AccountSecrets \<Rightarrow> string js_result"
  secrets_from_str :: "string \<Rightarrow> AccountSecrets option"
  value_from_str :: "string \<Rightarrow> json option"
  value_to_vec :: "json \<Rightarrow> bytes js_result"
  contribution_from_str :: "string \<Rightarrow> AgentDelegationContribution option"
  contribution_writer :: "CanonicalContribution \<Rightarrow> bytes option"
  content_to_string :: "ItemContent \<Rightarrow> string js_result"
  content_from_str :: "string \<Rightarrow> ItemContent option"
  tags_to_string :: "string list \<Rightarrow> string js_result"
  tags_from_str :: "string \<Rightarrow> string list option"
  timestamp_from_str :: "string \<Rightarrow> timestamp js_result"
  uuid_from_bytes :: "bytes \<Rightarrow> uuid"

text \<open>What serde writes it reads back.\<close>

definition wasm_text_laws :: "'z wasm_lib_scheme \<Rightarrow> bool" where
  "wasm_text_laws X \<longleftrightarrow>
     (\<forall>s t. secrets_to_string X s = Inr t \<longrightarrow> secrets_from_str X t = Some s)
   \<and> (\<forall>c t. content_to_string X c = Inr t \<longrightarrow> content_from_str X t = Some c)
   \<and> (\<forall>ts t. tags_to_string X ts = Inr t \<longrightarrow> tags_from_str X t = Some ts)"

text \<open>The delegation code with the writer of this build.\<close>

definition delegation_view :: "'z wasm_lib_scheme \<Rightarrow> delegation_lib" where
  "delegation_view X = crypto_lib.extend (crypto_lib.truncate X) (delegation_lib.fields (contribution_writer X))"

fun CryptoError_display :: "crypto_error \<Rightarrow> string" where
  "CryptoError_display (InvalidKey what) = ''invalid key material: '' @ what"
| "CryptoError_display InvalidCiphertext = ''invalid ciphertext''"
| "CryptoError_display AuthFailure = ''authentication failed: tampered ciphertext or wrong key''"
| "CryptoError_display (UnsupportedVersion v) = ''unsupported wire-format version '' @ dec_string (unat v)"
| "CryptoError_display (MalformedWire what) = ''malformed wire format: '' @ what"
| "CryptoError_display InvalidSignature = ''invalid signature''"
| "CryptoError_display (Kdf what) = ''kdf failure: '' @ what"
| "CryptoError_display InvalidRecoveryKey = ''invalid recovery key encoding''"
| "CryptoError_display (InvalidPasswordRecipe what) = ''password generator received invalid recipe: '' @ what"
| "CryptoError_display (Import what) = ''import error: '' @ what"
| "CryptoError_display (Export what) = ''export error: '' @ what"
| "CryptoError_display (Canonicalization what) = ''canonicalization error: '' @ what"

definition js_err :: "'a crypto_result \<Rightarrow> 'a js_result" where
  "js_err r = map_err CryptoError_display r"

text \<open>\<open>try_into\<close> an array, with the error text of the call; \<open>secret_array\<close> is its 32-byte case.\<close>

definition try_into_array :: "nat \<Rightarrow> bytes \<Rightarrow> string \<Rightarrow> bytes js_result" where
  "try_into_array n bs message = (if length bs = n then Inr bs else Inl message)"

definition secret_array :: "bytes \<Rightarrow> string \<Rightarrow> byte32 js_result" where
  "secret_array bs message = and_then (try_into_array 32 bs message) (\<lambda>raw. Inr (arr32 raw))"

text \<open>\<open>js_then\<close> is \<open>?\<close> in a binding that draws randomness, \<open>js_ok\<close> wraps an infallible
  operation of the crate and \<open>js_run\<close> one that returns a \<open>CryptoResult\<close>.\<close>

definition js_then :: "'a js_result \<Rightarrow> ('a \<Rightarrow> entropy \<Rightarrow> 'b js_result \<times> entropy) \<Rightarrow> entropy \<Rightarrow> 'b js_result \<times> entropy" where
  "js_then r f e = (case r of Inl m \<Rightarrow> (Inl m, e) | Inr x \<Rightarrow> f x e)"

definition js_ok :: "(entropy \<Rightarrow> 'a \<times> entropy) \<Rightarrow> entropy \<Rightarrow> 'a js_result \<times> entropy" where
  "js_ok f e = (let (x, e') = f e in (Inr x, e'))"

definition js_run :: "(entropy \<Rightarrow> 'a crypto_result \<times> entropy) \<Rightarrow> entropy \<Rightarrow> 'a js_result \<times> entropy" where
  "js_run f e = (let (r, e') = f e in (js_err r, e'))"

section \<open>Key derivation\<close>

definition kdf_default_params :: "entropy \<Rightarrow> WasmKdfParams \<times> entropy" where
  "kdf_default_params = default_params"

definition kdf_probe_params :: WasmKdfParams where
  "kdf_probe_params = probe_params"

definition kdf_recommend_for_throughput :: "u32 \<Rightarrow> u32 \<Rightarrow> entropy \<Rightarrow> WasmKdfParams \<times> entropy" where
  "kdf_recommend_for_throughput probe_ms target_ms e =
     recommend_params_for_throughput (ucast probe_ms) target_ms e"

definition KDF_MAX_MEMORY_KIB :: u32 where "KDF_MAX_MEMORY_KIB = 1024 * 1024"
definition KDF_MAX_TIME_COST :: u32 where "KDF_MAX_TIME_COST = 32"
definition KDF_MAX_PARALLELISM :: u32 where "KDF_MAX_PARALLELISM = 64"
definition KDF_MIN_MEMORY_KIB_PER_LANE :: u32 where "KDF_MIN_MEMORY_KIB_PER_LANE = 8"
definition KDF_MIN_OUTPUT_LEN :: u32 where "KDF_MIN_OUTPUT_LEN = 16"
definition KDF_MAX_OUTPUT_LEN :: u32 where "KDF_MAX_OUTPUT_LEN = 64"
definition KDF_MAX_SALT_LEN :: nat where "KDF_MAX_SALT_LEN = 1024"

definition check_kdf_derive_bounds :: "u32 \<Rightarrow> u32 \<Rightarrow> u32 \<Rightarrow> u32 \<Rightarrow> nat \<Rightarrow> unit js_result" where
  "check_kdf_derive_bounds memory time lanes out_len salt_len =
     (if lanes = 0 \<or> KDF_MAX_PARALLELISM < lanes then Inl ''kdf parallelism out of range''
      else if time = 0 then Inl ''kdf time_cost out of range''
      else let min_memory_kib = KDF_MIN_MEMORY_KIB_PER_LANE * lanes in
      if memory < min_memory_kib then Inl ''kdf memory_kib too small''
      else if KDF_MAX_MEMORY_KIB < memory then Inl ''kdf memory_kib too large''
      else if KDF_MAX_TIME_COST < time then Inl ''kdf time_cost too large''
      else if \<not> (KDF_MIN_OUTPUT_LEN \<le> out_len \<and> out_len \<le> KDF_MAX_OUTPUT_LEN) then Inl ''kdf output_len out of range''
      else if KDF_MAX_SALT_LEN < salt_len then Inl ''kdf salt too long''
      else Inr ())"

definition kdf_derive_key ::
  "'z wasm_lib_scheme \<Rightarrow> bytes \<Rightarrow> u32 \<Rightarrow> u32 \<Rightarrow> u32 \<Rightarrow> u32 \<Rightarrow> bytes \<Rightarrow> bytes js_result" where
  "kdf_derive_key X password memory time lanes out_len salt_bytes =
     and_then (check_kdf_derive_bounds memory time lanes out_len (length salt_bytes)) (\<lambda>_.
     js_err (derive_key X password
       \<lparr> kdf_version = 1, algorithm = Argon2id, memory_kib = memory, time_cost = time, parallelism = lanes,
         output_len = out_len, salt = salt_bytes \<rparr>))"

definition kdf_validate_stored_params :: "u32 \<Rightarrow> u32 \<Rightarrow> u32 \<Rightarrow> u32 \<Rightarrow> bytes \<Rightarrow> unit js_result" where
  "kdf_validate_stored_params memory time lanes out_len salt_bytes =
     js_err (validate_stored_params
       \<lparr> kdf_version = 1, algorithm = Argon2id, memory_kib = memory, time_cost = time, parallelism = lanes,
         output_len = out_len, salt = salt_bytes \<rparr>)"

section \<open>Envelopes\<close>

definition aead_encrypt :: "'z wasm_lib_scheme \<Rightarrow> bytes \<Rightarrow> bytes \<Rightarrow> entropy \<Rightarrow> bytes js_result \<times> entropy" where
  "aead_encrypt X key plaintext =
     js_then (secret_array key ''AEAD key must be 32 bytes'') (\<lambda>k. js_ok (xchacha20_encrypt X k plaintext))"

definition aead_encrypt_with_aad ::
  "'z wasm_lib_scheme \<Rightarrow> bytes \<Rightarrow> bytes \<Rightarrow> bytes \<Rightarrow> entropy \<Rightarrow> bytes js_result \<times> entropy" where
  "aead_encrypt_with_aad X key plaintext aad =
     js_then (secret_array key ''AEAD key must be 32 bytes'') (\<lambda>k. js_ok (xchacha20_encrypt_with_aad X k plaintext aad))"

definition aead_decrypt :: "'z wasm_lib_scheme \<Rightarrow> bytes \<Rightarrow> bytes \<Rightarrow> bytes js_result" where
  "aead_decrypt X key blob =
     and_then (secret_array key ''AEAD key must be 32 bytes'') (\<lambda>k. js_err (xchacha20_decrypt X k blob))"

definition aead_decrypt_with_aad :: "'z wasm_lib_scheme \<Rightarrow> bytes \<Rightarrow> bytes \<Rightarrow> bytes \<Rightarrow> bytes js_result" where
  "aead_decrypt_with_aad X key blob aad =
     and_then (secret_array key ''AEAD key must be 32 bytes'') (\<lambda>k. js_err (xchacha20_decrypt_with_aad X k blob aad))"

definition vault_key_aead_encrypt_with_aad ::
  "'z wasm_lib_scheme \<Rightarrow> WasmVaultKey \<Rightarrow> bytes \<Rightarrow> bytes \<Rightarrow> entropy \<Rightarrow> bytes \<times> entropy" where
  "vault_key_aead_encrypt_with_aad X vault_key plaintext aad = xchacha20_encrypt_with_aad X vault_key plaintext aad"

definition vault_key_aead_decrypt_with_aad ::
  "'z wasm_lib_scheme \<Rightarrow> WasmVaultKey \<Rightarrow> bytes \<Rightarrow> bytes \<Rightarrow> bytes js_result" where
  "vault_key_aead_decrypt_with_aad X vault_key blob aad = js_err (xchacha20_decrypt_with_aad X vault_key blob aad)"

section \<open>Sealed boxes and signatures\<close>

definition kem_generate_keypair :: "'z wasm_lib_scheme \<Rightarrow> entropy \<Rightarrow> WasmKemKeypair \<times> entropy" where
  "kem_generate_keypair X = IdentityKemKeypair_generate X"

definition kem_seal :: "'z wasm_lib_scheme \<Rightarrow> bytes \<Rightarrow> bytes \<Rightarrow> entropy \<Rightarrow> bytes js_result \<times> entropy" where
  "kem_seal X recipient_public_key plaintext =
     js_then (secret_array recipient_public_key ''KEM public key must be 32 bytes'') (\<lambda>pk. js_ok (seal X pk plaintext))"

definition kem_unseal :: "'z wasm_lib_scheme \<Rightarrow> bytes \<Rightarrow> bytes \<Rightarrow> bytes js_result" where
  "kem_unseal X private_key blob =
     and_then (secret_array private_key ''KEM private key must be 32 bytes'') (\<lambda>sk.
     and_then (map_err (\<lambda>_. ''Invalid KEM private key'') (IdentityKemPrivateKey_from_slice (bytes32 sk))) (\<lambda>private.
       js_err (unseal X private blob)))"

definition kem_unseal_with_identity_key :: "'z wasm_lib_scheme \<Rightarrow> WasmKemPrivateKey \<Rightarrow> bytes \<Rightarrow> bytes js_result" where
  "kem_unseal_with_identity_key X private_key blob = js_err (unseal X private_key blob)"

definition signing_generate_keypair :: "'z wasm_lib_scheme \<Rightarrow> entropy \<Rightarrow> WasmSigningKeypair \<times> entropy" where
  "signing_generate_keypair X = IdentitySigningKeypair_generate X"

definition wasm_sign :: "'z wasm_lib_scheme \<Rightarrow> bytes \<Rightarrow> bytes \<Rightarrow> bytes js_result" where
  "wasm_sign X private_key message =
     and_then (secret_array private_key ''Signing private key must be 32 bytes'') (\<lambda>sk.
     and_then (map_err (\<lambda>_. ''Invalid signing private key'') (IdentitySigningPrivateKey_from_slice (bytes32 sk))) (\<lambda>private.
       Inr (sign X private message)))"

definition wasm_verify :: "'z wasm_lib_scheme \<Rightarrow> bytes \<Rightarrow> bytes \<Rightarrow> bytes \<Rightarrow> bool" where
  "wasm_verify X public_key message signature =
     (if length public_key \<noteq> 32 then False else is_ok (verify X (arr32 public_key) message signature))"

definition identity_sign :: "'z wasm_lib_scheme \<Rightarrow> WasmSigningPrivateKey \<Rightarrow> string \<Rightarrow> bytes \<Rightarrow> bytes js_result" where
  "identity_sign X private_key ctx message = js_err (sign_with_context X private_key ctx message)"

definition identity_verify :: "'z wasm_lib_scheme \<Rightarrow> bytes \<Rightarrow> string \<Rightarrow> bytes \<Rightarrow> bytes \<Rightarrow> bool" where
  "identity_verify X public_key ctx message signature =
     (if length public_key \<noteq> 32 then False else is_ok (verify_with_context X (arr32 public_key) ctx message signature))"

section \<open>Recovery keys and the self test\<close>

definition recovery_key_generate :: "entropy \<Rightarrow> WasmRecoveryKey \<times> entropy" where
  "recovery_key_generate = symmetric_key_random"

definition recovery_key_to_display :: "'z wasm_lib_scheme \<Rightarrow> WasmRecoveryKey \<Rightarrow> string" where
  "recovery_key_to_display X key = to_display_string X key"

definition recovery_key_parse_display :: "'z wasm_lib_scheme \<Rightarrow> string \<Rightarrow> WasmRecoveryKey js_result" where
  "recovery_key_parse_display X s = js_err (from_display_string X s)"

definition self_test :: "'z wasm_lib_scheme \<Rightarrow> entropy \<Rightarrow> bytes js_result \<times> entropy" where
  "self_test X e =
     (let (kp, e1) = IdentityKemKeypair_generate X e;
          payload = as_bytes ''seren-secrets-crypto-wasm self test'';
          (blob, e2) = seal X (kem_public kp) payload e1
      in (and_then (js_err (unseal X (kem_private kp) blob)) (\<lambda>opened.
            if opened \<noteq> payload then Inl ''self-test round-trip mismatch'' else Inr opened), e2))"

section \<open>Account flows\<close>

record WasmAccountSetupBundle =
  wb_secrets :: AccountSecrets
  wb_recovery_key :: RecoveryKey

definition bundle_secrets_json :: "'z wasm_lib_scheme \<Rightarrow> WasmAccountSetupBundle \<Rightarrow> string js_result" where
  "bundle_secrets_json X b = secrets_to_string X (wb_secrets b)"

definition bundle_kem_public_key :: "WasmAccountSetupBundle \<Rightarrow> bytes" where
  "bundle_kem_public_key b = bytes32 (kem_public_key (wb_secrets b))"

definition bundle_signing_public_key :: "WasmAccountSetupBundle \<Rightarrow> bytes" where
  "bundle_signing_public_key b = bytes32 (signing_public_key (wb_secrets b))"

definition bundle_recovery_key_display :: "'z wasm_lib_scheme \<Rightarrow> WasmAccountSetupBundle \<Rightarrow> string" where
  "bundle_recovery_key_display X b = to_display_string X (wb_recovery_key b)"

definition setup_bundle :: "AccountSetupBundle js_result \<times> entropy \<Rightarrow> WasmAccountSetupBundle js_result \<times> entropy" where
  "setup_bundle out =
     (and_then (fst out) (\<lambda>b. Inr \<lparr> wb_secrets = secrets b, wb_recovery_key = recovery_key b \<rparr>), snd out)"

definition wasm_account_setup ::
  "'z wasm_lib_scheme \<Rightarrow> bytes \<Rightarrow> entropy \<Rightarrow> WasmAccountSetupBundle js_result \<times> entropy" where
  "wasm_account_setup X master_password e = setup_bundle (js_run (account_setup X master_password) e)"

definition wasm_account_setup_with_params ::
  "'z wasm_lib_scheme \<Rightarrow> bytes \<Rightarrow> WasmKdfParams \<Rightarrow> WasmKdfParams \<Rightarrow> entropy \<Rightarrow> WasmAccountSetupBundle js_result \<times> entropy" where
  "wasm_account_setup_with_params X master_password master_params recovery_params e =
     setup_bundle (js_run (account_setup_with_params X master_password master_params recovery_params) e)"

record WasmUnlockedAccount =
  wu_account_key :: AccountKey
  wu_kem_private :: IdentityKemPrivateKey
  wu_signing_private :: IdentitySigningPrivateKey

definition parse_secrets :: "'z wasm_lib_scheme \<Rightarrow> string \<Rightarrow> AccountSecrets js_result" where
  "parse_secrets X secrets_json = ok_or ''invalid account secrets JSON'' (secrets_from_str X secrets_json)"

definition wasm_unlock_account :: "'z wasm_lib_scheme \<Rightarrow> bytes \<Rightarrow> string \<Rightarrow> WasmUnlockedAccount js_result" where
  "wasm_unlock_account X master_password secrets_json =
     and_then (parse_secrets X secrets_json) (\<lambda>s.
     and_then (js_err (unlock_account X master_password s)) (\<lambda>u.
       Inr \<lparr> wu_account_key = account_key u, wu_kem_private = unlocked_kem_private u,
             wu_signing_private = unlocked_signing_private u \<rparr>))"

definition recover_account_key :: "'z wasm_lib_scheme \<Rightarrow> WasmRecoveryKey \<Rightarrow> string \<Rightarrow> WasmAccountKey js_result" where
  "recover_account_key X rk secrets_json =
     and_then (parse_secrets X secrets_json) (\<lambda>s. js_err (recover_with_recovery_key X rk s))"

definition account_signing_private_unwrap ::
  "'z wasm_lib_scheme \<Rightarrow> WasmAccountKey \<Rightarrow> bytes \<Rightarrow> WasmSigningPrivateKey js_result" where
  "account_signing_private_unwrap X ak wrap = js_err (unwrap_account_signing_private_key X ak wrap)"

record WasmRecoveryRewrap =
  wr_secrets_json :: string
  wr_new_recovery_key :: RecoveryKey

definition rewrap_recovery_key_display :: "'z wasm_lib_scheme \<Rightarrow> WasmRecoveryRewrap \<Rightarrow> string" where
  "rewrap_recovery_key_display X r = to_display_string X (wr_new_recovery_key r)"

definition rewrap_account_after_recovery ::
  "'z wasm_lib_scheme \<Rightarrow> WasmAccountKey \<Rightarrow> bytes \<Rightarrow> string \<Rightarrow> entropy \<Rightarrow> WasmRecoveryRewrap js_result \<times> entropy" where
  "rewrap_account_after_recovery X ak new_password secrets_json =
     js_then (parse_secrets X secrets_json) (\<lambda>s e.
       let (r, s', e') = rewrap_account_key_after_recovery X ak new_password s e
       in (and_then (js_err r) (\<lambda>rk.
           and_then (secrets_to_string X s') (\<lambda>updated.
             Inr \<lparr> wr_secrets_json = updated, wr_new_recovery_key = rk \<rparr>)), e'))"

definition sign_recovery_proof ::
  "'z wasm_lib_scheme \<Rightarrow> WasmSigningPrivateKey \<Rightarrow> bytes \<Rightarrow> bytes \<Rightarrow> bytes \<Rightarrow> bytes \<Rightarrow> bytes js_result" where
  "sign_recovery_proof X signing_private_key request_id_bytes user_id_bytes challenge_bytes new_kem_bytes =
     and_then (try_into_array 16 request_id_bytes ''recovery_request_id must be 16 bytes'') (\<lambda>rid.
     and_then (try_into_array 16 user_id_bytes ''user_id must be 16 bytes'') (\<lambda>uid.
     and_then (secret_array challenge_bytes ''challenge must be 32 bytes'') (\<lambda>ch.
     and_then (secret_array new_kem_bytes ''new_kem_public_key must be 32 bytes'') (\<lambda>pk.
       Inr (build_recovery_proof X signing_private_key
         \<lparr> recovery_request_id = uuid_from_bytes X rid, recovery_user_id = uuid_from_bytes X uid,
           challenge = ch, new_kem_public_key = pk \<rparr>)))))"

definition wasm_change_master_password ::
  "'z wasm_lib_scheme \<Rightarrow> WasmAccountKey \<Rightarrow> bytes \<Rightarrow> string \<Rightarrow> entropy \<Rightarrow> string js_result \<times> entropy" where
  "wasm_change_master_password X ak new_password secrets_json =
     js_then (parse_secrets X secrets_json) (\<lambda>s e.
       let (r, s', e') = change_master_password X ak new_password s e
       in (and_then (js_err r) (\<lambda>_. secrets_to_string X s'), e'))"

definition sign_secrets_update_proof ::
  "'z wasm_lib_scheme \<Rightarrow> WasmSigningPrivateKey \<Rightarrow> bytes \<Rightarrow> string \<Rightarrow> string \<Rightarrow> string \<Rightarrow> bytes \<Rightarrow> bytes \<Rightarrow> bytes
     \<Rightarrow> bytes \<Rightarrow> bytes js_result" where
  "sign_secrets_update_proof X signing_private_key user_id_bytes issued_at_rfc3339 kdf_params_json recovery_kdf_params_json
       akw kpw spw rkw =
     and_then (try_into_array 16 user_id_bytes ''user_id must be 16 bytes'') (\<lambda>uid.
     and_then (map_err (\<lambda>m. ''Invalid issued_at: '' @ m) (timestamp_from_str X issued_at_rfc3339)) (\<lambda>issued.
     and_then (ok_or ''invalid kdf params JSON'' (value_from_str X kdf_params_json)) (\<lambda>kdf_value.
     and_then (ok_or ''invalid recovery kdf params JSON'' (value_from_str X recovery_kdf_params_json)) (\<lambda>recovery_kdf_value.
     and_then (js_err (canonical_json_bytes X kdf_value)) (\<lambda>kdf_bytes.
     and_then (js_err (canonical_json_bytes X recovery_kdf_value)) (\<lambda>recovery_kdf_bytes.
       Inr (build_update_proof X signing_private_key
         \<lparr> update_user_id = uuid_from_bytes X uid, issued_at = issued,
           blob_digest = digest_account_secrets_blob X kdf_bytes recovery_kdf_bytes akw kpw spw rkw \<rparr>)))))))"

section \<open>Vaults\<close>

definition vault_key_generate :: "entropy \<Rightarrow> WasmVaultKey \<times> entropy" where
  "vault_key_generate = generate_vault_key"

definition vault_key_wrap_for_identity ::
  "'z wasm_lib_scheme \<Rightarrow> WasmVaultKey \<Rightarrow> bytes \<Rightarrow> entropy \<Rightarrow> bytes js_result \<times> entropy" where
  "vault_key_wrap_for_identity X vault_key recipient_public_key =
     js_then (secret_array recipient_public_key ''Recipient KEM public key must be 32 bytes'') (\<lambda>recipient.
       js_ok (wrap_vault_key_for_identity X vault_key recipient))"

definition vault_key_unwrap :: "'z wasm_lib_scheme \<Rightarrow> WasmKemPrivateKey \<Rightarrow> bytes \<Rightarrow> WasmVaultKey js_result" where
  "vault_key_unwrap X kem_private_key wrapped = js_err (unwrap_vault_key X kem_private_key wrapped)"

abbreviation check_id :: "bytes \<Rightarrow> string \<Rightarrow> bytes js_result" where
  "check_id bs what \<equiv> try_into_array 16 bs (what @ '' must be 16 bytes (UUID)'')"

definition vault_name_encrypt ::
  "'z wasm_lib_scheme \<Rightarrow> WasmVaultKey \<Rightarrow> bytes \<Rightarrow> string \<Rightarrow> entropy \<Rightarrow> bytes js_result \<times> entropy" where
  "vault_name_encrypt X vault_key vault_id name =
     js_then (check_id vault_id ''vault_id'') (\<lambda>v. js_ok (encrypt_vault_name X vault_key v name))"

definition vault_name_decrypt :: "'z wasm_lib_scheme \<Rightarrow> WasmVaultKey \<Rightarrow> bytes \<Rightarrow> bytes \<Rightarrow> string js_result" where
  "vault_name_decrypt X vault_key vault_id blob =
     and_then (check_id vault_id ''vault_id'') (\<lambda>v. js_err (decrypt_vault_name X vault_key v blob))"

definition vault_description_encrypt ::
  "'z wasm_lib_scheme \<Rightarrow> WasmVaultKey \<Rightarrow> bytes \<Rightarrow> string \<Rightarrow> entropy \<Rightarrow> bytes js_result \<times> entropy" where
  "vault_description_encrypt X vault_key vault_id description =
     js_then (check_id vault_id ''vault_id'') (\<lambda>v. js_ok (encrypt_vault_description X vault_key v description))"

definition vault_description_decrypt :: "'z wasm_lib_scheme \<Rightarrow> WasmVaultKey \<Rightarrow> bytes \<Rightarrow> bytes \<Rightarrow> string js_result" where
  "vault_description_decrypt X vault_key vault_id blob =
     and_then (check_id vault_id ''vault_id'') (\<lambda>v. js_err (decrypt_vault_description X vault_key v blob))"

definition vault_invitation_email_encrypt ::
  "'z wasm_lib_scheme \<Rightarrow> WasmVaultKey \<Rightarrow> bytes \<Rightarrow> bytes \<Rightarrow> string \<Rightarrow> entropy \<Rightarrow> bytes js_result \<times> entropy" where
  "vault_invitation_email_encrypt X vault_key vault_id invitation_id email =
     js_then (check_id vault_id ''vault_id'') (\<lambda>v.
     js_then (check_id invitation_id ''invitation_id'') (\<lambda>i. js_ok (encrypt_vault_invitation_email X vault_key v i email)))"

definition vault_invitation_email_decrypt ::
  "'z wasm_lib_scheme \<Rightarrow> WasmVaultKey \<Rightarrow> bytes \<Rightarrow> bytes \<Rightarrow> bytes \<Rightarrow> string js_result" where
  "vault_invitation_email_decrypt X vault_key vault_id invitation_id blob =
     and_then (check_id vault_id ''vault_id'') (\<lambda>v.
     and_then (check_id invitation_id ''invitation_id'') (\<lambda>i. js_err (decrypt_vault_invitation_email X vault_key v i blob)))"

definition live_share_recipient_email_encrypt ::
  "'z wasm_lib_scheme \<Rightarrow> WasmVaultKey \<Rightarrow> bytes \<Rightarrow> bytes \<Rightarrow> string \<Rightarrow> entropy \<Rightarrow> bytes js_result \<times> entropy" where
  "live_share_recipient_email_encrypt X vault_key vault_id share_id email =
     js_then (check_id vault_id ''vault_id'') (\<lambda>v.
     js_then (check_id share_id ''share_id'') (\<lambda>i. js_ok (encrypt_live_share_recipient_email X vault_key v i email)))"

definition live_share_recipient_email_decrypt ::
  "'z wasm_lib_scheme \<Rightarrow> WasmVaultKey \<Rightarrow> bytes \<Rightarrow> bytes \<Rightarrow> bytes \<Rightarrow> string js_result" where
  "live_share_recipient_email_decrypt X vault_key vault_id share_id blob =
     and_then (check_id vault_id ''vault_id'') (\<lambda>v.
     and_then (check_id share_id ''share_id'') (\<lambda>i. js_err (decrypt_live_share_recipient_email X vault_key v i blob)))"

section \<open>Agent, membership and delegation signatures\<close>

text \<open>\<open>serde_json::json!\<close> builds a map that is ordered by its keys.\<close>

definition wasm_canonical_create_agent_bytes ::
  "'z wasm_lib_scheme \<Rightarrow> string \<Rightarrow> byte32 \<Rightarrow> byte32 \<Rightarrow> json \<Rightarrow> i64 \<Rightarrow> string \<Rightarrow> bytes js_result" where
  "wasm_canonical_create_agent_bytes X display_name kem_pub signing_pub key_provenance issued nonce_text =
     value_to_vec X (JObject
       [(''display_name'', JString display_name),
        (''issued_at'', json_i64 issued),
        (''kem_public_key'', JString (base64_encode X (bytes32 kem_pub))),
        (''key_provenance'', key_provenance),
        (''kms_key_id'', JNull),
        (''nonce'', JString nonce_text),
        (''signing_public_key'', JString (base64_encode X (bytes32 signing_pub)))])"

definition create_agent_sign ::
  "'z wasm_lib_scheme \<Rightarrow> WasmSigningPrivateKey \<Rightarrow> string \<Rightarrow> bytes \<Rightarrow> bytes \<Rightarrow> string \<Rightarrow> i64 \<Rightarrow> string \<Rightarrow> bytes js_result" where
  "create_agent_sign X signing_private_key display_name kem_pub_bytes signing_pub_bytes key_provenance_json issued nonce_text =
     and_then (secret_array kem_pub_bytes ''kem_public_key must be 32 bytes'') (\<lambda>kem_pub.
     and_then (secret_array signing_pub_bytes ''signing_public_key must be 32 bytes'') (\<lambda>signing_pub.
     and_then (ok_or ''invalid key provenance JSON'' (value_from_str X key_provenance_json)) (\<lambda>key_provenance.
     and_then (wasm_canonical_create_agent_bytes X display_name kem_pub signing_pub key_provenance issued nonce_text) (\<lambda>canonical.
       Inr (sign X signing_private_key canonical)))))"

definition hosted_agent_sign ::
  "'z wasm_lib_scheme \<Rightarrow> WasmSigningPrivateKey \<Rightarrow> string \<Rightarrow> string \<Rightarrow> i64 \<Rightarrow> string \<Rightarrow> bytes js_result" where
  "hosted_agent_sign X signing_private_key display_name key_provenance_json issued nonce_text =
     and_then (ok_or ''invalid key provenance JSON'' (value_from_str X key_provenance_json)) (\<lambda>key_provenance.
     and_then (value_to_vec X (JObject
       [(''display_name'', JString display_name),
        (''issued_at'', json_i64 issued),
        (''key_provenance'', key_provenance),
        (''nonce'', JString nonce_text)])) (\<lambda>canonical.
       Inr (sign X signing_private_key canonical)))"

definition membership_grant_sign ::
  "'z wasm_lib_scheme \<Rightarrow> WasmSigningPrivateKey \<Rightarrow> bytes \<Rightarrow> bytes \<Rightarrow> u8 \<Rightarrow> bytes \<Rightarrow> bytes js_result" where
  "membership_grant_sign X signing_private_key vault_id identity_id level wrapped =
     and_then (check_id vault_id ''vault_id'') (\<lambda>v.
     and_then (check_id identity_id ''identity_id'') (\<lambda>i.
       Inr (sign_membership_grant X signing_private_key v i level wrapped)))"

definition agent_delegation_contribution_payload_wasm :: "'z wasm_lib_scheme \<Rightarrow> string \<Rightarrow> bytes js_result" where
  "agent_delegation_contribution_payload_wasm X contribution_json =
     (if length contribution_json > 2 * 1024 * 1024 then Inl ''delegation contribution JSON is too large''
      else and_then (ok_or ''invalid delegation contribution JSON'' (contribution_from_str X contribution_json)) (\<lambda>contribution.
        js_err (agent_delegation_contribution_payload (delegation_view X) contribution)))"

definition agent_delegation_contribution_sign_wasm ::
  "'z wasm_lib_scheme \<Rightarrow> WasmSigningPrivateKey \<Rightarrow> string \<Rightarrow> bytes js_result" where
  "agent_delegation_contribution_sign_wasm X signing_private_key contribution_json =
     (if length contribution_json > 2 * 1024 * 1024 then Inl ''delegation contribution JSON is too large''
      else and_then (ok_or ''invalid delegation contribution JSON'' (contribution_from_str X contribution_json)) (\<lambda>contribution.
        js_err (sign_agent_delegation_contribution (delegation_view X) signing_private_key contribution)))"

section \<open>Items\<close>

definition item_title_encrypt ::
  "'z wasm_lib_scheme \<Rightarrow> WasmVaultKey \<Rightarrow> bytes \<Rightarrow> string \<Rightarrow> entropy \<Rightarrow> bytes js_result \<times> entropy" where
  "item_title_encrypt X vault_key item_id title =
     js_then (check_id item_id ''item_id'') (\<lambda>i. js_ok (encrypt_title X vault_key i title))"

definition item_title_decrypt :: "'z wasm_lib_scheme \<Rightarrow> WasmVaultKey \<Rightarrow> bytes \<Rightarrow> bytes \<Rightarrow> string js_result" where
  "item_title_decrypt X vault_key item_id blob =
     and_then (check_id item_id ''item_id'') (\<lambda>i. js_err (decrypt_title X vault_key i blob))"

definition item_tags_encrypt ::
  "'z wasm_lib_scheme \<Rightarrow> WasmVaultKey \<Rightarrow> bytes \<Rightarrow> string \<Rightarrow> entropy \<Rightarrow> bytes js_result \<times> entropy" where
  "item_tags_encrypt X vault_key item_id tags_json =
     js_then (check_id item_id ''item_id'') (\<lambda>i.
     js_then (ok_or ''invalid tags JSON'' (tags_from_str X tags_json)) (\<lambda>tags.
       js_run (encrypt_tags X vault_key i tags)))"

definition item_tags_decrypt :: "'z wasm_lib_scheme \<Rightarrow> WasmVaultKey \<Rightarrow> bytes \<Rightarrow> bytes \<Rightarrow> string js_result" where
  "item_tags_decrypt X vault_key item_id blob =
     and_then (check_id item_id ''item_id'') (\<lambda>i.
     and_then (js_err (decrypt_tags X vault_key i blob)) (tags_to_string X))"

definition item_metadata_encrypt ::
  "'z wasm_lib_scheme \<Rightarrow> WasmVaultKey \<Rightarrow> bytes \<Rightarrow> string \<Rightarrow> entropy \<Rightarrow> bytes js_result \<times> entropy" where
  "item_metadata_encrypt X vault_key item_id metadata_json =
     js_then (check_id item_id ''item_id'') (\<lambda>i.
     js_then (ok_or ''invalid metadata JSON'' (value_from_str X metadata_json)) (\<lambda>_.
       js_ok (encrypt_metadata_json X vault_key i metadata_json)))"

definition item_metadata_decrypt :: "'z wasm_lib_scheme \<Rightarrow> WasmVaultKey \<Rightarrow> bytes \<Rightarrow> bytes \<Rightarrow> string js_result" where
  "item_metadata_decrypt X vault_key item_id blob =
     and_then (check_id item_id ''item_id'') (\<lambda>i. js_err (decrypt_metadata_json X vault_key i blob))"

definition item_content_key_generate :: "entropy \<Rightarrow> WasmItemContentKey \<times> entropy" where
  "item_content_key_generate = generate_item_content_key"

definition item_content_key_wrap ::
  "'z wasm_lib_scheme \<Rightarrow> WasmVaultKey \<Rightarrow> bytes \<Rightarrow> WasmItemContentKey \<Rightarrow> entropy \<Rightarrow> bytes js_result \<times> entropy" where
  "item_content_key_wrap X vault_key item_id content_key =
     js_then (check_id item_id ''item_id'') (\<lambda>i. js_ok (wrap_item_content_key X vault_key i content_key))"

definition item_content_key_unwrap ::
  "'z wasm_lib_scheme \<Rightarrow> WasmVaultKey \<Rightarrow> bytes \<Rightarrow> bytes \<Rightarrow> WasmItemContentKey js_result" where
  "item_content_key_unwrap X vault_key item_id blob =
     and_then (check_id item_id ''item_id'') (\<lambda>i. js_err (unwrap_item_content_key X vault_key i blob))"

definition item_content_key_wrap_for_identity ::
  "'z wasm_lib_scheme \<Rightarrow> WasmItemContentKey \<Rightarrow> bytes \<Rightarrow> entropy \<Rightarrow> bytes js_result \<times> entropy" where
  "item_content_key_wrap_for_identity X content_key recipient_public_key =
     js_then (secret_array recipient_public_key ''Recipient KEM public key must be 32 bytes'') (\<lambda>recipient.
       js_ok (seal X recipient (bytes32 content_key)))"

definition item_content_key_unwrap_for_identity ::
  "'z wasm_lib_scheme \<Rightarrow> WasmKemPrivateKey \<Rightarrow> bytes \<Rightarrow> WasmItemContentKey js_result" where
  "item_content_key_unwrap_for_identity X kem_private_key wrapped =
     and_then (js_err (unseal X kem_private_key wrapped)) (\<lambda>bs. secret_array bs ''Content key must be 32 bytes'')"

definition item_body_encrypt_with_content_key ::
  "'z wasm_lib_scheme \<Rightarrow> WasmItemContentKey \<Rightarrow> bytes \<Rightarrow> string \<Rightarrow> entropy \<Rightarrow> bytes js_result \<times> entropy" where
  "item_body_encrypt_with_content_key X content_key item_id content_json =
     js_then (check_id item_id ''item_id'') (\<lambda>i.
     js_then (ok_or ''invalid item content JSON'' (content_from_str X content_json)) (\<lambda>content.
       js_run (encrypt_item_with_content_key X content_key i content)))"

definition item_body_decrypt_with_content_key ::
  "'z wasm_lib_scheme \<Rightarrow> WasmItemContentKey \<Rightarrow> bytes \<Rightarrow> bytes \<Rightarrow> string js_result" where
  "item_body_decrypt_with_content_key X content_key item_id blob =
     and_then (check_id item_id ''item_id'') (\<lambda>i.
     and_then (js_err (decrypt_item_with_content_key X content_key i blob)) (content_to_string X))"

section \<open>The checks\<close>

lemma try_into_array_iff [simp]: "try_into_array n bs m = Inr raw \<longleftrightarrow> length bs = n \<and> raw = bs"
  by (auto simp: try_into_array_def)

lemma try_into_array_ok: "length bs = n \<Longrightarrow> try_into_array n bs m = Inr bs"
  by simp

lemma secret_array_iff [simp]: "secret_array bs m = Inr k \<longleftrightarrow> bs = bytes32 k"
  by (auto simp: secret_array_def and_then_eq_Inr bytes32_inverse)

lemma secret_array_bytes32: "secret_array (bytes32 k) m = Inr k"
  by simp

lemma js_err_simps [simp]: "js_err (Inr x) = Inr x" "js_err (Inl e) = Inl (CryptoError_display e)"
  by (simp_all add: js_err_def)

lemma js_err_eq_Inr [simp]: "js_err r = Inr x \<longleftrightarrow> r = Inr x"
  by (cases r) simp_all

lemma js_then_simps [simp]: "js_then (Inr x) f = f x" "js_then (Inl m) f e = (Inl m, e)"
  by (simp_all add: js_then_def fun_eq_iff)

lemma js_then_eq_Inr: "js_then r f e = (Inr y, e') \<longleftrightarrow> (\<exists>x. r = Inr x \<and> f x e = (Inr y, e'))"
  by (cases r) simp_all

lemma js_ok_eq_Inr: "js_ok f e = (Inr y, e') \<longleftrightarrow> f e = (y, e')"
  by (simp add: js_ok_def split: prod.splits)

lemma js_run_eq_Inr: "js_run f e = (Inr y, e') \<longleftrightarrow> f e = (Inr y, e')"
  by (simp add: js_run_def split: prod.splits)

lemmas js_eq_Inr = js_then_eq_Inr js_ok_eq_Inr js_run_eq_Inr and_then_eq_Inr ok_or_eq_Inr

section \<open>Bound fields\<close>

text \<open>
  The contract of a pair of bindings on one storage slot: an identifier of the right length gives the
  crate's operation, another one an error before anything is drawn or read.
\<close>

locale bound_slot = sealed_slot +
  fixes ids_ok :: "'a \<Rightarrow> bool"
    and bind_seal :: "'c crypto_lib_scheme \<Rightarrow> byte32 \<Rightarrow> 'a \<Rightarrow> 'b \<Rightarrow> entropy \<Rightarrow> bytes js_result \<times> entropy"
    and bind_open :: "'c crypto_lib_scheme \<Rightarrow> byte32 \<Rightarrow> 'a \<Rightarrow> bytes \<Rightarrow> 'b js_result"
  assumes bind_seal_ok: "ids_ok c \<Longrightarrow> bind_seal X k c v e = js_ok (slot_seal X k c v) e"
    and bind_seal_refused: "\<not> ids_ok c \<Longrightarrow> \<exists>m. bind_seal X k c v e = (Inl m, e)"
    and bind_open_ok: "ids_ok c \<Longrightarrow> bind_open X k c b = js_err (slot_open X k c b)"
    and bind_open_refused: "\<not> ids_ok c \<Longrightarrow> \<exists>m. bind_open X k c b = Inl m"
begin

lemma bind_seal_iff: "bind_seal X k c v e = (Inr b, e') \<longleftrightarrow> ids_ok c \<and> slot_seal X k c v e = (b, e')"
  using bind_seal_ok bind_seal_refused [of c X k v e] by (cases "ids_ok c") (auto simp: js_ok_eq_Inr)

lemma bind_open_iff: "bind_open X k c b = Inr v \<longleftrightarrow> ids_ok c \<and> slot_open X k c b = Inr v"
  using bind_open_ok bind_open_refused [of c X k b] by (cases "ids_ok c") auto

lemma bind_round_trip:
  "aead_laws X \<Longrightarrow> storable v \<Longrightarrow> bind_seal X k c v e = (Inr b, e') \<Longrightarrow> bind_open X k c b = Inr v"
  using open_seal [of X v k c e] by (auto simp: bind_seal_iff bind_open_iff)

lemma bind_misplaced:
  assumes "aead_laws X" and "bind_open X k c b = Inr v" and "bind_open X k c' b = Inr v'"
    and "slot_ok c" and "slot_ok c'" and "c \<noteq> c'"
  shows "aead_collision X b (k, slot_aad c, payload v) (k, slot_aad c', payload v')"
  using assms by (auto simp: bind_open_iff intro: misplaced_blob)

end

interpretation bound_name: bound_slot vault_name_aad "\<lambda>_. True" as_bytes str_ok parse_text
  encrypt_vault_name decrypt_vault_name "\<lambda>c. length c = 16" vault_name_encrypt vault_name_decrypt
  by unfold_locales (auto simp: vault_name_encrypt_def vault_name_decrypt_def try_into_array_def)

interpretation bound_description: bound_slot vault_description_aad "\<lambda>_. True" as_bytes str_ok parse_text
  encrypt_vault_description decrypt_vault_description "\<lambda>c. length c = 16"
  vault_description_encrypt vault_description_decrypt
  by unfold_locales (auto simp: vault_description_encrypt_def vault_description_decrypt_def try_into_array_def)

interpretation bound_invitation: bound_slot
  "\<lambda>c. vault_invitation_email_aad (fst c) (snd c)" ids16 as_bytes str_ok parse_text
  "\<lambda>X k c. encrypt_vault_invitation_email X k (fst c) (snd c)"
  "\<lambda>X k c. decrypt_vault_invitation_email X k (fst c) (snd c)" ids16
  "\<lambda>X k c. vault_invitation_email_encrypt X k (fst c) (snd c)"
  "\<lambda>X k c. vault_invitation_email_decrypt X k (fst c) (snd c)"
  by unfold_locales
    (auto simp: vault_invitation_email_encrypt_def vault_invitation_email_decrypt_def try_into_array_def ids16_def)

interpretation bound_share: bound_slot
  "\<lambda>c. live_share_recipient_email_aad (fst c) (snd c)" ids16 as_bytes str_ok parse_text
  "\<lambda>X k c. encrypt_live_share_recipient_email X k (fst c) (snd c)"
  "\<lambda>X k c. decrypt_live_share_recipient_email X k (fst c) (snd c)" ids16
  "\<lambda>X k c. live_share_recipient_email_encrypt X k (fst c) (snd c)"
  "\<lambda>X k c. live_share_recipient_email_decrypt X k (fst c) (snd c)"
  by unfold_locales
    (auto simp: live_share_recipient_email_encrypt_def live_share_recipient_email_decrypt_def try_into_array_def ids16_def)

interpretation bound_title: bound_slot title_aad "\<lambda>_. True" as_bytes str_ok parse_text
  encrypt_title decrypt_title "\<lambda>c. length c = 16" item_title_encrypt item_title_decrypt
  by unfold_locales (auto simp: item_title_encrypt_def item_title_decrypt_def try_into_array_def)

interpretation bound_content_key: bound_slot content_key_wrap_aad "\<lambda>_. True" bytes32 "\<lambda>_. True"
  "parse_key InvalidCiphertext" wrap_item_content_key unwrap_item_content_key "\<lambda>c. length c = 16"
  item_content_key_wrap item_content_key_unwrap
  by unfold_locales (auto simp: item_content_key_wrap_def item_content_key_unwrap_def try_into_array_def)

section \<open>An account in the browser\<close>

lemma setup_bundle_ok: "setup_bundle (js_run f e) = (Inr b, e') \<longleftrightarrow>
    (\<exists>c. f e = (Inr c, e') \<and> b = \<lparr> wb_secrets = secrets c, wb_recovery_key = recovery_key c \<rparr>)"
  by (auto simp: setup_bundle_def js_run_def and_then_eq_Inr split: prod.splits)

lemma wasm_unlock_iff:
  "wasm_unlock_account X pw t = Inr u \<longleftrightarrow>
     (\<exists>s a. secrets_from_str X t = Some s \<and> unlock_account X pw s = Inr a
        \<and> u = \<lparr> wu_account_key = account_key a, wu_kem_private = unlocked_kem_private a,
                wu_signing_private = unlocked_signing_private a \<rparr>)"
  by (auto simp: wasm_unlock_account_def parse_secrets_def js_eq_Inr)

text \<open>What an unlocked account can do with material made for the public keys of its secrets.\<close>

definition keys_work :: "'z wasm_lib_scheme \<Rightarrow> bytes \<Rightarrow> bytes \<Rightarrow> WasmUnlockedAccount \<Rightarrow> bool" where
  "keys_work X kem_pub signing_pub u \<longleftrightarrow>
     (\<forall>vk e. \<exists>w e'. vault_key_wrap_for_identity X vk kem_pub e = (Inr w, e') \<and> vault_key_unwrap X (wu_kem_private u) w = Inr vk)
   \<and> (\<forall>ck e. \<exists>w e'. item_content_key_wrap_for_identity X ck kem_pub e = (Inr w, e')
          \<and> item_content_key_unwrap_for_identity X (wu_kem_private u) w = Inr ck)
   \<and> (\<forall>m e. \<exists>w e'. kem_seal X kem_pub m e = (Inr w, e') \<and> kem_unseal_with_identity_key X (wu_kem_private u) w = Inr m)
   \<and> (\<forall>ctx m sig. identity_sign X (wu_signing_private u) ctx m = Inr sig \<longrightarrow> identity_verify X signing_pub ctx m sig)"

lemma sealed_box_binding:
  assumes "kem_laws X"
  shows "\<exists>w e'. js_then (secret_array (bytes32 (x25519_public X s)) msg) (\<lambda>pk. js_ok (seal X pk m)) e = (Inr w, e')
    \<and> unseal X s w = Inr m"
  using unseal_seal [OF assms, of s m e]
  by (cases "seal X (x25519_public X s) m e") (auto simp: secret_array_bytes32 js_ok_def)

lemma vault_key_wrap_conv:
  "vault_key_wrap_for_identity X vk pk =
     js_then (secret_array pk ''Recipient KEM public key must be 32 bytes'') (\<lambda>r. js_ok (seal X r (bytes32 vk)))"
  by (simp add: vault_key_wrap_for_identity_def wrap_vault_key_for_identity_def [abs_def])

lemma keys_work_unlocked:
  assumes "kem_laws X" and "ed25519_laws X"
  shows "keys_work X (bytes32 (x25519_public X (wu_kem_private u))) (bytes32 (ed25519_public X (wu_signing_private u))) u"
  unfolding keys_work_def
proof (intro conjI allI impI)
  fix vk e
  show "\<exists>w e'. vault_key_wrap_for_identity X vk (bytes32 (x25519_public X (wu_kem_private u))) e = (Inr w, e')
      \<and> vault_key_unwrap X (wu_kem_private u) w = Inr vk"
    using sealed_box_binding [OF assms(1)] unfolding vault_key_wrap_conv
    by (fastforce simp: vault_key_unwrap_def unwrap_vault_key_def bytes32_inverse)
next
  fix ck e
  show "\<exists>w e'. item_content_key_wrap_for_identity X ck (bytes32 (x25519_public X (wu_kem_private u))) e = (Inr w, e')
      \<and> item_content_key_unwrap_for_identity X (wu_kem_private u) w = Inr ck"
    using sealed_box_binding [OF assms(1)]
    by (fastforce simp: item_content_key_wrap_for_identity_def item_content_key_unwrap_for_identity_def secret_array_bytes32)
next
  fix m e
  show "\<exists>w e'. kem_seal X (bytes32 (x25519_public X (wu_kem_private u))) m e = (Inr w, e')
      \<and> kem_unseal_with_identity_key X (wu_kem_private u) w = Inr m"
    using sealed_box_binding [OF assms(1)] by (simp add: kem_seal_def kem_unseal_with_identity_key_def)
next
  fix ctx m sig assume "identity_sign X (wu_signing_private u) ctx m = Inr sig"
  then show "identity_verify X (bytes32 (ed25519_public X (wu_signing_private u))) ctx m sig"
    using context_payload.check_build [OF assms(2), of _ "(ctx, m)"]
    by (simp add: identity_sign_def identity_verify_def bytes32_inverse)
qed

lemma secrets_text: "wasm_text_laws X \<Longrightarrow> secrets_to_string X s = Inr t \<Longrightarrow> secrets_from_str X t = Some s"
  by (simp add: wasm_text_laws_def)

lemma opened_in_browser:
  assumes "aead_laws X" "kem_laws X" "ed25519_laws X" and "secrets_from_str X t = Some s"
    and "account_opens X s pw rk a"
  shows "\<exists>u. wasm_unlock_account X pw t = Inr u \<and> recover_account_key X rk t = Inr (wu_account_key u)
    \<and> wu_account_key u = account_key a \<and> wu_kem_private u = unlocked_kem_private a
    \<and> wu_signing_private u = unlocked_signing_private a
    \<and> keys_work X (bytes32 (kem_public_key s)) (bytes32 (signing_public_key s)) u"
proof -
  have pub: "kem_public_key s = x25519_public X (unlocked_kem_private a)"
      "signing_public_key s = ed25519_public X (unlocked_signing_private a)"
    using assms(5) by (simp_all add: account_opens_def unlock_iff [OF assms(1)])
  from assms(5) have "unlock_account X pw s = Inr a" "recover_with_recovery_key X rk s = Inr (account_key a)"
    by (simp_all add: account_opens_def)
  then show ?thesis
    using assms(4) keys_work_unlocked [OF assms(2,3), of "\<lparr> wu_account_key = account_key a,
        wu_kem_private = unlocked_kem_private a, wu_signing_private = unlocked_signing_private a \<rparr>"]
    by (simp add: wasm_unlock_iff recover_account_key_def parse_secrets_def pub)
qed

section \<open>The self test and proofs of possession\<close>

lemma self_test_passes:
  assumes "kem_laws X"
  shows "fst (self_test X e) = Inr (as_bytes ''seren-secrets-crypto-wasm self test'')"
  using unseal_seal [OF assms]
  by (simp add: self_test_def generate_from_private IdentityKemKeypair_from_private_def split_beta Let_def)

lemma recovery_proof_verifies:
  assumes "ed25519_laws X" and "sign_recovery_proof X k rid uid ch pk = Inr sig"
  shows "length rid = 16 \<and> length uid = 16 \<and> length ch = 32 \<and> length pk = 32
    \<and> verify_recovery_proof X (ed25519_public X k)
        \<lparr> recovery_request_id = uuid_from_bytes X rid, recovery_user_id = uuid_from_bytes X uid,
          challenge = arr32 ch, new_kem_public_key = arr32 pk \<rparr> sig = Inr ()"
  using assms(2) recovery_payload.check_build [OF assms(1)]
  by (auto simp: sign_recovery_proof_def and_then_eq_Inr bytes32_inverse)

lemma metadata_round_trip:
  assumes "aead_laws X" and "str_ok t" and "item_metadata_encrypt X vk i t e = (Inr b, e')"
  shows "item_metadata_decrypt X vk i b = Inr t"
  using assms(3) metadata_slot.open_seal [OF assms(1,2), of vk i e]
  by (auto simp: item_metadata_encrypt_def item_metadata_decrypt_def js_eq_Inr try_into_array_ok)

section \<open>The browser and the other programs\<close>

text \<open>Two programs of the repository are built from the same crates.\<close>

definition same_crates :: "'z item_lib_scheme \<Rightarrow> 'y item_lib_scheme \<Rightarrow> bool" where
  "same_crates X Y \<longleftrightarrow> item_lib.truncate X = item_lib.truncate Y"

lemma same_crates_fields:
  assumes "same_crates X Y"
  shows "xchacha_encrypt_detached X = xchacha_encrypt_detached Y" "x25519_public X = x25519_public Y"
    "box_public X = box_public Y" "box_encrypt X = box_encrypt Y" "blake2b_24 X = blake2b_24 Y"
    "ed25519_sign X = ed25519_sign Y" "base64_encode X = base64_encode Y" "uuid_as_bytes X = uuid_as_bytes Y"
    "content_to_json X = content_to_json Y"
  using assms by (simp_all add: same_crates_def item_lib.defs)

lemma same_crates_laws:
  assumes "same_crates X Y"
  shows "aead_laws X \<longleftrightarrow> aead_laws Y" "kem_laws X \<longleftrightarrow> kem_laws Y" "ed25519_laws X \<longleftrightarrow> ed25519_laws Y"
    "argon2_laws X \<longleftrightarrow> argon2_laws Y" "base32_laws X \<longleftrightarrow> base32_laws Y"
  using assms
  by (simp_all add: same_crates_def item_lib.defs aead_laws_def kem_laws_def ed25519_laws_def argon2_laws_def base32_laws_def)

lemma same_crates_operations:
  assumes "same_crates X Y"
  shows "xchacha20_encrypt_with_aad X = xchacha20_encrypt_with_aad Y"
    and "wrap_vault_key_for_identity X = wrap_vault_key_for_identity Y"
    and "wrap_item_content_key X = wrap_item_content_key Y"
    and "encrypt_item_with_content_key X = encrypt_item_with_content_key Y"
    and "sign X = sign Y"
proof -
  show enc: "xchacha20_encrypt_with_aad X = xchacha20_encrypt_with_aad Y"
    by (simp add: fun_eq_iff xchacha20_encrypt_with_aad_def same_crates_fields [OF assms])
  show "wrap_vault_key_for_identity X = wrap_vault_key_for_identity Y"
    by (simp add: fun_eq_iff wrap_vault_key_for_identity_def seal_def sealed_box_nonce_def same_crates_fields [OF assms])
  show "wrap_item_content_key X = wrap_item_content_key Y"
    by (simp add: fun_eq_iff wrap_item_content_key_def enc)
  show "encrypt_item_with_content_key X = encrypt_item_with_content_key Y"
    by (simp add: fun_eq_iff encrypt_item_with_content_key_def enc same_crates_fields [OF assms] split: option.splits)
  show "sign X = sign Y"
    by (simp add: fun_eq_iff sign_def same_crates_fields [OF assms])
qed

lemma create_agent_bytes_agree:
  assumes "same_crates X A" and "\<And>v. value_to_vec X v = Inr (json_to_vec A v)"
  shows "wasm_canonical_create_agent_bytes X name kem spk p issued n =
    Inr (canonical_create_agent_bytes A name kem spk p None issued n)"
  by (simp add: wasm_canonical_create_agent_bytes_def canonical_create_agent_bytes_def create_agent_value_def
      json_option_string_def assms(2) same_crates_fields [OF assms(1)])

lemma delegation_view_sign [simp]: "sign (delegation_view X) = sign X"
  by (simp add: fun_eq_iff sign_def delegation_view_def crypto_lib.defs)

lemma check_kdf_derive_bounds_iff:
  "check_kdf_derive_bounds m t l out n = Inr () \<longleftrightarrow>
     1 \<le> unat l \<and> unat l \<le> 64 \<and> 1 \<le> unat t \<and> unat t \<le> 32
   \<and> 8 * unat l \<le> unat m \<and> unat m \<le> 1024 * 1024 \<and> 16 \<le> unat out \<and> unat out \<le> 64 \<and> n \<le> 1024"
proof (cases "l = 0 \<or> KDF_MAX_PARALLELISM < l")
  case True
  then show ?thesis
    by (auto simp: check_kdf_derive_bounds_def KDF_MAX_PARALLELISM_def word_less_nat_alt)
next
  case False
  then have l: "1 \<le> unat l" "unat l \<le> 64"
    by (auto simp: KDF_MAX_PARALLELISM_def word_less_nat_alt not_less unat_gt_0 Suc_le_eq)
  then have lanes: "unat (KDF_MIN_MEMORY_KIB_PER_LANE * l) = 8 * unat l"
    by (simp add: KDF_MIN_MEMORY_KIB_PER_LANE_def unat_word_ariths)
  have "t \<noteq> 0 \<longleftrightarrow> 1 \<le> unat t" by (simp add: unat_gt_0 Suc_le_eq)
  then show ?thesis
    using False l
    by (auto simp: check_kdf_derive_bounds_def Let_def word_less_nat_alt word_le_nat_alt not_less lanes KDF_MAX_MEMORY_KIB_def
        KDF_MAX_TIME_COST_def KDF_MIN_OUTPUT_LEN_def KDF_MAX_OUTPUT_LEN_def KDF_MAX_SALT_LEN_def)
qed

section \<open>Properties\<close>

text \<open>C7. An account in the browser: setup with validated profiles succeeds; the JSON text it
  exports, stored and handed back, unlocks with the password, and the printed recovery key, typed
  in again, recovers the same account key; vault keys, content keys and boxes sealed for the exported
  public key open with the unlocked handle and signatures of the unlocked handle verify.  After a
  recovery with a new password the rewrapped JSON does the same with the new password and the new
  printed recovery key, for the same identity.\<close>

theorem browser_account_session:
  assumes "aead_laws X" "kem_laws X" "ed25519_laws X" "argon2_laws X" "base32_laws X" "wasm_text_laws X"
    and "validate_stored_params p = Inr ()" "validate_stored_params rp = Inr ()"
    and "length pw < 2 ^ 32" "length pw' < 2 ^ 32"
    and "stake 16 e' \<noteq> replicate 16 0" "stake 16 (sdrop 40 e') \<noteq> replicate 16 0"
  shows "\<exists>b e1. wasm_account_setup_with_params X pw p rp e = (Inr b, e1)
    \<and> (\<forall>t. bundle_secrets_json X b = Inr t \<longrightarrow>
        (\<exists>u rk s' rk' e2. wasm_unlock_account X pw t = Inr u
          \<and> recovery_key_parse_display X (bundle_recovery_key_display X b) = Inr rk
          \<and> recover_account_key X rk t = Inr (wu_account_key u)
          \<and> keys_work X (bundle_kem_public_key b) (bundle_signing_public_key b) u
          \<and> rewrap_account_after_recovery X (wu_account_key u) pw' t e' =
              (and_then (secrets_to_string X s') (\<lambda>t'. Inr \<lparr> wr_secrets_json = t', wr_new_recovery_key = rk' \<rparr>), e2)
          \<and> (\<forall>t'. secrets_to_string X s' = Inr t' \<longrightarrow>
               wasm_unlock_account X pw' t' = Inr u
               \<and> recovery_key_parse_display X (to_display_string X rk') = Inr rk'
               \<and> recover_account_key X rk' t' = Inr (wu_account_key u))))"
    (is "\<exists>b e1. ?made b e1 \<and> (\<forall>t. bundle_secrets_json X b = Inr t \<longrightarrow> ?session b t)")
proof -
  obtain c e1 a where made: "account_setup_with_params X pw p rp e = (Inr c, e1)"
      and opn: "account_opens X (secrets c) pw (recovery_key c) a"
    using setup_opens [OF assms(1,4) _ _ assms(9), of p rp e] assms(7,8) by (auto simp: validate_iff_approved)
  define b where "b = \<lparr> wb_secrets = secrets c, wb_recovery_key = recovery_key c \<rparr>"
  have parse: "recovery_key_parse_display X (to_display_string X k) = Inr k" for k
    by (simp add: recovery_key_parse_display_def displayed_key_parses [OF assms(5)])
  from rewrap_opens [OF assms(1,4) opn assms(10-12)] obtain rk' s' e2 where
    rewrap: "rewrap_account_key_after_recovery X (account_key a) pw' (secrets c) e' = (Inr rk', s', e2)"
      and opn': "account_opens X s' pw' rk' a" by blast
  have "?session b t" if t: "bundle_secrets_json X b = Inr t" for t
  proof -
    have s: "secrets_from_str X t = Some (secrets c)"
      using t secrets_text [OF assms(6)] by (simp add: bundle_secrets_json_def b_def)
    from opened_in_browser [OF assms(1-3) s opn] obtain u where
      u: "wasm_unlock_account X pw t = Inr u" "recover_account_key X (recovery_key c) t = Inr (wu_account_key u)"
        "wu_account_key u = account_key a" "wu_kem_private u = unlocked_kem_private a"
        "wu_signing_private u = unlocked_signing_private a"
        "keys_work X (bytes32 (kem_public_key (secrets c))) (bytes32 (signing_public_key (secrets c))) u" by blast
    have again: "wasm_unlock_account X pw' t' = Inr u \<and> recover_account_key X rk' t' = Inr (wu_account_key u)"
      if "secrets_to_string X s' = Inr t'" for t'
      using opened_in_browser [OF assms(1-3) secrets_text [OF assms(6) that] opn'] u(3-5)
      by (metis WasmUnlockedAccount.equality old.unit.exhaust)
    have "rewrap_account_after_recovery X (wu_account_key u) pw' t e' =
        (and_then (secrets_to_string X s') (\<lambda>t'. Inr \<lparr> wr_secrets_json = t', wr_new_recovery_key = rk' \<rparr>), e2)"
      by (simp add: rewrap_account_after_recovery_def parse_secrets_def s u(3) rewrap)
    with u again parse show ?thesis
      by (force simp: bundle_recovery_key_display_def bundle_kem_public_key_def bundle_signing_public_key_def b_def)
  qed
  then show ?thesis
    using made by (auto simp: wasm_account_setup_with_params_def setup_bundle_ok b_def)
qed

text \<open>C8. From the browser to an agent: the vault key wrapped in the browser for the agent's public
  key, the content key wrapped and the item's JSON encrypted there are what the resolver of the
  other crate needs: if the service hands them over, \<open>resolve\<close> returns the requested field of
  the content that JSON text describes.\<close>

theorem browser_secret_reaches_agent:
  assumes "same_crates X Y" and "aead_laws Y" "kem_laws Y" "base64_laws Y" "item_json_laws Y"
    and "str_ok ref" and "parse_seren_secrets_uri Y ref = Inr (v, i, f)"
    and "kem_public (resolver_kem_keypair self) = x25519_public Y (kem_private (resolver_kem_keypair self))"
    and "\<And>request. resolve_request Y self ref now u = Inr request \<Longrightarrow>
        http_send Y (resolver_http self) request = Inr \<lparr> resp_status = 200, resp_chunks = map Inr chunks \<rparr>"
    and "length (concat chunks) \<le> MAX_RESOLVE_BODY"
    and "resolve_envelope_from_json Y (concat chunks) = Some
        \<lparr> response_vault_id = v, response_item_id = i, response_field_name = f,
          content_ciphertext = base64_encode Y ct, content_key_wrap = base64_encode Y ckw,
          response_wrapped_vault_key = base64_encode Y wrap \<rparr>"
    and "vault_key_wrap_for_identity X vk (bytes32 (kem_public (resolver_kem_keypair self))) e1 = (Inr wrap, e2)"
    and "item_content_key_wrap X vk (uuid_as_bytes Y i) ck e3 = (Inr ckw, e4)"
    and "item_body_encrypt_with_content_key X ck (uuid_as_bytes Y i) content_json e5 = (Inr ct, e6)"
    and "content_from_str X content_json = Some content"
    and "extract_field (extract_plain_text Y) content f = Inr s"
  shows "resolve Y self ref ctx now u = Inr \<lparr> secret_plaintext = s, field_name = f, secret_source = SerenSecrets \<rparr>"
proof -
  note ops = same_crates_operations [OF assms(1)]
  have a: "wrap_vault_key_for_identity Y vk (kem_public (resolver_kem_keypair self)) e1 = (wrap, e2)"
    using assms(12) by (simp add: vault_key_wrap_for_identity_def secret_array_bytes32 js_eq_Inr ops)
  have b: "wrap_item_content_key Y vk (uuid_as_bytes Y i) ck e3 = (ckw, e4)"
    using assms(13) by (auto simp: item_content_key_wrap_def js_eq_Inr ops)
  have c: "encrypt_item_with_content_key Y ck (uuid_as_bytes Y i) content e5 = (Inr ct, e6)"
    using assms(14,15) by (auto simp: item_body_encrypt_with_content_key_def js_eq_Inr ops)
  show ?thesis
    using assms(2-11) a b c assms(16) by (rule honest_service_resolves)
qed

text \<open>C24. The browser signs what the other programs sign and the service verifies: for any
  arguments a create-agent signature of the browser is the resolver's signature over the same
  fields without a KMS key, a grant signature is the resolver's for the same identifiers, a
  hosted-agent signature never covers the text of a create-agent request, and a delegation signature
  covers exactly the payload the browser shows, for texts of at most 2 MiB.\<close>

theorem browser_signatures_agree:
  assumes "same_crates X A" and "\<And>v. value_to_vec X v = Inr (json_to_vec A v)"
    and "json_text_laws A" and "uuid_laws A" and "value_from_str X provenance = Some p" and "json_ok p"
  shows "create_agent_sign X k name (bytes32 kem) (bytes32 spk) provenance issued n =
      Inr (sign A k (canonical_create_agent_bytes A name kem spk p None issued n))
    \<and> membership_grant_sign X k (uuid_as_bytes A v) (uuid_as_bytes A g) level w =
      Inr (sign_membership_grant A k (uuid_as_bytes A v) (uuid_as_bytes A g) level w)
    \<and> (\<exists>m. hosted_agent_sign X k name provenance issued n = Inr (sign A k m)
         \<and> (\<forall>name' kem' spk' p' kms' issued' n'. json_ok p' \<longrightarrow>
              m \<noteq> canonical_create_agent_bytes A name' kem' spk' p' kms' issued' n'))
    \<and> agent_delegation_contribution_sign_wasm X k t =
        and_then (agent_delegation_contribution_payload_wasm X t) (\<lambda>m. Inr (sign A k m))
    \<and> (\<forall>m. agent_delegation_contribution_payload_wasm X t = Inr m \<longrightarrow> length t \<le> 2097152)"
proof (intro conjI)
  note ops = same_crates_operations [OF assms(1)]
  show "create_agent_sign X k name (bytes32 kem) (bytes32 spk) provenance issued n =
      Inr (sign A k (canonical_create_agent_bytes A name kem spk p None issued n))"
    by (simp add: create_agent_sign_def secret_array_bytes32 assms(5) create_agent_bytes_agree [OF assms(1,2)] ops)
  show "membership_grant_sign X k (uuid_as_bytes A v) (uuid_as_bytes A g) level w =
      Inr (sign_membership_grant A k (uuid_as_bytes A v) (uuid_as_bytes A g) level w)"
    by (simp add: membership_grant_sign_def try_into_array_ok uuid_bytes_length [OF assms(4)] sign_membership_grant_def ops)
  let ?h = "JObject [(''display_name'', JString name), (''issued_at'', json_i64 issued), (''key_provenance'', p),
      (''nonce'', JString n)]"
  have ok: "json_ok ?h" using assms(6) by (simp add: json_i64_def)
  have "json_to_vec A ?h \<noteq> canonical_create_agent_bytes A name' kem' spk' p' kms' issued' n'" if "json_ok p'"
    for name' kem' spk' p' kms' issued' n'
  proof
    assume "json_to_vec A ?h = canonical_create_agent_bytes A name' kem' spk' p' kms' issued' n'"
    with assms(3) ok that have "?h = create_agent_value A name' kem' spk' p' kms' issued' n'"
      unfolding json_text_laws_def canonical_create_agent_bytes_def by (metis create_agent_value_ok)
    then show False by (simp add: create_agent_value_def)
  qed
  then show "\<exists>m. hosted_agent_sign X k name provenance issued n = Inr (sign A k m)
      \<and> (\<forall>name' kem' spk' p' kms' issued' n'. json_ok p' \<longrightarrow>
           m \<noteq> canonical_create_agent_bytes A name' kem' spk' p' kms' issued' n')"
    by (intro exI [of _ "json_to_vec A ?h"]) (simp add: hosted_agent_sign_def assms(2,5) ops)
  show "agent_delegation_contribution_sign_wasm X k t =
      and_then (agent_delegation_contribution_payload_wasm X t) (\<lambda>m. Inr (sign A k m))"
    by (simp add: agent_delegation_contribution_sign_wasm_def agent_delegation_contribution_payload_wasm_def
        sign_agent_delegation_contribution_def ops js_err_def and_then_def map_err_def ok_or_def split: sum.splits option.splits)
  show "\<forall>m. agent_delegation_contribution_payload_wasm X t = Inr m \<longrightarrow> length t \<le> 2097152"
    by (auto simp: agent_delegation_contribution_payload_wasm_def split: if_splits)
qed

text \<open>C34. The raw key derivation of the browser is bounded: it runs only for 1 to 64 lanes, 1 to 32
  passes, 8 KiB per lane up to 1 GiB, outputs of 16 to 64 bytes and salts of at most 1024 bytes,
  without wrap-around in the product of lanes and memory; its output has the requested length; what
  it accepts with 32 bytes of output a backup accepts too, and a profile that passes
  \<open>kdfValidateStoredParams\<close> is within the bounds and derives 32 bytes.\<close>

theorem browser_kdf_bounded:
  assumes "argon2_laws X"
  shows "(kdf_derive_key X pw m t l out bs = Inr key \<longrightarrow>
        1 \<le> unat l \<and> unat l \<le> 64 \<and> 1 \<le> unat t \<and> unat t \<le> 32 \<and> 8 * unat l \<le> unat m \<and> unat m \<le> 1048576
      \<and> 16 \<le> unat out \<and> unat out \<le> 64 \<and> length bs \<le> 1024 \<and> length key = unat out)
    \<and> (check_kdf_derive_bounds m t l 32 (length bs) = Inr () \<longrightarrow>
        validate_decrypt_kdf \<lparr> kdf_version = 1, algorithm = Argon2id, memory_kib = m, time_cost = t, parallelism = l,
          output_len = 32, salt = bs \<rparr> = Inr ())
    \<and> (kdf_validate_stored_params m t l out bs = Inr () \<and> length pw < 2 ^ 32 \<longrightarrow>
        (\<exists>k. kdf_derive_key X pw m t l out bs = Inr k \<and> length k = 32))"
proof (rule conjI [OF impI conjI [OF impI impI]])
  assume "kdf_derive_key X pw m t l out bs = Inr key"
  then show "1 \<le> unat l \<and> unat l \<le> 64 \<and> 1 \<le> unat t \<and> unat t \<le> 32 \<and> 8 * unat l \<le> unat m \<and> unat m \<le> 1048576
      \<and> 16 \<le> unat out \<and> unat out \<le> 64 \<and> length bs \<le> 1024 \<and> length key = unat out"
    using argon2id_length [OF assms]
    by (auto simp: kdf_derive_key_def and_then_eq_Inr check_kdf_derive_bounds_iff derive_key_def ok_or_eq_Inr Let_def
        split: if_splits)
next
  assume "check_kdf_derive_bounds m t l 32 (length bs) = Inr ()"
  then show "validate_decrypt_kdf \<lparr> kdf_version = 1, algorithm = Argon2id, memory_kib = m, time_cost = t, parallelism = l,
      output_len = 32, salt = bs \<rparr> = Inr ()"
    by (simp add: check_kdf_derive_bounds_iff validate_decrypt_kdf_Inr)
next
  let ?p = "\<lparr> kdf_version = 1, algorithm = Argon2id, memory_kib = m, time_cost = t, parallelism = l,
      output_len = out, salt = bs \<rparr>"
  assume a: "kdf_validate_stored_params m t l out bs = Inr () \<and> length pw < 2 ^ 32"
  then have p: "approved ?p" by (simp add: kdf_validate_stored_params_def validate_iff_approved)
  then have "check_kdf_derive_bounds m t l out (length bs) = Inr ()"
    by (auto simp: check_kdf_derive_bounds_iff approved_def profile_defs)
  with derive_key_approved [OF assms p] a show "\<exists>k. kdf_derive_key X pw m t l out bs = Inr k \<and> length k = 32"
    by (auto simp: kdf_derive_key_def)
qed

section \<open>Concrete inputs\<close>

definition toy_wasm_lib :: "'z item_lib_scheme \<Rightarrow> AccountSecrets \<Rightarrow> wasm_lib" where
  "toy_wasm_lib Y kept =
     item_lib.extend (item_lib.truncate Y) (wasm_lib.fields
       (\<lambda>s. if s = kept then Inr ''stored'' else Inl ''writer'') (\<lambda>_. Some kept)
       (\<lambda>_. Some JNull) (\<lambda>v. Inr (toy_json_text v)) (\<lambda>_. None) (\<lambda>_. None)
       (\<lambda>c. if c = Login sample_login then Inr ''login'' else Inl ''writer'') (\<lambda>_. Some (Login sample_login))
       (\<lambda>_. Inl ''writer'') (\<lambda>_. None) (\<lambda>_. Inl ''parser'') (\<lambda>_. 0))"

lemma toy_wasm_selectors [simp]:
  "secrets_to_string (toy_wasm_lib Y kept) = (\<lambda>s. if s = kept then Inr ''stored'' else Inl ''writer'')"
  "secrets_from_str (toy_wasm_lib Y kept) = (\<lambda>_. Some kept)"
  "value_from_str (toy_wasm_lib Y kept) = (\<lambda>_. Some JNull)"
  "value_to_vec (toy_wasm_lib Y kept) = (\<lambda>v. Inr (toy_json_text v))"
  "content_from_str (toy_wasm_lib Y kept) = (\<lambda>_. Some (Login sample_login))"
  by (simp_all add: toy_wasm_lib_def item_lib.defs wasm_lib.defs)

lemma toy_wasm_same [simp]: "same_crates (toy_wasm_lib Y kept) Y"
  by (simp add: same_crates_def toy_wasm_lib_def item_lib.defs wasm_lib.defs)

lemma toy_wasm_text [simp]: "wasm_text_laws (toy_wasm_lib Y kept)"
  by (auto simp: wasm_text_laws_def toy_wasm_lib_def item_lib.defs wasm_lib.defs split: if_splits)

definition toy_item_lib :: item_lib where
  "toy_item_lib = crypto_lib.extend toy_lib (item_lib.fields (\<lambda>_. None) (\<lambda>_. None) (\<lambda>_. None) (\<lambda>_. None))"

lemma toy_item_laws:
  "aead_laws toy_item_lib" "kem_laws toy_item_lib" "ed25519_laws toy_item_lib" "argon2_laws toy_item_lib" "base32_laws toy_item_lib"
  using toy_aead_laws toy_kem_laws toy_ed25519_laws toy_argon2_laws toy_base32_laws unfolding toy_item_lib_def
  by (simp_all add: aead_laws_def kem_laws_def ed25519_laws_def argon2_laws_def base32_laws_def crypto_lib.defs)

lemma toy_wasm_laws [simp]:
  "aead_laws (toy_wasm_lib toy_item_lib kept)" "kem_laws (toy_wasm_lib toy_item_lib kept)"
  "ed25519_laws (toy_wasm_lib toy_item_lib kept)" "argon2_laws (toy_wasm_lib toy_item_lib kept)"
  "base32_laws (toy_wasm_lib toy_item_lib kept)"
  by (simp_all add: same_crates_laws [OF toy_wasm_same] toy_item_laws)

text \<open>The texts do not matter to the crate's setup, so the secrets it makes can be the ones the library keeps.\<close>

lemma toy_setup_conv:
  "account_setup_with_params (toy_wasm_lib Y kept) = account_setup_with_params (toy_wasm_lib Y other)"
proof -
  let ?X = "toy_wasm_lib Y kept" and ?Z = "toy_wasm_lib Y other"
  have "crypto_lib.truncate ?X = crypto_lib.truncate ?Z"
    by (simp add: toy_wasm_lib_def item_lib.defs crypto_lib.defs wasm_lib.defs)
  then have eqs: "derive_master_key ?X = derive_master_key ?Z" "derive_recovery_key ?X = derive_recovery_key ?Z"
      "IdentityKemKeypair_generate ?X = IdentityKemKeypair_generate ?Z"
      "IdentitySigningKeypair_generate ?X = IdentitySigningKeypair_generate ?Z"
      "xchacha20_encrypt_with_aad ?X = xchacha20_encrypt_with_aad ?Z"
    by (simp_all add: crypto_lib.defs fun_eq_iff derive_master_key_def derive_recovery_key_def derive_key_def
        IdentityKemKeypair_generate_def IdentitySigningKeypair_generate_def xchacha20_encrypt_with_aad_def cong: if_cong)
  show ?thesis unfolding account_setup_with_params_def [abs_def] eqs by (rule refl)
qed

definition blank_secrets :: AccountSecrets where
  "blank_secrets = \<lparr> kdf_params = sample_params, recovery_kdf_params = sample_params, account_key_wrap = [],
     account_kem_private_wrap = [], account_signing_private_wrap = [], recovery_key_wrap = [],
     kem_public_key = arr32 [], signing_public_key = arr32 [] \<rparr>"

definition kept_secrets :: AccountSecrets where
  "kept_secrets = secrets (projr (fst (account_setup_with_params (toy_wasm_lib toy_item_lib blank_secrets) [1]
     sample_params sample_params (sconst 1))))"

theorem browser_account_session_witness:
  "\<exists>u. wasm_unlock_account (toy_wasm_lib toy_item_lib kept_secrets) [1] ''stored'' = Inr u
     \<and> keys_work (toy_wasm_lib toy_item_lib kept_secrets) (bytes32 (kem_public_key kept_secrets))
          (bytes32 (signing_public_key kept_secrets)) u"
proof -
  let ?X = "toy_wasm_lib toy_item_lib kept_secrets"
  have z: "stake 16 (sconst 1) \<noteq> replicate 16 (0 :: u8)" "stake 16 (sdrop 40 (sconst 1)) \<noteq> replicate 16 (0 :: u8)"
    by (rule stake_nonzero, simp)+
  have small: "length ([1] :: bytes) < 2 ^ 32" "length ([2] :: bytes) < 2 ^ 32" by simp_all
  from browser_account_session [OF toy_wasm_laws toy_wasm_text sample_params_valid sample_params_valid small z, of kept_secrets "sconst 1"]
  obtain b e1 where b: "wasm_account_setup_with_params ?X [1] sample_params sample_params (sconst 1) = (Inr b, e1)"
      and ok: "bundle_secrets_json ?X b = Inr t \<Longrightarrow> \<exists>u. wasm_unlock_account ?X [1] t = Inr u
        \<and> keys_work ?X (bundle_kem_public_key b) (bundle_signing_public_key b) u" for t
    by blast
  from b obtain c where c: "account_setup_with_params ?X [1] sample_params sample_params (sconst 1) = (Inr c, e1)"
      and "b = \<lparr> wb_secrets = secrets c, wb_recovery_key = recovery_key c \<rparr>"
    by (auto simp: wasm_account_setup_with_params_def setup_bundle_ok)
  moreover from c have "secrets c = kept_secrets"
    unfolding toy_setup_conv [of toy_item_lib kept_secrets blank_secrets] by (simp add: kept_secrets_def)
  ultimately have kept: "wb_secrets b = kept_secrets" by simp
  then have "bundle_secrets_json ?X b = Inr ''stored''" by (simp add: bundle_secrets_json_def)
  from ok [OF this] show ?thesis by (simp add: bundle_kem_public_key_def bundle_signing_public_key_def kept)
qed

lemma sample_browser:
  shows "vault_key_wrap_for_identity (toy_wasm_lib sample_lib blank_secrets) (arr32 (replicate 32 3))
      (bytes32 (kem_public (resolver_kem_keypair sample_resolver))) (sconst 1) = (Inr (fst sample_wrap), snd sample_wrap)"
    and "item_content_key_wrap (toy_wasm_lib sample_lib blank_secrets) (arr32 (replicate 32 3)) (uuid_as_bytes sample_lib 2)
      (arr32 (replicate 32 2)) (sconst 1) = (Inr (fst sample_ckw), snd sample_ckw)"
    and "item_body_encrypt_with_content_key (toy_wasm_lib sample_lib blank_secrets) (arr32 (replicate 32 2))
      (uuid_as_bytes sample_lib 2) ''login'' (sconst 1) = (Inr (fst sample_ct), snd sample_ct)"
proof -
  note ops = same_crates_operations [OF toy_wasm_same]
  have id: "length (uuid_as_bytes toy_lib 2) = 16" by (rule uuid_bytes_length) simp
  show "vault_key_wrap_for_identity (toy_wasm_lib sample_lib blank_secrets) (arr32 (replicate 32 3))
      (bytes32 (kem_public (resolver_kem_keypair sample_resolver))) (sconst 1) = (Inr (fst sample_wrap), snd sample_wrap)"
    by (simp add: vault_key_wrap_for_identity_def secret_array_bytes32 ops js_eq_Inr sample_keypair)
  show "item_content_key_wrap (toy_wasm_lib sample_lib blank_secrets) (arr32 (replicate 32 3)) (uuid_as_bytes sample_lib 2)
      (arr32 (replicate 32 2)) (sconst 1) = (Inr (fst sample_ckw), snd sample_ckw)"
    by (simp add: item_content_key_wrap_def try_into_array_ok id ops js_eq_Inr)
  show "item_body_encrypt_with_content_key (toy_wasm_lib sample_lib blank_secrets) (arr32 (replicate 32 2))
      (uuid_as_bytes sample_lib 2) ''login'' (sconst 1) = (Inr (fst sample_ct), snd sample_ct)"
    by (simp add: item_body_encrypt_with_content_key_def try_into_array_ok id ops js_eq_Inr sample_encrypt
        apfst_def map_prod_def split_beta)
qed

theorem browser_secret_reaches_agent_witness:
  "resolve sample_lib sample_resolver sample_reference (for_user 1 2) (Timestamp 0) 5 =
    Inr \<lparr> secret_plaintext = ''hunter2'', field_name = ''password'', secret_source = SerenSecrets \<rparr>"
  by (rule browser_secret_reaches_agent [OF toy_wasm_same [of sample_lib blank_secrets] toy_resolver_laws(1,2,4,6)
      sample_service(1) sample_reference_parse sample_service(2,3) sample_service(4,5) sample_browser _ sample_service(9)]) simp

theorem browser_signatures_agree_witness:
  "\<exists>A :: admin_lib. create_agent_sign (toy_wasm_lib A blank_secrets) (arr32 [1]) ''bot'' (bytes32 (arr32 [2])) (bytes32 (arr32 [3]))
     ''null'' 7 ''n'' = Inr (sign A (arr32 [1]) (canonical_create_agent_bytes A ''bot'' (arr32 [2]) (arr32 [3]) JNull None 7 ''n''))"
proof -
  define A where "A = toy_admin_lib JNull sample_params sample_params undefined undefined"
  have jl: "json_text_laws A" by (simp add: A_def)
  have ul: "uuid_laws A" unfolding A_def toy_admin_lib_def by simp
  have writer: "value_to_vec (toy_wasm_lib A blank_secrets) v = Inr (json_to_vec A v)" for v by (simp add: A_def)
  have parsed: "value_from_str (toy_wasm_lib A blank_secrets) ''null'' = Some JNull" "json_ok JNull" by simp_all
  have "create_agent_sign (toy_wasm_lib A blank_secrets) (arr32 [1]) ''bot'' (bytes32 (arr32 [2])) (bytes32 (arr32 [3]))
     ''null'' 7 ''n'' = Inr (sign A (arr32 [1]) (canonical_create_agent_bytes A ''bot'' (arr32 [2]) (arr32 [3]) JNull None 7 ''n''))"
    by (rule browser_signatures_agree [OF toy_wasm_same writer jl ul parsed, THEN conjunct1])
  then show ?thesis by blast
qed

theorem browser_kdf_bounded_witness:
  "\<exists>k. kdf_derive_key (toy_wasm_lib toy_item_lib blank_secrets) [1] 65536 2 1 32 (replicate 16 1) = Inr k \<and> length k = 32"
proof -
  have "kdf_validate_stored_params 65536 2 1 32 (replicate 16 1) = Inr ()"
    by (simp add: kdf_validate_stored_params_def validate_iff_approved approved_def profile_defs)
  moreover have "length ([1] :: bytes) < 2 ^ 32" by simp
  ultimately show ?thesis
    by (intro browser_kdf_bounded [OF toy_wasm_laws(4), THEN conjunct2, THEN conjunct2, THEN mp] conjI)
qed

end
