(* ===== verification/Spec2Isabelle.thy ===== *)
theory Spec2Isabelle
  imports Attachment_Props Backup Password_Generator Sidecar Vault_Admin Vault_Refinement Wasm
begin

text \<open>
  A verification development for seren-secrets, an end-to-end encrypted secret store.

  \<^bold>\<open>The program.\<close>  The crypto crate (\<open>crates/seren-secrets-crypto\<close>) owns the formats: accounts that a
  password or a recovery key opens, vault keys sealed for identities, items and attachments sealed
  under per-item keys, and the canonical bytes of everything that is signed.  The resolver crate
  (\<open>crates/seren-secrets-resolver\<close>) is the client: it resolves references of the form
  \<open>seren-secrets://vault/item/field\<close> for agents, reads and writes vaults, items and attachments through an
  HTTP gateway, and has a local sidecar program that resolves for other processes.  The WASM crate
  (\<open>crates/seren-secrets-crypto-wasm\<close>) gives the crypto crate to a browser.  The service itself is not in
  the repository.

  \<^bold>\<open>Theories and sources.\<close>  Each theory opens with what it holds.

  \<^item> \<open>Prelude\<close>, \<open>Rust_Str\<close>, \<open>Rust_Text\<close>: results, bytes, 32-byte arrays, entropy as a stream, and the part
    of Rust's \<open>str\<close>, \<open>String\<close> and \<open>IpAddr\<close> the sources use.
  \<^item> \<open>Json\<close>: \<open>serde_json::Value\<close> and \<open>prose.rs\<close>.  \<open>Extern\<close>: the third-party crates as the record
    \<open>crypto_lib\<close>, with their documented laws.  \<open>Reference_Lib\<close>, \<open>Toy_Json\<close>: concrete instances that satisfy
    the laws, for the witnesses.
  \<^item> \<open>Wire\<close>, \<open>Aead\<close>, \<open>Keys\<close>, \<open>Kdf\<close>: \<open>error.rs\<close>, \<open>wire.rs\<close>, \<open>aead.rs\<close>, \<open>keys.rs\<close>, \<open>kem.rs\<close>, \<open>kdf.rs\<close>.
    \<open>Account\<close>: \<open>protocol/account.rs\<close>, \<open>protocol/recovery.rs\<close>.  \<open>Vault_Crypto\<close>: \<open>protocol/vault.rs\<close>,
    \<open>attachment.rs\<close>, \<open>blind_index.rs\<close>.  \<open>Item_Content\<close>, \<open>Item_Crypto\<close>: \<open>protocol/item.rs\<close>.
  \<^item> \<open>Signing\<close>, \<open>Canonical\<close>, \<open>Delegation\<close>: \<open>signing.rs\<close> and the signed messages of \<open>protocol/resolve.rs\<close>,
    \<open>recovery_proof.rs\<close>, \<open>approval.rs\<close>, \<open>membership_grant.rs\<close>, \<open>account_secrets_update.rs\<close>,
    \<open>agent_delegation_policy.rs\<close>.
  \<^item> \<open>Backup\<close>: \<open>export.rs\<close>.  \<open>Password_Generator\<close>: \<open>password_generator.rs\<close>.
  \<^item> \<open>Resolver_Error\<close>, \<open>Http\<close>, \<open>Revision\<close>: \<open>error.rs\<close>, \<open>http.rs\<close>, \<open>revision.rs\<close> of the resolver crate.
    \<open>Field_Extract\<close>, \<open>Resolver\<close>: \<open>seren_secrets.rs\<close>, \<open>types.rs\<close>.
  \<^item> \<open>Gateway\<close>, \<open>Vault_Client\<close>, \<open>Vault_Admin\<close>: \<open>vault.rs\<close> (transport, items and vaults, agents and
    bootstrap); \<open>Attachments\<close>: \<open>vault/attachments.rs\<close>.  \<open>Vault_Items\<close>, \<open>Attachment_Props\<close> and
    \<open>Vault_Refinement\<close> hold their properties.
  \<^item> \<open>Sidecar\<close>: \<open>bin/seren_secrets_sidecar.rs\<close>.  \<open>Wasm\<close>: the bindings.

  \<^bold>\<open>How state and effects are modelled.\<close>  Structs are records, enums datatypes, fixed-width integers words.
  \<open>Result\<close> is a sum with the error on the left, and every early return is a branch.  Randomness is a
  stream that an operation takes and returns.  An operation of the vault client is a function on a
  world that holds the entropy and the history of sent requests; the service is any function from that
  history to an answer, so the theorems hold for every behaviour of the service unless they name one.
  The clock is an argument.  The sidecar's router with its concurrency limit is an inductive step
  relation over requests that arrive, wait, run and are answered.

  \<^bold>\<open>Parameters and laws.\<close>  Code that is not in the repository (ciphers, Argon2id, base64, uuid, jiff,
  reqwest, url, rand, the ProseMirror converter, the code serde derives) is a field of the library records
  \<open>crypto_lib\<close>, \<open>item_lib\<close>, \<open>error_lib\<close>, \<open>http_lib\<close>, \<open>resolver_lib\<close>, \<open>revision_lib\<close>, \<open>gateway_lib\<close>,
  \<open>vault_lib\<close>, \<open>admin_lib\<close>, \<open>attachment_lib\<close>, \<open>delegation_lib\<close>, \<open>backup_lib\<close>, \<open>rand_lib\<close>, \<open>sidecar_lib\<close> and
  \<open>wasm_lib\<close>.  The laws are deterministic facts such as round trips and lengths.  Security is never
  assumed: statements about misuse are reductions that end in an explicit collision of a primitive.

  \<^bold>\<open>Interfaces.\<close>  \<open>sealed_slot\<close> (\<open>Aead\<close>) is the contract of a storage location and is interpreted for every
  sealed field of accounts, vaults, items and attachments; \<open>bound_slot\<close> (\<open>Wasm\<close>) extends it by the checks of a
  binding.  \<open>signed_payload\<close> (\<open>Signing\<close>) is the contract of a signed message and is interpreted for the six
  families.  \<open>field_extractor\<close> (\<open>Field_Extract\<close>) is the contract of the thirteen extractors.

  \<^bold>\<open>What is shown.\<close>  Below: all associated data are separated, and a signature has one meaning across
  message families.  \<open>Resolver\<close>, \<open>Field_Extract\<close>: a secret is released only from ciphertexts bound to the
  reference, honest answers are delivered, refusals become errors, custom fields never shadow.
  \<open>Account\<close>, \<open>Kdf\<close>: signup, unlock, password change and recovery, with exact conditions and retired secrets.
  \<open>Delegation\<close>, \<open>Canonical\<close>: signed payloads are independent of order, sound and fresh.  \<open>Vault_Refinement\<close>:
  client, encryption and a record-keeping service refine an abstract item store.  \<open>Vault_Items\<close>,
  \<open>Attachment_Props\<close>, \<open>Vault_Admin\<close>, \<open>Gateway\<close>: what is sent, in which order, and what answers mean.  \<open>Backup\<close>,
  \<open>Password_Generator\<close>, \<open>Http\<close>, \<open>Json\<close>: round trips, termination, caps, document types.  \<open>Sidecar\<close>: release
  only to the configured caller, redacted errors, the service invariant, and that every request is
  answered once.  \<open>Wasm\<close>: the browser's account flows, its items reach agents, its signatures are the
  resolver's, its derivation is bounded.

  \<^bold>\<open>Bounds and termination.\<close>  All definitions are total functions by structural recursion or a proved measure, so no
  fuel is used; the liveness theorem of the sidecar computes the number of steps from the state.  Passwords
  are assumed shorter than \<open>2 ^ 32\<close> bytes (Argon2's limit) and fresh salts not all zero (the code refuses such
  a salt when it reads the account back).

  \<^bold>\<open>Not modelled.\<close>  Zeroization of memory on drop and redacted \<open>Debug\<close> output (no functional effect, except
  the scrubbing of JSON values, which is in \<open>Json\<close>); code derived by serde, thiserror and wasm-bindgen
  (parameters, or plain record fields); the sockets, TLS and the scheduler under reqwest, axum and tokio;
  capacity hints; tests, examples and the test server.
\<close>

section \<open>One key, many slots\<close>

text \<open>Every place where the program stores a ciphertext, with the identifiers bound to it.\<close>

datatype slot =
    AccountKeySlot | RecoveryKeySlot | KemPrivateSlot | SigningPrivateSlot
  | BodySlot bytes | TitleSlot bytes | TagsSlot bytes | MetadataSlot bytes | LastUsedSlot bytes
  | ContentKeySlot bytes
  | VaultNameSlot bytes | VaultDescriptionSlot bytes
  | InvitationEmailSlot bytes bytes | ShareEmailSlot bytes bytes
  | AttachmentKeySlot bytes bytes | AttachmentBlobSlot bytes bytes | AttachmentFilenameSlot bytes bytes
  | AttachmentContentTypeSlot bytes bytes | AttachmentDigestSlot bytes bytes

fun aad_of :: "slot \<Rightarrow> bytes" where
  "aad_of AccountKeySlot = ACCOUNT_KEY_WRAP_AAD"
| "aad_of RecoveryKeySlot = RECOVERY_KEY_WRAP_AAD"
| "aad_of KemPrivateSlot = ACCOUNT_KEM_PRIVATE_WRAP_AAD"
| "aad_of SigningPrivateSlot = ACCOUNT_SIGNING_PRIVATE_WRAP_AAD"
| "aad_of (BodySlot i) = body_aad i"
| "aad_of (TitleSlot i) = title_aad i"
| "aad_of (TagsSlot i) = tags_aad i"
| "aad_of (MetadataSlot i) = metadata_aad i"
| "aad_of (LastUsedSlot i) = last_used_aad i"
| "aad_of (ContentKeySlot i) = content_key_wrap_aad i"
| "aad_of (VaultNameSlot v) = vault_name_aad v"
| "aad_of (VaultDescriptionSlot v) = vault_description_aad v"
| "aad_of (InvitationEmailSlot v i) = vault_invitation_email_aad v i"
| "aad_of (ShareEmailSlot v s) = live_share_recipient_email_aad v s"
| "aad_of (AttachmentKeySlot i a) = wrap_aad i a"
| "aad_of (AttachmentBlobSlot i a) = blob_aad i a"
| "aad_of (AttachmentFilenameSlot i a) = filename_aad i a"
| "aad_of (AttachmentContentTypeSlot i a) = content_type_aad i a"
| "aad_of (AttachmentDigestSlot i a) = digest_aad i a"

text \<open>Identifiers are the 16 bytes of a UUID; only the slots with two of them need to know.\<close>

fun slot_wf :: "slot \<Rightarrow> bool" where
  "slot_wf (InvitationEmailSlot v i) \<longleftrightarrow> length v = 16"
| "slot_wf (ShareEmailSlot v s) \<longleftrightarrow> length v = 16"
| "slot_wf (AttachmentKeySlot i a) \<longleftrightarrow> length i = 16"
| "slot_wf (AttachmentBlobSlot i a) \<longleftrightarrow> length i = 16"
| "slot_wf (AttachmentFilenameSlot i a) \<longleftrightarrow> length i = 16"
| "slot_wf (AttachmentContentTypeSlot i a) \<longleftrightarrow> length i = 16"
| "slot_wf (AttachmentDigestSlot i a) \<longleftrightarrow> length i = 16"
| "slot_wf _ \<longleftrightarrow> True"

lemmas aad_defs = account_aad_defs body_aad_def title_aad_def tags_aad_def metadata_aad_def
  last_used_aad_def content_key_wrap_aad_def vault_name_aad_def vault_description_aad_def
  vault_invitation_email_aad_def live_share_recipient_email_aad_def wrap_aad_def blob_aad_def
  filename_aad_def content_type_aad_def digest_aad_def

lemma aad_of_inj: "slot_wf s \<Longrightarrow> slot_wf s' \<Longrightarrow> aad_of s = aad_of s' \<Longrightarrow> s = s'"
  by (cases s; cases s'; simp add: aad_defs)

text \<open>C1. No ciphertext moves between slots unnoticed: the associated data of any two of the
  nineteen slots are different, and if a blob nevertheless opens in two of them, under
  whatever keys, it is a collision of the cipher on the two plaintexts that were read.\<close>

theorem slots_are_separated:
  assumes "aead_laws X" and "slot_wf s" and "slot_wf s'" and "s \<noteq> s'"
  shows "aad_of s \<noteq> aad_of s' \<and>
    (xchacha20_decrypt_with_aad X k b (aad_of s) = Inr m \<and> xchacha20_decrypt_with_aad X k' b (aad_of s') = Inr m' \<longrightarrow>
       aead_collision X b (k, aad_of s, m) (k', aad_of s', m'))"
proof -
  have "aad_of s \<noteq> aad_of s'" using aad_of_inj [OF assms(2,3)] assms(4) by blast
  then show ?thesis
    using sealed_twice_collision [OF assms(1)] by (simp add: decrypt_iff_sealed [OF assms(1)])
qed

theorem slots_are_separated_witness:
  "aad_of (BodySlot (replicate 16 1)) \<noteq> aad_of (AttachmentBlobSlot (replicate 16 1) (replicate 16 2))"
  using slots_are_separated [OF toy_aead_laws, of "BodySlot (replicate 16 1)"
      "AttachmentBlobSlot (replicate 16 1) (replicate 16 2)"] by simp

section \<open>One key, many signed messages\<close>

datatype signed_message =
    ContextMessage string bytes
  | ResolveMessage ResolveRequest
  | RecoveryMessage RecoveryProof
  | ApprovalMessage ApprovalRequest
  | UpdateMessage AccountSecretsUpdateProof
  | GrantMessage grant

fun signed_bytes :: "'z crypto_lib_scheme \<Rightarrow> signed_message \<Rightarrow> bytes crypto_result" where
  "signed_bytes X (ContextMessage c m) = context_signing_bytes c m"
| "signed_bytes X (ResolveMessage r) = canonical_resolve X r"
| "signed_bytes X (RecoveryMessage r) = Inr (canonical_recovery X r)"
| "signed_bytes X (ApprovalMessage r) = Inr (canonical_request X r)"
| "signed_bytes X (UpdateMessage r) = Inr (canonical_update X r)"
| "signed_bytes X (GrantMessage g) = Inr (grant_bytes g)"

fun message_ok :: "signed_message \<Rightarrow> bool" where
  "message_ok (GrantMessage g) \<longleftrightarrow> grant_ok g"
| "message_ok _ \<longleftrightarrow> True"

fun message_domain :: "signed_message \<Rightarrow> bytes" where
  "message_domain (ContextMessage c m) = CONTEXT_SIGNATURE_DOMAIN"
| "message_domain (ResolveMessage r) = as_bytes (''seren-secrets-resolve'' @ nl)"
| "message_domain (RecoveryMessage r) = as_bytes (''seren-secrets-recovery-proof'' @ nl)"
| "message_domain (ApprovalMessage r) = as_bytes (''approval-request'' @ nl)"
| "message_domain (UpdateMessage r) = as_bytes (''seren-secrets-account-secrets-update'' @ nl)"
| "message_domain (GrantMessage g) = MEMBERSHIP_GRANT_DOMAIN"

lemma signed_bytes_domain: "signed_bytes X m = Inr b \<Longrightarrow> \<exists>rest. b = message_domain m @ rest"
  using context_payload.canon_domain resolve_payload.canon_domain [of X] recovery_payload.canon_domain [of X]
    approval_payload.canon_domain [of X] update_payload.canon_domain [of X] grant_payload.canon_domain
  by (cases m) fastforce+

lemma domains_clash:
  "message_domain m = message_domain m' \<or> clash (message_domain m) (message_domain m')"
  by (cases m; cases m'; simp add: CONTEXT_SIGNATURE_DOMAIN_def MEMBERSHIP_GRANT_DOMAIN_def)

lemma signed_bytes_inj:
  assumes "uuid_laws X" and "timestamp_laws X" and "message_ok m" and "message_ok m'"
    and "signed_bytes X m = Inr b" and "signed_bytes X m' = Inr b"
  shows "m = m'"
proof -
  obtain x y where "b = message_domain m @ x" "b = message_domain m' @ y"
    using signed_bytes_domain assms(5,6) by blast
  then have "message_domain m = message_domain m'"
    using domains_clash [of m m'] clash_append by metis
  moreover have "dated_laws X" using assms(1,2) by (simp add: dated_laws_def)
  ultimately show ?thesis
    using assms
    by (cases m; cases m')
      (auto simp: CONTEXT_SIGNATURE_DOMAIN_def MEMBERSHIP_GRANT_DOMAIN_def
        dest: context_signing_bytes_inj canonical_resolve_inj canonical_recovery_inj canonical_request_inj
          canonical_update_inj grant_bytes_inj)
qed



end
